(* ===== verification/Prelude.thy ===== *)
theory Prelude
  imports Main "HOL-Library.Word" "HOL-Library.Char_ord"
begin

text \<open>
  Shared vocabulary of the development.

  A Go method that reads or writes a shared object (a device behind its mutex, the clock) is an
  \<open>act\<close>: a function from the world to a result and the new world.  The early returns of the Go
  handlers (\<open>if err != nil { return err }\<close>) are the combinators \<open>ask\<close>, \<open>need\<close> and \<open>gate\<close>.
  \<open>quiet\<close> says that an act leaves a given view of the world alone; its introduction rules let
  every read-only handler be discharged by \<open>auto\<close>.
\<close>

named_theorems act_simps \<open>unfolding the act combinators\<close>
named_theorems quiet_intros \<open>acts that leave the view of the world unchanged\<close>
named_theorems inv_intros \<open>invariant preservation, one fact per operation\<close>

section \<open>Acts\<close>

type_synonym ('w, 'a) act = "'w \<Rightarrow> 'a \<times> 'w"

definition ret :: "'a \<Rightarrow> ('w, 'a) act" where
  "ret x = (\<lambda>w. (x, w))"

definition ask :: "('w, 'a) act \<Rightarrow> ('a \<Rightarrow> ('w, 'b) act) \<Rightarrow> ('w, 'b) act" where
  "ask m k = (\<lambda>w. case m w of (x, w') \<Rightarrow> k x w')"

text \<open>A Go \<open>error\<close> result is an option, \<open>None\<close> for \<open>nil\<close>; \<open>gate g k\<close> is
  \<open>if err := g(); err != nil { return err }; k\<close>.\<close>

definition gate :: "('w, 'e option) act \<Rightarrow> ('w, 'e option) act \<Rightarrow> ('w, 'e option) act" where
  "gate g k = (\<lambda>w. case g w of (Some e, w') \<Rightarrow> (Some e, w') | (None, w') \<Rightarrow> k w')"

text \<open>A pure \<open>(value, error)\<close> pair is a sum; \<open>need r k\<close> returns the error or goes on.\<close>

definition need :: "'e + 'a \<Rightarrow> ('a \<Rightarrow> ('w, 'e option) act) \<Rightarrow> ('w, 'e option) act" where
  "need r k = (case r of Inl e \<Rightarrow> ret (Some e) | Inr x \<Rightarrow> k x)"

abbreviation pass :: "('w, 'e option) act" where
  "pass \<equiv> ret None"

abbreviation fail :: "'e \<Rightarrow> ('w, 'e option) act" where
  "fail e \<equiv> ret (Some e)"

lemma ret_apply [act_simps, simp]: "ret x w = (x, w)"
  by (simp add: ret_def)

lemma ask_apply [act_simps]: "ask m k w = (case m w of (x, w') \<Rightarrow> k x w')"
  by (simp add: ask_def)

lemma gate_apply [act_simps]:
  "gate g k w = (case g w of (Some e, w') \<Rightarrow> (Some e, w') | (None, w') \<Rightarrow> k w')"
  by (simp add: gate_def)

lemma need_apply [act_simps]:
  "need r k w = (case r of Inl e \<Rightarrow> (Some e, w) | Inr x \<Rightarrow> k x w)"
  by (simp add: need_def split: sum.split)

lemma need_Inr [simp]: "need (Inr x) k = k x"
  by (simp add: need_def)

lemma need_Inl [simp]: "need (Inl e) k = fail e"
  by (simp add: need_def)

lemma ask_ret [simp]: "ask (ret x) k = k x"
  by (simp add: ask_def ret_def)

lemma gate_pass [simp]: "gate pass k = k"
  by (simp add: gate_def fun_eq_iff)

lemma gate_Pair_None [simp]: "gate (Pair None) k = k"
  by (simp add: gate_def fun_eq_iff)

lemma gate_fail [simp]: "gate (fail e) k = fail e"
  by (simp add: gate_def fun_eq_iff)

subsection \<open>Acts that leave a view alone\<close>

definition quiet :: "('w \<Rightarrow> 'v) \<Rightarrow> ('w, 'a) act \<Rightarrow> bool" where
  "quiet view m \<longleftrightarrow> (\<forall>w. view (snd (m w)) = view w)"

lemma quietD: "quiet view m \<Longrightarrow> view (snd (m w)) = view w"
  by (simp add: quiet_def)

lemma quietD': "quiet view m \<Longrightarrow> m w = (x, w') \<Longrightarrow> view w' = view w"
  by (metis quietD snd_conv)

lemma quiet_ret [quiet_intros, simp]: "quiet view (ret x)"
  by (simp add: quiet_def)

lemma quiet_ask [quiet_intros]:
  "quiet view m \<Longrightarrow> (\<And>x. quiet view (k x)) \<Longrightarrow> quiet view (ask m k)"
  by (auto simp: quiet_def ask_def split: prod.split)
    (metis snd_conv)

lemma quiet_gate [quiet_intros]:
  "quiet view g \<Longrightarrow> quiet view k \<Longrightarrow> quiet view (gate g k)"
  by (auto simp: quiet_def gate_def split: prod.split option.split)
    (metis snd_conv)+

lemma quiet_need [quiet_intros]:
  "(\<And>x. r = Inr x \<Longrightarrow> quiet view (k x)) \<Longrightarrow> quiet view (need r k)"
  by (cases r) auto

lemma quiet_if [quiet_intros]:
  "(b \<Longrightarrow> quiet view m) \<Longrightarrow> (\<not> b \<Longrightarrow> quiet view n) \<Longrightarrow> quiet view (if b then m else n)"
  by simp

lemma quiet_case [quiet_intros]:
  "(\<And>e. r = Inl e \<Longrightarrow> quiet view (f e)) \<Longrightarrow> (\<And>x. r = Inr x \<Longrightarrow> quiet view (g x)) \<Longrightarrow>
     quiet view (case r of Inl e \<Rightarrow> f e | Inr x \<Rightarrow> g x)"
  "(q = None \<Longrightarrow> quiet view n) \<Longrightarrow> (\<And>x. q = Some x \<Longrightarrow> quiet view (h x)) \<Longrightarrow>
     quiet view (case q of None \<Rightarrow> n | Some x \<Rightarrow> h x)"
  "(\<And>a b. z = (a, b) \<Longrightarrow> quiet view (c a b)) \<Longrightarrow> quiet view (case z of (a, b) \<Rightarrow> c a b)"
  by (simp_all split: sum.split option.split prod.split)

text \<open>
  \<open>blocked view m\<close> says that a command either succeeds or leaves the view alone: a refusal has no
  effect.  \<open>gate\<close> and \<open>need\<close> in front of a command keep that, as long as the checks are quiet.
\<close>

definition blocked :: "('w \<Rightarrow> 'v) \<Rightarrow> ('w, 'e option) act \<Rightarrow> bool" where
  "blocked view m \<longleftrightarrow> (\<forall>w. fst (m w) \<noteq> None \<longrightarrow> view (snd (m w)) = view w)"

named_theorems blocked_intros \<open>commands whose refusal leaves the view unchanged\<close>

lemma blockedD: "blocked view m \<Longrightarrow> m w = (Some e, w') \<Longrightarrow> view w' = view w"
  unfolding blocked_def by (metis fst_conv option.distinct(1) snd_conv)

lemma blocked_quiet: "quiet view m \<Longrightarrow> blocked view m"
  by (simp add: blocked_def quiet_def)

lemma blocked_ret [blocked_intros, simp]: "blocked view (ret x)"
  by (simp add: blocked_def)

lemma blocked_gate [blocked_intros]:
  "quiet view g \<Longrightarrow> blocked view k \<Longrightarrow> blocked view (gate g k)"
  by (auto simp: blocked_def quiet_def gate_def split: prod.split option.split)
    (metis snd_conv)+

lemma blocked_ask [blocked_intros]:
  "quiet view m \<Longrightarrow> (\<And>x. blocked view (k x)) \<Longrightarrow> blocked view (ask m k)"
  by (auto simp: blocked_def quiet_def ask_def split: prod.split)
    (metis snd_conv)

lemma blocked_need [blocked_intros]:
  "(\<And>x. r = Inr x \<Longrightarrow> blocked view (k x)) \<Longrightarrow> blocked view (need r k)"
  by (cases r) auto

lemma blocked_if [blocked_intros]:
  "(b \<Longrightarrow> blocked view m) \<Longrightarrow> (\<not> b \<Longrightarrow> blocked view n) \<Longrightarrow> blocked view (if b then m else n)"
  by simp

subsection \<open>Acts that keep an invariant\<close>

definition keeps :: "('w \<Rightarrow> bool) \<Rightarrow> ('w, 'a) act \<Rightarrow> bool" where
  "keeps P m \<longleftrightarrow> (\<forall>w. P w \<longrightarrow> P (snd (m w)))"

named_theorems keeps_intros \<open>acts that preserve an invariant of the world\<close>

lemma keepsD: "keeps P m \<Longrightarrow> P w \<Longrightarrow> m w = (x, w') \<Longrightarrow> P w'"
  unfolding keeps_def by (metis snd_conv)

lemma keeps_ret [keeps_intros, simp]: "keeps P (ret x)"
  by (simp add: keeps_def)

lemma keeps_gate [keeps_intros]: "keeps P g \<Longrightarrow> keeps P k \<Longrightarrow> keeps P (gate g k)"
  by (auto simp: keeps_def gate_def split: prod.split option.split)

lemma keeps_ask [keeps_intros]:
  "keeps P m \<Longrightarrow> (\<And>x. keeps P (k x)) \<Longrightarrow> keeps P (ask m k)"
  by (auto simp: keeps_def ask_def split: prod.split)

lemma keeps_need [keeps_intros]:
  "(\<And>x. r = Inr x \<Longrightarrow> keeps P (k x)) \<Longrightarrow> keeps P (need r k)"
  by (cases r) auto

lemma keeps_if [keeps_intros]:
  "(b \<Longrightarrow> keeps P m) \<Longrightarrow> (\<not> b \<Longrightarrow> keeps P n) \<Longrightarrow> keeps P (if b then m else n)"
  by simp

lemma blocked_case [blocked_intros]:
  "(\<And>a b. z = (a, b) \<Longrightarrow> blocked view (c a b)) \<Longrightarrow> blocked view (case z of (a, b) \<Rightarrow> c a b)"
  by (simp split: prod.split)

lemma blocked_gate_total [blocked_intros]:
  "blocked view m \<Longrightarrow> (\<And>w. fst (k w) = None) \<Longrightarrow> blocked view (gate m k)"
  by (auto simp: blocked_def gate_def split: prod.splits option.splits)
    (metis fst_conv option.distinct(1) snd_conv)+

subsection \<open>Commands that are refused\<close>

text \<open>\<open>refused P m\<close>: from every world that satisfies \<open>P\<close> the command reports an error.\<close>

definition refused :: "('w \<Rightarrow> bool) \<Rightarrow> ('w, 'e option) act \<Rightarrow> bool" where
  "refused P m \<longleftrightarrow> (\<forall>w. P w \<longrightarrow> fst (m w) \<noteq> None)"

named_theorems refused_intros \<open>commands that a guard refuses\<close>

lemma refusedD: "refused P m \<Longrightarrow> P w \<Longrightarrow> fst (m w) \<noteq> None"
  by (simp add: refused_def)

lemma refused_fail [refused_intros]: "refused P (fail e)"
  by (simp add: refused_def)

lemma refused_need [refused_intros]: "(\<And>x. r = Inr x \<Longrightarrow> refused P (k x)) \<Longrightarrow> refused P (need r k)"
  by (cases r) (auto simp: refused_def)

lemma refused_ask [refused_intros]:
  "keeps P m \<Longrightarrow> (\<And>x. refused P (k x)) \<Longrightarrow> refused P (ask m k)"
  by (auto simp: refused_def keeps_def ask_def split: prod.split)

lemma refused_gate [refused_intros]: "refused P g \<Longrightarrow> refused P (gate g k)"
  by (auto simp: refused_def gate_def split: prod.split option.split)

lemma refused_gate_later: "keeps P g \<Longrightarrow> refused P k \<Longrightarrow> refused P (gate g k)"
  by (auto simp: refused_def keeps_def gate_def split: prod.split option.split)

lemma refused_if [refused_intros]:
  "(b \<Longrightarrow> refused P m) \<Longrightarrow> (\<not> b \<Longrightarrow> refused P n) \<Longrightarrow> refused P (if b then m else n)"
  by simp

lemma refused_case [refused_intros]:
  "(\<And>a b. z = (a, b) \<Longrightarrow> refused P (c a b)) \<Longrightarrow> refused P (case z of (a, b) \<Rightarrow> c a b)"
  by (simp split: prod.split)

lemma quiet_keeps: "quiet view m \<longleftrightarrow> (\<forall>v. keeps (\<lambda>w. view w = v) m)"
  by (auto simp: quiet_def keeps_def)

lemma keeps_case [keeps_intros]:
  "(\<And>e. r = Inl e \<Longrightarrow> keeps P (f e)) \<Longrightarrow> (\<And>x. r = Inr x \<Longrightarrow> keeps P (g x)) \<Longrightarrow>
     keeps P (case r of Inl e \<Rightarrow> f e | Inr x \<Rightarrow> g x)"
  "(\<And>a b. z = (a, b) \<Longrightarrow> keeps P (c a b)) \<Longrightarrow> keeps P (case z of (a, b) \<Rightarrow> c a b)"
  by (simp_all split: sum.split prod.split)

lemma keeps_gate_ret: "(e = None \<Longrightarrow> keeps P k) \<Longrightarrow> keeps P (gate (ret e) k)"
  by (cases e) simp_all

lemma keeps_gate_checked:
  "keeps P g \<Longrightarrow> (\<And>w. P w \<Longrightarrow> fst (g w) = None \<Longrightarrow> Q) \<Longrightarrow> (Q \<Longrightarrow> keeps P k) \<Longrightarrow> keeps P (gate g k)"
  unfolding keeps_def gate_def
  by (auto split: prod.split option.split)

lemma gate_assoc: "gate (gate a b) k = gate a (gate b k)"
  by (simp add: gate_def fun_eq_iff split: prod.split option.split)

lemma gate_if: "gate (if b then m else n) k = (if b then gate m k else gate n k)"
  by simp

lemma keeps_of_quiet: "quiet view m \<Longrightarrow> keeps (\<lambda>w. Q (view w)) m"
  by (simp add: quiet_def keeps_def)

section \<open>ASCII strings\<close>

text \<open>\<open>strings.ToLower\<close> on ASCII text (the wire names are ASCII; other bytes are left alone).\<close>

definition ascii_lower :: "char \<Rightarrow> char" where
  "ascii_lower c = (let n = (of_char c :: nat) in if 65 \<le> n \<and> n \<le> 90 then char_of (n + 32) else c)"

definition to_lower :: "string \<Rightarrow> string" where
  "to_lower s = map ascii_lower s"

lemma ascii_lower_Char:
  "ascii_lower (Char b0 b1 b2 b3 b4 b5 b6 b7) =
    (if b6 \<and> \<not> b5 \<and> \<not> b7 \<and> (b0 \<or> b1 \<or> b2 \<or> b3 \<or> b4) \<and> \<not> (b4 \<and> b3 \<and> (b2 \<or> (b1 \<and> b0)))
     then Char b0 b1 b2 b3 b4 True b6 b7 else Char b0 b1 b2 b3 b4 b5 b6 b7)"
  by (cases b0; cases b1; cases b2; cases b3; cases b4; cases b5; cases b6; cases b7)
    (simp_all add: ascii_lower_def Let_def char_of_def bit_iff_odd)

text \<open>Lower case of a literal, letter by letter.\<close>

lemmas lower_literal = to_lower_def ascii_lower_Char

lemma ascii_lower_idem [simp]: "ascii_lower (ascii_lower c) = ascii_lower c"
  by (auto simp: ascii_lower_def Let_def)

lemma to_lower_idem [simp]: "to_lower (to_lower s) = to_lower s"
  by (simp add: to_lower_def o_def)

lemma length_to_lower [simp]: "length (to_lower s) = length s"
  by (simp add: to_lower_def)

lemma to_lower_Nil_iff [simp]: "to_lower s = [] \<longleftrightarrow> s = []"
  by (simp add: to_lower_def)

section \<open>Splitting strings\<close>

text \<open>\<open>strings.Split\<close> at a one-character separator.\<close>

fun split_on :: "char \<Rightarrow> string \<Rightarrow> string list" where
  "split_on x [] = [[]]"
| "split_on x (c # cs) = (case split_on x cs of
     [] \<Rightarrow> [[c]]
   | p # ps \<Rightarrow> (if c = x then [] # p # ps else (c # p) # ps))"

lemma split_on_nonempty [simp]: "split_on x s \<noteq> []"
  by (cases s) (auto split: list.split)

lemma split_on_append: "x \<notin> set p \<Longrightarrow> split_on x (p @ x # s) = p # split_on x s"
  using split_on_nonempty [of x s] by (induction p) (auto split: list.split)

lemma split_on_no: "x \<notin> set p \<Longrightarrow> split_on x p = [p]"
  by (induction p) auto

lemmas split_on_parts = split_on_append split_on_no

end
