(* ===== verification/Go_Num.thy ===== *)
theory Go_Num
  imports Complex_Main Prelude
begin

text \<open>
  The numbers and times of Go that the program uses.

  \<open>f64\<close> is \<open>float64\<close> with its special values: NaN compares false with everything and absorbs
  arithmetic, the infinities behave as in IEEE 754.  A finite value is an exact rational: rounding,
  overflow to infinity and the sign of zero are not modelled.  \<open>int\<close> is Go's 64-bit \<open>int\<close> with the
  wrap-around written out (\<open>wrap64\<close>) where a sum or product can leave the range.  A \<open>time\<close> is the
  number of nanoseconds since Go's zero time; \<open>time_sub\<close> saturates as \<open>Time.Sub\<close> does.
\<close>

named_theorems f64_simps \<open>evaluation of float64 operations on finite values\<close>

section \<open>float64\<close>

datatype f64 = Fin rat | PInf | NInf | NaN

fun finite64 :: "f64 \<Rightarrow> bool" where
  "finite64 (Fin _) = True"
| "finite64 _ = False"

fun val64 :: "f64 \<Rightarrow> rat" where
  "val64 (Fin x) = x"
| "val64 _ = 0"

lemma finite64_iff: "finite64 x \<longleftrightarrow> (\<exists>a. x = Fin a)"
  by (cases x) auto

lemma finite64_Fin_val: "finite64 x \<Longrightarrow> Fin (val64 x) = x"
  by (cases x) auto

fun add64 :: "f64 \<Rightarrow> f64 \<Rightarrow> f64" where
  "add64 (Fin a) (Fin b) = Fin (a + b)"
| "add64 NaN _ = NaN"
| "add64 _ NaN = NaN"
| "add64 PInf NInf = NaN"
| "add64 NInf PInf = NaN"
| "add64 PInf _ = PInf"
| "add64 _ PInf = PInf"
| "add64 NInf _ = NInf"
| "add64 _ NInf = NInf"

fun neg64 :: "f64 \<Rightarrow> f64" where
  "neg64 (Fin a) = Fin (- a)"
| "neg64 PInf = NInf"
| "neg64 NInf = PInf"
| "neg64 NaN = NaN"

definition inf_of :: "rat \<Rightarrow> f64" where
  "inf_of s = (if s > 0 then PInf else if s < 0 then NInf else NaN)"

fun sgn64 :: "f64 \<Rightarrow> rat" where
  "sgn64 (Fin a) = sgn a"
| "sgn64 PInf = 1"
| "sgn64 NInf = -1"
| "sgn64 NaN = 0"

fun mul64 :: "f64 \<Rightarrow> f64 \<Rightarrow> f64" where
  "mul64 (Fin a) (Fin b) = Fin (a * b)"
| "mul64 NaN _ = NaN"
| "mul64 _ NaN = NaN"
| "mul64 a b = inf_of (sgn64 a * sgn64 b)"

fun div64 :: "f64 \<Rightarrow> f64 \<Rightarrow> f64" where
  "div64 (Fin a) (Fin b) = (if b = 0 then inf_of (sgn a) else Fin (a / b))"
| "div64 NaN _ = NaN"
| "div64 _ NaN = NaN"
| "div64 (Fin _) _ = Fin 0"
| "div64 a (Fin b) = inf_of (sgn64 a * (if b < 0 then -1 else 1))"
| "div64 _ _ = NaN"

fun abs64 :: "f64 \<Rightarrow> f64" where
  "abs64 (Fin a) = Fin \<bar>a\<bar>"
| "abs64 NaN = NaN"
| "abs64 _ = PInf"

fun lt64 :: "f64 \<Rightarrow> f64 \<Rightarrow> bool" where
  "lt64 (Fin a) (Fin b) = (a < b)"
| "lt64 NInf (Fin _) = True"
| "lt64 NInf PInf = True"
| "lt64 (Fin _) PInf = True"
| "lt64 _ _ = False"

text \<open>Go's \<open>==\<close> on \<open>float64\<close>: NaN differs from itself.\<close>

definition eq64 :: "f64 \<Rightarrow> f64 \<Rightarrow> bool" where
  "eq64 a b \<longleftrightarrow> a = b \<and> a \<noteq> NaN"

instantiation f64 :: "{zero, one, plus, minus, uminus, times, inverse, abs, ord}"
begin

definition zero_f64 :: f64 where "zero_f64 = Fin 0"
definition one_f64 :: f64 where "one_f64 = Fin 1"
definition plus_f64 :: "f64 \<Rightarrow> f64 \<Rightarrow> f64" where "plus_f64 = add64"
definition uminus_f64 :: "f64 \<Rightarrow> f64" where "uminus_f64 = neg64"
definition minus_f64 :: "f64 \<Rightarrow> f64 \<Rightarrow> f64" where "minus_f64 a b = add64 a (neg64 b)"
definition times_f64 :: "f64 \<Rightarrow> f64 \<Rightarrow> f64" where "times_f64 = mul64"
definition divide_f64 :: "f64 \<Rightarrow> f64 \<Rightarrow> f64" where "divide_f64 = div64"
definition inverse_f64 :: "f64 \<Rightarrow> f64" where "inverse_f64 = div64 (Fin 1)"
definition abs_f64 :: "f64 \<Rightarrow> f64" where "abs_f64 = abs64"
definition less_f64 :: "f64 \<Rightarrow> f64 \<Rightarrow> bool" where "less_f64 = lt64"
definition less_eq_f64 :: "f64 \<Rightarrow> f64 \<Rightarrow> bool" where "less_eq_f64 a b = (lt64 a b \<or> eq64 a b)"

instance ..

end

instance f64 :: semigroup_add
proof
  fix a b c :: f64
  show "a + b + c = a + (b + c)"
    by (cases a; cases b; cases c) (simp_all add: plus_f64_def)
qed

instance f64 :: numeral ..

lemma numeral_f64: "(numeral n :: f64) = Fin (numeral n)"
  by (induction n) (simp_all only: numeral.simps one_f64_def plus_f64_def add64.simps)

lemma Fin_arith [simp, f64_simps]:
  "Fin a + Fin b = Fin (a + b)" "Fin a - Fin b = Fin (a - b)" "- Fin a = Fin (- a)"
  "Fin a * Fin b = Fin (a * b)" "\<bar>Fin a\<bar> = Fin \<bar>a\<bar>"
  by (simp_all add: plus_f64_def minus_f64_def uminus_f64_def times_f64_def abs_f64_def)

lemma Fin_div [simp, f64_simps]: "b \<noteq> 0 \<Longrightarrow> Fin a / Fin b = Fin (a / b)"
  by (simp add: divide_f64_def)

lemma Fin_compare [simp, f64_simps]:
  "Fin a < Fin b \<longleftrightarrow> a < b" "Fin a \<le> Fin b \<longleftrightarrow> a \<le> b" "eq64 (Fin a) (Fin b) \<longleftrightarrow> a = b"
  by (auto simp: less_f64_def less_eq_f64_def eq64_def)

lemmas f64_literals [simp, f64_simps] = numeral_f64 zero_f64_def one_f64_def

lemma NaN_compare [simp, f64_simps]:
  "\<not> NaN < x" "\<not> x < NaN" "\<not> NaN \<le> x" "\<not> x \<le> NaN" "\<not> eq64 NaN x" "\<not> eq64 x NaN"
  by (cases x; simp add: less_f64_def less_eq_f64_def eq64_def)+

lemma NaN_arith [simp, f64_simps]:
  "NaN + x = NaN" "x + NaN = NaN" "NaN - x = NaN" "x - NaN = NaN" "- NaN = NaN" "\<bar>NaN\<bar> = NaN"
  "NaN * x = NaN" "x * NaN = NaN"
  by (cases x; simp add: plus_f64_def minus_f64_def uminus_f64_def abs_f64_def times_f64_def)+

lemma PInf_compare [simp, f64_simps]: "\<not> PInf < Fin a" "\<not> PInf \<le> Fin a" "Fin a < PInf" "Fin a \<le> PInf"
  by (simp_all add: less_f64_def less_eq_f64_def eq64_def)

lemma NInf_compare [simp, f64_simps]: "NInf < Fin a" "NInf \<le> Fin a" "\<not> Fin a < NInf" "\<not> Fin a \<le> NInf"
  by (simp_all add: less_f64_def less_eq_f64_def eq64_def)

text \<open>The reference reading of a range check that is written as a refusal.\<close>

lemma in_range_iff:
  "\<not> (v < Fin lo \<or> v > Fin hi) \<longleftrightarrow> v = NaN \<or> (\<exists>x. v = Fin x \<and> lo \<le> x \<and> x \<le> hi)"
  by (cases v) auto

section \<open>math.Mod, math.Copysign and conversions\<close>

definition rat_trunc :: "rat \<Rightarrow> int" where
  "rat_trunc x = (if x < 0 then - \<lfloor>- x\<rfloor> else \<lfloor>x\<rfloor>)"

definition rat_mod :: "rat \<Rightarrow> rat \<Rightarrow> rat" where
  "rat_mod x y = x - y * of_int (rat_trunc (x / y))"

fun Mod :: "f64 \<Rightarrow> f64 \<Rightarrow> f64" where
  "Mod (Fin x) (Fin y) = (if y = 0 then NaN else Fin (rat_mod x y))"
| "Mod (Fin x) PInf = Fin x"
| "Mod (Fin x) NInf = Fin x"
| "Mod _ _ = NaN"

text \<open>\<open>Copysign(f, s)\<close>; the sign of a NaN \<open>s\<close> is that of \<open>math.NaN()\<close>, positive.\<close>

definition Copysign :: "f64 \<Rightarrow> f64 \<Rightarrow> f64" where
  "Copysign f s = (if s < 0 then - \<bar>f\<bar> else \<bar>f\<bar>)"

lemma Copysign_Fin [simp, f64_simps]: "Copysign (Fin a) (Fin b) = Fin (if b < 0 then - \<bar>a\<bar> else \<bar>a\<bar>)"
  by (simp add: Copysign_def)

lemma rat_trunc_nonneg: "0 \<le> x \<Longrightarrow> rat_trunc x = \<lfloor>x\<rfloor>"
  by (simp add: rat_trunc_def)

lemma rat_mod_nonneg:
  assumes "0 \<le> x" "0 < y"
  shows "0 \<le> rat_mod x y \<and> rat_mod x y < y"
proof -
  have t: "rat_trunc (x / y) = \<lfloor>x / y\<rfloor>" using assms by (simp add: rat_trunc_nonneg)
  have "of_int \<lfloor>x / y\<rfloor> * y \<le> x" "x < (of_int \<lfloor>x / y\<rfloor> + 1) * y"
    using assms by (simp_all only: floor_divide_lower floor_divide_upper)
  then show ?thesis by (simp add: rat_mod_def t algebra_simps)
qed

lemma rat_mod_neg: "rat_mod (- x) y = - rat_mod x y" if "x \<noteq> 0" "0 < y"
  using that by (auto simp: rat_mod_def rat_trunc_def divide_less_0_iff zero_less_divide_iff)

lemma rat_mod_bounds:
  assumes "0 < y"
  shows "- y < rat_mod x y \<and> rat_mod x y < y"
proof (cases "0 \<le> x")
  case True
  then show ?thesis using rat_mod_nonneg [of x y] assms by simp
next
  case False
  then have "0 \<le> rat_mod (- x) y \<and> rat_mod (- x) y < y" using rat_mod_nonneg [of "- x" y] assms by simp
  moreover have "rat_mod (- x) y = - rat_mod x y" using False assms by (intro rat_mod_neg) auto
  ultimately show ?thesis by simp
qed

lemma rat_mod_id: "0 \<le> x \<Longrightarrow> x < y \<Longrightarrow> rat_mod x y = x"
  by (simp add: rat_mod_def rat_trunc_nonneg floor_unique [of 0])

lemma rat_mod_cong: "\<exists>k::int. rat_mod x y = x - y * of_int k"
  unfolding rat_mod_def by blast

section \<open>64-bit integers\<close>

definition in_i64 :: "int \<Rightarrow> bool" where
  "in_i64 n \<longleftrightarrow> - (2 ^ 63) \<le> n \<and> n < 2 ^ 63"

definition wrap64 :: "int \<Rightarrow> int" where
  "wrap64 n = (n + 2 ^ 63) mod 2 ^ 64 - 2 ^ 63"

lemma wrap64_id [simp]: "in_i64 n \<Longrightarrow> wrap64 n = n"
  by (simp add: wrap64_def in_i64_def)

lemma in_i64_wrap64 [simp]: "in_i64 (wrap64 n)"
  by (simp add: wrap64_def in_i64_def)

lemma wrap64_over: "2 ^ 63 \<le> n \<Longrightarrow> n < 2 ^ 64 \<Longrightarrow> wrap64 n = n - 2 ^ 64"
proof -
  assume a: "2 ^ 63 \<le> n" "n < 2 ^ 64"
  have "(n + 2 ^ 63) mod 2 ^ 64 = n + 2 ^ 63 - 2 ^ 64"
    using a by (simp add: mod_pos_geq)
  then show ?thesis by (simp add: wrap64_def)
qed

text \<open>Go's \<open>/\<close> on integers truncates towards zero.\<close>

definition quot64 :: "int \<Rightarrow> int \<Rightarrow> int" where
  "quot64 a b = sgn a * sgn b * (\<bar>a\<bar> div \<bar>b\<bar>)"

text \<open>\<open>int(f)\<close>: truncation; out of range the result is implementation-defined in Go, and this is
  the value amd64 produces.\<close>

fun int_of_f64 :: "f64 \<Rightarrow> int" where
  "int_of_f64 (Fin x) = (let n = rat_trunc x in if in_i64 n then n else - (2 ^ 63))"
| "int_of_f64 _ = - (2 ^ 63)"

definition f64_of_int :: "int \<Rightarrow> f64" where
  "f64_of_int n = Fin (of_int n)"

section \<open>Time\<close>

type_synonym time = int

definition zero_time :: time where
  "zero_time = 0"

text \<open>\<open>t.Sub(u)\<close> saturates at the range of \<open>time.Duration\<close>.\<close>

definition time_sub :: "time \<Rightarrow> time \<Rightarrow> int" where
  "time_sub t u = max (- (2 ^ 63)) (min (2 ^ 63 - 1) (t - u))"

definition seconds :: "int \<Rightarrow> f64" where
  "seconds d = Fin (of_int d / 1000000000)"

definition ms :: "int \<Rightarrow> int" where
  "ms n = n * 1000000"

text \<open>\<open>time.Since(u).Seconds()\<close> at the clock reading \<open>now\<close>.\<close>

definition since_sec :: "time \<Rightarrow> time \<Rightarrow> f64" where
  "since_sec now u = seconds (time_sub now u)"

definition secs :: "time \<Rightarrow> time \<Rightarrow> rat" where
  "secs now u = of_int (time_sub now u) / 1000000000"

lemma since_sec_Fin [simp]: "since_sec now u = Fin (secs now u)"
  by (simp add: since_sec_def seconds_def secs_def)

lemma secs_nonneg: "u \<le> now \<Longrightarrow> 0 \<le> secs now u"
  by (simp add: secs_def time_sub_def)

lemma secs_self [simp]: "secs t t = 0"
  by (simp add: secs_def time_sub_def)

lemma time_sub_mono: "t \<le> t' \<Longrightarrow> time_sub t u \<le> time_sub t' u"
  by (auto simp: time_sub_def)

lemma secs_mono: "t \<le> t' \<Longrightarrow> secs t u \<le> secs t' u"
  by (simp add: secs_def time_sub_mono divide_right_mono)

lemma secs_exact: "in_i64 (t - u) \<Longrightarrow> secs t u = of_int (t - u) / 1000000000"
  by (simp add: secs_def time_sub_def in_i64_def max_def min_def)

end
