(* ===== verification/Alpaca_Errors.thy ===== *)
theory Alpaca_Errors
  imports Go_Num
begin

text \<open>
  The error model of \<open>alpaca/errors.go\<close> and the shared enumerations of \<open>alpaca/*.go\<close>.

  A Go \<open>error\<close> value is a \<open>goerror\<close>: an \<open>*AlpacaError\<close>, the server's \<open>badRequestError\<close>, an error
  wrapped with \<open>%w\<close>, or any other error.  \<open>nil\<close> is \<open>None\<close>.  A message is kept as the format string
  with its arguments: rendering it (\<open>fmt.Sprintf\<close>) is not modelled.
\<close>

section \<open>Errors\<close>

datatype fmt_arg = FmtInt int | FmtFloat f64 | FmtStr string

datatype message = Text string | Fmt string "fmt_arg list"

record alpaca_error =
  Number :: int
  Message :: message

datatype goerror =
    EAlpaca alpaca_error
  | EBadRequest message
  | EWrap message goerror
  | EOther message

definition ErrNumNotImplemented :: int where "ErrNumNotImplemented = 0x400"
definition ErrNumInvalidValue :: int where "ErrNumInvalidValue = 0x401"
definition ErrNumValueNotSet :: int where "ErrNumValueNotSet = 0x402"
definition ErrNumNotConnected :: int where "ErrNumNotConnected = 0x407"
definition ErrNumParked :: int where "ErrNumParked = 0x408"
definition ErrNumSlaved :: int where "ErrNumSlaved = 0x409"
definition ErrNumSettingsProviderError :: int where "ErrNumSettingsProviderError = 0x40A"
definition ErrNumInvalidOperation :: int where "ErrNumInvalidOperation = 0x40B"
definition ErrNumActionNotImplemented :: int where "ErrNumActionNotImplemented = 0x40C"
definition ErrNumOperationCancelled :: int where "ErrNumOperationCancelled = 0x40E"
definition ErrNumUnspecified :: int where "ErrNumUnspecified = 0x4FF"
definition ErrNumDriverBase :: int where "ErrNumDriverBase = 0x500"
definition ErrNumDriverMax :: int where "ErrNumDriverMax = 0xFFF"

lemmas err_num_defs = ErrNumNotImplemented_def ErrNumInvalidValue_def ErrNumValueNotSet_def
  ErrNumNotConnected_def ErrNumParked_def ErrNumSlaved_def ErrNumSettingsProviderError_def
  ErrNumInvalidOperation_def ErrNumActionNotImplemented_def ErrNumOperationCancelled_def
  ErrNumUnspecified_def ErrNumDriverBase_def ErrNumDriverMax_def

definition isReservedNumber :: "int \<Rightarrow> bool" where
  "isReservedNumber n \<longleftrightarrow> n \<in> {ErrNumNotImplemented, ErrNumInvalidValue, ErrNumValueNotSet,
     ErrNumNotConnected, ErrNumParked, ErrNumSlaved, ErrNumSettingsProviderError,
     ErrNumInvalidOperation, ErrNumActionNotImplemented, ErrNumOperationCancelled,
     ErrNumUnspecified}"

definition NewError :: "int \<Rightarrow> message \<Rightarrow> alpaca_error" where
  "NewError number msg =
     (let number = (if number < ErrNumDriverBase \<or> number > ErrNumDriverMax
                    then (if \<not> isReservedNumber number then ErrNumDriverBase else number)
                    else number)
      in \<lparr>Number = number, Message = msg\<rparr>)"

text \<open>\<open>errors.As(err, &ae)\<close>: the first \<open>AlpacaError\<close> of the chain of wrapped errors.\<close>

fun errors_As :: "goerror \<Rightarrow> alpaca_error option" where
  "errors_As (EAlpaca a) = Some a"
| "errors_As (EWrap _ e) = errors_As e"
| "errors_As (EBadRequest _) = None"
| "errors_As (EOther _) = None"

fun Error :: "goerror \<Rightarrow> message" where
  "Error (EAlpaca a) = Message a"
| "Error (EBadRequest m) = m"
| "Error (EWrap m _) = m"
| "Error (EOther m) = m"

text \<open>\<open>(*AlpacaError).Is\<close>, and \<open>errors.Is\<close> over a chain of wrapped errors.\<close>

definition AlpacaError_Is :: "alpaca_error \<Rightarrow> goerror \<Rightarrow> bool" where
  "AlpacaError_Is e target = (case errors_As target of Some t \<Rightarrow> Number e = Number t | None \<Rightarrow> False)"

fun errors_Is :: "goerror \<Rightarrow> goerror \<Rightarrow> bool" where
  "errors_Is (EAlpaca a) target = (EAlpaca a = target \<or> AlpacaError_Is a target)"
| "errors_Is (EWrap m e) target = (EWrap m e = target \<or> errors_Is e target)"
| "errors_Is e target = (e = target)"

definition ErrorNumberFor :: "goerror option \<Rightarrow> int \<times> message" where
  "ErrorNumberFor err =
     (case err of
        None \<Rightarrow> (0, Text [])
      | Some e \<Rightarrow> (case errors_As e of
           Some ae \<Rightarrow> (Number ae, Message ae)
         | None \<Rightarrow> (ErrNumUnspecified, Error e)))"

definition sentinel :: "int \<Rightarrow> string \<Rightarrow> goerror" where
  "sentinel n m = EAlpaca \<lparr>Number = n, Message = Text m\<rparr>"

definition ErrNotImplemented :: goerror where
  "ErrNotImplemented = sentinel ErrNumNotImplemented ''Not implemented''"
definition ErrInvalidValue :: goerror where
  "ErrInvalidValue = sentinel ErrNumInvalidValue ''Invalid value''"
definition ErrValueNotSet :: goerror where
  "ErrValueNotSet = sentinel ErrNumValueNotSet ''Value not set''"
definition ErrNotConnected :: goerror where
  "ErrNotConnected = sentinel ErrNumNotConnected ''Not connected''"
definition ErrParked :: goerror where
  "ErrParked = sentinel ErrNumParked ''Parked''"
definition ErrSlaved :: goerror where
  "ErrSlaved = sentinel ErrNumSlaved ''Slaved''"
definition ErrInvalidOperation :: goerror where
  "ErrInvalidOperation = sentinel ErrNumInvalidOperation ''Invalid operation''"
definition ErrActionNotImplemented :: goerror where
  "ErrActionNotImplemented = sentinel ErrNumActionNotImplemented ''Action not implemented''"
definition ErrOperationCancelled :: goerror where
  "ErrOperationCancelled = sentinel ErrNumOperationCancelled ''Operation cancelled''"

lemmas sentinel_defs = sentinel_def ErrNotImplemented_def ErrInvalidValue_def ErrValueNotSet_def
  ErrNotConnected_def ErrParked_def ErrSlaved_def ErrInvalidOperation_def
  ErrActionNotImplemented_def ErrOperationCancelled_def

text \<open>The number an error carries on the wire.\<close>

definition err_number :: "goerror \<Rightarrow> int" where
  "err_number e = fst (ErrorNumberFor (Some e))"

lemma err_number_simps [simp]:
  "err_number (EAlpaca a) = Number a"
  "err_number (EBadRequest m) = ErrNumUnspecified"
  "err_number (EWrap m e) = err_number e"
  "err_number (EOther m) = ErrNumUnspecified"
  by (simp_all add: err_number_def ErrorNumberFor_def split: option.split)

definition valid_number :: "int \<Rightarrow> bool" where
  "valid_number n \<longleftrightarrow> isReservedNumber n \<or> ErrNumDriverBase \<le> n \<and> n \<le> ErrNumDriverMax"

lemma valid_number_pos: "valid_number n \<Longrightarrow> 0 < n"
  by (auto simp: valid_number_def isReservedNumber_def err_num_defs)

lemma Number_NewError:
  "Number (NewError n m) = (if valid_number n then n else ErrNumDriverBase)"
  by (auto simp: NewError_def valid_number_def isReservedNumber_def err_num_defs Let_def)

lemma errors_Is_EAlpaca: "errors_Is e (EAlpaca t) \<longleftrightarrow> (\<exists>a. errors_As e = Some a \<and> Number a = Number t)"
  by (induction e) (auto simp: AlpacaError_Is_def)

text \<open>\<open>NewError\<close> clamps every number into the legal ASCOM space, keeps a number that is already
  legal, and the resulting error, however often it is wrapped with \<open>%w\<close>, is put on the wire with
  exactly that number (never 0, which means success) and matches a sentinel under \<open>errors.Is\<close> exactly
  when the numbers agree.\<close>

lemma NewError_on_the_wire:
  "fst (ErrorNumberFor (Some (EWrap w (EAlpaca (NewError n m))))) = Number (NewError n m)
   \<and> valid_number (Number (NewError n m)) \<and> Number (NewError n m) \<noteq> 0
   \<and> Number (NewError n m) = (if valid_number n then n else ErrNumDriverBase)
   \<and> (errors_Is (EWrap w (EAlpaca (NewError n m))) (EAlpaca t) \<longleftrightarrow> Number (NewError n m) = Number t)"
  using valid_number_pos [of "Number (NewError n m)"]
  by (simp add: ErrorNumberFor_def errors_Is_EAlpaca Number_NewError)
    (auto simp: valid_number_def err_num_defs)

section \<open>Wire enumerations\<close>

datatype DeviceType = CameraType | CoverCalibratorType | DomeType | FilterWheelType | FocuserType
  | ObservingConditionsType | RotatorType | SafetyMonitorType | SwitchType | TelescopeType
  | CustomType string

text \<open>The path segment of a device type; a type outside the fixed set is its own segment.\<close>

fun segment :: "DeviceType \<Rightarrow> string" where
  "segment CameraType = ''camera''"
| "segment CoverCalibratorType = ''covercalibrator''"
| "segment DomeType = ''dome''"
| "segment FilterWheelType = ''filterwheel''"
| "segment FocuserType = ''focuser''"
| "segment ObservingConditionsType = ''observingconditions''"
| "segment RotatorType = ''rotator''"
| "segment SafetyMonitorType = ''safetymonitor''"
| "segment SwitchType = ''switch''"
| "segment TelescopeType = ''telescope''"
| "segment (CustomType s) = s"

datatype CameraState = CameraIdle | CameraWaiting | CameraExposing | CameraReading | CameraDownload
  | CameraError

fun int_of_CameraState :: "CameraState \<Rightarrow> int" where
  "int_of_CameraState CameraIdle = 0"
| "int_of_CameraState CameraWaiting = 1"
| "int_of_CameraState CameraExposing = 2"
| "int_of_CameraState CameraReading = 3"
| "int_of_CameraState CameraDownload = 4"
| "int_of_CameraState CameraError = 5"

datatype SensorType = SensorMonochrome | SensorColor | SensorRGGB | SensorCMYG | SensorCMYG2 | SensorLRGB

fun int_of_SensorType :: "SensorType \<Rightarrow> int" where
  "int_of_SensorType SensorMonochrome = 0"
| "int_of_SensorType SensorColor = 1"
| "int_of_SensorType SensorRGGB = 2"
| "int_of_SensorType SensorCMYG = 3"
| "int_of_SensorType SensorCMYG2 = 4"
| "int_of_SensorType SensorLRGB = 5"

text \<open>Enumerations that requests carry as bare integers stay integers, as in Go (\<open>type X int\<close>).\<close>

type_synonym AlignmentMode = int
definition AlignAltAz :: AlignmentMode where "AlignAltAz = 0"
definition AlignPolar :: AlignmentMode where "AlignPolar = 1"
definition AlignGermanPolar :: AlignmentMode where "AlignGermanPolar = 2"

type_synonym EquatorialCoordinateType = int
definition EquOther :: EquatorialCoordinateType where "EquOther = 0"
definition EquTopocentric :: EquatorialCoordinateType where "EquTopocentric = 1"
definition EquJ2000 :: EquatorialCoordinateType where "EquJ2000 = 2"
definition EquJ2050 :: EquatorialCoordinateType where "EquJ2050 = 3"
definition EquB1950 :: EquatorialCoordinateType where "EquB1950 = 4"

type_synonym GuideDirection = int
definition GuideNorth :: GuideDirection where "GuideNorth = 0"
definition GuideSouth :: GuideDirection where "GuideSouth = 1"
definition GuideEast :: GuideDirection where "GuideEast = 2"
definition GuideWest :: GuideDirection where "GuideWest = 3"
lemmas guide_defs = GuideNorth_def GuideSouth_def GuideEast_def GuideWest_def

type_synonym PierSide = int
definition PierUnknown :: PierSide where "PierUnknown = -1"
definition PierEast :: PierSide where "PierEast = 0"
definition PierWest :: PierSide where "PierWest = 1"
lemmas pier_defs = PierUnknown_def PierEast_def PierWest_def

type_synonym DriveRate = int
definition DriveSidereal :: DriveRate where "DriveSidereal = 0"
definition DriveLunar :: DriveRate where "DriveLunar = 1"
definition DriveSolar :: DriveRate where "DriveSolar = 2"
definition DriveKing :: DriveRate where "DriveKing = 3"
lemmas drive_defs = DriveSidereal_def DriveLunar_def DriveSolar_def DriveKing_def

type_synonym TelescopeAxis = int
definition AxisPrimary :: TelescopeAxis where "AxisPrimary = 0"
definition AxisSecondary :: TelescopeAxis where "AxisSecondary = 1"
definition AxisTertiary :: TelescopeAxis where "AxisTertiary = 2"
lemmas axis_defs = AxisPrimary_def AxisSecondary_def AxisTertiary_def

record AxisRate =
  Minimum :: f64
  Maximum :: f64

datatype ShutterState = ShutterOpen | ShutterClosed | ShutterOpening | ShutterClosing | ShutterErr

fun int_of_ShutterState :: "ShutterState \<Rightarrow> int" where
  "int_of_ShutterState ShutterOpen = 0"
| "int_of_ShutterState ShutterClosed = 1"
| "int_of_ShutterState ShutterOpening = 2"
| "int_of_ShutterState ShutterClosing = 3"
| "int_of_ShutterState ShutterErr = 4"

datatype CoverStatus = CoverNotPresent | CoverClosed | CoverMoving | CoverOpen | CoverUnknown | CoverError

fun int_of_CoverStatus :: "CoverStatus \<Rightarrow> int" where
  "int_of_CoverStatus CoverNotPresent = 0"
| "int_of_CoverStatus CoverClosed = 1"
| "int_of_CoverStatus CoverMoving = 2"
| "int_of_CoverStatus CoverOpen = 3"
| "int_of_CoverStatus CoverUnknown = 4"
| "int_of_CoverStatus CoverError = 5"

datatype CalibratorStatus = CalibratorNotPresent | CalibratorOff | CalibratorNotReady
  | CalibratorReady | CalibratorUnknown | CalibratorError

fun int_of_CalibratorStatus :: "CalibratorStatus \<Rightarrow> int" where
  "int_of_CalibratorStatus CalibratorNotPresent = 0"
| "int_of_CalibratorStatus CalibratorOff = 1"
| "int_of_CalibratorStatus CalibratorNotReady = 2"
| "int_of_CalibratorStatus CalibratorReady = 3"
| "int_of_CalibratorStatus CalibratorUnknown = 4"
| "int_of_CalibratorStatus CalibratorError = 5"

end
