(* ===== verification/Op.thy ===== *)
theory Op
  imports Alpaca_Errors
begin

text \<open>
  Asynchronous operations, \<open>server/op.go\<close>: the \<open>Op\<close> cell with its mutex-guarded methods, and the
  step relation of several initiators that share one cell under the discipline the driver guide asks
  for (start with \<open>TryBegin\<close>; whoever started it finishes it with \<open>Complete\<close> or \<open>Fail\<close>).
  Every method holds the mutex for its whole body, so each is one atomic step.
\<close>

section \<open>The cell\<close>

datatype OpState = OpIdle | OpBusy | OpDone | OpFailed

record Op =
  op_state :: OpState
  op_err :: "goerror option"

definition new_op :: Op where
  "new_op = \<lparr>op_state = OpIdle, op_err = None\<rparr>"

definition Begin :: "(Op, unit) act" where
  "Begin o1 = ((), o1\<lparr>op_state := OpBusy, op_err := None\<rparr>)"

definition TryBegin :: "(Op, bool) act" where
  "TryBegin o1 = (if op_state o1 = OpBusy then (False, o1)
                  else (True, o1\<lparr>op_state := OpBusy, op_err := None\<rparr>))"

definition Complete :: "(Op, unit) act" where
  "Complete o1 = ((), o1\<lparr>op_state := OpDone\<rparr>)"

definition Fail :: "goerror \<Rightarrow> (Op, unit) act" where
  "Fail err o1 = ((), o1\<lparr>op_state := OpFailed, op_err := Some err\<rparr>)"

definition Reset :: "(Op, unit) act" where
  "Reset o1 = ((), o1\<lparr>op_state := OpIdle, op_err := None\<rparr>)"

definition Busy :: "(Op, bool) act" where
  "Busy o1 = (op_state o1 = OpBusy, o1)"

definition State :: "(Op, OpState) act" where
  "State o1 = (op_state o1, o1)"

definition Err :: "(Op, goerror option) act" where
  "Err o1 = (op_err o1, o1)"

lemmas op_defs = Begin_def TryBegin_def Complete_def Fail_def Reset_def Busy_def State_def Err_def

text \<open>The failure is recorded exactly in the failed state: \<open>Err\<close> answers for the last run.\<close>

definition op_ok :: "Op \<Rightarrow> bool" where
  "op_ok o1 \<longleftrightarrow> (op_err o1 \<noteq> None \<longleftrightarrow> op_state o1 = OpFailed)"

section \<open>Several initiators\<close>

text \<open>\<open>running\<close> holds the initiators whose run is in flight; \<open>starts\<close> and \<open>finishes\<close> count the
  successful starts and the runs that were completed or failed.\<close>

record sys =
  cell :: Op
  running :: "nat set"
  starts :: nat
  finishes :: nat

inductive op_step :: "sys \<Rightarrow> sys \<Rightarrow> bool" where
  start: "i \<notin> running s \<Longrightarrow> TryBegin (cell s) = (True, c) \<Longrightarrow>
    op_step s (s\<lparr>cell := c, running := insert i (running s), starts := Suc (starts s)\<rparr>)"
| refuse: "i \<notin> running s \<Longrightarrow> TryBegin (cell s) = (False, c) \<Longrightarrow> op_step s (s\<lparr>cell := c\<rparr>)"
| complete: "i \<in> running s \<Longrightarrow> Complete (cell s) = ((), c) \<Longrightarrow>
    op_step s (s\<lparr>cell := c, running := running s - {i}, finishes := Suc (finishes s)\<rparr>)"
| fail: "i \<in> running s \<Longrightarrow> Fail e (cell s) = ((), c) \<Longrightarrow>
    op_step s (s\<lparr>cell := c, running := running s - {i}, finishes := Suc (finishes s)\<rparr>)"
| poll: "Err (cell s) = (e, c) \<Longrightarrow> op_step s (s\<lparr>cell := c\<rparr>)"

inductive reachable :: "sys \<Rightarrow> bool" where
  init: "reachable \<lparr>cell = new_op, running = {}, starts = 0, finishes = 0\<rparr>"
| step: "reachable s \<Longrightarrow> op_step s t \<Longrightarrow> reachable t"

inductive_cases op_stepE: "op_step s t"

definition op_inv :: "sys \<Rightarrow> bool" where
  "op_inv s \<longleftrightarrow> op_ok (cell s)
     \<and> (if op_state (cell s) = OpBusy then \<exists>i. running s = {i} else running s = {})
     \<and> starts s = finishes s + (if op_state (cell s) = OpBusy then 1 else 0)"

lemma op_step_inv: "op_step s t \<Longrightarrow> op_inv s \<Longrightarrow> op_inv t"
  by (induction rule: op_step.induct)
    (auto simp: op_inv_def op_ok_def op_defs split: if_splits)

lemma reachable_op_inv: "reachable s \<Longrightarrow> op_inv s"
proof (induction rule: reachable.induct)
  case init
  show ?case by (simp add: op_inv_def op_ok_def new_op_def)
next
  case (step s t)
  then show ?case by (blast intro: op_step_inv)
qed

text \<open>C26: \<open>TryBegin\<close> closes the start race.  In every interleaving of any number of initiators that
  start with \<open>TryBegin\<close>, at most one operation is in flight at a time, the cell is busy exactly while
  one is, starts and finishes alternate, and a recorded error belongs to the last finished run: it is
  present exactly in the failed state.\<close>

theorem TryBegin_exclusive:
  assumes "reachable s"
  shows "(\<forall>i \<in> running s. \<forall>j \<in> running s. i = j)
    \<and> (fst (Busy (cell s)) \<longleftrightarrow> running s \<noteq> {})
    \<and> starts s - finishes s \<le> 1 \<and> finishes s \<le> starts s
    \<and> (fst (Err (cell s)) \<noteq> None \<longleftrightarrow> fst (State (cell s)) = OpFailed)"
  using reachable_op_inv [OF assms]
  by (auto simp: op_inv_def op_ok_def op_defs split: if_splits)

definition busy_sys :: sys where
  "busy_sys = \<lparr>cell = snd (Begin new_op), running = {3}, starts = 1, finishes = 0\<rparr>"

lemma busy_sys_reachable: "reachable busy_sys"
proof -
  have "op_step \<lparr>cell = new_op, running = {}, starts = 0, finishes = 0\<rparr> busy_sys"
    using op_step.start [of 3 "\<lparr>cell = new_op, running = {}, starts = 0, finishes = 0\<rparr>"
        "snd (Begin new_op)"]
    by (simp add: busy_sys_def op_defs new_op_def)
  then show ?thesis by (rule reachable.step [OF reachable.init])
qed

theorem TryBegin_exclusive_witness:
  "running busy_sys = {3} \<and> fst (Busy (cell busy_sys)) \<and> finishes busy_sys \<le> starts busy_sys"
  using TryBegin_exclusive [OF busy_sys_reachable] by (simp add: busy_sys_def)

end
