(* ===== verification/Params.thy ===== *)
theory Params
  imports Alpaca_Errors
begin

text \<open>
  Request parameters, \<open>server/httpserver.go\<close> (the \<open>params\<close> type and its readers), the transaction
  counter and the JSON envelope, and the \<open>strconv\<close> parsers they use.

  The merged form of a request is a list of (key, values) pairs, in the order in which Go's map
  iteration visits them.  \<open>ParseFloat\<close> covers decimal literals, the infinities and NaN; hexadecimal
  mantissas and digit separators are left out, and a finite result is exact.
\<close>

section \<open>strconv\<close>

definition digit_of :: "char \<Rightarrow> nat option" where
  "digit_of c = (let n = (of_char c :: nat) in if 48 \<le> n \<and> n \<le> 57 then Some (n - 48) else None)"

fun digits_from :: "nat \<Rightarrow> string \<Rightarrow> nat option" where
  "digits_from acc [] = Some acc"
| "digits_from acc (c # cs) =
     (case digit_of c of None \<Rightarrow> None | Some d \<Rightarrow> digits_from (10 * acc + d) cs)"

definition digits :: "string \<Rightarrow> nat option" where
  "digits s = (if s = [] then None else digits_from 0 s)"

text \<open>\<open>%d\<close> and \<open>strconv.Itoa\<close>.\<close>

definition digit :: "nat \<Rightarrow> char" where
  "digit n = char_of (48 + n mod 10)"

fun show_nat :: "nat \<Rightarrow> string" where
  "show_nat n = (if n < 10 then [digit n] else show_nat (n div 10) @ [digit n])"

definition Itoa :: "int \<Rightarrow> string" where
  "Itoa n = (if n < 0 then CHR ''-'' # show_nat (nat (- n)) else show_nat (nat n))"

declare show_nat.simps [simp del]

lemma digit_of_digit [simp]: "digit_of (digit n) = Some (n mod 10)"
proof -
  have "n mod 10 < 10" by simp
  then show ?thesis by (simp add: digit_of_def digit_def of_char_of)
qed

lemma digits_from_append:
  "digits_from acc (xs @ ys) = Option.bind (digits_from acc xs) (\<lambda>a. digits_from a ys)"
  by (induction acc xs rule: digits_from.induct) (auto split: option.splits)

lemma digits_from_show: "digits_from 0 (show_nat n) = Some n"
proof (induction n rule: show_nat.induct)
  case (1 n)
  show ?case
  proof (cases "n < 10")
    case True
    then show ?thesis by (simp add: show_nat.simps [of n])
  next
    case False
    then show ?thesis using 1 by (simp add: show_nat.simps [of n] digits_from_append)
  qed
qed

lemma show_nat_nonempty [simp]: "show_nat n \<noteq> []"
  by (subst show_nat.simps) simp

lemma show_nat_inject [simp]: "show_nat m = show_nat n \<longleftrightarrow> m = n"
  by (metis digits_from_show option.inject)

text \<open>\<open>strconv.ParseUint(s, 10, 32)\<close> and \<open>strconv.Atoi\<close> (64-bit).\<close>

definition ParseUint32 :: "string \<Rightarrow> 32 word option" where
  "ParseUint32 s = (case digits s of
     None \<Rightarrow> None | Some n \<Rightarrow> (if n < 2 ^ 32 then Some (of_nat n) else None))"

definition signed :: "string \<Rightarrow> int \<times> string" where
  "signed s = (case s of
     [] \<Rightarrow> (1, [])
   | c # cs \<Rightarrow> (if c = CHR ''+'' then (1, cs) else if c = CHR ''-'' then (-1, cs) else (1, s)))"

definition Atoi :: "string \<Rightarrow> int option" where
  "Atoi s = (case signed s of (sg, ds) \<Rightarrow>
     (case digits ds of
        None \<Rightarrow> None
      | Some n \<Rightarrow> (if in_i64 (sg * int n) then Some (sg * int n) else None)))"

fun split_digits :: "string \<Rightarrow> string \<times> string" where
  "split_digits [] = ([], [])"
| "split_digits (c # cs) =
     (if digit_of c = None then ([], c # cs)
      else (case split_digits cs of (ds, rest) \<Rightarrow> (c # ds, rest)))"

definition scale10 :: "int \<Rightarrow> int \<Rightarrow> rat" where
  "scale10 m e = (if 0 \<le> e then of_int m * 10 ^ nat e else of_int m / 10 ^ nat (- e))"

text \<open>The exponent of \<open>readFloat\<close>, which stops counting at 10000.\<close>

definition read_exponent :: "string \<Rightarrow> int option" where
  "read_exponent s = (case s of
     [] \<Rightarrow> Some 0
   | c # cs \<Rightarrow>
       (if c = CHR ''e'' \<or> c = CHR ''E''
        then (case signed cs of (sg, ds) \<Rightarrow>
          (case digits ds of None \<Rightarrow> None | Some n \<Rightarrow> Some (sg * int (min n 10000))))
        else None))"

definition read_decimal :: "string \<Rightarrow> rat option" where
  "read_decimal s =
     (let (sg, s1) = signed s;
          (ip, s2) = split_digits s1;
          (fp, s3) = (case s2 of c # cs \<Rightarrow> (if c = CHR ''.'' then split_digits cs else ([], s2))
                               | [] \<Rightarrow> ([], []))
      in case (digits (ip @ fp), read_exponent s3) of
           (Some m, Some e) \<Rightarrow> Some (scale10 (sg * int m) (e - int (length fp)))
         | _ \<Rightarrow> None)"

definition ParseFloat :: "string \<Rightarrow> f64 option" where
  "ParseFloat s =
     (let l = to_lower s in
      if l \<in> {''inf'', ''infinity'', ''+inf'', ''+infinity''} then Some PInf
      else if l \<in> {''-inf'', ''-infinity''} then Some NInf
      else if l = ''nan'' then Some NaN
      else (case read_decimal s of
        None \<Rightarrow> None
      | Some x \<Rightarrow> (if \<bar>x\<bar> < 2 ^ 1024 - 2 ^ 970 then Some (Fin x) else None)))"

lemma ParseFloat_nan: "ParseFloat ''NaN'' = Some NaN"
  by code_simp

text \<open>Parsing a plain integer literal.\<close>

lemma ParseFloat_int:
  assumes "signed s = (sg, ds)" "split_digits ds = (ds, [])" "digits ds = Some m"
    "to_lower s \<notin> {''inf'', ''infinity'', ''+inf'', ''+infinity'', ''-inf'', ''-infinity'', ''nan''}"
    "sg = 1 \<or> sg = -1" "m < 1000000"
  shows "ParseFloat s = Some (Fin (of_int (sg * int m)))"
proof -
  have r: "read_decimal s = Some (of_int (sg * int m))"
    using assms(1-3) by (simp add: read_decimal_def read_exponent_def scale10_def)
  have "\<bar>of_int (sg * int m) :: rat\<bar> = of_nat m" using assms(5) by auto
  also have "\<dots> < of_nat 1000000" using assms(6) by (simp only: of_nat_less_iff)
  also have "\<dots> < (2 ^ 1024 - 2 ^ 970 :: rat)" by simp
  finally show ?thesis using assms(4) r by (auto simp: ParseFloat_def Let_def)
qed

section \<open>Parameters\<close>

record params =
  vals :: "string \<Rightarrow> string option"
  lower :: "string \<Rightarrow> string option"
  strict :: bool
  clientID :: "32 word"
  clientTransactionID :: "32 word"

definition put_param :: "string \<times> string list \<Rightarrow>
    (string \<Rightarrow> string option) \<times> (string \<Rightarrow> string option) \<Rightarrow>
    (string \<Rightarrow> string option) \<times> (string \<Rightarrow> string option)" where
  "put_param kv m = (case kv of (k, v) \<Rightarrow> case m of (vs, lo) \<Rightarrow>
     (case v of [] \<Rightarrow> (vs, lo) | x # _ \<Rightarrow> (vs(k \<mapsto> x), lo(to_lower k \<mapsto> x))))"

definition uint_param :: "(string \<Rightarrow> string option) \<Rightarrow> string \<Rightarrow> 32 word" where
  "uint_param lo k = (case lo k of None \<Rightarrow> 0 | Some v \<Rightarrow> (case ParseUint32 v of None \<Rightarrow> 0 | Some n \<Rightarrow> n))"

definition parseParams :: "(string \<times> string list) list \<Rightarrow> bool \<Rightarrow> bool \<Rightarrow> params" where
  "parseParams form is_put strict_mode =
     (let (vs, lo) = fold put_param form (Map.empty, Map.empty) in
      \<lparr>vals = vs, lower = lo, strict = (strict_mode \<and> is_put),
       clientID = uint_param lo ''clientid'',
       clientTransactionID = uint_param lo ''clienttransactionid''\<rparr>)"

definition get :: "params \<Rightarrow> string \<Rightarrow> string option" where
  "get p name = (if strict p then vals p name else lower p (to_lower name))"

definition missingParam :: "string \<Rightarrow> goerror" where
  "missingParam name = EBadRequest (Text (''missing or empty required parameter: '' @ name))"

definition badParam :: "string \<Rightarrow> string \<Rightarrow> goerror" where
  "badParam name val = EBadRequest (Text (''invalid value for parameter '' @ name @ '': '' @ val))"

definition reqParam :: "(string \<Rightarrow> 'a option) \<Rightarrow> params \<Rightarrow> string \<Rightarrow> goerror + 'a" where
  "reqParam parse p name = (case get p name of
     None \<Rightarrow> Inl (missingParam name)
   | Some v \<Rightarrow> (case parse v of None \<Rightarrow> Inl (badParam name v) | Some x \<Rightarrow> Inr x))"

definition reqInt :: "params \<Rightarrow> string \<Rightarrow> goerror + int" where
  "reqInt = reqParam Atoi"

definition reqFloat :: "params \<Rightarrow> string \<Rightarrow> goerror + f64" where
  "reqFloat = reqParam ParseFloat"

definition parseBool :: "string \<Rightarrow> bool option" where
  "parseBool v = (if to_lower v = ''true'' then Some True
                  else if to_lower v = ''false'' then Some False else None)"

definition reqBool :: "params \<Rightarrow> string \<Rightarrow> goerror + bool" where
  "reqBool = reqParam parseBool"

definition reqString :: "params \<Rightarrow> string \<Rightarrow> goerror + string" where
  "reqString p name = (case get p name of None \<Rightarrow> Inl (missingParam name) | Some v \<Rightarrow> Inr v)"

lemmas req_defs = reqInt_def reqFloat_def reqBool_def reqParam_def reqString_def

lemma reqInt_in_i64: "reqInt p name = Inr n \<Longrightarrow> in_i64 n"
  by (auto simp: req_defs Atoi_def split: option.splits prod.splits if_splits)

text \<open>The lowercase index of a form: the last of the keys that agree up to case wins.\<close>

lemma fold_put_param:
  "snd (fold put_param form (vs, lo)) k =
     (case [v. (k', v # _) \<leftarrow> rev form, to_lower k' = k] of [] \<Rightarrow> lo k | v # _ \<Rightarrow> Some v)"
proof (induction form rule: rev_induct)
  case Nil
  then show ?case by simp
next
  case (snoc kv form)
  obtain k' v where kv: "kv = (k', v)" by force
  obtain vs' lo' where f: "fold put_param form (vs, lo) = (vs', lo')" by force
  have "put_param (k', v) (vs', lo') =
      (case v of [] \<Rightarrow> (vs', lo') | x # _ \<Rightarrow> (vs'(k' \<mapsto> x), lo'(to_lower k' \<mapsto> x)))"
    by (simp add: put_param_def)
  then show ?case using snoc.IH by (cases v) (auto simp: kv f)
qed

definition lower_entries :: "(string \<times> string list) list \<Rightarrow> string \<Rightarrow> string list" where
  "lower_entries form k = [v. (k', v # _) \<leftarrow> rev form, to_lower k' = k]"

lemma lower_parseParams:
  "lower (parseParams form is_put st) k =
     (case lower_entries form k of [] \<Rightarrow> None | v # _ \<Rightarrow> Some v)"
proof -
  obtain vs lo where f: "fold put_param form (Map.empty, Map.empty) = (vs, lo)" by force
  then have "lower (parseParams form is_put st) k = lo k" by (simp add: parseParams_def)
  also have "lo k = snd (fold put_param form (Map.empty, Map.empty)) k" using f by simp
  finally show ?thesis by (simp add: fold_put_param lower_entries_def)
qed

lemma strict_parseParams [simp]: "strict (parseParams form is_put st) = (st \<and> is_put)"
  by (simp add: parseParams_def split: prod.split)

section \<open>Values and envelopes\<close>

datatype any = VNil | VBool bool | VInt int | VFloat f64 | VStr string | VInts "int list"
  | VStrs "string list" | VRates "AxisRate list" | VStates "(string \<times> any) list"
  | VObject "(string \<times> any) list" | VArray "any list"

record envelope =
  Value :: "any option"
  ClientTransactionID :: "32 word"
  ServerTransactionID :: "32 word"
  ErrorNumber :: int
  ErrorMessage :: message

text \<open>What a handler sends: an envelope, a plain-text status, a binary or a streamed JSON body, a page;
  \<open>Dropped\<close> is a handler that panicked while it was sending, whose connection the server drops.\<close>

datatype response = Json envelope | PlainStatus nat message | ImageBody "8 word list"
  | JsonText string | HtmlPage nat | Redirect string | Dropped

text \<open>\<open>serverTxCounter.next\<close>: atomic, wrapping at 32 bits.\<close>

definition next_tx :: "32 word \<Rightarrow> 32 word \<times> 32 word" where
  "next_tx n = (n + 1, n + 1)"

text \<open>\<open>writeBadRequest\<close>: \<open>errors.As\<close> finds a \<open>badRequestError\<close> anywhere in the chain.\<close>

fun as_bad_request :: "goerror \<Rightarrow> message option" where
  "as_bad_request (EBadRequest m) = Some m"
| "as_bad_request (EWrap _ e) = as_bad_request e"
| "as_bad_request (EAlpaca _) = None"
| "as_bad_request (EOther _) = None"

definition writeMethod :: "goerror option \<Rightarrow> 32 word \<Rightarrow> 32 word \<Rightarrow> response" where
  "writeMethod err ctx stx =
     (case Option.bind err as_bad_request of
        Some m \<Rightarrow> PlainStatus 400 m
      | None \<Rightarrow>
          (let (num, msg) = ErrorNumberFor err in
           Json \<lparr>Value = None, ClientTransactionID = ctx, ServerTransactionID = stx,
                 ErrorNumber = num, ErrorMessage = msg\<rparr>))"

definition writeValue :: "goerror + any \<Rightarrow> 32 word \<Rightarrow> 32 word \<Rightarrow> response" where
  "writeValue r ctx stx =
     (case r of
        Inl e \<Rightarrow> (case as_bad_request e of
            Some m \<Rightarrow> PlainStatus 400 m
          | None \<Rightarrow>
              (let (num, msg) = ErrorNumberFor (Some e) in
               Json \<lparr>Value = None, ClientTransactionID = ctx, ServerTransactionID = stx,
                     ErrorNumber = num, ErrorMessage = msg\<rparr>))
      | Inr v \<Rightarrow> Json \<lparr>Value = Some v, ClientTransactionID = ctx, ServerTransactionID = stx,
                       ErrorNumber = 0, ErrorMessage = Text []\<rparr>)"

section \<open>Properties of the request parameters\<close>

text \<open>\<open>get\<close> in its default mode looks a name up regardless of its case.\<close>

lemma get_case_insensitive:
  "\<not> strict p \<Longrightarrow> to_lower a = to_lower b \<Longrightarrow> get p a = get p b"
  by (simp add: get_def)

lemma lower_entries_distinct:
  assumes "distinct (map (\<lambda>(k, _). to_lower k) form)" "(k, v # vs) \<in> set form"
  shows "lower_entries form (to_lower k) = [v]"
  using assms
proof (induction form)
  case Nil
  then show ?case by simp
next
  case (Cons kv form)
  obtain k' v' where kv: "kv = (k', v')" by force
  have tail: "lower_entries (kv # form) x = lower_entries form x @ lower_entries [kv] x" for x
    by (simp add: lower_entries_def)
  show ?case
  proof (cases "(k, v # vs) = kv")
    case True
    then have "to_lower k \<notin> (\<lambda>(k, _). to_lower k) ` set form" using Cons.prems(1) by auto
    then have "lower_entries form (to_lower k) = []"
      by (force simp: lower_entries_def split: list.splits)
    moreover have "lower_entries [kv] (to_lower k) = [v]"
      using True by (simp add: lower_entries_def flip: True)
    ultimately show ?thesis using tail by simp
  next
    case False
    then have m: "(k, v # vs) \<in> set form" using Cons.prems(2) by simp
    then have "lower_entries form (to_lower k) = [v]" using Cons by simp
    moreover have "to_lower k' \<noteq> to_lower k" using Cons.prems(1) m kv by force
    then have "lower_entries [kv] (to_lower k) = []"
      by (auto simp: lower_entries_def kv split: list.splits)
    ultimately show ?thesis using tail by simp
  qed
qed

text \<open>Parameter names are matched as the protocol says.  Unless strict casing applies (a PUT under
  \<open>StrictParamCasing\<close>), a parameter sent under any casing of its name is found under any casing of it,
  with the first value sent, whatever the order of Go's map iteration, as long as no two keys of the
  form agree up to case; under strict casing exactly the name as sent is found.\<close>

lemma parameter_casing:
  assumes "distinct (map (\<lambda>(k, _). to_lower k) form)" "(k, v # vs) \<in> set form"
    "to_lower name = to_lower k"
  shows "get (parseParams form is_put strict_mode) name =
    (if strict_mode \<and> is_put \<and> name \<noteq> k then None else Some v)"
proof (cases "strict_mode \<and> is_put")
  case False
  then show ?thesis using lower_entries_distinct [OF assms(1,2)] assms(3)
    by (auto simp: get_def lower_parseParams)
next
  case True
  have gen: "fst (fold put_param form (m, lo)) x =
      (if \<exists>v vs. (x, v # vs) \<in> set form then Some (SOME w. \<exists>vs. (x, w # vs) \<in> set form) else m x)"
    if "distinct (map (\<lambda>(k, _). to_lower k) form)" for form m lo x
    using that
  proof (induction form rule: rev_induct)
    case Nil
    then show ?case by simp
  next
    case (snoc kv form)
    obtain k' v' where kv: "kv = (k', v')" by force
    obtain m' lo' where f: "fold put_param form (m, lo) = (m', lo')" by force
    have fresh: "\<not> (\<exists>w. (k', w) \<in> set form)" using snoc.prems kv by force
    have "put_param (k', v') (m', lo') =
        (case v' of [] \<Rightarrow> (m', lo') | x # _ \<Rightarrow> (m'(k' \<mapsto> x), lo'(to_lower k' \<mapsto> x)))"
      by (simp add: put_param_def)
    moreover have "(SOME w. \<exists>vs. (k', w # vs) \<in> set (form @ [(k', a # l)])) = a" for a l
      using fresh by (intro some_equality) auto
    ultimately show ?case using snoc fresh
      by (cases v'; cases "x = k'") (auto simp: kv f)
  qed
  have uniq: "w = v" if "(k, w # ws) \<in> set form" for w ws
    using lower_entries_distinct [OF assms(1) that] lower_entries_distinct [OF assms(1,2)] by simp
  have some: "(SOME w. \<exists>vs. (k, w # vs) \<in> set form) = v"
    by (rule some_equality) (use assms(2) uniq in blast)+
  obtain m lo where f: "fold put_param form (Map.empty, Map.empty) = (m, lo)" by force
  have none: "\<not> (\<exists>v vs. (name, v # vs) \<in> set form)" if "name \<noteq> k"
  proof
    assume "\<exists>v vs. (name, v # vs) \<in> set form"
    then obtain w ws where w: "(name, w # ws) \<in> set form" by blast
    have "(\<lambda>(k, _). to_lower k) (name, w # ws) = (\<lambda>(k, _). to_lower k) (k, v # vs)"
      using assms(3) by simp
    then have "(name, w # ws) = (k, v # vs)"
      using assms(1,2) w by (meson distinct_map inj_onD)
    then show False using that by simp
  qed
  have "vals (parseParams form is_put strict_mode) = m" by (simp add: parseParams_def f)
  then show ?thesis using True gen [OF assms(1), of Map.empty Map.empty name] f some none assms(2)
    by (auto simp: get_def)
qed

lemma parameter_casing_witness:
  "get (parseParams [(''clientID'', [''7'']), (''TRACKING'', [''true''])] True False) ''Tracking''
     = Some ''true''"
proof -
  have "distinct (map (\<lambda>(k, _). to_lower k) [(''clientID'', [''7'']), (''TRACKING'', [''true''])])"
    by code_simp
  moreover have "to_lower ''Tracking'' = to_lower ''TRACKING''" by code_simp
  ultimately show ?thesis
    using parameter_casing [of "[(''clientID'', [''7'']), (''TRACKING'', [''true''])]" "''TRACKING''"
        "''true''" "[]" "''Tracking''" True False]
    by simp
qed

text \<open>The status line of a reply.  A protocol-level error (a missing or unparseable parameter,
  even wrapped) is HTTP 400 and never an envelope; every other outcome is an envelope that echoes both
  transaction ids, has the number 0 exactly when the request succeeded (for legal error numbers), and
  carries a value exactly on a successful read.\<close>

lemma reply_envelope:
  "(case as_bad_request e of
      Some m \<Rightarrow> writeValue (Inl e) c s = PlainStatus 400 m \<and> writeMethod (Some e) c s = PlainStatus 400 m
    | None \<Rightarrow> writeValue (Inl e) c s = writeMethod (Some e) c s \<and>
        (\<exists>env. writeMethod (Some e) c s = Json env \<and> Value env = None
          \<and> ErrorNumber env = err_number e \<and> ClientTransactionID env = c
          \<and> ServerTransactionID env = s))
   \<and> (\<exists>env. writeMethod None c s = Json env \<and> ErrorNumber env = 0 \<and> Value env = None)
   \<and> (\<exists>env. writeValue (Inr v) c s = Json env \<and> ErrorNumber env = 0 \<and> Value env = Some v)"
  by (simp add: writeValue_def writeMethod_def err_number_def ErrorNumberFor_def split: option.split)

end
