(* ===== verification/Gate.thy ===== *)
theory Gate
  imports Params
begin

text \<open>
  The helpers of \<open>server/gate.go\<close> that the typed gates share, and the shape of a handler:
  a PUT table maps a member name to a command (\<open>error\<close> result), a GET table to a read
  (\<open>(value, error)\<close> result).  A member that is in no table is not handled.
\<close>

section \<open>Error builders and ranges\<close>

definition invalidValuef :: "string \<Rightarrow> fmt_arg list \<Rightarrow> goerror" where
  "invalidValuef format a = EAlpaca \<lparr>Number = ErrNumInvalidValue, Message = Fmt format a\<rparr>"

definition notImplErr :: "string \<Rightarrow> goerror" where
  "notImplErr member = EAlpaca \<lparr>Number = ErrNumNotImplemented,
     Message = Text (member @ '' is not implemented'')\<rparr>"

definition parkedErr :: "string \<Rightarrow> goerror" where
  "parkedErr member = EAlpaca \<lparr>Number = ErrNumParked,
     Message = Text (member @ '' is not valid while the mount is parked'')\<rparr>"

definition invalidOpErr :: "string \<Rightarrow> goerror" where
  "invalidOpErr message = EAlpaca \<lparr>Number = ErrNumInvalidOperation, Message = Text message\<rparr>"

definition invalidRange :: "string \<Rightarrow> f64 \<Rightarrow> f64 \<Rightarrow> f64 \<Rightarrow> goerror option" where
  "invalidRange name v lo hi =
     (if v < lo \<or> v > hi
      then Some (invalidValuef ''%s %g is outside the valid range %g to %g''
                   [FmtStr name, FmtFloat v, FmtFloat lo, FmtFloat hi])
      else None)"

definition nonNegative :: "string \<Rightarrow> f64 \<Rightarrow> goerror option" where
  "nonNegative member v =
     (if v < 0 then Some (invalidValuef ''%s %g is negative'' [FmtStr member, FmtFloat v]) else None)"

lemma err_number_builders [simp]:
  "err_number (invalidValuef f a) = ErrNumInvalidValue"
  "err_number (notImplErr m) = ErrNumNotImplemented"
  "err_number (parkedErr m) = ErrNumParked"
  "err_number (invalidOpErr t) = ErrNumInvalidOperation"
  by (simp_all add: invalidValuef_def notImplErr_def parkedErr_def invalidOpErr_def)

lemma invalidRange_None:
  "invalidRange name v (Fin lo) (Fin hi) = None \<longleftrightarrow> v = NaN \<or> (\<exists>x. v = Fin x \<and> lo \<le> x \<and> x \<le> hi)"
  by (simp add: invalidRange_def) (cases v; auto)

lemma nonNegative_None: "nonNegative name v = None \<longleftrightarrow> \<not> v < 0"
  by (simp add: nonNegative_def)

definition validGuideDirection :: "int \<Rightarrow> bool" where
  "validGuideDirection dir \<longleftrightarrow> dir \<ge> GuideNorth \<and> dir \<le> GuideWest"

section \<open>ISO-8601 dates\<close>

text \<open>\<open>parseUTCDate\<close> tries four layouts of \<open>time.Parse\<close>; together they accept a date, \<open>T\<close>, a time with
  an optional fraction, and an optional zone.  The hour may have one digit, as in \<open>time.Parse\<close>.\<close>

fun num :: "nat \<Rightarrow> nat \<Rightarrow> string \<Rightarrow> (nat \<times> string) option" where
  "num 0 acc s = Some (acc, s)"
| "num (Suc n) acc [] = None"
| "num (Suc n) acc (c # cs) =
     (case digit_of c of None \<Rightarrow> None | Some d \<Rightarrow> num n (10 * acc + d) cs)"

definition lit :: "char \<Rightarrow> string \<Rightarrow> string option" where
  "lit ch s = (case s of c # cs \<Rightarrow> if c = ch then Some cs else None | [] \<Rightarrow> None)"

definition leap :: "nat \<Rightarrow> bool" where
  "leap y \<longleftrightarrow> y mod 4 = 0 \<and> (y mod 100 \<noteq> 0 \<or> y mod 400 = 0)"

definition daysIn :: "nat \<Rightarrow> nat \<Rightarrow> nat" where
  "daysIn m y = (if m = 2 then (if leap y then 29 else 28)
                 else if m \<in> {4, 6, 9, 11} then 30 else 31)"

definition skip_fraction :: "string \<Rightarrow> string" where
  "skip_fraction s = (case s of
     c # d # cs \<Rightarrow> (if (c = CHR ''.'' \<or> c = CHR '','') \<and> digit_of d \<noteq> None
                    then snd (split_digits (d # cs)) else s)
   | _ \<Rightarrow> s)"

definition zone_ok :: "string \<Rightarrow> bool" where
  "zone_ok s \<longleftrightarrow> s = [] \<or> s = ''Z'' \<or>
     (case s of c # cs \<Rightarrow> (c = CHR ''+'' \<or> c = CHR ''-'') \<and>
        (case Option.bind (num 2 0 cs) (\<lambda>(h, r). map_option (\<lambda>r. (h, r)) (lit CHR '':'' r)) of
           Some (h, r) \<Rightarrow> h \<le> 24 \<and> (case num 2 0 r of Some (m, r) \<Rightarrow> m \<le> 60 \<and> r = [] | None \<Rightarrow> False)
         | None \<Rightarrow> False)
      | [] \<Rightarrow> False)"

definition clock_ok :: "string \<Rightarrow> bool" where
  "clock_ok s =
     (let hour = (case num 2 0 s of Some r \<Rightarrow> Some r | None \<Rightarrow> num 1 0 s) in
      case hour of None \<Rightarrow> False | Some (h, s) \<Rightarrow> h < 24 \<and>
     (case Option.bind (lit CHR '':'' s) (num 2 0) of None \<Rightarrow> False | Some (m, s) \<Rightarrow> m < 60 \<and>
     (case Option.bind (lit CHR '':'' s) (num 2 0) of None \<Rightarrow> False | Some (sec, s) \<Rightarrow> sec < 60 \<and>
        zone_ok (skip_fraction s))))"

definition iso8601 :: "string \<Rightarrow> bool" where
  "iso8601 s =
     (case num 4 0 s of None \<Rightarrow> False | Some (y, s) \<Rightarrow>
     (case Option.bind (lit CHR ''-'' s) (num 2 0) of None \<Rightarrow> False | Some (mo, s) \<Rightarrow>
     (case Option.bind (lit CHR ''-'' s) (num 2 0) of None \<Rightarrow> False | Some (d, s) \<Rightarrow>
        1 \<le> mo \<and> mo \<le> 12 \<and> 1 \<le> d \<and> d \<le> daysIn mo y \<and>
        (case lit CHR ''T'' s of None \<Rightarrow> False | Some s \<Rightarrow> clock_ok s))))"

definition parseUTCDate :: "string \<Rightarrow> goerror option" where
  "parseUTCDate s = (if iso8601 s then None
     else Some (invalidValuef ''UTCDate %q is not an ISO-8601 date-time'' [FmtStr s]))"

text \<open>\<open>time.Time.Format\<close> with the layouts \<open>2006-01-02T15:04:05\<close> and, with milliseconds,
  \<open>2006-01-02T15:04:05.000Z\<close>: the proleptic Gregorian date of the day number since 1 January of
  year 1, and the time of the day.\<close>

fun month_of :: "nat \<Rightarrow> nat \<Rightarrow> nat list \<Rightarrow> nat \<times> nat" where
  "month_of y d [] = (12, d + 1)"
| "month_of y d (m # rest) = (if d < daysIn m y then (m, d + 1) else month_of y (d - daysIn m y) rest)"

definition year_of :: "nat \<Rightarrow> nat \<times> nat" where
  "year_of d =
     (let n400 = d div 146097; d = d mod 146097;
          n100 = min 3 (d div 36524); d = d - 36524 * n100;
          n4 = d div 1461; d = d mod 1461;
          n1 = min 3 (d div 365)
      in (400 * n400 + 100 * n100 + 4 * n4 + n1 + 1, d - 365 * n1))"

fun zeropad :: "nat \<Rightarrow> nat \<Rightarrow> string" where
  "zeropad 0 n = []"
| "zeropad (Suc k) n = zeropad k (n div 10) @ [digit n]"

definition format_seconds :: "nat \<Rightarrow> string" where
  "format_seconds s =
     (let d = s div 86400; r = s mod 86400;
          (y, doy) = year_of d;
          (m, dom) = month_of y doy [1, 2, 3, 4, 5, 6, 7, 8, 9, 10, 11]
      in zeropad 4 y @ ''-'' @ zeropad 2 m @ ''-'' @ zeropad 2 dom @ ''T''
         @ zeropad 2 (r div 3600) @ '':'' @ zeropad 2 (r div 60 mod 60) @ '':''
         @ zeropad 2 (r mod 60))"

definition format_date :: "time \<Rightarrow> string" where
  "format_date t = format_seconds (nat (t div 1000000000))"

definition format_utc :: "time \<Rightarrow> string" where
  "format_utc t = format_date t @ ''.'' @ zeropad 3 (nat (t div 1000000) mod 1000) @ ''Z''"

section \<open>ObservingConditions sensor names\<close>

definition ocSensors :: "string list" where
  "ocSensors = [''cloudcover'', ''dewpoint'', ''humidity'', ''pressure'', ''rainrate'',
     ''skybrightness'', ''skyquality'', ''skytemperature'', ''starfwhm'', ''temperature'',
     ''winddirection'', ''windgust'', ''windspeed'']"

definition validOCSensor :: "string \<Rightarrow> bool \<Rightarrow> bool" where
  "validOCSensor name allowEmpty =
     (if name = [] then allowEmpty else to_lower name \<in> set ocSensors)"

section \<open>Handlers\<close>

type_synonym 'w command = "('w, goerror option) act"
type_synonym 'w read = "('w, goerror + any) act"
type_synonym 'w put_table = "(string \<times> 'w command) list"
type_synonym 'w get_table = "(string \<times> 'w read) list"

text \<open>\<open>return x.M(), true, nil\<close> and \<open>v, err := x.M(); return v, true, err\<close>.\<close>

definition val :: "('a \<Rightarrow> any) \<Rightarrow> ('w, 'a) act \<Rightarrow> 'w read" where
  "val f m = ask m (\<lambda>x. ret (Inr (f x)))"

definition vale :: "('a \<Rightarrow> any) \<Rightarrow> ('w, goerror + 'a) act \<Rightarrow> 'w read" where
  "vale f m = ask m (\<lambda>r. ret (map_sum id f r))"

definition gateV :: "'w command \<Rightarrow> 'w read \<Rightarrow> 'w read" where
  "gateV g k = ask g (\<lambda>e. case e of Some e \<Rightarrow> ret (Inl e) | None \<Rightarrow> k)"

definition needV :: "goerror + 'a \<Rightarrow> ('a \<Rightarrow> 'w read) \<Rightarrow> 'w read" where
  "needV r k = (case r of Inl e \<Rightarrow> ret (Inl e) | Inr x \<Rightarrow> k x)"

lemma quiet_val [quiet_intros]: "quiet view m \<Longrightarrow> quiet view (val f m)"
  by (simp add: val_def quiet_ask)

lemma quiet_vale [quiet_intros]: "quiet view m \<Longrightarrow> quiet view (vale f m)"
  by (simp add: vale_def quiet_ask)

lemma quiet_gateV [quiet_intros]: "quiet view g \<Longrightarrow> quiet view k \<Longrightarrow> quiet view (gateV g k)"
  unfolding gateV_def by (rule quiet_ask) (auto split: option.split)

lemma quiet_needV [quiet_intros]:
  "(\<And>x. r = Inr x \<Longrightarrow> quiet view (k x)) \<Longrightarrow> quiet view (needV r k)"
  by (cases r) (auto simp: needV_def)

lemma gateV_apply [act_simps]:
  "gateV g k w = (case g w of (Some e, w') \<Rightarrow> (Inl e, w') | (None, w') \<Rightarrow> k w')"
  by (simp add: gateV_def ask_def split: prod.split option.split)

lemma needV_apply [act_simps]:
  "needV r k w = (case r of Inl e \<Rightarrow> (Inl e, w) | Inr x \<Rightarrow> k x w)"
  by (simp add: needV_def split: sum.split)

lemma val_apply [act_simps]: "val f m w = (case m w of (x, w') \<Rightarrow> (Inr (f x), w'))"
  by (simp add: val_def ask_def)

lemma vale_apply [act_simps]: "vale f m w = (case m w of (x, w') \<Rightarrow> (map_sum id f x, w'))"
  by (simp add: vale_def ask_def)

lemma keeps_val [keeps_intros]: "keeps P m \<Longrightarrow> keeps P (val f m)"
  by (simp add: val_def keeps_ask)

lemma keeps_vale [keeps_intros]: "keeps P m \<Longrightarrow> keeps P (vale f m)"
  by (simp add: vale_def keeps_ask)

lemma keeps_gateV [keeps_intros]: "keeps P g \<Longrightarrow> keeps P k \<Longrightarrow> keeps P (gateV g k)"
  unfolding gateV_def by (rule keeps_ask) (auto split: option.split)

lemma keeps_needV [keeps_intros]:
  "(\<And>x. r = Inr x \<Longrightarrow> keeps P (k x)) \<Longrightarrow> keeps P (needV r k)"
  by (cases r) (auto simp: needV_def)

text \<open>A property of every entry of a table holds for the entry a member selects.\<close>

lemma table_all: "list_all (\<lambda>(n, a). P a) tab \<Longrightarrow> map_of tab member = Some a \<Longrightarrow> P a"
  by (induction tab) (auto split: if_splits)

text \<open>No parameter of the request parses as NaN or an infinity, which \<open>strconv.ParseFloat\<close> accepts.\<close>

definition finite_params :: "params \<Rightarrow> bool" where
  "finite_params p \<longleftrightarrow> (\<forall>name f. reqFloat p name = Inr f \<longrightarrow> finite64 f)"

section \<open>Tables of a device type\<close>

text \<open>What the router relies on, whatever the device type: a PUT entry that reports an error has changed
  nothing observable, and a GET entry never does.  The driver locale of every type gives this contract.\<close>

locale gated_tables =
  fixes tput :: "string \<Rightarrow> params \<Rightarrow> 'w command option"
    and tget :: "string \<Rightarrow> params \<Rightarrow> 'w read option"
    and view :: "'w \<Rightarrow> 'v"
  assumes tput_blocked: "tput member p = Some a \<Longrightarrow> blocked view a"
    and tget_quiet: "tget member p = Some r \<Longrightarrow> quiet view r"
begin

lemma tput_refusal: "tput member p = Some a \<Longrightarrow> fst (a w) \<noteq> None \<Longrightarrow> view (snd (a w)) = view w"
  using tput_blocked by (simp add: blocked_def)

lemma tget_view: "tget member p = Some r \<Longrightarrow> view (snd (r w)) = view w"
  using tget_quiet by (simp add: quiet_def)

end

end
