(* ===== verification/Sim_World.thy ===== *)
theory Sim_World
  imports Gate
begin

text \<open>
  The world of a simulated device (\<open>sim/*.go\<close>): the clock and the state behind the device's mutex.
  A method holds the mutex for its whole body, so it runs at one instant: every \<open>time.Now()\<close> and
  \<open>time.Since\<close> of one body reads the same clock.  \<open>time.Sleep\<close> advances the clock.  \<open>reading\<close> is a
  getter that may settle the state first, \<open>updating\<close> a method that cannot fail.
\<close>

record 'd world =
  clock :: time
  dev :: 'd

definition reading :: "(time \<Rightarrow> 'd \<Rightarrow> 'd) \<Rightarrow> (time \<Rightarrow> 'd \<Rightarrow> 'a) \<Rightarrow> ('d world, 'a) act" where
  "reading s f w = (let d = s (clock w) (dev w) in (f (clock w) d, w\<lparr>dev := d\<rparr>))"

definition updating :: "(time \<Rightarrow> 'd \<Rightarrow> 'd) \<Rightarrow> 'd world command" where
  "updating f w = (None, w\<lparr>dev := f (clock w) (dev w)\<rparr>)"

text \<open>A getter whose body settles the state and computes the value in one go.\<close>

definition stepping :: "(time \<Rightarrow> 'd \<Rightarrow> 'a \<times> 'd) \<Rightarrow> ('d world, 'a) act" where
  "stepping f w = (case f (clock w) (dev w) of (v, d) \<Rightarrow> (v, w\<lparr>dev := d\<rparr>))"

text \<open>Indexing a slice out of range panics; the server turns a panic of a handler into a dropped
  connection, here an error.\<close>

definition index_panic :: goerror where
  "index_panic = EOther (Text ''runtime error: index out of range'')"

text \<open>Time passes between two calls of a client.\<close>

definition sleep :: "int \<Rightarrow> 'd world \<Rightarrow> 'd world" where
  "sleep d w = w\<lparr>clock := clock w + d\<rparr>"

abbreviation as_is :: "time \<Rightarrow> 'd \<Rightarrow> 'd" where
  "as_is \<equiv> \<lambda>_ d. d"

lemma reading_apply [act_simps, simp]:
  "fst (reading s f w) = f (clock w) (s (clock w) (dev w))"
  "dev (snd (reading s f w)) = s (clock w) (dev w)" "clock (snd (reading s f w)) = clock w"
  by (simp_all add: reading_def Let_def)

lemma updating_apply [act_simps, simp]:
  "fst (updating f w) = None" "dev (snd (updating f w)) = f (clock w) (dev w)"
  "clock (snd (updating f w)) = clock w"
  by (simp_all add: updating_def)

lemma stepping_apply [act_simps, simp]:
  "fst (stepping f w) = fst (f (clock w) (dev w))" "dev (snd (stepping f w)) = snd (f (clock w) (dev w))"
  "clock (snd (stepping f w)) = clock w"
  by (simp_all add: stepping_def split: prod.split)

lemma sleep_sel [simp]: "clock (sleep d w) = clock w + d" "dev (sleep d w) = dev w"
  by (simp_all add: sleep_def)

text \<open>What a client can observe is the clock and a normal form of the device state.\<close>

definition observe :: "(time \<Rightarrow> 'd \<Rightarrow> 'v) \<Rightarrow> 'd world \<Rightarrow> time \<times> 'v" where
  "observe nf w = (clock w, nf (clock w) (dev w))"

lemma quiet_reading: "(\<And>now d. nf now (s now d) = nf now d) \<Longrightarrow> quiet (observe nf) (reading s f)"
  by (simp add: quiet_def observe_def)

lemma quiet_reading_as_is [simp]: "quiet (observe nf) (reading as_is f)"
  by (simp add: quiet_def observe_def)

lemma quiet_stepping: "(\<And>now d. nf now (snd (f now d)) = nf now d) \<Longrightarrow> quiet (observe nf) (stepping f)"
  by (simp add: quiet_def observe_def)

lemma blocked_updating [blocked_intros, simp]: "blocked view (updating f)"
  by (simp add: blocked_def)

text \<open>An invariant of the state that may mention the clock, and reads and updates that keep it.\<close>

lemma keeps_reading:
  "(\<And>now d. P now d \<Longrightarrow> P now (s now d)) \<Longrightarrow> keeps (\<lambda>w. P (clock w) (dev w)) (reading s f)"
  by (simp add: keeps_def)

lemma keeps_stepping:
  "(\<And>now d. P now d \<Longrightarrow> P now (snd (f now d))) \<Longrightarrow> keeps (\<lambda>w. P (clock w) (dev w)) (stepping f)"
  by (simp add: keeps_def)

lemma keeps_updating:
  "(\<And>now d. P now d \<Longrightarrow> P now (f now d)) \<Longrightarrow> keeps (\<lambda>w. P (clock w) (dev w)) (updating f)"
  by (simp add: keeps_def)

section \<open>What a client can bring about\<close>

text \<open>The worlds that requests (accepted or refused) and the passing of time lead to.\<close>

inductive serves :: "(string \<Rightarrow> params \<Rightarrow> 'd world command option) \<Rightarrow> (string \<Rightarrow> params \<Rightarrow> 'd world read option)
    \<Rightarrow> 'd world \<Rightarrow> 'd world \<Rightarrow> bool"
  for tput tget w where
  start: "serves tput tget w w"
| wait: "serves tput tget w v \<Longrightarrow> 0 \<le> d \<Longrightarrow> serves tput tget w (sleep d v)"
| put: "serves tput tget w v \<Longrightarrow> tput member p = Some a \<Longrightarrow> serves tput tget w (snd (a v))"
| get: "serves tput tget w v \<Longrightarrow> tget member p = Some r \<Longrightarrow> serves tput tget w (snd (r v))"

lemma serves_invariant:
  assumes "serves tput tget w v" "P w" "\<And>d u. 0 \<le> d \<Longrightarrow> P u \<Longrightarrow> P (sleep d u)"
    "\<And>m p a. tput m p = Some a \<Longrightarrow> keeps P a" "\<And>m p r. tget m p = Some r \<Longrightarrow> keeps P r"
  shows "P v"
  using assms by (induction rule: serves.induct) (auto simp: keeps_def)

end
