(* ===== verification/Telescope.thy ===== *)
theory Telescope
  imports Gate
begin

text \<open>
  The Telescope interface (\<open>server/telescope.go\<close>), its gates (\<open>server/gates.go\<close>, \<open>server/gate.go\<close>)
  and its HTTP member tables (\<open>server/telescope_http.go\<close>).

  A driver is a record of acts over its own world: the getters, grouped by result type and indexed by
  the member, and \<open>tDo\<close> for the members that act on the mount.  The locale \<open>telescope_driver\<close> is what
  the HTTP layer relies on: reading has no observable effect, what a flag reports is a function of the
  observable state, and a command that reports an error has not changed it.
\<close>

section \<open>The interface\<close>

datatype tel_flag = TAtHome | TAtPark | TCanFindHome | TCanPark | TCanPulseGuide
  | TCanSetDeclinationRate | TCanSetGuideRates | TCanSetPark | TCanSetPierSide
  | TCanSetRightAscensionRate | TCanSetTracking | TCanSlew | TCanSlewAltAz | TCanSlewAltAzAsync
  | TCanSlewAsync | TCanSync | TCanSyncAltAz | TCanUnpark | TDoesRefraction | TIsPulseGuiding
  | TSlewing | TTracking

datatype tel_float = TAltitude | TApertureArea | TApertureDiameter | TAzimuth | TDeclination
  | TDeclinationRate | TFocalLength | TGuideRateDeclination | TGuideRateRightAscension
  | TRightAscension | TRightAscensionRate | TSiderealTime | TSiteElevation | TSiteLatitude
  | TSiteLongitude

datatype tel_int = TAlignmentMode | TEquatorialSystem | TSideOfPier | TSlewSettleTime | TTrackingRate

datatype tel_target = TTargetDeclination | TTargetRightAscension

datatype tel_cmd =
    SetDeclinationRate f64 | SetDoesRefraction bool | SetGuideRateDeclination f64
  | SetGuideRateRightAscension f64 | SetRightAscensionRate f64 | SetSideOfPier int
  | SetSiteElevation f64 | SetSiteLatitude f64 | SetSiteLongitude f64 | SetSlewSettleTime int
  | SetTargetDeclination f64 | SetTargetRightAscension f64 | SetTracking bool | SetTrackingRate int
  | SetUTCDate string
  | AbortSlew | FindHome | MoveAxis int f64 | Park | PulseGuide int int | SetPark
  | SlewToAltAz f64 f64 | SlewToAltAzAsync f64 f64 | SlewToCoordinates f64 f64
  | SlewToCoordinatesAsync f64 f64 | SlewToTarget | SlewToTargetAsync
  | SyncToAltAz f64 f64 | SyncToCoordinates f64 f64 | SyncToTarget | Unpark

record 'w telescope =
  tFlag :: "tel_flag \<Rightarrow> ('w, bool) act"
  tFloat :: "tel_float \<Rightarrow> ('w, f64) act"
  tInt :: "tel_int \<Rightarrow> ('w, int) act"
  tTarget :: "tel_target \<Rightarrow> ('w, goerror + f64) act"
  tUTCDate :: "('w, string) act"
  tTrackingRates :: "('w, int list) act"
  tAxisRates :: "int \<Rightarrow> ('w, AxisRate list) act"
  tCanMoveAxis :: "int \<Rightarrow> ('w, bool) act"
  tDestinationSideOfPier :: "f64 \<Rightarrow> f64 \<Rightarrow> ('w, goerror + int) act"
  tDo :: "tel_cmd \<Rightarrow> 'w command"

section \<open>Gates\<close>

fun inAxisRates :: "AxisRate list \<Rightarrow> f64 \<Rightarrow> bool" where
  "inAxisRates [] r = False"
| "inAxisRates (ar # ars) r = (r \<ge> Minimum ar \<and> r \<le> Maximum ar \<or> inAxisRates ars r)"

definition validAxisRate :: "'w telescope \<Rightarrow> int \<Rightarrow> f64 \<Rightarrow> ('w, bool) act" where
  "validAxisRate t axis rate =
     (if eq64 rate 0 then ret True
      else ask (tAxisRates t axis) (\<lambda>ars. ret (inAxisRates ars \<bar>rate\<bar>)))"

definition GateAxisRate :: "'w telescope \<Rightarrow> int \<Rightarrow> f64 \<Rightarrow> 'w command" where
  "GateAxisRate t axis rate =
     ask (validAxisRate t axis rate) (\<lambda>ok. if \<not> ok
       then fail (invalidValuef ''Rate %g is outside the axis' supported ranges'' [FmtFloat rate])
       else pass)"

definition validDriveRate :: "'w telescope \<Rightarrow> int \<Rightarrow> ('w, bool) act" where
  "validDriveRate t dr = ask (tTrackingRates t) (\<lambda>rates. ret (dr \<in> set rates))"

definition GateRateOffset :: "'w telescope \<Rightarrow> tel_flag \<Rightarrow> string \<Rightarrow> 'w command" where
  "GateRateOffset t flag member =
     ask (tFlag t flag) (\<lambda>can. if \<not> can then fail (notImplErr member)
      else ask (tInt t TTrackingRate) (\<lambda>r.
        if r \<noteq> DriveSidereal
        then fail (invalidOpErr (member @ '' can only be set when tracking at the Sidereal rate''))
        else pass))"

definition GateTelescopeDeclinationRate :: "'w telescope \<Rightarrow> 'w command" where
  "GateTelescopeDeclinationRate t = GateRateOffset t TCanSetDeclinationRate ''DeclinationRate''"

definition GateTelescopeRightAscensionRate :: "'w telescope \<Rightarrow> 'w command" where
  "GateTelescopeRightAscensionRate t =
     GateRateOffset t TCanSetRightAscensionRate ''RightAscensionRate''"

definition GateTelescopeGuideRate :: "'w telescope \<Rightarrow> string \<Rightarrow> f64 \<Rightarrow> 'w command" where
  "GateTelescopeGuideRate t member rate =
     ask (tFlag t TCanSetGuideRates) (\<lambda>can.
       if \<not> can then fail (notImplErr member) else ret (nonNegative member rate))"

definition GateTelescopeSideOfPier :: "'w telescope \<Rightarrow> int \<Rightarrow> 'w command" where
  "GateTelescopeSideOfPier t side =
     ask (tFlag t TCanSetPierSide) (\<lambda>can.
       if \<not> can then fail (notImplErr ''SideOfPier'')
       else if side \<noteq> PierEast \<and> side \<noteq> PierWest
       then fail (invalidValuef ''SideOfPier %d is not a valid pier side'' [FmtInt side])
       else pass)"

definition GateTelescopeSiteElevation :: "f64 \<Rightarrow> goerror option" where
  "GateTelescopeSiteElevation m = invalidRange ''SiteElevation'' m (-300) 10000"

definition GateTelescopeSiteLatitude :: "f64 \<Rightarrow> goerror option" where
  "GateTelescopeSiteLatitude d = invalidRange ''SiteLatitude'' d (-90) 90"

definition GateTelescopeSiteLongitude :: "f64 \<Rightarrow> goerror option" where
  "GateTelescopeSiteLongitude d = invalidRange ''SiteLongitude'' d (-180) 180"

definition GateTelescopeSlewSettleTime :: "int \<Rightarrow> goerror option" where
  "GateTelescopeSlewSettleTime secnum =
     (if secnum < 0 then Some (invalidValuef ''SlewSettleTime %d is negative'' [FmtInt secnum])
      else None)"

definition GateTelescopeTargetDeclination :: "f64 \<Rightarrow> goerror option" where
  "GateTelescopeTargetDeclination deg = invalidRange ''TargetDeclination'' deg (-90) 90"

definition GateTelescopeTargetRightAscension :: "f64 \<Rightarrow> goerror option" where
  "GateTelescopeTargetRightAscension hours =
     (if hours < 0 \<or> hours \<ge> 24
      then Some (invalidValuef ''TargetRightAscension %g is outside the valid range 0 to 23.999''
                   [FmtFloat hours])
      else None)"

definition GateTelescopeTracking :: "'w telescope \<Rightarrow> bool \<Rightarrow> 'w command" where
  "GateTelescopeTracking t on =
     ask (tFlag t TCanSetTracking) (\<lambda>can.
       if \<not> can then fail (notImplErr ''Tracking'')
       else if on then ask (tFlag t TAtPark) (\<lambda>p.
         if p then fail (parkedErr ''Tracking = true'') else pass)
       else pass)"

definition GateTelescopeTrackingRate :: "'w telescope \<Rightarrow> int \<Rightarrow> 'w command" where
  "GateTelescopeTrackingRate t dr =
     ask (validDriveRate t dr) (\<lambda>ok.
       if ok then pass
       else fail (invalidValuef ''TrackingRate %d is not a supported drive rate'' [FmtInt dr]))"

definition GateParked :: "'w telescope \<Rightarrow> string \<Rightarrow> 'w command" where
  "GateParked t member =
     ask (tFlag t TAtPark) (\<lambda>p. if p then fail (parkedErr member) else pass)"

definition GateCan :: "'w telescope \<Rightarrow> tel_flag \<Rightarrow> string \<Rightarrow> 'w command" where
  "GateCan t flag member =
     ask (tFlag t flag) (\<lambda>can. if \<not> can then fail (notImplErr member) else pass)"

definition GateTelescopeAbortSlew :: "'w telescope \<Rightarrow> 'w command" where
  "GateTelescopeAbortSlew t = GateParked t ''AbortSlew''"

definition GateTelescopeFindHome :: "'w telescope \<Rightarrow> 'w command" where
  "GateTelescopeFindHome t = gate (GateCan t TCanFindHome ''FindHome'') (GateParked t ''FindHome'')"

definition GateTelescopeMoveAxis :: "'w telescope \<Rightarrow> int \<Rightarrow> f64 \<Rightarrow> 'w command" where
  "GateTelescopeMoveAxis t axis rate =
     (if axis < AxisPrimary \<or> axis > AxisTertiary
      then fail (invalidValuef ''Axis %d is not a valid telescope axis'' [FmtInt axis])
      else ask (tCanMoveAxis t axis) (\<lambda>can.
        if \<not> can then fail (notImplErr ''MoveAxis'')
        else gate (GateAxisRate t axis rate) (GateParked t ''MoveAxis'')))"

definition GateTelescopePark :: "'w telescope \<Rightarrow> 'w command" where
  "GateTelescopePark t = GateCan t TCanPark ''Park''"

definition GateTelescopeUnpark :: "'w telescope \<Rightarrow> 'w command" where
  "GateTelescopeUnpark t = GateCan t TCanUnpark ''Unpark''"

definition GateTelescopeSetPark :: "'w telescope \<Rightarrow> 'w command" where
  "GateTelescopeSetPark t = GateCan t TCanSetPark ''SetPark''"

definition GateTelescopePulseGuide :: "'w telescope \<Rightarrow> int \<Rightarrow> int \<Rightarrow> 'w command" where
  "GateTelescopePulseGuide t dir duration =
     gate (GateCan t TCanPulseGuide ''PulseGuide'')
       (if \<not> validGuideDirection dir
        then fail (invalidValuef ''Direction %d is not a valid guide direction'' [FmtInt dir])
        else if duration < 0
        then fail (invalidValuef ''Duration %d is negative'' [FmtInt duration])
        else GateParked t ''PulseGuide'')"

definition validRADec :: "f64 \<Rightarrow> f64 \<Rightarrow> goerror option" where
  "validRADec ra dec =
     (if ra < 0 \<or> ra \<ge> 24
      then Some (invalidValuef ''RightAscension %g is outside the valid range 0 to 23.999'' [FmtFloat ra])
      else invalidRange ''Declination'' dec (-90) 90)"

definition validAltAz :: "f64 \<Rightarrow> f64 \<Rightarrow> goerror option" where
  "validAltAz az alt =
     (case invalidRange ''Azimuth'' az 0 360 of
        Some e \<Rightarrow> Some e
      | None \<Rightarrow> invalidRange ''Altitude'' alt (-90) 90)"

definition GateTelescopeSlewToCoordinates ::
    "'w telescope \<Rightarrow> string \<Rightarrow> bool \<Rightarrow> f64 \<Rightarrow> f64 \<Rightarrow> 'w command" where
  "GateTelescopeSlewToCoordinates t member can ra dec =
     (if \<not> can then fail (notImplErr member)
      else gate (ret (validRADec ra dec)) (GateParked t member))"

definition GateTelescopeSlewToAltAz ::
    "'w telescope \<Rightarrow> string \<Rightarrow> bool \<Rightarrow> f64 \<Rightarrow> f64 \<Rightarrow> 'w command" where
  "GateTelescopeSlewToAltAz t member can az alt =
     (if \<not> can then fail (notImplErr member)
      else gate (ret (validAltAz az alt)) (GateParked t member))"

definition requireTargetsSet :: "'w telescope \<Rightarrow> 'w command" where
  "requireTargetsSet t =
     ask (tTarget t TTargetRightAscension) (\<lambda>r. case r of Inl e \<Rightarrow> fail e
      | Inr _ \<Rightarrow> ask (tTarget t TTargetDeclination) (\<lambda>r. case r of Inl e \<Rightarrow> fail e | Inr _ \<Rightarrow> pass))"

definition GateTelescopeSlewToTarget :: "'w telescope \<Rightarrow> string \<Rightarrow> bool \<Rightarrow> 'w command" where
  "GateTelescopeSlewToTarget t member can =
     (if \<not> can then fail (notImplErr member)
      else gate (GateParked t member) (requireTargetsSet t))"

lemmas gate_defs = GateAxisRate_def validAxisRate_def validDriveRate_def GateRateOffset_def GateTelescopeDeclinationRate_def
  GateTelescopeRightAscensionRate_def GateTelescopeGuideRate_def GateTelescopeSideOfPier_def
  GateTelescopeTracking_def GateTelescopeTrackingRate_def GateParked_def GateCan_def
  GateTelescopeAbortSlew_def GateTelescopeFindHome_def GateTelescopeMoveAxis_def
  GateTelescopePark_def GateTelescopeUnpark_def GateTelescopeSetPark_def
  GateTelescopePulseGuide_def GateTelescopeSlewToCoordinates_def GateTelescopeSlewToAltAz_def
  requireTargetsSet_def GateTelescopeSlewToTarget_def

section \<open>The PUT table\<close>

definition setTargets :: "'w telescope \<Rightarrow> f64 \<Rightarrow> f64 \<Rightarrow> 'w command" where
  "setTargets t ra dec =
     ask (tDo t (SetTargetRightAscension ra)) (\<lambda>_.
     ask (tDo t (SetTargetDeclination dec)) (\<lambda>_. pass))"

definition altAzParams :: "params \<Rightarrow> goerror + f64 \<times> f64" where
  "altAzParams p = (case reqFloat p ''Azimuth'' of Inl e \<Rightarrow> Inl e
     | Inr az \<Rightarrow> (case reqFloat p ''Altitude'' of Inl e \<Rightarrow> Inl e | Inr alt \<Rightarrow> Inr (az, alt)))"

definition raDecParams :: "params \<Rightarrow> goerror + f64 \<times> f64" where
  "raDecParams p = (case reqFloat p ''RightAscension'' of Inl e \<Rightarrow> Inl e
     | Inr ra \<Rightarrow> (case reqFloat p ''Declination'' of Inl e \<Rightarrow> Inl e | Inr dec \<Rightarrow> Inr (ra, dec)))"

definition telescope_setters :: "'w telescope \<Rightarrow> params \<Rightarrow> 'w put_table" where
  "telescope_setters t p =
    [(''declinationrate'', need (reqFloat p ''DeclinationRate'') (\<lambda>f.
        gate (GateTelescopeDeclinationRate t) (tDo t (SetDeclinationRate f)))),
     (''doesrefraction'', need (reqBool p ''DoesRefraction'') (\<lambda>b. tDo t (SetDoesRefraction b))),
     (''guideratedeclination'', need (reqFloat p ''GuideRateDeclination'') (\<lambda>f.
        gate (GateTelescopeGuideRate t ''GuideRateDeclination'' f) (tDo t (SetGuideRateDeclination f)))),
     (''guideraterightascension'', need (reqFloat p ''GuideRateRightAscension'') (\<lambda>f.
        gate (GateTelescopeGuideRate t ''GuideRateRightAscension'' f)
          (tDo t (SetGuideRateRightAscension f)))),
     (''rightascensionrate'', need (reqFloat p ''RightAscensionRate'') (\<lambda>f.
        gate (GateTelescopeRightAscensionRate t) (tDo t (SetRightAscensionRate f)))),
     (''sideofpier'', need (reqInt p ''SideOfPier'') (\<lambda>n.
        gate (GateTelescopeSideOfPier t n) (tDo t (SetSideOfPier n)))),
     (''siteelevation'', need (reqFloat p ''SiteElevation'') (\<lambda>f.
        gate (ret (GateTelescopeSiteElevation f)) (tDo t (SetSiteElevation f)))),
     (''sitelatitude'', need (reqFloat p ''SiteLatitude'') (\<lambda>f.
        gate (ret (GateTelescopeSiteLatitude f)) (tDo t (SetSiteLatitude f)))),
     (''sitelongitude'', need (reqFloat p ''SiteLongitude'') (\<lambda>f.
        gate (ret (GateTelescopeSiteLongitude f)) (tDo t (SetSiteLongitude f)))),
     (''slewsettletime'', need (reqInt p ''SlewSettleTime'') (\<lambda>n.
        gate (ret (GateTelescopeSlewSettleTime n)) (tDo t (SetSlewSettleTime n)))),
     (''targetdeclination'', need (reqFloat p ''TargetDeclination'') (\<lambda>f.
        gate (ret (GateTelescopeTargetDeclination f)) (tDo t (SetTargetDeclination f)))),
     (''targetrightascension'', need (reqFloat p ''TargetRightAscension'') (\<lambda>f.
        gate (ret (GateTelescopeTargetRightAscension f)) (tDo t (SetTargetRightAscension f)))),
     (''tracking'', need (reqBool p ''Tracking'') (\<lambda>b.
        gate (GateTelescopeTracking t b) (tDo t (SetTracking b)))),
     (''trackingrate'', need (reqInt p ''TrackingRate'') (\<lambda>n.
        gate (GateTelescopeTrackingRate t n) (tDo t (SetTrackingRate n)))),
     (''utcdate'', need (reqString p ''UTCDate'') (\<lambda>v.
        gate (ret (parseUTCDate v)) (tDo t (SetUTCDate v))))]"

definition telescope_methods :: "'w telescope \<Rightarrow> params \<Rightarrow> 'w put_table" where
  "telescope_methods t p =
    [(''abortslew'', gate (GateTelescopeAbortSlew t) (tDo t AbortSlew)),
     (''findhome'', gate (GateTelescopeFindHome t) (tDo t FindHome)),
     (''moveaxis'', need (reqInt p ''Axis'') (\<lambda>axis. need (reqFloat p ''Rate'') (\<lambda>rate.
        gate (GateTelescopeMoveAxis t axis rate) (tDo t (MoveAxis axis rate))))),
     (''park'', gate (GateTelescopePark t) (tDo t Park)),
     (''pulseguide'', need (reqInt p ''Direction'') (\<lambda>dir. need (reqInt p ''Duration'') (\<lambda>dur.
        gate (GateTelescopePulseGuide t dir dur) (tDo t (PulseGuide dir dur))))),
     (''setpark'', gate (GateTelescopeSetPark t) (tDo t SetPark)),
     (''slewtoaltaz'', need (altAzParams p) (\<lambda>(az, alt). ask (tFlag t TCanSlewAltAz) (\<lambda>can.
        gate (GateTelescopeSlewToAltAz t ''SlewToAltAz'' can az alt) (tDo t (SlewToAltAz az alt))))),
     (''slewtoaltazasync'', need (altAzParams p) (\<lambda>(az, alt). ask (tFlag t TCanSlewAltAzAsync) (\<lambda>can.
        gate (GateTelescopeSlewToAltAz t ''SlewToAltAzAsync'' can az alt)
          (tDo t (SlewToAltAzAsync az alt))))),
     (''slewtocoordinates'', need (raDecParams p) (\<lambda>(ra, dec). ask (tFlag t TCanSlew) (\<lambda>can.
        gate (GateTelescopeSlewToCoordinates t ''SlewToCoordinates'' can ra dec)
          (gate (tDo t (SlewToCoordinates ra dec)) (setTargets t ra dec))))),
     (''slewtocoordinatesasync'', need (raDecParams p) (\<lambda>(ra, dec). ask (tFlag t TCanSlewAsync) (\<lambda>can.
        gate (GateTelescopeSlewToCoordinates t ''SlewToCoordinatesAsync'' can ra dec)
          (gate (tDo t (SlewToCoordinatesAsync ra dec)) (setTargets t ra dec))))),
     (''slewtotarget'', ask (tFlag t TCanSlew) (\<lambda>can.
        gate (GateTelescopeSlewToTarget t ''SlewToTarget'' can) (tDo t SlewToTarget))),
     (''slewtotargetasync'', ask (tFlag t TCanSlewAsync) (\<lambda>can.
        gate (GateTelescopeSlewToTarget t ''SlewToTargetAsync'' can) (tDo t SlewToTargetAsync))),
     (''synctoaltaz'', need (altAzParams p) (\<lambda>(az, alt). ask (tFlag t TCanSyncAltAz) (\<lambda>can.
        gate (GateTelescopeSlewToAltAz t ''SyncToAltAz'' can az alt) (tDo t (SyncToAltAz az alt))))),
     (''synctocoordinates'', need (raDecParams p) (\<lambda>(ra, dec). ask (tFlag t TCanSync) (\<lambda>can.
        gate (GateTelescopeSlewToCoordinates t ''SyncToCoordinates'' can ra dec)
          (gate (tDo t (SyncToCoordinates ra dec)) (setTargets t ra dec))))),
     (''synctotarget'', ask (tFlag t TCanSync) (\<lambda>can.
        gate (GateTelescopeSlewToTarget t ''SyncToTarget'' can) (tDo t SyncToTarget))),
     (''unpark'', gate (GateTelescopeUnpark t) (tDo t Unpark))]"

definition telescopePut :: "string \<Rightarrow> 'w telescope \<Rightarrow> params \<Rightarrow> 'w command option" where
  "telescopePut member t p = map_of (telescope_setters t p @ telescope_methods t p) member"

section \<open>The GET table\<close>

definition offset_rate :: "'w telescope \<Rightarrow> tel_float \<Rightarrow> 'w read" where
  "offset_rate t r = ask (tInt t TTrackingRate) (\<lambda>dr.
     if dr \<noteq> DriveSidereal then ret (Inr (VFloat 0)) else val VFloat (tFloat t r))"

definition telescope_flags :: "'w telescope \<Rightarrow> 'w get_table" where
  "telescope_flags t = map (\<lambda>(n, f). (n, val VBool (tFlag t f)))
    [(''athome'', TAtHome), (''atpark'', TAtPark), (''canfindhome'', TCanFindHome),
     (''canpark'', TCanPark), (''canpulseguide'', TCanPulseGuide),
     (''cansetdeclinationrate'', TCanSetDeclinationRate), (''cansetguiderates'', TCanSetGuideRates),
     (''cansetpark'', TCanSetPark), (''cansetpierside'', TCanSetPierSide),
     (''cansetrightascensionrate'', TCanSetRightAscensionRate), (''cansettracking'', TCanSetTracking),
     (''canslew'', TCanSlew), (''canslewaltaz'', TCanSlewAltAz),
     (''canslewaltazasync'', TCanSlewAltAzAsync), (''canslewasync'', TCanSlewAsync),
     (''cansync'', TCanSync), (''cansyncaltaz'', TCanSyncAltAz), (''canunpark'', TCanUnpark),
     (''doesrefraction'', TDoesRefraction), (''ispulseguiding'', TIsPulseGuiding),
     (''slewing'', TSlewing), (''tracking'', TTracking)]"

definition telescope_numbers :: "'w telescope \<Rightarrow> 'w get_table" where
  "telescope_numbers t =
    [(''alignmentmode'', val VInt (tInt t TAlignmentMode)),
     (''equatorialsystem'', val VInt (tInt t TEquatorialSystem)),
     (''sideofpier'', val VInt (tInt t TSideOfPier)),
     (''slewsettletime'', val VInt (tInt t TSlewSettleTime)),
     (''trackingrate'', val VInt (tInt t TTrackingRate)),
     (''declinationrate'', offset_rate t TDeclinationRate),
     (''rightascensionrate'', offset_rate t TRightAscensionRate)] @
    map (\<lambda>(n, f). (n, val VFloat (tFloat t f)))
    [(''altitude'', TAltitude), (''aperturearea'', TApertureArea),
     (''aperturediameter'', TApertureDiameter), (''azimuth'', TAzimuth),
     (''declination'', TDeclination), (''focallength'', TFocalLength),
     (''guideratedeclination'', TGuideRateDeclination),
     (''guideraterightascension'', TGuideRateRightAscension),
     (''rightascension'', TRightAscension), (''siderealtime'', TSiderealTime),
     (''siteelevation'', TSiteElevation), (''sitelatitude'', TSiteLatitude),
     (''sitelongitude'', TSiteLongitude)]"

definition telescope_others :: "'w telescope \<Rightarrow> params \<Rightarrow> 'w get_table" where
  "telescope_others t p =
    [(''targetdeclination'', vale VFloat (tTarget t TTargetDeclination)),
     (''targetrightascension'', vale VFloat (tTarget t TTargetRightAscension)),
     (''trackingrates'', val VInts (tTrackingRates t)),
     (''utcdate'', val VStr (tUTCDate t)),
     (''axisrates'', needV (reqInt p ''Axis'') (\<lambda>axis. val VRates (tAxisRates t axis))),
     (''canmoveaxis'', needV (reqInt p ''Axis'') (\<lambda>axis. val VBool (tCanMoveAxis t axis))),
     (''destinationsideofpier'', needV (raDecParams p) (\<lambda>(ra, dec).
        gateV (ret (validRADec ra dec)) (vale VInt (tDestinationSideOfPier t ra dec))))]"

definition telescopeGet :: "string \<Rightarrow> 'w telescope \<Rightarrow> params \<Rightarrow> 'w read option" where
  "telescopeGet member t p =
     map_of (telescope_flags t @ telescope_numbers t @ telescope_others t p) member"


section \<open>What the HTTP layer relies on\<close>

lemma setTargets_None [simp]: "fst (setTargets t ra dec w) = None"
  by (simp add: setTargets_def ask_def split: prod.split)

text \<open>The members that move the mount, which a parked mount must refuse.\<close>

definition motion_members :: "string list" where
  "motion_members = [''abortslew'', ''findhome'', ''moveaxis'', ''pulseguide'', ''slewtoaltaz'',
     ''slewtoaltazasync'', ''slewtocoordinates'', ''slewtocoordinatesasync'', ''slewtotarget'',
     ''slewtotargetasync'', ''synctoaltaz'', ''synctocoordinates'', ''synctotarget'']"

text \<open>Reading keeps an invariant; then so do the gates, which only read.\<close>

locale telescope_reads =
  fixes t :: "'w telescope" and P :: "'w \<Rightarrow> bool"
  assumes flag_keeps: "keeps P (tFlag t f)"
    and int_keeps: "keeps P (tInt t i)"
    and target_keeps: "keeps P (tTarget t g)"
    and rates_keeps: "keeps P (tTrackingRates t)"
    and axis_keeps: "keeps P (tAxisRates t axis)"
    and move_keeps: "keeps P (tCanMoveAxis t axis)"
begin

lemmas read_keeps = flag_keeps int_keeps target_keeps rates_keeps axis_keeps move_keeps

lemma gate_keeps:
  "keeps P (GateAxisRate t axis r)" "keeps P (GateRateOffset t fl m)"
  "keeps P (GateTelescopeDeclinationRate t)" "keeps P (GateTelescopeRightAscensionRate t)"
  "keeps P (GateTelescopeGuideRate t m r)" "keeps P (GateTelescopeSideOfPier t n)"
  "keeps P (GateTelescopeTracking t b)" "keeps P (GateTelescopeTrackingRate t n)"
  "keeps P (GateParked t m)" "keeps P (GateCan t fl m)" "keeps P (requireTargetsSet t)"
  by (simp_all add: gate_defs keeps_ask read_keeps split: sum.split)

lemma method_gate_keeps:
  "keeps P (GateTelescopeAbortSlew t)" "keeps P (GateTelescopeFindHome t)"
  "keeps P (GateTelescopeMoveAxis t axis r)" "keeps P (GateTelescopePark t)"
  "keeps P (GateTelescopeUnpark t)" "keeps P (GateTelescopeSetPark t)"
  "keeps P (GateTelescopePulseGuide t n dur)"
  "keeps P (GateTelescopeSlewToCoordinates t m can ra dec)"
  "keeps P (GateTelescopeSlewToAltAz t m can az alt)"
  "keeps P (GateTelescopeSlewToTarget t m can)"
  by (simp_all add: GateTelescopeAbortSlew_def GateTelescopeFindHome_def GateTelescopeMoveAxis_def
      GateTelescopePark_def GateTelescopeUnpark_def GateTelescopeSetPark_def
      GateTelescopePulseGuide_def GateTelescopeSlewToCoordinates_def GateTelescopeSlewToAltAz_def
      GateTelescopeSlewToTarget_def keeps_gate keeps_ask gate_keeps read_keeps)

end

section \<open>Keeping an invariant\<close>

definition ra_ok :: "f64 \<Rightarrow> bool" where
  "ra_ok x \<longleftrightarrow> 0 \<le> x \<and> x < 24"

definition dec_ok :: "f64 \<Rightarrow> bool" where
  "dec_ok x \<longleftrightarrow> -90 \<le> x \<and> x \<le> 90"

lemma ra_ok_iff: "ra_ok x \<longleftrightarrow> (\<exists>r. x = Fin r \<and> 0 \<le> r \<and> r < 24)"
  by (cases x) (auto simp: ra_ok_def less_eq_f64_def less_f64_def eq64_def)

lemma dec_ok_iff: "dec_ok x \<longleftrightarrow> (\<exists>r. x = Fin r \<and> -90 \<le> r \<and> r \<le> 90)"
  by (cases x) (auto simp: dec_ok_def less_eq_f64_def less_f64_def eq64_def)

lemma ra_ok_Fin [simp]: "ra_ok (Fin r) \<longleftrightarrow> 0 \<le> r \<and> r < 24"
  by (simp add: ra_ok_iff)

lemma dec_ok_Fin [simp]: "dec_ok (Fin r) \<longleftrightarrow> -90 \<le> r \<and> r \<le> 90"
  by (simp add: dec_ok_iff)

text \<open>The arguments a command must have been given; the gates see to the ranges.\<close>

fun args_ok :: "tel_cmd \<Rightarrow> bool" where
  "args_ok (SetDeclinationRate v) = finite64 v"
| "args_ok (SetGuideRateDeclination v) = finite64 v"
| "args_ok (SetGuideRateRightAscension v) = finite64 v"
| "args_ok (SetRightAscensionRate v) = finite64 v"
| "args_ok (SetTargetDeclination v) = dec_ok v"
| "args_ok (SetTargetRightAscension v) = ra_ok v"
| "args_ok (MoveAxis axis rate) = finite64 rate"
| "args_ok (SlewToCoordinates ra dec) = (ra_ok ra \<and> dec_ok dec)"
| "args_ok (SlewToCoordinatesAsync ra dec) = (ra_ok ra \<and> dec_ok dec)"
| "args_ok (SyncToCoordinates ra dec) = (ra_ok ra \<and> dec_ok dec)"
| "args_ok _ = True"

lemma validRADec_None:
  "validRADec ra dec = None \<Longrightarrow> finite64 ra \<Longrightarrow> finite64 dec \<Longrightarrow> ra_ok ra \<and> dec_ok dec"
  by (auto simp: validRADec_def invalidRange_def finite64_iff split: if_splits)

lemma keeps_radec_gate:
  assumes "keeps P (GateParked t m)" "finite64 ra" "finite64 dec"
    "ra_ok ra \<Longrightarrow> dec_ok dec \<Longrightarrow> keeps P k"
  shows "keeps P (gate (GateTelescopeSlewToCoordinates t m can ra dec) k)"
  using assms validRADec_None [of ra dec]
  by (simp add: GateTelescopeSlewToCoordinates_def gate_assoc keeps_gate_ret keeps_gate)

text \<open>A driver whose commands keep \<open>P\<close> when called with arguments in range keeps \<open>P\<close> under every
  request: the gates are strong enough.\<close>

locale telescope_invariant = telescope_reads +
  assumes do_keeps: "args_ok c \<Longrightarrow> keeps P (tDo t c)"
begin

lemma setTargets_keeps: "ra_ok ra \<Longrightarrow> dec_ok dec \<Longrightarrow> keeps P (setTargets t ra dec)"
  by (simp add: setTargets_def keeps_ask do_keeps)

lemma setters_keep:
  assumes "finite_params p"
  shows "list_all (\<lambda>(n, a). keeps P a) (telescope_setters t p)"
proof -
  have fin: "finite64 f" if "reqFloat p name = Inr f" for name f
    using assms that by (auto simp: finite_params_def)
  have ra: "GateTelescopeTargetRightAscension f = None \<Longrightarrow> finite64 f \<Longrightarrow> ra_ok f" for f
    by (auto simp: GateTelescopeTargetRightAscension_def finite64_iff split: if_splits)
  have dec: "GateTelescopeTargetDeclination f = None \<Longrightarrow> finite64 f \<Longrightarrow> dec_ok f" for f
    by (auto simp: GateTelescopeTargetDeclination_def invalidRange_def finite64_iff split: if_splits)
  show ?thesis
    by (simp add: telescope_setters_def keeps_need keeps_gate keeps_gate_ret gate_keeps do_keeps
        fin ra dec)
qed

lemma methods_keep:
  assumes "finite_params p"
  shows "list_all (\<lambda>(n, a). keeps P a) (telescope_methods t p)"
proof -
  have fin: "finite64 f" if "reqFloat p name = Inr f" for name f
    using assms that by (auto simp: finite_params_def)
  have radec: "finite64 ra \<and> finite64 dec" if "raDecParams p = Inr (ra, dec)" for ra dec
    using that fin by (auto simp: raDecParams_def split: sum.splits)
  show ?thesis
    by (simp add: telescope_methods_def keeps_need keeps_gate keeps_ask method_gate_keeps do_keeps
        flag_keeps fin radec keeps_radec_gate gate_keeps setTargets_keeps split: prod.split)
qed

lemma put_keeps:
  assumes "telescopePut member t p = Some a" "finite_params p"
  shows "keeps P a"
  using assms(1) unfolding telescopePut_def
  by (erule_tac table_all [where P = "keeps P", rotated])
    (simp add: setters_keep methods_keep assms(2))

end

text \<open>The commands a driver may be called with: the axis of \<open>MoveAxis\<close> is one of the three.\<close>

fun cmd_ok :: "tel_cmd \<Rightarrow> bool" where
  "cmd_ok (MoveAxis axis rate) \<longleftrightarrow> AxisPrimary \<le> axis \<and> axis \<le> AxisTertiary"
| "cmd_ok _ \<longleftrightarrow> True"

locale telescope_driver =
  fixes t :: "'w telescope" and view :: "'w \<Rightarrow> 'v"
  assumes flag_quiet [quiet_intros]: "quiet view (tFlag t f)"
    and float_quiet [quiet_intros]: "quiet view (tFloat t x)"
    and int_quiet [quiet_intros]: "quiet view (tInt t i)"
    and target_quiet [quiet_intros]: "quiet view (tTarget t g)"
    and utc_quiet [quiet_intros]: "quiet view (tUTCDate t)"
    and rates_quiet [quiet_intros]: "quiet view (tTrackingRates t)"
    and axis_quiet [quiet_intros]: "quiet view (tAxisRates t axis)"
    and move_quiet [quiet_intros]: "quiet view (tCanMoveAxis t axis)"
    and side_quiet [quiet_intros]: "quiet view (tDestinationSideOfPier t ra dec)"
    and park_view: "view w = view w' \<Longrightarrow> fst (tFlag t TAtPark w) = fst (tFlag t TAtPark w')"
    and do_blocked: "cmd_ok c \<Longrightarrow> blocked view (tDo t c)"
begin

sublocale reads: telescope_reads t "\<lambda>w. view w = v" for v
  using flag_quiet int_quiet target_quiet rates_quiet axis_quiet move_quiet
  by unfold_locales (simp_all add: quiet_keeps)

lemma gate_quiet [quiet_intros]:
  "quiet view (GateAxisRate t axis r)" "quiet view (GateRateOffset t fl m)"
  "quiet view (GateTelescopeDeclinationRate t)" "quiet view (GateTelescopeRightAscensionRate t)"
  "quiet view (GateTelescopeGuideRate t m r)" "quiet view (GateTelescopeSideOfPier t n)"
  "quiet view (GateTelescopeTracking t b)" "quiet view (GateTelescopeTrackingRate t n)"
  "quiet view (GateParked t m)" "quiet view (GateCan t fl m)" "quiet view (requireTargetsSet t)"
  by (simp_all add: quiet_keeps reads.gate_keeps)

lemma method_gate_quiet [quiet_intros]:
  "quiet view (GateTelescopeAbortSlew t)" "quiet view (GateTelescopeFindHome t)"
  "quiet view (GateTelescopeMoveAxis t axis r)" "quiet view (GateTelescopePark t)"
  "quiet view (GateTelescopeUnpark t)" "quiet view (GateTelescopeSetPark t)"
  "quiet view (GateTelescopePulseGuide t n dur)"
  "quiet view (GateTelescopeSlewToCoordinates t m can ra dec)"
  "quiet view (GateTelescopeSlewToAltAz t m can az alt)"
  "quiet view (GateTelescopeSlewToTarget t m can)"
  by (simp_all add: quiet_keeps reads.method_gate_keeps)

lemma setters_blocked: "list_all (\<lambda>(n, a). blocked view a) (telescope_setters t p)"
  by (simp add: telescope_setters_def blocked_gate blocked_need gate_quiet do_blocked)

lemma moveaxis_blocked: "blocked view (gate (GateTelescopeMoveAxis t axis r) (tDo t (MoveAxis axis r)))"
proof (cases "axis < AxisPrimary \<or> axis > AxisTertiary")
  case True
  then show ?thesis by (simp add: GateTelescopeMoveAxis_def)
next
  case False
  then show ?thesis by (intro blocked_gate method_gate_quiet do_blocked) simp
qed

lemma methods_blocked: "list_all (\<lambda>(n, a). blocked view a) (telescope_methods t p)"
  by (simp add: telescope_methods_def blocked_gate blocked_need blocked_ask flag_quiet
      method_gate_quiet do_blocked moveaxis_blocked blocked_gate_total split: prod.split)

text \<open>A refused PUT changes nothing the client can observe.\<close>

lemma put_blocked: "telescopePut member t p = Some a \<Longrightarrow> blocked view a"
  unfolding telescopePut_def
  by (erule table_all [where P = "blocked view", rotated]) (simp add: setters_blocked methods_blocked)

lemma get_quiet:
  assumes "telescopeGet member t p = Some a" shows "quiet view a"
proof (rule table_all [where P = "quiet view"])
  show "map_of (telescope_flags t @ telescope_numbers t @ telescope_others t p) member = Some a"
    using assms by (simp add: telescopeGet_def)
  have "list_all (\<lambda>(n, a). quiet view a) (telescope_flags t)"
    by (simp add: telescope_flags_def quiet_val flag_quiet)
  moreover have "list_all (\<lambda>(n, a). quiet view a) (telescope_numbers t)"
    by (simp add: telescope_numbers_def offset_rate_def quiet_val quiet_ask int_quiet float_quiet)
  moreover have "list_all (\<lambda>(n, a). quiet view a) (telescope_others t p)"
    by (simp add: telescope_others_def quiet_val quiet_vale quiet_needV quiet_gateV target_quiet
        utc_quiet rates_quiet axis_quiet move_quiet side_quiet split: prod.split)
  ultimately show "list_all (\<lambda>(n, a). quiet view a)
      (telescope_flags t @ telescope_numbers t @ telescope_others t p)" by simp
qed

sublocale tables: gated_tables "\<lambda>m p. telescopePut m t p" "\<lambda>m p. telescopeGet m t p" view
  by unfold_locales (rule put_blocked get_quiet, assumption)+

text \<open>The park interlock.\<close>

abbreviation parked :: "'w \<Rightarrow> bool" where
  "parked w \<equiv> fst (tFlag t TAtPark w)"

lemma quiet_parked: "quiet view m \<Longrightarrow> keeps parked m"
  using park_view [OF quietD [of view m]] by (simp add: keeps_def)

lemma parked_refused [refused_intros]: "refused parked (GateParked t m)"
  by (auto simp: refused_def GateParked_def ask_def split: prod.split)

lemmas quiet_then = refused_gate_later [OF quiet_parked]

lemma gates_refused [refused_intros]:
  "refused parked (GateTelescopeAbortSlew t)"
  "refused parked (GateTelescopeFindHome t)"
  "refused parked (GateTelescopeMoveAxis t axis r)"
  "refused parked (GateTelescopePulseGuide t n dur)"
  "refused parked (GateTelescopeSlewToCoordinates t m can ra dec)"
  "refused parked (GateTelescopeSlewToAltAz t m can az alt)"
  "refused parked (GateTelescopeSlewToTarget t m can)"
  by (simp_all add: GateTelescopeAbortSlew_def GateTelescopeFindHome_def GateTelescopeMoveAxis_def
      GateTelescopePulseGuide_def GateTelescopeSlewToCoordinates_def GateTelescopeSlewToAltAz_def
      GateTelescopeSlewToTarget_def refused_fail parked_refused refused_gate quiet_then gate_quiet
      refused_ask [OF quiet_parked] move_quiet)

lemma put_parked:
  assumes "telescopePut member t p = Some a" "member \<in> set motion_members" "parked w"
  shows "fst (a w) \<noteq> None \<and> view (snd (a w)) = view w"
proof -
  have "list_all (\<lambda>(n, a). n \<in> set motion_members \<longrightarrow> refused parked a) (telescope_methods t p)"
    unfolding telescope_methods_def motion_members_def
    by (simp add: gates_refused refused_need refused_case refused_ask [OF quiet_parked [OF flag_quiet]]
        refused_gate split: prod.split)
  moreover have "list_all (\<lambda>(n, a). n \<notin> set motion_members) (telescope_setters t p)"
    by (simp add: telescope_setters_def motion_members_def)
  ultimately have "refused parked a" using assms(1,2)
    unfolding telescopePut_def by (auto simp: list_all_iff dest!: map_of_SomeD)
  then have "fst (a w) \<noteq> None" using assms(3) by (rule refusedD)
  moreover have "blocked view a" using assms(1) by (rule put_blocked)
  ultimately show ?thesis by (simp add: blocked_def)
qed

end

section \<open>\<open>BaseTelescope\<close>\<close>

text \<open>The defaults a driver embeds: incapable and not implemented, except the two target properties,
  which are stored and may not be read before they are set.\<close>

record base_telescope =
  btTargetRA :: f64
  btTargetDec :: f64
  btTargetRASet :: bool
  btTargetDecSet :: bool

fun bt_target :: "tel_target \<Rightarrow> (base_telescope, goerror + f64) act" where
  "bt_target TTargetDeclination b =
     (if \<not> btTargetDecSet b then (Inl (invalidOpErr ''TargetDeclination has not been set''), b)
      else (Inr (btTargetDec b), b))"
| "bt_target TTargetRightAscension b =
     (if \<not> btTargetRASet b then (Inl (invalidOpErr ''TargetRightAscension has not been set''), b)
      else (Inr (btTargetRA b), b))"

definition bt_SetTargetDeclination :: "f64 \<Rightarrow> base_telescope command" where
  "bt_SetTargetDeclination v b =
     (case invalidRange ''TargetDeclination'' v (-90) 90 of
        Some e \<Rightarrow> (Some e, b)
      | None \<Rightarrow> (None, b\<lparr>btTargetDec := v, btTargetDecSet := True\<rparr>))"

definition bt_SetTargetRightAscension :: "f64 \<Rightarrow> base_telescope command" where
  "bt_SetTargetRightAscension v b =
     (if v < 0 \<or> v \<ge> 24
      then (Some (invalidValuef ''TargetRightAscension %g is outside the valid range 0 to 23.999''
                    [FmtFloat v]), b)
      else (None, b\<lparr>btTargetRA := v, btTargetRASet := True\<rparr>))"

fun bt_do :: "tel_cmd \<Rightarrow> base_telescope command" where
  "bt_do (SetTargetDeclination v) = bt_SetTargetDeclination v"
| "bt_do (SetTargetRightAscension v) = bt_SetTargetRightAscension v"
| "bt_do _ = fail ErrNotImplemented"

fun bt_int :: "tel_int \<Rightarrow> int" where
  "bt_int TAlignmentMode = AlignGermanPolar"
| "bt_int TEquatorialSystem = EquTopocentric"
| "bt_int TSideOfPier = PierUnknown"
| "bt_int TSlewSettleTime = 0"
| "bt_int TTrackingRate = DriveSidereal"

definition BaseTelescope :: "base_telescope telescope" where
  "BaseTelescope = \<lparr>tFlag = (\<lambda>_. ret False), tFloat = (\<lambda>_. ret 0), tInt = (\<lambda>i. ret (bt_int i)),
     tTarget = bt_target, tUTCDate = ret [], tTrackingRates = ret [DriveSidereal],
     tAxisRates = (\<lambda>_. ret []), tCanMoveAxis = (\<lambda>_. ret False),
     tDestinationSideOfPier = (\<lambda>_ _. ret (Inl ErrNotImplemented)), tDo = bt_do\<rparr>"

lemma BaseTelescope_sel [simp]:
  "tFlag BaseTelescope f = ret False" "tFloat BaseTelescope x = ret 0"
  "tInt BaseTelescope i = ret (bt_int i)" "tTarget BaseTelescope = bt_target"
  "tTrackingRates BaseTelescope = ret [DriveSidereal]" "tAxisRates BaseTelescope axis = ret []"
  "tCanMoveAxis BaseTelescope axis = ret False" "tDo BaseTelescope = bt_do"
  by (simp_all add: BaseTelescope_def)

lemma bt_target_quiet: "quiet view (bt_target g)"
  by (cases g) (simp_all add: quiet_def)

lemma bt_do_blocked: "blocked view (bt_do c)"
  by (cases c) (simp_all add: blocked_def bt_SetTargetDeclination_def bt_SetTargetRightAscension_def
      split: option.split)

interpretation base: telescope_driver BaseTelescope "\<lambda>b :: base_telescope. b"
  by unfold_locales (simp_all add: bt_target_quiet bt_do_blocked BaseTelescope_def)

lemma refused_gate_snd: "refused (\<lambda>w. True) k \<Longrightarrow> refused (\<lambda>w. True) (gate g k)"
  by (rule refused_gate_later) (simp_all add: keeps_def)

lemma refused_ask_snd: "(\<And>x. refused (\<lambda>w. True) (k x)) \<Longrightarrow> refused (\<lambda>w. True) (ask g k)"
  by (rule refused_ask) (simp_all add: keeps_def)

lemma base_put_refused:
  "list_all (\<lambda>(n, a). n = ''targetdeclination'' \<or> n = ''targetrightascension'' \<or> refused (\<lambda>w. True) a)
     (telescope_setters BaseTelescope p @ telescope_methods BaseTelescope p)"
  by (simp add: telescope_setters_def telescope_methods_def refused_gate_snd refused_fail refused_need
      refused_ask_snd split: prod.split)

text \<open>A driver that only embeds \<open>BaseTelescope\<close> is compliant without code of its own: every PUT
  except the two targets reports an error and changes nothing; a target that is accepted is stored,
  the other target is left alone, and reading a target before it was set is InvalidOperation.\<close>

lemma BaseTelescope_contract:
  assumes "telescopePut member BaseTelescope p = Some a"
    "member \<notin> {''targetdeclination'', ''targetrightascension''}"
  shows "fst (a b) \<noteq> None \<and> snd (a b) = b
    \<and> (\<forall>v. fst (bt_SetTargetDeclination v b) = None \<longrightarrow>
         fst (bt_target TTargetDeclination (snd (bt_SetTargetDeclination v b))) = Inr v
       \<and> fst (bt_target TTargetRightAscension (snd (bt_SetTargetDeclination v b)))
           = fst (bt_target TTargetRightAscension b))
    \<and> (\<not> btTargetDecSet b \<longrightarrow> (\<exists>e. fst (bt_target TTargetDeclination b) = Inl e
         \<and> err_number e = ErrNumInvalidOperation))"
proof -
  have "refused (\<lambda>w. True) a"
    using base_put_refused [of p] assms unfolding telescopePut_def
    by (auto simp: list_all_iff dest!: map_of_SomeD)
  then have "fst (a b) \<noteq> None" by (rule refusedD) simp
  moreover have "blocked (\<lambda>b. b) a" using assms(1) by (rule base.put_blocked)
  ultimately show ?thesis
    by (auto simp: blocked_def bt_SetTargetDeclination_def split: option.splits)
qed

lemma BaseTelescope_contract_witness:
  "\<exists>a. telescopePut ''park'' BaseTelescope (parseParams [] True False) = Some a
     \<and> fst (a \<lparr>btTargetRA = 0, btTargetDec = 0, btTargetRASet = False, btTargetDecSet = False\<rparr>) \<noteq> None"
proof -
  have "telescopePut ''park'' BaseTelescope (parseParams [] True False) \<noteq> None"
    by (simp add: telescopePut_def telescope_methods_def telescope_setters_def)
  then obtain a where "telescopePut ''park'' BaseTelescope (parseParams [] True False) = Some a"
    by blast
  then show ?thesis using BaseTelescope_contract [of "''park''" _ a] by fastforce
qed

end
