(* ===== verification/Sim_Telescope.thy ===== *)
theory Sim_Telescope
  imports Sim_World Telescope
begin

text \<open>
  The simulated mount (\<open>sim/telescope.go\<close>): its state, the compute-on-read motion model and every
  method, as an instance of the Telescope interface.  Motion is a function of the clock; a target slew,
  a MoveAxis drift and a tracking rate offset are folded into the resting position at each transition.
\<close>

section \<open>State\<close>

record sim_telescope =
  raSlewRate :: f64
  decSlewRate :: f64
  startRA :: f64
  startDec :: f64
  targetRA :: f64
  targetDec :: f64
  slewStart :: time
  slewing :: bool
  axisRates :: "f64 list"
  axisStart :: time
  rateEpoch :: time
  parkOnArrive :: bool
  homeOnArrive :: bool
  atPark :: bool
  atHome :: bool
  wantRA :: f64
  wantDec :: f64
  wantRASet :: bool
  wantDecSet :: bool
  altitude :: f64
  azimuth :: f64
  tracking :: bool
  trackingRate :: DriveRate
  siteLatitude :: f64
  siteLongitude :: f64
  siteElevation :: f64
  raRate :: f64
  decRate :: f64
  guideRateRA :: f64
  guideRateD :: f64
  doesRefraction :: bool
  slewSettleTime :: int
  sideOfPier :: PierSide
  pulseGuiding :: bool
  pulseUntil :: time

type_synonym tworld = "sim_telescope world"

definition noAxisRates :: "f64 list" where
  "noAxisRates = [0, 0, 0]"

definition NewTelescope :: sim_telescope where
  "NewTelescope = \<lparr>raSlewRate = 6, decSlewRate = 90, startRA = 0, startDec = 90, targetRA = 0,
     targetDec = 90, slewStart = zero_time, slewing = False, axisRates = noAxisRates,
     axisStart = zero_time, rateEpoch = zero_time, parkOnArrive = False, homeOnArrive = False,
     atPark = False, atHome = False, wantRA = 0, wantDec = 90, wantRASet = False,
     wantDecSet = False, altitude = 0, azimuth = 0, tracking = False, trackingRate = DriveSidereal,
     siteLatitude = 45, siteLongitude = 0, siteElevation = 100, raRate = 0, decRate = 0,
     guideRateRA = Fin (1/2 / 3600 * 15), guideRateD = Fin (1/2 / 3600 * 15),
     doesRefraction = False, slewSettleTime = 0, sideOfPier = PierEast, pulseGuiding = False,
     pulseUntil = zero_time\<rparr>"

definition WithSlewRate :: "f64 \<Rightarrow> sim_telescope \<Rightarrow> sim_telescope" where
  "WithSlewRate degPerSec t = t\<lparr>decSlewRate := degPerSec, raSlewRate := degPerSec / 15\<rparr>"

definition WithPosition :: "f64 \<Rightarrow> f64 \<Rightarrow> sim_telescope \<Rightarrow> sim_telescope" where
  "WithPosition raHours decDeg t =
     t\<lparr>startRA := raHours, targetRA := raHours, wantRA := raHours,
       startDec := decDeg, targetDec := decDeg, wantDec := decDeg\<rparr>"

section \<open>The motion model\<close>

definition wrap24 :: "f64 \<Rightarrow> f64" where
  "wrap24 h = (let h = Mod h 24 in if h < 0 then h + 24 else h)"

definition clampDec :: "f64 \<Rightarrow> f64" where
  "clampDec d = (if d > 90 then 90 else if d < -90 then -90 else d)"

definition tel_settleLocked :: "time \<Rightarrow> sim_telescope \<Rightarrow> sim_telescope" where
  "tel_settleLocked now t =
     (if \<not> slewing t then t
      else
        (let elapsed = since_sec now (slewStart t);
             raDist = targetRA t - startRA t;
             decDist = targetDec t - startDec t;
             raTravel = elapsed * raSlewRate t;
             decTravel = elapsed * decSlewRate t;
             raDone = (raTravel \<ge> \<bar>raDist\<bar>);
             decDone = (decTravel \<ge> \<bar>decDist\<bar>)
         in if raDone \<and> decDone
            then
              (let t = t\<lparr>startRA := targetRA t, startDec := targetDec t, slewing := False,
                         rateEpoch := now\<rparr>;
                   t = (if parkOnArrive t
                        then t\<lparr>parkOnArrive := False, atPark := True, tracking := False\<rparr> else t)
               in if homeOnArrive t then t\<lparr>homeOnArrive := False, atHome := True\<rparr> else t)
            else t))"

definition axisMovingLocked :: "sim_telescope \<Rightarrow> bool" where
  "axisMovingLocked t \<longleftrightarrow> \<not> eq64 (axisRates t ! 0) 0 \<or> \<not> eq64 (axisRates t ! 1) 0"

definition rateDriftActiveLocked :: "sim_telescope \<Rightarrow> bool" where
  "rateDriftActiveLocked t \<longleftrightarrow> tracking t \<and> trackingRate t = DriveSidereal \<and> \<not> slewing t
     \<and> \<not> axisMovingLocked t \<and> (\<not> eq64 (raRate t) 0 \<or> \<not> eq64 (decRate t) 0)
     \<and> rateEpoch t \<noteq> zero_time"

definition settleRatesLocked :: "time \<Rightarrow> sim_telescope \<Rightarrow> sim_telescope" where
  "settleRatesLocked now t =
     (let t = (if rateDriftActiveLocked t
        then (let el = since_sec now (rateEpoch t);
                  ra = wrap24 (startRA t + raRate t * el / 3600);
                  dec = clampDec (startDec t + decRate t * el / 3600)
              in t\<lparr>startRA := ra, startDec := dec, targetRA := ra, targetDec := dec\<rparr>)
        else t)
      in t\<lparr>rateEpoch := now\<rparr>)"

definition settleAxesLocked :: "time \<Rightarrow> sim_telescope \<Rightarrow> sim_telescope" where
  "settleAxesLocked now t =
     (if \<not> axisMovingLocked t then t
      else (let el = since_sec now (axisStart t);
                ra = wrap24 (startRA t + axisRates t ! 0 / 15 * el);
                dec = clampDec (startDec t + axisRates t ! 1 * el)
            in t\<lparr>startRA := ra, startDec := dec, targetRA := ra, targetDec := dec,
                 axisStart := now\<rparr>))"

definition currentRALocked :: "time \<Rightarrow> sim_telescope \<Rightarrow> f64" where
  "currentRALocked now t =
     (if axisMovingLocked t
      then wrap24 (startRA t + axisRates t ! 0 / 15 * since_sec now (axisStart t))
      else if \<not> slewing t
      then (if rateDriftActiveLocked t
            then wrap24 (startRA t + raRate t * since_sec now (rateEpoch t) / 3600)
            else startRA t)
      else (let dist = targetRA t - startRA t;
                travel = since_sec now (slewStart t) * raSlewRate t
            in if travel \<ge> \<bar>dist\<bar> then targetRA t else startRA t + Copysign travel dist))"

definition currentDecLocked :: "time \<Rightarrow> sim_telescope \<Rightarrow> f64" where
  "currentDecLocked now t =
     (if axisMovingLocked t
      then clampDec (startDec t + axisRates t ! 1 * since_sec now (axisStart t))
      else if \<not> slewing t
      then (if rateDriftActiveLocked t
            then clampDec (startDec t + decRate t * since_sec now (rateEpoch t) / 3600)
            else startDec t)
      else (let dist = targetDec t - startDec t;
                travel = since_sec now (slewStart t) * decSlewRate t
            in if travel \<ge> \<bar>dist\<bar> then targetDec t else startDec t + Copysign travel dist))"

text \<open>\<open>t.startRA = t.currentRALocked(); t.startDec = t.currentDecLocked()\<close>: the second call sees the
  first assignment, which the declination does not depend on.\<close>

definition freeze :: "time \<Rightarrow> sim_telescope \<Rightarrow> sim_telescope" where
  "freeze now t =
     (let t = t\<lparr>startRA := currentRALocked now t\<rparr> in t\<lparr>startDec := currentDecLocked now t\<rparr>)"

definition beginSlewLocked :: "time \<Rightarrow> f64 \<Rightarrow> f64 \<Rightarrow> sim_telescope \<Rightarrow> sim_telescope" where
  "beginSlewLocked now ra dec t =
     (let t = settleAxesLocked now t;
          t = t\<lparr>axisRates := noAxisRates\<rparr>;
          t = settleRatesLocked now t;
          t = freeze now t
      in t\<lparr>targetRA := ra, targetDec := dec, slewStart := now,
           slewing := (\<not> eq64 (startRA t) ra \<or> \<not> eq64 (startDec t) dec),
           atPark := False, atHome := False\<rparr>)"

section \<open>Reading the clock\<close>

definition tel_UTCDate :: "time \<Rightarrow> string" where
  "tel_UTCDate now = format_utc now"

text \<open>The seconds from year 1 to 1970, the epoch of \<open>Time.Unix\<close>.\<close>

definition unix :: "time \<Rightarrow> int" where
  "unix t = t div 1000000000 - 62135596800"

definition tel_SiderealTime :: "time \<Rightarrow> sim_telescope \<Rightarrow> f64" where
  "tel_SiderealTime now t =
     (let lon = siteLongitude t;
          jd = f64_of_int (unix now) / 86400 + Fin (24405875 / 10);
          d = jd - Fin 2451545;
          gmst = Fin (18697374558 / 1000000000) + Fin (2406570982441908 / 100000000000000) * d;
          lst = Mod (gmst + lon / 15) 24
      in if lst < 0 then lst + 24 else lst)"

definition tel_DestinationSideOfPier :: "f64 \<Rightarrow> f64 \<Rightarrow> time \<Rightarrow> sim_telescope \<Rightarrow> goerror + int" where
  "tel_DestinationSideOfPier ra dec now t =
     (let ha = Mod (tel_SiderealTime now t - ra) 24;
          ha = (if ha < -12 then ha + 24 else ha);
          ha = (if ha \<ge> 12 then ha - 24 else ha)
      in if ha < 0 then Inr PierWest else Inr PierEast)"

section \<open>Motion commands\<close>

definition tel_SlewToCoordinatesAsync :: "f64 \<Rightarrow> f64 \<Rightarrow> time \<Rightarrow> sim_telescope \<Rightarrow> sim_telescope" where
  "tel_SlewToCoordinatesAsync ra dec now t =
     (let t = t\<lparr>wantRA := ra, wantRASet := True, wantDec := dec, wantDecSet := True\<rparr>
      in beginSlewLocked now ra dec t)"

definition tel_SlewToTargetAsync :: "time \<Rightarrow> sim_telescope \<Rightarrow> sim_telescope" where
  "tel_SlewToTargetAsync now t = tel_SlewToCoordinatesAsync (wantRA t) (wantDec t) now t"

definition tel_SyncToCoordinates :: "f64 \<Rightarrow> f64 \<Rightarrow> time \<Rightarrow> sim_telescope \<Rightarrow> sim_telescope" where
  "tel_SyncToCoordinates ra dec now t =
     t\<lparr>wantRA := ra, wantRASet := True, wantDec := dec, wantDecSet := True, startRA := ra,
       startDec := dec, targetRA := ra, targetDec := dec, slewing := False, rateEpoch := now\<rparr>"

definition tel_SyncToTarget :: "time \<Rightarrow> sim_telescope \<Rightarrow> sim_telescope" where
  "tel_SyncToTarget now t = tel_SyncToCoordinates (wantRA t) (wantDec t) now t"

definition tel_SlewToAltAzAsync :: "f64 \<Rightarrow> f64 \<Rightarrow> time \<Rightarrow> sim_telescope \<Rightarrow> sim_telescope" where
  "tel_SlewToAltAzAsync az alt now t =
     (let t = t\<lparr>azimuth := az, altitude := alt\<rparr>;
          cur = currentRALocked now t;
          curDec = currentDecLocked now t
      in t\<lparr>startRA := cur, startDec := curDec, targetRA := Mod (cur + raSlewRate t) 24,
           targetDec := curDec, slewStart := now, slewing := True, atPark := False,
           atHome := False\<rparr>)"

definition tel_SyncToAltAz :: "f64 \<Rightarrow> f64 \<Rightarrow> time \<Rightarrow> sim_telescope \<Rightarrow> sim_telescope" where
  "tel_SyncToAltAz az alt now t = t\<lparr>azimuth := az, altitude := alt\<rparr>"

definition tel_AbortSlew :: "time \<Rightarrow> sim_telescope \<Rightarrow> sim_telescope" where
  "tel_AbortSlew now t =
     (let t = tel_settleLocked now t;
          t = settleAxesLocked now t;
          t = t\<lparr>axisRates := noAxisRates\<rparr>;
          t = settleRatesLocked now t;
          t = freeze now t
      in t\<lparr>targetRA := startRA t, targetDec := startDec t, slewing := False,
           parkOnArrive := False, homeOnArrive := False\<rparr>)"

definition tel_Park :: "time \<Rightarrow> sim_telescope \<Rightarrow> sim_telescope" where
  "tel_Park now t =
     (if atPark t then t
      else
        (let t = beginSlewLocked now 0 90 t;
             t = t\<lparr>parkOnArrive := True\<rparr>
         in if \<not> slewing t then t\<lparr>atPark := True, tracking := False\<rparr> else t))"

definition tel_Unpark :: "time \<Rightarrow> sim_telescope \<Rightarrow> sim_telescope" where
  "tel_Unpark now t = t\<lparr>atPark := False\<rparr>"

definition tel_FindHome :: "time \<Rightarrow> sim_telescope \<Rightarrow> sim_telescope" where
  "tel_FindHome now t =
     (let t = beginSlewLocked now 0 90 t;
          t = t\<lparr>homeOnArrive := True\<rparr>
      in if \<not> slewing t then t\<lparr>atHome := True\<rparr> else t)"

definition tel_PulseGuide :: "int \<Rightarrow> int \<Rightarrow> time \<Rightarrow> sim_telescope \<Rightarrow> sim_telescope" where
  "tel_PulseGuide direction duration now t =
     (let t = settleRatesLocked now t;
          dur = f64_of_int duration / 1000;
          t = (if direction = GuideNorth then t\<lparr>startDec := clampDec (startDec t + guideRateD t * dur)\<rparr>
               else if direction = GuideSouth then t\<lparr>startDec := clampDec (startDec t - guideRateD t * dur)\<rparr>
               else if direction = GuideEast then t\<lparr>startRA := wrap24 (startRA t + guideRateRA t * dur / 15)\<rparr>
               else if direction = GuideWest then t\<lparr>startRA := wrap24 (startRA t - guideRateRA t * dur / 15)\<rparr>
               else t)
      in t\<lparr>targetRA := startRA t, targetDec := startDec t, pulseGuiding := True,
           pulseUntil := now + wrap64 (ms duration)\<rparr>)"

text \<open>\<open>t.axisRates[axis] = rate\<close> on an array of three panics for any other axis, after the motion has
  been frozen; the server turns a panic of a handler into a dropped connection, here an error.\<close>

definition tel_MoveAxis :: "int \<Rightarrow> f64 \<Rightarrow> tworld command" where
  "tel_MoveAxis axis rate w =
     (let now = clock w;
          t = settleRatesLocked now (dev w);
          t = freeze now t;
          t = t\<lparr>slewing := False, parkOnArrive := False, homeOnArrive := False\<rparr>;
          t = settleAxesLocked now t
      in if axis < 0 \<or> axis > 2 then (Some index_panic, w\<lparr>dev := t\<rparr>)
         else
           (let t = t\<lparr>axisRates := (axisRates t)[nat axis := rate], axisStart := now\<rparr>;
                t = (if \<not> eq64 rate 0 then t\<lparr>atHome := False\<rparr> else t)
            in (None, w\<lparr>dev := t\<rparr>)))"

section \<open>Waiting for a slew\<close>

definition tel_Slewing :: "(tworld, bool) act" where
  "tel_Slewing = reading tel_settleLocked (\<lambda>_ t. slewing t \<or> axisMovingLocked t)"

fun waitSlewDone :: "nat \<Rightarrow> tworld \<Rightarrow> tworld" where
  "waitSlewDone 0 w = w"
| "waitSlewDone (Suc n) w =
     (case tel_Slewing w of (moving, w) \<Rightarrow>
        if \<not> moving then w else waitSlewDone n (sleep (ms 50) w))"

definition tel_sync_slew :: "(time \<Rightarrow> sim_telescope \<Rightarrow> sim_telescope) \<Rightarrow> tworld command" where
  "tel_sync_slew start w = (case updating start w of
     (Some e, w) \<Rightarrow> (Some e, w)
   | (None, w) \<Rightarrow> (None, waitSlewDone 600 w))"

definition tel_SlewToCoordinates :: "f64 \<Rightarrow> f64 \<Rightarrow> tworld command" where
  "tel_SlewToCoordinates ra dec = tel_sync_slew (tel_SlewToCoordinatesAsync ra dec)"

definition tel_SlewToTarget :: "tworld command" where
  "tel_SlewToTarget = tel_sync_slew tel_SlewToTargetAsync"

definition tel_SlewToAltAz :: "f64 \<Rightarrow> f64 \<Rightarrow> tworld command" where
  "tel_SlewToAltAz az alt = tel_sync_slew (tel_SlewToAltAzAsync az alt)"

section \<open>Settings\<close>

definition tel_SetTracking :: "bool \<Rightarrow> time \<Rightarrow> sim_telescope \<Rightarrow> sim_telescope" where
  "tel_SetTracking v now t = (let t = settleRatesLocked now t in t\<lparr>tracking := v\<rparr>)"

definition tel_SetTrackingRate :: "int \<Rightarrow> time \<Rightarrow> sim_telescope \<Rightarrow> sim_telescope" where
  "tel_SetTrackingRate r now t =
     (let t = settleRatesLocked now t;
          t = (if r \<noteq> trackingRate t then t\<lparr>raRate := 0, decRate := 0\<rparr> else t)
      in t\<lparr>trackingRate := r\<rparr>)"

definition tel_SetRightAscensionRate :: "f64 \<Rightarrow> time \<Rightarrow> sim_telescope \<Rightarrow> sim_telescope" where
  "tel_SetRightAscensionRate v now t = (let t = settleRatesLocked now t in t\<lparr>raRate := v\<rparr>)"

definition tel_SetDeclinationRate :: "f64 \<Rightarrow> time \<Rightarrow> sim_telescope \<Rightarrow> sim_telescope" where
  "tel_SetDeclinationRate v now t = (let t = settleRatesLocked now t in t\<lparr>decRate := v\<rparr>)"

fun tel_update :: "tel_cmd \<Rightarrow> time \<Rightarrow> sim_telescope \<Rightarrow> sim_telescope" where
  "tel_update (SetDeclinationRate v) = tel_SetDeclinationRate v"
| "tel_update (SetDoesRefraction v) = (\<lambda>_ t. t\<lparr>doesRefraction := v\<rparr>)"
| "tel_update (SetGuideRateDeclination v) = (\<lambda>_ t. t\<lparr>guideRateD := v\<rparr>)"
| "tel_update (SetGuideRateRightAscension v) = (\<lambda>_ t. t\<lparr>guideRateRA := v\<rparr>)"
| "tel_update (SetRightAscensionRate v) = tel_SetRightAscensionRate v"
| "tel_update (SetSideOfPier v) = (\<lambda>_ t. t\<lparr>sideOfPier := v\<rparr>)"
| "tel_update (SetSiteElevation v) = (\<lambda>_ t. t\<lparr>siteElevation := v\<rparr>)"
| "tel_update (SetSiteLatitude v) = (\<lambda>_ t. t\<lparr>siteLatitude := v\<rparr>)"
| "tel_update (SetSiteLongitude v) = (\<lambda>_ t. t\<lparr>siteLongitude := v\<rparr>)"
| "tel_update (SetSlewSettleTime v) = (\<lambda>_ t. t\<lparr>slewSettleTime := v\<rparr>)"
| "tel_update (SetTargetDeclination v) = (\<lambda>_ t. t\<lparr>wantDec := v, wantDecSet := True\<rparr>)"
| "tel_update (SetTargetRightAscension v) = (\<lambda>_ t. t\<lparr>wantRA := v, wantRASet := True\<rparr>)"
| "tel_update (SetTracking v) = tel_SetTracking v"
| "tel_update (SetTrackingRate r) = tel_SetTrackingRate r"
| "tel_update AbortSlew = tel_AbortSlew"
| "tel_update FindHome = tel_FindHome"
| "tel_update Park = tel_Park"
| "tel_update (PulseGuide dir dur) = tel_PulseGuide dir dur"
| "tel_update (SlewToAltAzAsync az alt) = tel_SlewToAltAzAsync az alt"
| "tel_update (SlewToCoordinatesAsync ra dec) = tel_SlewToCoordinatesAsync ra dec"
| "tel_update SlewToTargetAsync = tel_SlewToTargetAsync"
| "tel_update (SyncToAltAz az alt) = tel_SyncToAltAz az alt"
| "tel_update (SyncToCoordinates ra dec) = tel_SyncToCoordinates ra dec"
| "tel_update SyncToTarget = tel_SyncToTarget"
| "tel_update Unpark = tel_Unpark"
| "tel_update _ = as_is"

fun tel_do :: "tel_cmd \<Rightarrow> tworld command" where
  "tel_do (MoveAxis axis rate) = tel_MoveAxis axis rate"
| "tel_do (SlewToCoordinates ra dec) = tel_SlewToCoordinates ra dec"
| "tel_do (SlewToAltAz az alt) = tel_SlewToAltAz az alt"
| "tel_do SlewToTarget = tel_SlewToTarget"
| "tel_do c = updating (tel_update c)"

section \<open>The instance of the interface\<close>

text \<open>\<open>IsPulseGuiding\<close> clears the flag when the pulse is over.\<close>

definition pulse_settle :: "time \<Rightarrow> sim_telescope \<Rightarrow> sim_telescope" where
  "pulse_settle now t =
     (if pulseGuiding t \<and> now > pulseUntil t then t\<lparr>pulseGuiding := False\<rparr> else t)"

fun tel_flag_read :: "tel_flag \<Rightarrow> (tworld, bool) act" where
  "tel_flag_read TAtHome = reading tel_settleLocked (\<lambda>_. atHome)"
| "tel_flag_read TAtPark = reading tel_settleLocked (\<lambda>_. atPark)"
| "tel_flag_read TDoesRefraction = reading as_is (\<lambda>_. doesRefraction)"
| "tel_flag_read TIsPulseGuiding = reading pulse_settle (\<lambda>_. pulseGuiding)"
| "tel_flag_read TSlewing = tel_Slewing"
| "tel_flag_read TTracking = reading as_is (\<lambda>_. tracking)"
| "tel_flag_read _ = ret True"

text \<open>\<open>math.Pi * 0.1 * 0.1\<close>, a constant expression.\<close>

definition apertureArea :: f64 where
  "apertureArea = Fin (314159265358979323846264338327950288419716939937510582097494459 / 10 ^ 64)"

fun tel_float_read :: "tel_float \<Rightarrow> (tworld, f64) act" where
  "tel_float_read TAltitude = reading as_is (\<lambda>_. altitude)"
| "tel_float_read TApertureArea = ret apertureArea"
| "tel_float_read TApertureDiameter = ret (Fin (2 / 10))"
| "tel_float_read TAzimuth = reading as_is (\<lambda>_. azimuth)"
| "tel_float_read TDeclination = reading tel_settleLocked currentDecLocked"
| "tel_float_read TDeclinationRate = reading as_is (\<lambda>_. decRate)"
| "tel_float_read TFocalLength = ret 1"
| "tel_float_read TGuideRateDeclination = reading as_is (\<lambda>_. guideRateD)"
| "tel_float_read TGuideRateRightAscension = reading as_is (\<lambda>_. guideRateRA)"
| "tel_float_read TRightAscension = reading tel_settleLocked currentRALocked"
| "tel_float_read TRightAscensionRate = reading as_is (\<lambda>_. raRate)"
| "tel_float_read TSiderealTime = reading as_is tel_SiderealTime"
| "tel_float_read TSiteElevation = reading as_is (\<lambda>_. siteElevation)"
| "tel_float_read TSiteLatitude = reading as_is (\<lambda>_. siteLatitude)"
| "tel_float_read TSiteLongitude = reading as_is (\<lambda>_. siteLongitude)"

fun tel_int_read :: "tel_int \<Rightarrow> (tworld, int) act" where
  "tel_int_read TAlignmentMode = ret AlignGermanPolar"
| "tel_int_read TEquatorialSystem = ret EquJ2000"
| "tel_int_read TSideOfPier = reading as_is (\<lambda>_. sideOfPier)"
| "tel_int_read TSlewSettleTime = reading as_is (\<lambda>_. slewSettleTime)"
| "tel_int_read TTrackingRate = reading as_is (\<lambda>_. trackingRate)"

fun tel_target_read :: "tel_target \<Rightarrow> (tworld, goerror + f64) act" where
  "tel_target_read TTargetRightAscension = reading as_is (\<lambda>_ t.
     if \<not> wantRASet t then Inl ErrInvalidOperation else Inr (wantRA t))"
| "tel_target_read TTargetDeclination = reading as_is (\<lambda>_ t.
     if \<not> wantDecSet t then Inl ErrInvalidOperation else Inr (wantDec t))"

definition SimTelescope :: "tworld telescope" where
  "SimTelescope = \<lparr>tFlag = tel_flag_read, tFloat = tel_float_read, tInt = tel_int_read,
     tTarget = tel_target_read, tUTCDate = reading as_is (\<lambda>now _. tel_UTCDate now),
     tTrackingRates = ret [DriveSidereal, DriveLunar, DriveSolar, DriveKing],
     tAxisRates = (\<lambda>_. ret [\<lparr>Minimum = 0, Maximum = 5\<rparr>]),
     tCanMoveAxis = (\<lambda>axis. ret (axis = AxisPrimary \<or> axis = AxisSecondary)),
     tDestinationSideOfPier = (\<lambda>ra dec. reading as_is (tel_DestinationSideOfPier ra dec)),
     tDo = tel_do\<rparr>"

lemma SimTelescope_sel [simp]:
  "tFlag SimTelescope = tel_flag_read" "tFloat SimTelescope = tel_float_read"
  "tInt SimTelescope = tel_int_read" "tTarget SimTelescope = tel_target_read"
  "tTrackingRates SimTelescope = ret [DriveSidereal, DriveLunar, DriveSolar, DriveKing]"
  "tAxisRates SimTelescope axis = ret [\<lparr>Minimum = 0, Maximum = 5\<rparr>]"
  "tCanMoveAxis SimTelescope axis = ret (axis = AxisPrimary \<or> axis = AxisSecondary)"
  "tDestinationSideOfPier SimTelescope ra dec = reading as_is (tel_DestinationSideOfPier ra dec)"
  "tUTCDate SimTelescope = reading as_is (\<lambda>now _. tel_UTCDate now)"
  "tDo SimTelescope = tel_do"
  by (simp_all add: SimTelescope_def)

text \<open>What a client can observe: the clock, and the state with the slew and the pulse settled.\<close>

definition tel_norm :: "time \<Rightarrow> sim_telescope \<Rightarrow> sim_telescope" where
  "tel_norm now t = pulse_settle now (tel_settleLocked now t)"

definition arrived :: "time \<Rightarrow> sim_telescope \<Rightarrow> bool" where
  "arrived now t \<longleftrightarrow> \<bar>targetRA t - startRA t\<bar> \<le> since_sec now (slewStart t) * raSlewRate t
     \<and> \<bar>targetDec t - startDec t\<bar> \<le> since_sec now (slewStart t) * decSlewRate t"

definition arrive :: "time \<Rightarrow> sim_telescope \<Rightarrow> sim_telescope" where
  "arrive now t = t\<lparr>startRA := targetRA t, startDec := targetDec t, slewing := False,
     rateEpoch := now, atPark := (atPark t \<or> parkOnArrive t),
     tracking := (tracking t \<and> \<not> parkOnArrive t), parkOnArrive := False,
     atHome := (atHome t \<or> homeOnArrive t), homeOnArrive := False\<rparr>"

lemma settle_eq: "tel_settleLocked now t = (if slewing t \<and> arrived now t then arrive now t else t)"
proof (cases "slewing t \<and> arrived now t")
  case False
  then show ?thesis by (auto simp: tel_settleLocked_def arrived_def Let_def)
next
  case True
  then show ?thesis
    by (cases t; cases "parkOnArrive t"; cases "homeOnArrive t")
      (simp_all add: tel_settleLocked_def arrived_def arrive_def Let_def)
qed

lemma arrive_sel [simp]: "slewing (arrive now t) = False"
  by (simp add: arrive_def)

lemma settle_settle [simp]: "tel_settleLocked now (tel_settleLocked now t) = tel_settleLocked now t"
  by (simp add: settle_eq)

lemma pulse_settle_sel [simp]:
  "slewing (pulse_settle now t) = slewing t" "slewStart (pulse_settle now t) = slewStart t"
  "startRA (pulse_settle now t) = startRA t" "startDec (pulse_settle now t) = startDec t"
  "targetRA (pulse_settle now t) = targetRA t" "targetDec (pulse_settle now t) = targetDec t"
  "raSlewRate (pulse_settle now t) = raSlewRate t" "decSlewRate (pulse_settle now t) = decSlewRate t"
  "parkOnArrive (pulse_settle now t) = parkOnArrive t" "homeOnArrive (pulse_settle now t) = homeOnArrive t"
  "atPark (pulse_settle now t) = atPark t" "atHome (pulse_settle now t) = atHome t"
  "pulse_settle now (pulse_settle now t) = pulse_settle now t"
  by (auto simp: pulse_settle_def)

lemma settle_pulse: "tel_settleLocked now (pulse_settle now t) = pulse_settle now (tel_settleLocked now t)"
  by (simp add: settle_eq arrived_def arrive_def) (simp add: pulse_settle_def)

lemma tel_norm_settle [simp]:
  "tel_norm now (tel_settleLocked now t) = tel_norm now t"
  "tel_norm now (pulse_settle now t) = tel_norm now t"
  by (simp_all add: tel_norm_def settle_pulse)

lemma atPark_settle: "atPark (tel_settleLocked now t) = atPark (tel_norm now t)"
  by (simp add: tel_norm_def)

lemma tel_do_blocked: "cmd_ok c \<Longrightarrow> blocked view (tel_do c)"
  by (cases c) (simp_all add: blocked_def tel_SlewToCoordinates_def tel_SlewToAltAz_def
      tel_SlewToTarget_def tel_sync_slew_def updating_def tel_MoveAxis_def Let_def axis_defs)

interpretation sim_tel: telescope_driver SimTelescope "observe tel_norm"
proof
  show "quiet (observe tel_norm) (tFlag SimTelescope f)" for f
    by (cases f) (simp_all add: tel_Slewing_def quiet_reading)
  show "quiet (observe tel_norm) (tFloat SimTelescope x)" for x
    by (cases x) (simp_all add: quiet_reading)
  show "quiet (observe tel_norm) (tInt SimTelescope x)" for x
    by (cases x) simp_all
  show "quiet (observe tel_norm) (tTarget SimTelescope x)" for x
    by (cases x) simp_all
  show "fst (tFlag SimTelescope TAtPark w) = fst (tFlag SimTelescope TAtPark w')"
    if "observe tel_norm w = observe tel_norm w'" for w w'
    using that by (simp add: observe_def atPark_settle) metis
qed (simp_all add: tel_do_blocked)

end
