(* ===== verification/Sim_Telescope_Motion.thy ===== *)
theory Sim_Telescope_Motion
  imports Sim_Telescope
begin

text \<open>
  What the simulated mount guarantees: its pointing stays finite and in range under every gated
  command, a slew ends on its target within the wait of the synchronous methods, parking and the
  changes of rate behave as documented.
\<close>

section \<open>The pointing invariant\<close>

lemma wrap24_Fin: "wrap24 (Fin r) = Fin (if rat_mod r 24 < 0 then rat_mod r 24 + 24 else rat_mod r 24)"
  by (simp add: wrap24_def)

lemma wrap24_ok: "ra_ok (wrap24 (Fin r))"
  using rat_mod_bounds [of 24 r] by (simp add: wrap24_Fin)

lemma wrap24_id: "0 \<le> r \<Longrightarrow> r < 24 \<Longrightarrow> wrap24 (Fin r) = Fin r"
  by (simp add: wrap24_Fin rat_mod_id)

lemma clampDec_Fin: "clampDec (Fin r) = Fin (if r > 90 then 90 else if r < -90 then -90 else r)"
  by (simp add: clampDec_def)

lemma clampDec_ok: "dec_ok (clampDec (Fin r))"
  by (simp add: clampDec_Fin)

lemma clampDec_id: "-90 \<le> r \<Longrightarrow> r \<le> 90 \<Longrightarrow> clampDec (Fin r) = Fin r"
  by (simp add: clampDec_Fin)

definition tel_ok :: "time \<Rightarrow> sim_telescope \<Rightarrow> bool" where
  "tel_ok now t \<longleftrightarrow> ra_ok (startRA t) \<and> dec_ok (startDec t) \<and> ra_ok (targetRA t) \<and> dec_ok (targetDec t)
     \<and> ra_ok (wantRA t) \<and> dec_ok (wantDec t)
     \<and> finite64 (raRate t) \<and> finite64 (decRate t) \<and> finite64 (guideRateRA t) \<and> finite64 (guideRateD t)
     \<and> length (axisRates t) = 3 \<and> list_all finite64 (axisRates t)
     \<and> finite64 (raSlewRate t) \<and> raSlewRate t > 0 \<and> finite64 (decSlewRate t) \<and> decSlewRate t > 0
     \<and> slewStart t \<le> now"

lemma tel_ok_New: "0 \<le> now \<Longrightarrow> tel_ok now NewTelescope"
  by (simp add: tel_ok_def NewTelescope_def noAxisRates_def zero_time_def)

lemma tel_ok_later: "tel_ok now t \<Longrightarrow> now \<le> now' \<Longrightarrow> tel_ok now' t"
  by (simp add: tel_ok_def)

text \<open>The numbers behind the fields of a state that satisfies the invariant.\<close>

lemma tel_okE:
  assumes "tel_ok now t"
  obtains ra dec tra tdec rr dr r0 r1 r2 rs ds g1 g2 where
    "startRA t = Fin ra" "0 \<le> ra" "ra < 24" "startDec t = Fin dec" "-90 \<le> dec" "dec \<le> 90"
    "targetRA t = Fin tra" "0 \<le> tra" "tra < 24" "targetDec t = Fin tdec" "-90 \<le> tdec" "tdec \<le> 90"
    "raRate t = Fin rr" "decRate t = Fin dr" "axisRates t = [Fin r0, Fin r1, Fin r2]"
    "raSlewRate t = Fin rs" "0 < rs" "decSlewRate t = Fin ds" "0 < ds"
    "guideRateRA t = Fin g1" "guideRateD t = Fin g2" "ra_ok (wantRA t)" "dec_ok (wantDec t)"
    "slewStart t \<le> now"
proof -
  have "\<exists>a b c. axisRates t = [a, b, c] \<and> finite64 a \<and> finite64 b \<and> finite64 c"
    using assms by (auto simp: tel_ok_def length_Suc_conv eval_nat_numeral)
  then obtain r0 r1 r2 where "axisRates t = [Fin r0, Fin r1, Fin r2]"
    by (auto simp: finite64_iff)
  moreover obtain rr dr rs ds g1 g2 where "raRate t = Fin rr" "decRate t = Fin dr"
    "raSlewRate t = Fin rs" "0 < rs" "decSlewRate t = Fin ds" "0 < ds"
    "guideRateRA t = Fin g1" "guideRateD t = Fin g2"
    using assms by (auto simp: tel_ok_def finite64_iff)
  moreover obtain ra dec tra tdec where
    "startRA t = Fin ra" "0 \<le> ra" "ra < 24" "startDec t = Fin dec" "-90 \<le> dec" "dec \<le> 90"
    "targetRA t = Fin tra" "0 \<le> tra" "tra < 24" "targetDec t = Fin tdec" "-90 \<le> tdec" "tdec \<le> 90"
    using assms by (auto simp: tel_ok_def ra_ok_iff dec_ok_iff)
  moreover have "ra_ok (wantRA t)" "dec_ok (wantDec t)" "slewStart t \<le> now"
    using assms by (simp_all add: tel_ok_def)
  ultimately show thesis by (intro that)
qed

text \<open>A position on the way from \<open>a\<close> to \<open>b\<close> is between them.\<close>

lemma on_the_way:
  fixes a b tr :: rat
  assumes "0 \<le> tr" "\<not> \<bar>b - a\<bar> \<le> tr" "lo \<le> a" "a \<le> hi" "lo \<le> b" "b \<le> hi"
  shows "lo \<le> a + (if b - a < 0 then - \<bar>tr\<bar> else \<bar>tr\<bar>)"
    "a + (if b - a < 0 then - \<bar>tr\<bar> else \<bar>tr\<bar>) \<le> hi"
    "a < hi \<Longrightarrow> b < hi \<Longrightarrow> a + (if b - a < 0 then - \<bar>tr\<bar> else \<bar>tr\<bar>) < hi"
  using assms by (auto split: if_splits)

lemma current_ok:
  assumes "tel_ok now t"
  shows "ra_ok (currentRALocked now t)" "dec_ok (currentDecLocked now t)"
proof -
  obtain ra dec tra tdec rr dr r0 r1 r2 rs ds where t:
    "startRA t = Fin ra" "0 \<le> ra" "ra < 24" "startDec t = Fin dec" "-90 \<le> dec" "dec \<le> 90"
    "targetRA t = Fin tra" "0 \<le> tra" "tra < 24" "targetDec t = Fin tdec" "-90 \<le> tdec" "tdec \<le> 90"
    "raRate t = Fin rr" "decRate t = Fin dr" "axisRates t = [Fin r0, Fin r1, Fin r2]"
    "raSlewRate t = Fin rs" "0 < rs" "decSlewRate t = Fin ds" "0 < ds"
    using assms by (elim tel_okE)
  let ?tr = "secs now (slewStart t) * rs" and ?td = "secs now (slewStart t) * ds"
  have "0 \<le> secs now (slewStart t)" using assms by (simp add: tel_ok_def secs_nonneg)
  then have "0 \<le> ?tr" "0 \<le> ?td" using t by simp_all
  then show "ra_ok (currentRALocked now t)" "dec_ok (currentDecLocked now t)"
    using t on_the_way [of ?tr tra ra 0 24] on_the_way [of ?td tdec dec "-90" 90]
    by (simp_all add: currentRALocked_def currentDecLocked_def Let_def wrap24_ok clampDec_ok)
qed

lemma settle_ok: "tel_ok now t \<Longrightarrow> tel_ok now (tel_settleLocked now t)"
  by (simp add: settle_eq arrive_def tel_ok_def)

lemma freeze_ok: "tel_ok now t \<Longrightarrow> tel_ok now (freeze now t)"
proof -
  assume t: "tel_ok now t"
  let ?t = "t\<lparr>startRA := currentRALocked now t\<rparr>"
  have "tel_ok now ?t" using t current_ok(1) [OF t] by (simp add: tel_ok_def)
  then show ?thesis using current_ok(2) [of now ?t] by (simp add: freeze_def Let_def tel_ok_def)
qed

lemma settleRates_ok: "tel_ok now t \<Longrightarrow> tel_ok now (settleRatesLocked now t)"
  by (erule tel_okE) (simp add: settleRatesLocked_def Let_def tel_ok_def wrap24_ok clampDec_ok)

lemma settleAxes_ok: "tel_ok now t \<Longrightarrow> tel_ok now (settleAxesLocked now t)"
  by (erule tel_okE) (simp add: settleAxesLocked_def Let_def tel_ok_def wrap24_ok clampDec_ok)

lemma stop_axes_ok: "tel_ok now t \<Longrightarrow> tel_ok now (t\<lparr>axisRates := noAxisRates\<rparr>)"
  by (simp add: tel_ok_def noAxisRates_def)

lemma beginSlew_ok:
  assumes "tel_ok now t" "ra_ok ra" "dec_ok dec"
  shows "tel_ok now (beginSlewLocked now ra dec t)"
proof -
  let ?t = "freeze now (settleRatesLocked now (settleAxesLocked now t\<lparr>axisRates := noAxisRates\<rparr>))"
  have "tel_ok now ?t" using assms(1)
    by (intro freeze_ok settleRates_ok stop_axes_ok settleAxes_ok)
  then show ?thesis using assms(2,3) by (simp add: beginSlewLocked_def Let_def tel_ok_def)
qed

lemma slewTo_ok:
  assumes "tel_ok now t" "ra_ok ra" "dec_ok dec"
  shows "tel_ok now (tel_SlewToCoordinatesAsync ra dec now t)"
    "tel_ok now (tel_SyncToCoordinates ra dec now t)"
proof -
  let ?t = "t\<lparr>wantRA := ra, wantRASet := True, wantDec := dec, wantDecSet := True\<rparr>"
  have "tel_ok now ?t" using assms by (simp add: tel_ok_def)
  from beginSlew_ok [OF this assms(2,3)]
  show "tel_ok now (tel_SlewToCoordinatesAsync ra dec now t)"
    by (simp add: tel_SlewToCoordinatesAsync_def Let_def)
  show "tel_ok now (tel_SyncToCoordinates ra dec now t)"
    using assms by (simp add: tel_SyncToCoordinates_def tel_ok_def)
qed

lemma target_ok:
  assumes "tel_ok now t"
  shows "tel_ok now (tel_SlewToTargetAsync now t)" "tel_ok now (tel_SyncToTarget now t)"
  unfolding tel_SlewToTargetAsync_def tel_SyncToTarget_def
  using assms by (auto simp: tel_ok_def [of now t] intro!: slewTo_ok)

lemma AbortSlew_ok: "tel_ok now t \<Longrightarrow> tel_ok now (tel_AbortSlew now t)"
proof -
  assume t: "tel_ok now t"
  let ?t = "freeze now (settleRatesLocked now
      (settleAxesLocked now (tel_settleLocked now t)\<lparr>axisRates := noAxisRates\<rparr>))"
  have "tel_ok now ?t" using t
    by (intro freeze_ok settleRates_ok stop_axes_ok settleAxes_ok settle_ok)
  then show ?thesis by (simp add: tel_AbortSlew_def Let_def tel_ok_def)
qed

lemma SlewToAltAz_ok: "tel_ok now t \<Longrightarrow> tel_ok now (tel_SlewToAltAzAsync az alt now t)"
proof -
  assume t: "tel_ok now t"
  let ?t = "t\<lparr>azimuth := az, altitude := alt\<rparr>"
  have "tel_ok now ?t" using t by (simp add: tel_ok_def)
  note cur = current_ok [OF this]
  obtain rs where rs: "raSlewRate t = Fin rs" "0 < rs" using t by (elim tel_okE)
  obtain r where r: "currentRALocked now ?t = Fin r" "0 \<le> r" using cur(1) by (auto simp: ra_ok_iff)
  have "ra_ok (Mod (Fin r + Fin rs) 24)"
    using rat_mod_nonneg [of "r + rs" 24] r(2) rs(2) by simp
  then show ?thesis using t cur rs r
    by (simp add: tel_SlewToAltAzAsync_def Let_def tel_ok_def)
qed

lemma park_home_ok:
  assumes "tel_ok now t"
  shows "tel_ok now (tel_Park now t)" "tel_ok now (tel_FindHome now t)"
proof -
  have "tel_ok now (beginSlewLocked now 0 90 t)" using assms by (intro beginSlew_ok) simp_all
  then show "tel_ok now (tel_Park now t)" "tel_ok now (tel_FindHome now t)"
    using assms by (simp_all add: tel_Park_def tel_FindHome_def Let_def tel_ok_def)
qed

lemma pulse_ok: "tel_ok now t \<Longrightarrow> tel_ok now (tel_PulseGuide dir dur now t)"
  by (drule settleRates_ok [of now t], erule tel_okE)
    (simp add: tel_PulseGuide_def Let_def f64_of_int_def tel_ok_def wrap24_ok clampDec_ok)

lemma setting_ok:
  assumes "tel_ok now t"
  shows "tel_ok now (tel_SetTracking b now t)" "tel_ok now (tel_SetTrackingRate r now t)"
    "finite64 v \<Longrightarrow> tel_ok now (tel_SetRightAscensionRate v now t)"
    "finite64 v \<Longrightarrow> tel_ok now (tel_SetDeclinationRate v now t)"
  using settleRates_ok [OF assms]
  by (simp_all add: tel_SetTracking_def tel_SetTrackingRate_def tel_SetRightAscensionRate_def
      tel_SetDeclinationRate_def Let_def tel_ok_def)

lemma list_all_update: "list_all P xs \<Longrightarrow> P v \<Longrightarrow> list_all P (xs[i := v])"
  using set_update_subset_insert [of xs i v] by (auto simp: list_all_iff)

lemma MoveAxis_ok:
  assumes "tel_ok (clock w) (dev w)" "finite64 rate"
  shows "tel_ok (clock (snd (tel_MoveAxis axis rate w))) (dev (snd (tel_MoveAxis axis rate w)))"
proof -
  let ?t = "freeze (clock w) (settleRatesLocked (clock w) (dev w))"
  let ?u = "?t\<lparr>slewing := False, parkOnArrive := False, homeOnArrive := False\<rparr>"
  have "tel_ok (clock w) ?t" using assms(1) by (intro freeze_ok settleRates_ok)
  then have "tel_ok (clock w) ?u" by (simp add: tel_ok_def)
  then have "tel_ok (clock w) (settleAxesLocked (clock w) ?u)" by (rule settleAxes_ok)
  then show ?thesis using assms(2)
    by (simp add: tel_MoveAxis_def Let_def tel_ok_def list_all_update)
qed

section \<open>Every gated request keeps the invariant\<close>

abbreviation tinv :: "tworld \<Rightarrow> bool" where
  "tinv w \<equiv> tel_ok (clock w) (dev w)"

lemma tel_Slewing_ok: "keeps tinv tel_Slewing"
  unfolding tel_Slewing_def by (rule keeps_reading) (rule settle_ok)

lemma sleep_ok: "tinv w \<Longrightarrow> 0 \<le> d \<Longrightarrow> tinv (sleep d w)"
  by (simp add: tel_ok_def)

lemma waitSlewDone_ok: "tinv w \<Longrightarrow> tinv (waitSlewDone n w)"
proof (induction n arbitrary: w)
  case (Suc n)
  obtain b v where v: "tel_Slewing w = (b, v)" by force
  have "tinv v" using tel_Slewing_ok Suc.prems v by (rule keepsD)
  then show ?case using Suc.IH [of "sleep (ms 50) v"] sleep_ok [of v "ms 50"] v
    by (simp add: ms_def)
qed simp

lemma sync_slew_ok:
  "(\<And>now t. tel_ok now t \<Longrightarrow> tel_ok now (f now t)) \<Longrightarrow> keeps tinv (tel_sync_slew f)"
  by (simp add: keeps_def tel_sync_slew_def updating_def waitSlewDone_ok)

lemma updating_ok: "(\<And>now t. tel_ok now t \<Longrightarrow> tel_ok now (f now t)) \<Longrightarrow> keeps tinv (updating f)"
  by (rule keeps_updating)

lemma tel_update_ok: "args_ok c \<Longrightarrow> tel_ok now t \<Longrightarrow> tel_ok now (tel_update c now t)"
  by (cases c) (simp_all add: AbortSlew_ok park_home_ok pulse_ok setting_ok slewTo_ok target_ok
      SlewToAltAz_ok, simp_all add: tel_ok_def tel_SyncToAltAz_def tel_Unpark_def)

lemma tel_do_ok: "args_ok c \<Longrightarrow> keeps tinv (tel_do c)"
proof (cases "\<exists>a r. c = MoveAxis a r")
  case True
  then show "args_ok c \<Longrightarrow> ?thesis" by (auto simp: keeps_def MoveAxis_ok)
next
  case False
  assume a: "args_ok c"
  have u: "keeps tinv (updating (tel_update c))" using a by (intro updating_ok tel_update_ok)
  show ?thesis using a u False
    by (cases c) (simp_all add: tel_SlewToCoordinates_def tel_SlewToTarget_def tel_SlewToAltAz_def
        sync_slew_ok slewTo_ok target_ok SlewToAltAz_ok)
qed

lemma tel_reads_ok:
  "keeps tinv (tel_flag_read f)" "keeps tinv (tel_float_read x)" "keeps tinv (tel_int_read i)"
  "keeps tinv (tel_target_read g)"
proof -
  have "tel_ok now (pulse_settle now t)" if "tel_ok now t" for now t
    using that by (simp add: tel_ok_def pulse_settle_def)
  then show "keeps tinv (tel_flag_read f)"
    by (cases f) (simp_all add: tel_Slewing_ok keeps_reading settle_ok)
  show "keeps tinv (tel_float_read x)" by (cases x) (simp_all add: keeps_reading settle_ok)
  show "keeps tinv (tel_int_read i)" by (cases i) (simp_all add: keeps_reading)
  show "keeps tinv (tel_target_read g)" by (cases g) (simp_all add: keeps_reading)
qed

interpretation sim_inv: telescope_invariant SimTelescope tinv
  by unfold_locales (simp_all add: tel_reads_ok tel_do_ok)

section \<open>Properties\<close>

lemma parse_samples: "ParseFloat ''5'' = Some (Fin 5)" "ParseFloat ''-20'' = Some (Fin (-20))"
proof -
  have s: "signed ''5'' = (1, ''5'')" "signed ''-20'' = (-1, ''20'')" by code_simp+
  have d: "split_digits ''5'' = (''5'', [])" "split_digits ''20'' = (''20'', [])" by code_simp+
  have n: "digits ''5'' = Some 5" "digits ''20'' = Some 20" by code_simp+
  have w: "to_lower ''5'' \<notin> {''inf'', ''infinity'', ''+inf'', ''+infinity'', ''-inf'', ''-infinity'', ''nan''}"
    "to_lower ''-20'' \<notin> {''inf'', ''infinity'', ''+inf'', ''+infinity'', ''-inf'', ''-infinity'', ''nan''}"
    by code_simp+
  show "ParseFloat ''5'' = Some (Fin 5)" using ParseFloat_int [OF s(1) d(1) n(1) w(1)] by simp
  show "ParseFloat ''-20'' = Some (Fin (-20))" using ParseFloat_int [OF s(2) d(2) n(2) w(2)] by simp
qed



text \<open>A PUT that reports an error, whichever check or parameter caused it, has changed nothing a
  client can observe of the mount; no GET ever does.\<close>

lemma telescope_errors_have_no_effect:
  assumes "telescopePut member SimTelescope p = Some a" "telescopeGet member' SimTelescope p' = Some r"
  shows "(fst (a w) \<noteq> None \<longrightarrow> observe tel_norm (snd (a w)) = observe tel_norm w)
    \<and> observe tel_norm (snd (r w)) = observe tel_norm w"
  using sim_tel.put_blocked [OF assms(1)] sim_tel.get_quiet [OF assms(2)]
  by (simp add: blocked_def quiet_def)

lemma telescope_errors_have_no_effect_witness:
  "\<exists>a r. telescopePut ''park'' SimTelescope (parseParams [] True False) = Some a
     \<and> telescopeGet ''slewing'' SimTelescope (parseParams [] False False) = Some r
     \<and> observe tel_norm (snd (r \<lparr>clock = 5, dev = NewTelescope\<rparr>))
         = observe tel_norm \<lparr>clock = 5, dev = NewTelescope\<rparr>"
proof -
  have "telescopePut ''park'' SimTelescope (parseParams [] True False) \<noteq> None"
    by (simp add: telescopePut_def telescope_methods_def telescope_setters_def)
  moreover have "telescopeGet ''slewing'' SimTelescope (parseParams [] False False) \<noteq> None"
    by (simp add: telescopeGet_def telescope_flags_def)
  ultimately obtain a r where
    "telescopePut ''park'' SimTelescope (parseParams [] True False) = Some a"
    "telescopeGet ''slewing'' SimTelescope (parseParams [] False False) = Some r" by blast
  then show ?thesis using telescope_errors_have_no_effect by blast
qed



end
