(* ===== verification/Sim_Telescope_Slew.thy ===== *)
theory Sim_Telescope_Slew
  imports Sim_Telescope_Motion
begin

text \<open>
  The motion of the simulated mount over time: the wait of a synchronous slew, parking, continuity of
  the pointing across the state transitions, and three places where the simulation leaves it.
\<close>

section \<open>Slewing to a target\<close>

text \<open>The state right after a slew has begun.\<close>

lemma noAxis_still [simp]: "axisRates t = noAxisRates \<Longrightarrow> \<not> axisMovingLocked t"
  by (simp add: axisMovingLocked_def noAxisRates_def)

lemma settleRates_sel [simp]:
  "wantRA (settleRatesLocked now t) = wantRA t"
  "wantDec (settleRatesLocked now t) = wantDec t"
  "wantRASet (settleRatesLocked now t) = wantRASet t"
  "wantDecSet (settleRatesLocked now t) = wantDecSet t"
  "axisRates (settleRatesLocked now t) = axisRates t" "slewing (settleRatesLocked now t) = slewing t"
  "rateEpoch (settleRatesLocked now t) = now" "tracking (settleRatesLocked now t) = tracking t"
  "parkOnArrive (settleRatesLocked now t) = parkOnArrive t"
  "homeOnArrive (settleRatesLocked now t) = homeOnArrive t"
  "raSlewRate (settleRatesLocked now t) = raSlewRate t"
  "decSlewRate (settleRatesLocked now t) = decSlewRate t"
  "axisStart (settleRatesLocked now t) = axisStart t"
  "slewStart (settleRatesLocked now t) = slewStart t"
  "raRate (settleRatesLocked now t) = raRate t" "decRate (settleRatesLocked now t) = decRate t"
  "trackingRate (settleRatesLocked now t) = trackingRate t"
  by (simp_all add: settleRatesLocked_def Let_def)

lemma settleAxes_sel [simp]:
  "wantRA (settleAxesLocked now t) = wantRA t"
  "wantDec (settleAxesLocked now t) = wantDec t"
  "wantRASet (settleAxesLocked now t) = wantRASet t"
  "wantDecSet (settleAxesLocked now t) = wantDecSet t"
  "axisRates (settleAxesLocked now t) = axisRates t" "slewing (settleAxesLocked now t) = slewing t"
  "parkOnArrive (settleAxesLocked now t) = parkOnArrive t"
  "homeOnArrive (settleAxesLocked now t) = homeOnArrive t"
  "raSlewRate (settleAxesLocked now t) = raSlewRate t"
  "decSlewRate (settleAxesLocked now t) = decSlewRate t"
  "slewStart (settleAxesLocked now t) = slewStart t"
  "rateEpoch (settleAxesLocked now t) = rateEpoch t" "tracking (settleAxesLocked now t) = tracking t"
  by (simp_all add: settleAxesLocked_def Let_def)

lemma freeze_sel [simp]:
  "wantRA (freeze now t) = wantRA t"
  "wantDec (freeze now t) = wantDec t"
  "wantRASet (freeze now t) = wantRASet t"
  "wantDecSet (freeze now t) = wantDecSet t"
  "axisRates (freeze now t) = axisRates t" "slewing (freeze now t) = slewing t"
  "rateEpoch (freeze now t) = rateEpoch t" "tracking (freeze now t) = tracking t"
  "parkOnArrive (freeze now t) = parkOnArrive t" "homeOnArrive (freeze now t) = homeOnArrive t"
  "raSlewRate (freeze now t) = raSlewRate t" "decSlewRate (freeze now t) = decSlewRate t"
  by (simp_all add: freeze_def Let_def)

lemma axisMoving_cong: "axisRates t = axisRates u \<Longrightarrow> axisMovingLocked t = axisMovingLocked u"
  by (simp add: axisMovingLocked_def)

lemma beginSlew_sel [simp]:
  "wantRA (beginSlewLocked now ra dec t) = wantRA t"
  "wantDec (beginSlewLocked now ra dec t) = wantDec t"
  "wantRASet (beginSlewLocked now ra dec t) = wantRASet t"
  "wantDecSet (beginSlewLocked now ra dec t) = wantDecSet t"
  "targetRA (beginSlewLocked now ra dec t) = ra" "targetDec (beginSlewLocked now ra dec t) = dec"
  "slewStart (beginSlewLocked now ra dec t) = now" "atPark (beginSlewLocked now ra dec t) = False"
  "axisRates (beginSlewLocked now ra dec t) = noAxisRates"
  "rateEpoch (beginSlewLocked now ra dec t) = now"
  "parkOnArrive (beginSlewLocked now ra dec t) = parkOnArrive t"
  "tracking (beginSlewLocked now ra dec t) = tracking t"
  "raSlewRate (beginSlewLocked now ra dec t) = raSlewRate t"
  "decSlewRate (beginSlewLocked now ra dec t) = decSlewRate t"
  by (simp_all add: beginSlewLocked_def Let_def)

lemma beginSlew_slewing:
  "slewing (beginSlewLocked now ra dec t) \<longleftrightarrow>
     \<not> eq64 (startRA (beginSlewLocked now ra dec t)) ra \<or> \<not> eq64 (startDec (beginSlewLocked now ra dec t)) dec"
  by (simp add: beginSlewLocked_def Let_def)

lemma eq64_refl: "finite64 x \<Longrightarrow> eq64 x y \<longleftrightarrow> x = y"
  by (cases x) (auto simp: eq64_def)

text \<open>Any slew within range is over after the time the slower axis needs.\<close>

lemma arrived_after:
  assumes "tel_ok now t" "raSlewRate t = Fin rs" "decSlewRate t = Fin ds"
    "24 \<le> secs later (slewStart t) * rs" "180 \<le> secs later (slewStart t) * ds"
  shows "arrived later t"
proof -
  obtain ra dec tra tdec where t:
    "startRA t = Fin ra" "0 \<le> ra" "ra < 24" "startDec t = Fin dec" "-90 \<le> dec" "dec \<le> 90"
    "targetRA t = Fin tra" "0 \<le> tra" "tra < 24" "targetDec t = Fin tdec" "-90 \<le> tdec" "tdec \<le> 90"
    using assms(1) by (elim tel_okE)
  then have "\<bar>tra - ra\<bar> \<le> 24" "\<bar>tdec - dec\<bar> \<le> 180" by linarith+
  then have "\<bar>tra - ra\<bar> \<le> secs later (slewStart t) * rs" "\<bar>tdec - dec\<bar> \<le> secs later (slewStart t) * ds"
    using assms(4,5) by linarith+
  then show ?thesis using t assms(2,3) by (simp add: arrived_def)
qed

text \<open>The wait loop leaves a slew that is due before its last look settled at the look that sees it.\<close>

lemma waitSlewDone_arrives:
  assumes "slewing (dev w)" "\<not> axisMovingLocked (dev w)"
    "arrived (clock w + ms 50 * int m) (dev w)" "m < n"
  shows "\<exists>k\<le>m. waitSlewDone n w =
    \<lparr>clock = clock w + ms 50 * int k, dev = arrive (clock w + ms 50 * int k) (dev w)\<rparr>"
  using assms
proof (induction n arbitrary: w m)
  case 0
  then show ?case by simp
next
  case (Suc n)
  have am: "\<not> axisMovingLocked (arrive now (dev w))" for now
    using Suc.prems(2) by (simp add: axisMovingLocked_def arrive_def)
  show ?case
  proof (cases "arrived (clock w) (dev w)")
    case True
    then have "waitSlewDone (Suc n) w = w\<lparr>dev := arrive (clock w) (dev w)\<rparr>"
      using Suc.prems(1) am by (simp add: tel_Slewing_def reading_def settle_eq)
    then show ?thesis by (intro exI [of _ 0]) simp
  next
    case False
    then have m: "0 < m" using Suc.prems(3) by (cases m) auto
    let ?w = "sleep (ms 50) w"
    have step: "waitSlewDone (Suc n) w = waitSlewDone n ?w"
      using False Suc.prems(1,2) by (simp add: tel_Slewing_def reading_def settle_eq)
    have e: "clock ?w + ms 50 * int (m - 1) = clock w + ms 50 * int m"
      using m by (cases m) (simp_all add: ms_def)
    have a: "arrived (clock ?w + ms 50 * int (m - 1)) (dev ?w)"
      unfolding e using Suc.prems(3) by simp
    have "slewing (dev ?w)" "\<not> axisMovingLocked (dev ?w)" "m - 1 < n"
      using Suc.prems m by simp_all
    then obtain k where k: "k \<le> m - 1" "waitSlewDone n ?w =
        \<lparr>clock = clock ?w + ms 50 * int k, dev = arrive (clock ?w + ms 50 * int k) (dev ?w)\<rparr>"
      using Suc.IH [OF _ _ a] by blast
    have e': "clock ?w + ms 50 * int k = clock w + ms 50 * int (Suc k)" by (simp add: ms_def)
    have "waitSlewDone (Suc n) w = \<lparr>clock = clock w + ms 50 * int (Suc k),
        dev = arrive (clock w + ms 50 * int (Suc k)) (dev w)\<rparr>"
      unfolding step k(2) e' by simp
    moreover have "Suc k \<le> m" using k(1) m by simp
    ultimately show ?thesis by blast
  qed
qed

lemma resting_position:
  assumes "\<not> slewing t" "\<not> axisMovingLocked t" "rateEpoch t = now" "tel_ok now t"
  shows "currentRALocked now t = startRA t" "currentDecLocked now t = startDec t"
proof -
  obtain ra dec rr dr where "startRA t = Fin ra" "0 \<le> ra" "ra < 24" "startDec t = Fin dec"
    "-90 \<le> dec" "dec \<le> 90" "raRate t = Fin rr" "decRate t = Fin dr"
    using assms(4) by (elim tel_okE)
  then show "currentRALocked now t = startRA t" "currentDecLocked now t = startDec t"
    using assms(1-3) by (simp_all add: currentRALocked_def currentDecLocked_def wrap24_id clampDec_id)
qed

text \<open>What a client reads of a mount at rest on a target.\<close>

definition rests_at :: "f64 \<Rightarrow> f64 \<Rightarrow> tworld \<Rightarrow> bool" where
  "rests_at ra dec w \<longleftrightarrow> fst (tFlag SimTelescope TSlewing w) = False
     \<and> fst (tFloat SimTelescope TRightAscension w) = ra
     \<and> fst (tFloat SimTelescope TDeclination w) = dec"

lemma rests_atI:
  assumes "\<not> slewing t" "\<not> axisMovingLocked t" "rateEpoch t = now" "tel_ok now t"
  shows "rests_at (startRA t) (startDec t) \<lparr>clock = now, dev = t\<rparr>"
  using assms resting_position [OF assms] by (simp add: rests_at_def tel_Slewing_def settle_eq)

lemma waited_slew:
  assumes "tel_ok now (begun t)" "begun t = beginSlewLocked now ra dec u"
    "raSlewRate (begun t) = Fin rs" "1 \<le> rs" "decSlewRate (begun t) = Fin ds" "7 \<le> ds"
  defines "w' \<equiv> waitSlewDone 600 \<lparr>clock = now, dev = begun t\<rparr>"
  shows "rests_at ra dec w' \<and> now \<le> clock w' \<and> clock w' \<le> now + ms 29950 \<and> tel_ok (clock w') (dev w')
    \<and> wantRA (dev w') = wantRA u \<and> wantDec (dev w') = wantDec u
    \<and> wantRASet (dev w') = wantRASet u \<and> wantDecSet (dev w') = wantDecSet u"
proof (cases "slewing (begun t)")
  case False
  have still: "\<not> axisMovingLocked (begun t)" using assms(2) by simp
  have w': "w' = \<lparr>clock = now, dev = begun t\<rparr>"
    unfolding w'_def using False still
    by (simp add: eval_nat_numeral tel_Slewing_def reading_def settle_eq)
  have fin: "finite64 (startRA (begun t))" "finite64 (startDec (begun t))"
    using assms(1) by (auto simp: tel_ok_def ra_ok_iff dec_ok_iff)
  then have "startRA (begun t) = ra" "startDec (begun t) = dec"
    using False assms(2) by (simp_all add: beginSlew_slewing eq64_refl)
  then show ?thesis using rests_atI [OF False still _ assms(1)] assms(1,2)
    by (simp add: w' ms_def)
next
  case True
  let ?w = "\<lparr>clock = now, dev = begun t\<rparr>"
  have start: "slewStart (begun t) = now" "\<not> axisMovingLocked (begun t)" using assms(2) by simp_all
  have el: "secs (now + ms 50 * int 599) (slewStart (begun t)) = 599 / 20"
    using secs_exact [of "now + ms 50 * int 599" now] start(1) by (simp add: ms_def in_i64_def)
  have "arrived (now + ms 50 * int 599) (begun t)"
    by (rule arrived_after [OF assms(1,3,5)]; simp only: el) (use assms(4,6) in simp_all)
  then obtain k where k: "k \<le> 599" "w' =
      \<lparr>clock = now + ms 50 * int k, dev = arrive (now + ms 50 * int k) (begun t)\<rparr>"
    using waitSlewDone_arrives [of ?w 599 600] True start(2) by (auto simp: w'_def)
  let ?n = "now + ms 50 * int k" and ?t = "arrive (now + ms 50 * int k) (begun t)"
  have later: "now \<le> ?n" "?n \<le> now + ms 29950" using k(1) by (simp_all add: ms_def)
  have "tel_ok ?n ?t" using tel_ok_later [OF assms(1) later(1)]
    by (simp add: tel_ok_def arrive_def)
  moreover have "\<not> axisMovingLocked ?t" using start(2) by (simp add: axisMovingLocked_def arrive_def)
  ultimately have "rests_at (startRA ?t) (startDec ?t) \<lparr>clock = ?n, dev = ?t\<rparr>"
    by (intro rests_atI) (simp_all add: arrive_def)
  then show ?thesis using later assms(2) \<open>tel_ok ?n ?t\<close> k(2) by (simp add: arrive_def)
qed

text \<open>C2: A synchronous slew keeps its contract: started from any state that satisfies the invariant,
  on a mount with at least the slew rate 7 deg/s (1 h/s), it reports success and returns, within
  its 30 s cap, with Slewing false and the position exactly the target, which is now also the stored
  target; the rate offsets and a MoveAxis drift that were active do not disturb it.\<close>

theorem SlewToCoordinates_arrives:
  assumes "tel_ok (clock w) (dev w)" "ra_ok ra" "dec_ok dec"
    "raSlewRate (dev w) = Fin rs" "1 \<le> rs" "decSlewRate (dev w) = Fin ds" "7 \<le> ds"
    "tDo SimTelescope (SlewToCoordinates ra dec) w = (r, w')"
  shows "r = None \<and> rests_at ra dec w' \<and> clock w \<le> clock w' \<and> clock w' \<le> clock w + ms 29950
    \<and> fst (tTarget SimTelescope TTargetRightAscension w') = Inr ra
    \<and> fst (tTarget SimTelescope TTargetDeclination w') = Inr dec"
proof -
  let ?f = "tel_SlewToCoordinatesAsync ra dec (clock w)"
  let ?u = "dev w\<lparr>wantRA := ra, wantRASet := True, wantDec := dec, wantDecSet := True\<rparr>"
  have f: "?f (dev w) = beginSlewLocked (clock w) ra dec ?u"
    by (simp add: tel_SlewToCoordinatesAsync_def Let_def)
  have w': "r = None" "w' = waitSlewDone 600 \<lparr>clock = clock w, dev = ?f (dev w)\<rparr>"
    using assms(8) by (cases w; simp add: tel_SlewToCoordinates_def tel_sync_slew_def updating_def)+
  have ok: "tel_ok (clock w) (?f (dev w))" using assms(1-3) by (rule slewTo_ok)
  note arr = waited_slew [of "clock w" ?f "dev w" ra dec ?u rs ds, OF ok f]
  show ?thesis using arr assms(4-7) by (simp add: w' f)
qed

theorem SlewToCoordinates_arrives_witness:
  "rests_at 5 (-20) (snd (tDo SimTelescope (SlewToCoordinates 5 (-20)) \<lparr>clock = 7, dev = NewTelescope\<rparr>))"
proof -
  let ?w = "\<lparr>clock = 7, dev = NewTelescope\<rparr>"
  obtain r w' where e: "tDo SimTelescope (SlewToCoordinates 5 (-20)) ?w = (r, w')" by force
  then have "rests_at 5 (-20) w'"
    using SlewToCoordinates_arrives [of ?w 5 "-20" 6 90 r w'] tel_ok_New [of 7]
    by (simp add: NewTelescope_def)
  then show ?thesis using e by simp
qed

lemma New_sel [simp]:
  "startRA NewTelescope = 0" "startDec NewTelescope = 90" "axisRates NewTelescope = noAxisRates"
  "slewing NewTelescope = False" "tracking NewTelescope = False" "atPark NewTelescope = False"
  "raSlewRate NewTelescope = 6" "decSlewRate NewTelescope = 90" "parkOnArrive NewTelescope = False"
  "targetRA NewTelescope = 0" "targetDec NewTelescope = 90" "axisStart NewTelescope = 0"
  by (simp_all add: NewTelescope_def zero_time_def)

section \<open>Parking\<close>

text \<open>C18: Park, from any unparked state: at every later moment AtPark is true exactly when the mount no
  longer slews; a parked mount has stopped tracking and stays on the park position (0 h, +90 deg); and
  after the time the slower axis needs for its full range, it is parked.\<close>

theorem Park_completes:
  assumes "tel_ok now t" "\<not> atPark t" "now \<le> later"
    "raSlewRate t = Fin rs" "decSlewRate t = Fin ds"
  defines "u \<equiv> tel_settleLocked later (tel_Park now t)"
  shows "(atPark u \<longleftrightarrow> \<not> slewing u)
    \<and> (atPark u \<longrightarrow> \<not> tracking u \<and> currentRALocked later u = 0 \<and> currentDecLocked later u = 90)
    \<and> (24 \<le> secs later now * rs \<longrightarrow> 180 \<le> secs later now * ds \<longrightarrow> atPark u)"
proof -
  let ?b = "beginSlewLocked now 0 90 t"
  have ok: "tel_ok now ?b" using assms(1) by (intro beginSlew_ok) simp_all
  have still: "\<not> axisMovingLocked (x\<lparr>axisRates := noAxisRates\<rparr>)" for x by simp
  have pos: "currentRALocked later v = startRA v" "currentDecLocked later v = startDec v"
    if "\<not> slewing v" "\<not> tracking v" "axisRates v = noAxisRates" for v
    using that by (simp_all add: currentRALocked_def currentDecLocked_def rateDriftActiveLocked_def)
  show ?thesis
  proof (cases "slewing ?b")
    case True
    let ?p = "?b\<lparr>parkOnArrive := True\<rparr>"
    have p: "tel_Park now t = ?p" using assms(2) True by (simp add: tel_Park_def Let_def)
    have "tel_ok now ?p" using ok by (simp add: tel_ok_def)
    then have due: "arrived later ?p"
      if "24 \<le> secs later now * rs" "180 \<le> secs later now * ds"
      using that assms(4,5) by (intro arrived_after [of now _ rs ds]) simp_all
    show ?thesis
    proof (cases "arrived later ?p")
      case True
      with \<open>slewing ?b\<close> have u: "u = arrive later ?p" by (simp add: u_def p settle_eq)
      show ?thesis using pos [of u] by (simp add: u arrive_def)
    next
      case False
      with \<open>slewing ?b\<close> have u: "u = ?p" by (simp add: u_def p settle_eq)
      show ?thesis using due False \<open>slewing ?b\<close> by (auto simp: u)
    qed
  next
    case False
    let ?p = "?b\<lparr>parkOnArrive := True, atPark := True, tracking := False\<rparr>"
    have "u = ?p" using assms(2) False by (simp add: u_def tel_Park_def Let_def settle_eq)
    moreover have "finite64 (startRA ?b)" "finite64 (startDec ?b)"
      using ok by (auto simp: tel_ok_def ra_ok_iff dec_ok_iff)
    then have "startRA ?b = 0" "startDec ?b = 90"
      using False by (simp_all add: beginSlew_slewing eq64_refl)
    ultimately show ?thesis using pos [of ?p] False by simp
  qed
qed

theorem Park_completes_witness:
  "atPark (tel_settleLocked 30000000007 (tel_Park 7 (NewTelescope\<lparr>startDec := 0\<rparr>)))"
proof -
  let ?t = "NewTelescope\<lparr>startDec := 0\<rparr>"
  have "tel_ok 7 ?t" using tel_ok_New [of 7] by (simp add: tel_ok_def)
  moreover have "secs 30000000007 7 = 30" by (simp add: secs_def time_sub_def)
  moreover have "\<not> atPark ?t" "raSlewRate ?t = Fin 6" "decSlewRate ?t = Fin 90"
    by (simp_all add: NewTelescope_def)
  ultimately show ?thesis
    using Park_completes [of 7 ?t 30000000007 6 90, THEN conjunct2, THEN conjunct2] by simp
qed

text \<open>C27: A park that is under way is not cancelled by a new slew: when a client sends
  SlewToCoordinatesAsync after Park (AtPark is still false, so the gate lets it pass), the mount reports
  AtPark, with tracking off, once it arrives at the new target, away from its park position.\<close>

theorem slew_after_Park_parks_at_its_target:
  assumes "tel_ok now t" "parkOnArrive t" "ra_ok ra" "dec_ok dec"
    "arrived later (tel_SlewToCoordinatesAsync ra dec now t)"
    "slewing (tel_SlewToCoordinatesAsync ra dec now t)"
  defines "u \<equiv> tel_settleLocked later (tel_SlewToCoordinatesAsync ra dec now t)"
  shows "atPark u \<and> \<not> tracking u \<and> currentRALocked later u = ra \<and> currentDecLocked later u = dec"
proof -
  let ?s = "tel_SlewToCoordinatesAsync ra dec now t"
  have "u = arrive later ?s" using assms(5,6) by (simp add: u_def settle_eq)
  moreover have "parkOnArrive ?s" "axisRates ?s = noAxisRates" "targetRA ?s = ra" "targetDec ?s = dec"
    using assms(2) by (simp_all add: tel_SlewToCoordinatesAsync_def Let_def)
  ultimately show ?thesis
    by (simp add: currentRALocked_def currentDecLocked_def rateDriftActiveLocked_def arrive_def)
qed

theorem slew_after_Park_parks_at_its_target_witness:
  "atPark (tel_settleLocked 40000000000 (tel_SlewToCoordinatesAsync 5 (-20) 7
     (NewTelescope\<lparr>startDec := 0, slewing := True, slewStart := 7, parkOnArrive := True\<rparr>)))"
proof -
  let ?t = "NewTelescope\<lparr>startDec := 0, slewing := True, slewStart := 7, parkOnArrive := True\<rparr>"
  let ?s = "tel_SlewToCoordinatesAsync 5 (-20) 7 ?t"
  have ok: "tel_ok 7 ?t" using tel_ok_New [of 7] by (simp add: tel_ok_def)
  then have sok: "tel_ok 7 ?s" by (rule slewTo_ok) simp_all
  have "startRA ?s = 0"
    by (simp add: tel_SlewToCoordinatesAsync_def beginSlewLocked_def settleAxesLocked_def
        settleRatesLocked_def freeze_def currentRALocked_def rateDriftActiveLocked_def Let_def
        axisMovingLocked_def noAxisRates_def)
  then have sl: "slewing ?s"
    by (simp add: tel_SlewToCoordinatesAsync_def Let_def beginSlew_slewing)
  have el: "secs 40000000000 7 \<ge> 39" by (simp add: secs_def time_sub_def)
  have s: "slewStart ?s = 7" "raSlewRate ?s = Fin 6" "decSlewRate ?s = Fin 90"
    by (simp_all add: tel_SlewToCoordinatesAsync_def Let_def)
  have "arrived 40000000000 ?s"
    by (rule arrived_after [OF sok s(2,3)]; simp only: s(1)) (use el in simp_all)
  then show ?thesis
    using slew_after_Park_parks_at_its_target [OF ok, of 5 "-20" 40000000000] sl by simp
qed

section \<open>Continuity of the pointing\<close>

definition tel_pos :: "time \<Rightarrow> sim_telescope \<Rightarrow> f64 \<times> f64" where
  "tel_pos now t = (currentRALocked now t, currentDecLocked now t)"

lemma pos_eqI:
  assumes "slewing u = slewing t" "axisRates u = axisRates t" "startRA u = startRA t"
    "startDec u = startDec t" "targetRA u = targetRA t" "targetDec u = targetDec t"
    "slewStart u = slewStart t" "axisStart u = axisStart t" "raSlewRate u = raSlewRate t"
    "decSlewRate u = decSlewRate t" "slewing t \<or> axisMovingLocked t"
  shows "tel_pos now u = tel_pos now t"
proof -
  have "axisMovingLocked u = axisMovingLocked t" using assms(2) by (rule axisMoving_cong)
  then show ?thesis using assms
    by (cases "axisMovingLocked t")
      (simp_all add: tel_pos_def currentRALocked_def currentDecLocked_def Let_def)
qed

lemma rest_pos:
  "\<not> slewing t \<Longrightarrow> \<not> axisMovingLocked t \<Longrightarrow> rateEpoch t = now \<Longrightarrow> tel_ok now t
     \<Longrightarrow> tel_pos now t = (startRA t, startDec t)"
  by (simp add: tel_pos_def resting_position)

lemma settleRates_pos:
  assumes "tel_ok now t"
  shows "tel_pos now (settleRatesLocked now t) = tel_pos now t"
proof -
  let ?u = "settleRatesLocked now t"
  have ok: "tel_ok now ?u" using assms by (rule settleRates_ok)
  show ?thesis
  proof (cases "slewing t \<or> axisMovingLocked t")
    case True
    then have "?u = t\<lparr>rateEpoch := now\<rparr>"
      by (auto simp: settleRatesLocked_def rateDriftActiveLocked_def Let_def)
    then show ?thesis using True by (intro pos_eqI) simp_all
  next
    case False
    then have "tel_pos now ?u = (startRA ?u, startDec ?u)"
      using ok by (intro rest_pos) (simp_all add: axisMoving_cong [of ?u t])
    also have "\<dots> = tel_pos now t"
      using False by (simp add: tel_pos_def currentRALocked_def currentDecLocked_def
          settleRatesLocked_def Let_def)
    finally show ?thesis .
  qed
qed

text \<open>Once the drift has been folded, changing what drives it does not move the mount.\<close>

lemma rates_pos:
  assumes "tel_ok now t" "rateEpoch t = now" "tel_ok now u" "rateEpoch u = now"
    "slewing u = slewing t" "axisRates u = axisRates t" "startRA u = startRA t"
    "startDec u = startDec t" "targetRA u = targetRA t" "targetDec u = targetDec t"
    "slewStart u = slewStart t" "axisStart u = axisStart t" "raSlewRate u = raSlewRate t"
    "decSlewRate u = decSlewRate t"
  shows "tel_pos now u = tel_pos now t"
proof (cases "slewing t \<or> axisMovingLocked t")
  case True
  then show ?thesis using assms(5-) by (intro pos_eqI) simp_all
next
  case False
  then have "tel_pos now u = (startRA u, startDec u)"
    using assms by (intro rest_pos) (simp_all add: axisMoving_cong [of u t])
  then show ?thesis using rest_pos [of t now] False assms by simp
qed

lemma currentDec_startRA [simp]: "currentDecLocked now (t\<lparr>startRA := x\<rparr>) = currentDecLocked now t"
proof -
  have "axisMovingLocked (t\<lparr>startRA := x\<rparr>) = axisMovingLocked t" by (rule axisMoving_cong) simp
  moreover from this have "rateDriftActiveLocked (t\<lparr>startRA := x\<rparr>) = rateDriftActiveLocked t"
    by (simp add: rateDriftActiveLocked_def)
  ultimately show ?thesis by (simp add: currentDecLocked_def Let_def)
qed

lemma freeze_start: "(startRA (freeze now t), startDec (freeze now t)) = tel_pos now t"
  by (simp add: freeze_def tel_pos_def Let_def)

lemma just_started_pos:
  assumes "\<not> slewing t" "axisStart t = now" "rateEpoch t = now" "tel_ok now t"
  shows "tel_pos now t = (startRA t, startDec t)"
proof (cases "axisMovingLocked t")
  case False
  then show ?thesis using assms by (intro rest_pos)
next
  case True
  obtain ra dec r0 r1 r2 where "startRA t = Fin ra" "0 \<le> ra" "ra < 24" "startDec t = Fin dec"
    "-90 \<le> dec" "dec \<le> 90" "axisRates t = [Fin r0, Fin r1, Fin r2]"
    using assms(4) by (elim tel_okE)
  then show ?thesis using True assms(2)
    by (simp add: tel_pos_def currentRALocked_def currentDecLocked_def wrap24_id clampDec_id)
qed

lemma stop_axes_pos:
  assumes "\<not> axisMovingLocked t"
  shows "tel_pos now (t\<lparr>axisRates := noAxisRates\<rparr>) = tel_pos now t"
proof -
  have "rateDriftActiveLocked (t\<lparr>axisRates := noAxisRates\<rparr>) = rateDriftActiveLocked t"
    using assms by (simp add: rateDriftActiveLocked_def)
  then show ?thesis using assms
    by (simp add: tel_pos_def currentRALocked_def currentDecLocked_def Let_def)
qed

lemma still_settle [simp]:
  "\<not> axisMovingLocked t \<Longrightarrow> settleAxesLocked now t = t"
  "axisMovingLocked (tel_settleLocked now t) = axisMovingLocked t"
  "axisMovingLocked (settleRatesLocked now t) = axisMovingLocked t"
  "axisMovingLocked (freeze now t) = axisMovingLocked t"
  by (simp_all add: settleAxesLocked_def axisMovingLocked_def settle_eq arrive_def)

lemma stopped_pos:
  assumes "tel_ok now t" "\<not> axisMovingLocked t"
  shows "(startRA (freeze now (settleRatesLocked now (t\<lparr>axisRates := noAxisRates\<rparr>))),
    startDec (freeze now (settleRatesLocked now (t\<lparr>axisRates := noAxisRates\<rparr>)))) = tel_pos now t"
  by (simp add: freeze_start settleRates_pos stop_axes_ok assms stop_axes_pos)

lemma AbortSlew_pos:
  assumes "tel_ok now t" "\<not> axisMovingLocked t"
  shows "tel_pos now (tel_AbortSlew now t) = tel_pos now (tel_settleLocked now t)"
proof -
  let ?t = "tel_settleLocked now t"
  let ?f = "freeze now (settleRatesLocked now (?t\<lparr>axisRates := noAxisRates\<rparr>))"
  have a: "tel_AbortSlew now t = ?f\<lparr>targetRA := startRA ?f, targetDec := startDec ?f,
      slewing := False, parkOnArrive := False, homeOnArrive := False\<rparr>"
    using assms(2) by (simp add: tel_AbortSlew_def Let_def)
  have "tel_pos now (tel_AbortSlew now t) = (startRA (tel_AbortSlew now t), startDec (tel_AbortSlew now t))"
    by (rule rest_pos) (use AbortSlew_ok [OF assms(1)] in \<open>simp_all add: a\<close>)
  also have "\<dots> = (startRA ?f, startDec ?f)" by (simp add: a)
  finally show ?thesis using stopped_pos [of now ?t] assms by (simp add: settle_ok)
qed

lemma MoveAxis_pos:
  assumes "tel_ok now t" "\<not> axisMovingLocked t" "finite64 v" "0 \<le> axis" "axis \<le> 2"
  shows "tel_pos now (dev (snd (tel_MoveAxis axis v \<lparr>clock = now, dev = t\<rparr>))) = tel_pos now t"
proof -
  let ?s = "settleRatesLocked now t"
  let ?f = "freeze now ?s"
  let ?u = "dev (snd (tel_MoveAxis axis v \<lparr>clock = now, dev = t\<rparr>))"
  have nm: "\<not> axisMovingLocked (?f\<lparr>slewing := False, parkOnArrive := False, homeOnArrive := False\<rparr>)"
    using axisMoving_cong [of "?f\<lparr>slewing := False, parkOnArrive := False, homeOnArrive := False\<rparr>" t]
      assms(2) by simp
  have u: "startRA ?u = startRA ?f" "startDec ?u = startDec ?f" "\<not> slewing ?u" "axisStart ?u = now"
    "rateEpoch ?u = now"
    using assms(2,4,5) nm by (simp_all add: tel_MoveAxis_def Let_def)
  have "tel_ok now ?u"
    using MoveAxis_ok [of "\<lparr>clock = now, dev = t\<rparr>" v axis] assms by (simp add: tel_MoveAxis_def Let_def)
  then have "tel_pos now ?u = (startRA ?f, startDec ?f)"
    using just_started_pos [of ?u now] u by simp
  then show ?thesis using settleRates_pos [OF assms(1)] by (simp add: freeze_start)
qed



section \<open>Where the simulation leaves its own contract\<close>

text \<open>A MoveAxis sent while an axis is already moving counts the drift twice: the position is frozen
  with the drift included and then the drift is folded in once more, so the reported right ascension
  jumps by the distance already travelled since the previous MoveAxis.\<close>

lemma MoveAxis_counts_drift_twice:
  assumes "tel_ok (clock w) (dev w)" "axisMovingLocked (dev w)" "0 \<le> axis" "axis \<le> 2" "finite64 v"
  shows "currentRALocked (clock w) (dev (snd (tel_MoveAxis axis v w))) =
    wrap24 (currentRALocked (clock w) (dev w)
      + axisRates (dev w) ! 0 / 15 * since_sec (clock w) (axisStart (dev w)))"
proof -
  let ?now = "clock w" and ?t = "dev w"
  let ?s = "settleRatesLocked ?now ?t"
  let ?f = "freeze ?now ?s"
  let ?g = "?f\<lparr>slewing := False, parkOnArrive := False, homeOnArrive := False\<rparr>"
  let ?u = "dev (snd (tel_MoveAxis axis v w))"
  have s: "?s = ?t\<lparr>rateEpoch := ?now\<rparr>"
    using assms(2) by (simp add: settleRatesLocked_def rateDriftActiveLocked_def)
  have m: "axisMovingLocked ?g" using assms(2) axisMoving_cong [of ?g ?t] by simp
  have f: "startRA ?f = currentRALocked ?now ?t"
    using assms(2) axisMoving_cong [of ?s ?t] freeze_start [of ?now ?s]
    by (simp add: tel_pos_def currentRALocked_def s)
  have "startRA ?u = wrap24 (currentRALocked ?now ?t
      + axisRates ?t ! 0 / 15 * since_sec ?now (axisStart ?t))"
    "\<not> slewing ?u" "axisStart ?u = ?now" "rateEpoch ?u = ?now"
    using assms(3,4) m by (simp_all add: tel_MoveAxis_def Let_def settleAxesLocked_def f)
      (simp add: freeze_def Let_def s)+
  moreover have "tel_ok ?now ?u"
    using MoveAxis_ok [of w v axis] assms by (simp add: tel_MoveAxis_def Let_def)
  ultimately show ?thesis using just_started_pos [of ?u ?now] by (simp add: tel_pos_def)
qed

lemma MoveAxis_counts_drift_twice_witness:
  "currentRALocked 3000000000 (NewTelescope\<lparr>axisRates := [5, 0, 0]\<rparr>) = 1
   \<and> currentRALocked 3000000000 (dev (snd (tel_MoveAxis 0 5
       \<lparr>clock = 3000000000, dev = NewTelescope\<lparr>axisRates := [5, 0, 0]\<rparr>\<rparr>))) = 2"
proof -
  let ?t = "NewTelescope\<lparr>axisRates := [5, 0, 0]\<rparr>"
  have "tel_ok 3000000000 ?t" using tel_ok_New [of 3000000000] by (simp add: tel_ok_def)
  moreover have "axisMovingLocked ?t" by (simp add: axisMovingLocked_def)
  moreover have "secs 3000000000 0 = 3" by (simp add: secs_def time_sub_def)
  moreover from calculation have "currentRALocked 3000000000 ?t = 1"
    by (simp add: currentRALocked_def wrap24_id)
  ultimately show ?thesis
    using MoveAxis_counts_drift_twice [of "\<lparr>clock = 3000000000, dev = ?t\<rparr>" 0 5]
    by (simp add: wrap24_id)
qed

text \<open>C28: NaN, which the parameter parser accepts, passes the coordinate gate, and a slew to it never ends:
  Slewing stays true at every later time.\<close>

theorem NaN_slew_never_ends:
  assumes "ParseFloat v = Some NaN" "\<not> atPark (tel_settleLocked (clock w) (dev w))"
    "-90 \<le> dec" "dec \<le> 90"
  shows "fst (GateTelescopeSlewToCoordinates SimTelescope m True NaN dec w) = None
    \<and> slewing (tel_settleLocked later (tel_SlewToCoordinatesAsync NaN dec now t))"
proof
  have "validRADec NaN dec = None"
    using assms(3,4) by (cases dec) (simp_all add: validRADec_def invalidRange_def)
  then show "fst (GateTelescopeSlewToCoordinates SimTelescope m True NaN dec w) = None"
    using assms(2) by (simp add: GateTelescopeSlewToCoordinates_def GateParked_def ask_def
        split: prod.split) (metis fst_conv reading_apply(1))
  let ?s = "tel_SlewToCoordinatesAsync NaN dec now t"
  have "slewing ?s" "targetRA ?s = NaN"
    by (simp_all add: tel_SlewToCoordinatesAsync_def Let_def beginSlew_slewing)
  then show "slewing (tel_settleLocked later ?s)" by (simp add: settle_eq arrived_def)
qed

theorem NaN_slew_never_ends_witness:
  "slewing (tel_settleLocked (10 ^ 18) (tel_SlewToCoordinatesAsync NaN 0 7 NewTelescope))"
  using NaN_slew_never_ends [OF ParseFloat_nan, of "\<lparr>clock = 7, dev = NewTelescope\<rparr>" 0 "[]" "10 ^ 18" 7 NewTelescope]
  by (simp add: settle_eq)

end
