(* ===== verification/Image_Bytes.thy ===== *)
theory Image_Bytes
  imports Alpaca_Errors "HOL-Library.Multiset"
begin

text \<open>
  The ImageBytes codec, \<open>alpaca/imagebytes.go\<close>: the 44-byte little-endian header, the cache-blocked
  and parallel transposition between sensor order (row-major) and wire order (column-major), the
  encoder, the error envelope, the decoder and the streaming header parser.

  A byte buffer is an \<open>8 word list\<close> whose capacity is its length.  An index or slice outside a buffer
  is a Go panic, the result \<open>None\<close>.  The goroutines of \<open>transposeInto\<close> are the parameter \<open>sched\<close>:
  some interleaving of the element copies that the bands issue.
\<close>

unbundle bit_operations_syntax

type_synonym byte = "8 word"
type_synonym bytes = "byte list"
type_synonym ImageElementType = "32 word"

definition ImgUnknown :: ImageElementType where "ImgUnknown = 0"
definition ImgInt16 :: ImageElementType where "ImgInt16 = 1"
definition ImgInt32 :: ImageElementType where "ImgInt32 = 2"
definition ImgDouble :: ImageElementType where "ImgDouble = 3"
definition ImgSingle :: ImageElementType where "ImgSingle = 4"
definition ImgUInt64 :: ImageElementType where "ImgUInt64 = 5"
definition ImgByte :: ImageElementType where "ImgByte = 6"
definition ImgInt64 :: ImageElementType where "ImgInt64 = 7"
definition ImgUInt16 :: ImageElementType where "ImgUInt16 = 8"
definition ImgUInt32 :: ImageElementType where "ImgUInt32 = 9"

lemmas img_defs = ImgUnknown_def ImgInt16_def ImgInt32_def ImgDouble_def ImgSingle_def
  ImgUInt64_def ImgByte_def ImgInt64_def ImgUInt16_def ImgUInt32_def

record ImageFrame =
  Rank :: int
  Width :: int
  Height :: int
  Planes :: int
  ElementType :: ImageElementType
  TransmissionElementType :: ImageElementType
  Pixels :: bytes

definition ImageBytesHeaderLen :: nat where "ImageBytesHeaderLen = 44"
definition ImageBytesVersion :: "32 word" where "ImageBytesVersion = 1"

definition ElementSize :: "ImageElementType \<Rightarrow> nat" where
  "ElementSize t =
     (if t = ImgByte then 1
      else if t = ImgInt16 \<or> t = ImgUInt16 then 2
      else if t = ImgInt32 \<or> t = ImgUInt32 \<or> t = ImgSingle then 4
      else if t = ImgInt64 \<or> t = ImgUInt64 \<or> t = ImgDouble then 8
      else 0)"

section \<open>Little-endian words\<close>

definition le_bytes :: "32 word \<Rightarrow> bytes" where
  "le_bytes v = [ucast v, ucast (drop_bit 8 v), ucast (drop_bit 16 v), ucast (drop_bit 24 v)]"

definition PutUint32 :: "nat \<Rightarrow> 32 word \<Rightarrow> bytes \<Rightarrow> bytes option" where
  "PutUint32 off v buf =
     (if off + 4 \<le> length buf then Some (take off buf @ le_bytes v @ drop (off + 4) buf) else None)"

definition GetUint32 :: "bytes \<Rightarrow> nat \<Rightarrow> 32 word" where
  "GetUint32 buf off =
     ucast (buf ! off) OR push_bit 8 (ucast (buf ! (off + 1)))
     OR push_bit 16 (ucast (buf ! (off + 2))) OR push_bit 24 (ucast (buf ! (off + 3)))"

lemma length_le_bytes [simp]: "length (le_bytes v) = 4"
  by (simp add: le_bytes_def)

lemma le_bytes_join:
  "(ucast (ucast v :: 8 word) OR push_bit 8 (ucast (ucast (drop_bit 8 v) :: 8 word))
    OR push_bit 16 (ucast (ucast (drop_bit 16 v) :: 8 word))
    OR push_bit 24 (ucast (ucast (drop_bit 24 v) :: 8 word)) :: 32 word) = v"
proof (rule bit_word_eqI)
  fix n assume n: "n < LENGTH(32)"
  show "bit (ucast (ucast v :: 8 word) OR push_bit 8 (ucast (ucast (drop_bit 8 v) :: 8 word))
    OR push_bit 16 (ucast (ucast (drop_bit 16 v) :: 8 word))
    OR push_bit 24 (ucast (ucast (drop_bit 24 v) :: 8 word)) :: 32 word) n = bit v n"
    using n by (cases "n < 8"; cases "n < 16"; cases "n < 24") (auto simp: bit_simps not_less)
qed

lemma GetUint32_mid: "length xs = off \<Longrightarrow> GetUint32 (xs @ le_bytes v @ ys) off = v"
  by (simp add: GetUint32_def le_bytes_def nth_append le_bytes_join)

section \<open>Transposition\<close>

text \<open>\<open>for x := a; x < b; x += k\<close>, the values that \<open>x\<close> takes (\<open>k\<close> is positive in every use).\<close>

function steps :: "nat \<Rightarrow> nat \<Rightarrow> nat \<Rightarrow> nat list" where
  "steps a b k = (if a < b \<and> 0 < k then a # steps (a + k) b k else [])"
  by pat_completeness auto
termination
  by (relation "measure (\<lambda>(a, b, k). b - a)") auto

declare steps.simps [simp del]

text \<open>Running a list of buffer operations in order; a panic stops the run.\<close>

fun run_writes :: "('x \<Rightarrow> bytes \<Rightarrow> bytes option) \<Rightarrow> 'x list \<Rightarrow> bytes \<Rightarrow> bytes option" where
  "run_writes f [] dst = Some dst"
| "run_writes f (x # xs) dst = (case f x dst of None \<Rightarrow> None | Some dst' \<Rightarrow> run_writes f xs dst')"

text \<open>When every operation of the list writes the bytes it owns with their final value, the run ends and
  a byte is rewritten exactly when some operation owns it.\<close>

lemma run_writes_spec:
  assumes "\<And>x dst. x \<in> set xs \<Longrightarrow> length dst = n \<Longrightarrow> \<exists>dst'. f x dst = Some dst' \<and> length dst' = n
     \<and> (\<forall>j < n. dst' ! j = (if owns x j then final j else dst ! j))"
    and "length dst = n"
  shows "\<exists>dst'. run_writes f xs dst = Some dst' \<and> length dst' = n
     \<and> (\<forall>j < n. dst' ! j = (if \<exists>x \<in> set xs. owns x j then final j else dst ! j))"
  using assms
proof (induction xs arbitrary: dst)
  case Nil
  then show ?case by simp
next
  case (Cons x xs)
  obtain d1 where d1: "f x dst = Some d1" "length d1 = n"
      "\<forall>j < n. d1 ! j = (if owns x j then final j else dst ! j)"
    using Cons.prems(1) [of x dst] Cons.prems(2) by auto
  obtain d2 where "run_writes f xs d1 = Some d2" "length d2 = n"
      "\<forall>j < n. d2 ! j = (if \<exists>y \<in> set xs. owns y j then final j else d1 ! j)"
    using Cons.IH [of d1] Cons.prems(1) d1(2) by auto
  then show ?case using d1 by auto
qed

definition put_byte :: "nat \<Rightarrow> nat \<Rightarrow> bytes \<Rightarrow> bytes \<Rightarrow> bytes option" where
  "put_byte d s src dst =
     (if d < length dst \<and> s < length src then Some (dst[d := src ! s]) else None)"

text \<open>The inner statement of \<open>transposeBand\<close>, with its three cases on the element size.\<close>

definition copy_elem :: "bytes \<Rightarrow> nat \<Rightarrow> nat \<Rightarrow> nat \<Rightarrow> nat \<times> nat \<Rightarrow> bytes \<Rightarrow> bytes option" where
  "copy_elem src rows cols es rc dst = (case rc of (r, c) \<Rightarrow>
     (if es = 1 then put_byte (c * rows + r) (r * cols + c) src dst
      else if es = 2 then
        (let d = (c * rows + r) * 2; s = r * cols * 2 + c * 2 in
         case put_byte d s src dst of
           None \<Rightarrow> None
         | Some dst' \<Rightarrow> put_byte (d + 1) (s + 1) src dst')
      else
        (let d = (c * rows + r) * es; s = (r * cols + c) * es in
         if d + es \<le> length dst \<and> s + es \<le> length src
         then Some (take d dst @ take es (drop s src) @ drop (d + es) dst) else None)))"

definition transposeTile :: nat where "transposeTile = 64"
definition parallelMinElems :: nat where "parallelMinElems = 2 ^ 20"

text \<open>The order in which \<open>transposeBand\<close> visits the elements of the source rows \<open>[r0, r1)\<close>.\<close>

definition band_order :: "nat \<Rightarrow> nat \<times> nat \<Rightarrow> (nat \<times> nat) list" where
  "band_order cols band = (case band of (r0, r1) \<Rightarrow>
     concat (map (\<lambda>rt. concat (map (\<lambda>ct.
       [(r, c). r \<leftarrow> [rt ..< min (rt + transposeTile) r1],
                c \<leftarrow> [ct ..< min (ct + transposeTile) cols]])
       (steps 0 cols transposeTile))) (steps r0 r1 transposeTile)))"

definition transposeBand ::
    "bytes \<Rightarrow> nat \<Rightarrow> nat \<Rightarrow> nat \<Rightarrow> nat \<times> nat \<Rightarrow> bytes \<Rightarrow> bytes option" where
  "transposeBand src rows cols es band dst =
     run_writes (copy_elem src rows cols es) (band_order cols band) dst"

definition bands :: "nat \<Rightarrow> nat \<Rightarrow> (nat \<times> nat) list" where
  "bands rows workers =
     (let band = (rows + workers - 1) div workers in
      map (\<lambda>r0. (r0, min (r0 + band) rows)) (steps 0 rows band))"

definition transposeInto ::
    "((nat \<times> nat) list \<Rightarrow> (nat \<times> nat) list) \<Rightarrow> nat \<Rightarrow> bytes \<Rightarrow> bytes
     \<Rightarrow> nat \<Rightarrow> nat \<Rightarrow> nat \<Rightarrow> bytes option" where
  "transposeInto sched procs dst src rows cols es =
     (let workers = min procs rows in
      if rows * cols \<ge> parallelMinElems \<and> workers > 1
      then run_writes (copy_elem src rows cols es)
             (sched (concat (map (band_order cols) (bands rows workers)))) dst
      else transposeBand src rows cols es (0, rows) dst)"

definition transposeElems ::
    "((nat \<times> nat) list \<Rightarrow> (nat \<times> nat) list) \<Rightarrow> nat \<Rightarrow> bytes \<Rightarrow> nat \<Rightarrow> nat \<Rightarrow> nat
     \<Rightarrow> bytes option" where
  "transposeElems sched procs src rows cols es =
     transposeInto sched procs (replicate (length src) 0) src rows cols es"

subsection \<open>What the loops compute\<close>

text \<open>The reference: byte \<open>j\<close> of the result belongs to element \<open>(c, r)\<close> of the \<open>cols\<times>rows\<close> grid.\<close>

definition src_pos :: "nat \<Rightarrow> nat \<Rightarrow> nat \<Rightarrow> nat \<Rightarrow> nat" where
  "src_pos rows cols es j = (((j div es) mod rows) * cols + (j div es) div rows) * es + j mod es"

definition transpose_ref :: "nat \<Rightarrow> nat \<Rightarrow> nat \<Rightarrow> bytes \<Rightarrow> bytes" where
  "transpose_ref rows cols es src = map (\<lambda>j. src ! src_pos rows cols es j) [0 ..< rows * cols * es]"

lemma steps_cover:
  "0 < k \<Longrightarrow> (\<exists>x \<in> set (steps a b k). x \<le> y \<and> y < x + k \<and> y < b) \<longleftrightarrow> a \<le> y \<and> y < b"
proof (induction a b k rule: steps.induct)
  case (1 a b k)
  show ?case
  proof (cases "a < b")
    case True
    with 1 have "(\<exists>x \<in> set (steps (a + k) b k). x \<le> y \<and> y < x + k \<and> y < b) \<longleftrightarrow> a + k \<le> y \<and> y < b"
      by simp
    moreover have "set (steps a b k) = insert a (set (steps (a + k) b k))"
      using True 1 by (subst steps.simps) simp
    ultimately show ?thesis using True by auto
  next
    case False
    then show ?thesis by (subst steps.simps) auto
  qed
qed

lemma mem_band_order:
  "(r, c) \<in> set (band_order cols (r0, r1)) \<longleftrightarrow>
     (\<exists>x \<in> set (steps r0 r1 64). x \<le> r \<and> r < x + 64 \<and> r < r1) \<and>
     (\<exists>x \<in> set (steps 0 cols 64). x \<le> c \<and> c < x + 64 \<and> c < cols)"
  by (force simp: band_order_def transposeTile_def)

lemma set_band_order: "set (band_order cols (r0, r1)) = {r0 ..< r1} \<times> {0 ..< cols}"
proof (rule set_eqI)
  fix p show "p \<in> set (band_order cols (r0, r1)) \<longleftrightarrow> p \<in> {r0 ..< r1} \<times> {0 ..< cols}"
    by (cases p) (simp add: mem_band_order steps_cover)
qed

lemma bands_cover:
  assumes "0 < workers"
  shows "(\<Union>b \<in> set (bands rows workers). set (band_order cols b)) = {0 ..< rows} \<times> {0 ..< cols}"
proof (cases "rows = 0")
  case True
  then show ?thesis by (auto simp: bands_def steps.simps Let_def)
next
  case False
  define k where "k = (rows + workers - 1) div workers"
  have k: "0 < k" using assms False by (simp add: k_def div_greater_zero_iff)
  have "p \<in> (\<Union>b \<in> set (bands rows workers). set (band_order cols b)) \<longleftrightarrow>
      p \<in> {0 ..< rows} \<times> {0 ..< cols}" for p
  proof (cases p)
    case (Pair r c)
    have "p \<in> (\<Union>b \<in> set (bands rows workers). set (band_order cols b)) \<longleftrightarrow>
       (\<exists>x \<in> set (steps 0 rows k). x \<le> r \<and> r < x + k \<and> r < rows) \<and> c < cols"
      by (auto simp: bands_def Let_def set_band_order k_def Pair)
    then show ?thesis by (simp add: steps_cover [OF k] Pair)
  qed
  then show ?thesis by blast
qed

lemma div_eq_iff_block:
  assumes "0 < (m::nat)"
  shows "j div m = q \<longleftrightarrow> q * m \<le> j \<and> j < q * m + m"
proof
  assume "j div m = q"
  then show "q * m \<le> j \<and> j < q * m + m"
    using assms dividend_less_div_times [of m j] div_times_less_eq_dividend [of j m]
    by (simp add: add.commute)
next
  assume "q * m \<le> j \<and> j < q * m + m"
  then show "j div m = q" by (intro div_nat_eqI) (simp_all add: mult.commute)
qed

lemma grid_pos_less: "(r::nat) < rows \<Longrightarrow> c < cols \<Longrightarrow> c * rows + r < rows * cols"
proof -
  assume a: "r < rows" "c < cols"
  have "c * rows + r < Suc c * rows" using a by simp
  also have "\<dots> \<le> cols * rows" using a by (intro mult_le_mono1) simp
  finally show ?thesis by (simp add: mult.commute)
qed

lemma grid_block: "p < n \<Longrightarrow> p * es + es \<le> n * (es::nat)"
  by (metis Suc_leI add.commute mult_Suc mult_le_mono1)

lemma src_pos_less:
  assumes "j < rows * cols * es"
  shows "src_pos rows cols es j < rows * cols * es"
proof -
  have es: "0 < es" and j: "j div es < rows * cols"
    using assms by (auto simp: less_mult_imp_div_less intro: gr0I)
  then have "0 < rows" by (auto intro: gr0I)
  then have "(j div es) mod rows < rows" "(j div es) div rows < cols"
    using j by (simp_all add: div_less_iff_less_mult mult.commute)
  then have e: "(j div es) mod rows * cols + (j div es) div rows < rows * cols"
    using grid_pos_less [of "(j div es) div rows" cols "(j div es) mod rows" rows]
    by (simp add: mult.commute)
  then have "src_pos rows cols es j < ((j div es) mod rows * cols + (j div es) div rows) * es + es"
    using es by (simp add: src_pos_def)
  also have "\<dots> \<le> rows * cols * es"
    using e by (rule grid_block)
  finally show ?thesis .
qed

text \<open>One element copy writes exactly the bytes of its element.\<close>

lemma copy_elem_slice:
  assumes "r < rows" "c < cols" "0 < es"
    and len: "length dst = rows * cols * es" "length src = rows * cols * es"
  shows "copy_elem src rows cols es (r, c) dst =
    Some (take ((c * rows + r) * es) dst @ take es (drop ((r * cols + c) * es) src)
          @ drop ((c * rows + r) * es + es) dst)"
proof -
  have d: "(c * rows + r) * es + es \<le> length dst"
    using grid_block [OF grid_pos_less [OF assms(1,2)]] len by simp
  have s: "(r * cols + c) * es + es \<le> length src"
    using grid_block [OF grid_pos_less [of c cols r rows]] assms(1,2) len by (simp add: mult.commute)
  have one: "take (Suc 0) (drop s src) = [src ! s]" if "s < length src" for s
    using that by (simp add: take_Suc_conv_app_nth)
  have two: "take 2 (drop s src) = [src ! s, src ! (s + 1)]" if "s + 1 < length src" for s
    using that by (simp add: numeral_2_eq_2 take_Suc_conv_app_nth)
  show ?thesis
  proof (cases "es = 1 \<or> es = 2")
    case False
    with d s show ?thesis by (simp add: copy_elem_def Let_def)
  next
    case True
    then show ?thesis
    proof
      assume "es = 1"
      with d s show ?thesis
        using one [of "r * cols + c"] by (simp add: copy_elem_def put_byte_def upd_conv_take_nth_drop)
    next
      assume es: "es = 2"
      let ?d = "(c * rows + r) * 2" and ?s = "(r * cols + c) * 2"
      have "take ?d (dst[?d := x]) = take ?d dst" for x by simp
      moreover have "dst[?d := x, ?d + 1 := y] = take ?d dst @ [x, y] @ drop (?d + 2) dst" for x y
        using d es by (subst upd_conv_take_nth_drop)
          (simp_all add: take_Suc_conv_app_nth upd_conv_take_nth_drop)
      ultimately show ?thesis using d s es two [of ?s]
        by (simp add: copy_elem_def put_byte_def Let_def algebra_simps)
    qed
  qed
qed

lemma splice_nth:
  "d + length xs \<le> length dst \<Longrightarrow> j < length dst \<Longrightarrow>
   (take d dst @ xs @ drop (d + length xs) dst) ! j =
   (if d \<le> j \<and> j < d + length xs then xs ! (j - d) else dst ! j)"
  by (auto simp: nth_append min_def)

lemma copy_elem_spec:
  assumes "r < rows" "c < cols" "0 < es"
    and len: "length dst = rows * cols * es" "length src = rows * cols * es"
  shows "\<exists>dst'. copy_elem src rows cols es (r, c) dst = Some dst' \<and> length dst' = length dst \<and>
    (\<forall>j < length dst. dst' ! j =
       (if (j div es) mod rows = r \<and> (j div es) div rows = c then src ! src_pos rows cols es j
        else dst ! j))"
proof -
  let ?d = "(c * rows + r) * es" and ?s = "(r * cols + c) * es"
  have d: "?d + es \<le> length dst"
    using grid_block [OF grid_pos_less [OF assms(1,2)]] len by simp
  have s: "?s + es \<le> length src"
    using grid_block [OF grid_pos_less [of c cols r rows]] assms(1,2) len by (simp add: mult.commute)
  have own: "(j div es) mod rows = r \<and> (j div es) div rows = c \<longleftrightarrow> ?d \<le> j \<and> j < ?d + es" for j
  proof -
    have "(j div es) mod rows = r \<and> (j div es) div rows = c \<longleftrightarrow> j div es = c * rows + r"
      using assms(1) by auto
    also have "\<dots> \<longleftrightarrow> ?d \<le> j \<and> j < ?d + es" by (rule div_eq_iff_block [OF assms(3)])
    finally show ?thesis .
  qed
  have at: "src ! src_pos rows cols es j = take es (drop ?s src) ! (j - ?d)"
    if "?d \<le> j \<and> j < ?d + es" for j
  proof -
    have "j div es = c * rows + r" using that div_eq_iff_block [OF assms(3)] by blast
    moreover have "j mod es = j - ?d" using calculation by (metis minus_div_mult_eq_mod)
    moreover have "j - ?d < es" using that by auto
    ultimately show ?thesis using s assms(1) by (simp add: src_pos_def)
  qed
  have l: "length (take es (drop ?s src)) = es" using s by simp
  show ?thesis unfolding copy_elem_slice [OF assms]
    using splice_nth [of ?d "take es (drop ?s src)" dst] d l at own by auto
qed

text \<open>Running any list of element copies: a byte is rewritten exactly when its element is listed.\<close>

lemma run_copies_spec:
  assumes "0 < es" "length src = rows * cols * es" "length dst = rows * cols * es"
    and "set ps \<subseteq> {0 ..< rows} \<times> {0 ..< cols}"
  shows "\<exists>dst'. run_writes (copy_elem src rows cols es) ps dst = Some dst' \<and>
    length dst' = length dst \<and>
    (\<forall>j < length dst. dst' ! j =
       (if ((j div es) mod rows, (j div es) div rows) \<in> set ps then src ! src_pos rows cols es j
        else dst ! j))"
proof -
  let ?own = "\<lambda>p j. (j div es) mod rows = fst p \<and> (j div es) div rows = snd p"
  have "\<exists>d'. copy_elem src rows cols es p d = Some d' \<and> length d' = rows * cols * es
      \<and> (\<forall>j < rows * cols * es. d' ! j = (if ?own p j then src ! src_pos rows cols es j else d ! j))"
    if "p \<in> set ps" "length d = rows * cols * es" for p d
  proof -
    have "fst p < rows" "snd p < cols" using assms(4) that(1) by auto
    from copy_elem_spec [OF this assms(1) that(2) assms(2)] that(2) show ?thesis by simp
  qed
  from run_writes_spec [of ps _ "copy_elem src rows cols es", OF this assms(3)]
  obtain d' where "run_writes (copy_elem src rows cols es) ps dst = Some d'" "length d' = rows * cols * es"
    "\<forall>j < rows * cols * es. d' ! j =
       (if \<exists>p \<in> set ps. ?own p j then src ! src_pos rows cols es j else dst ! j)"
    by blast
  moreover have "(\<exists>p \<in> set ps. ?own p j) = (((j div es) mod rows, (j div es) div rows) \<in> set ps)" for j
    by force
  ultimately show ?thesis using assms(3) by simp
qed

lemma run_copies_all:
  assumes "0 < es" "length src = rows * cols * es" "length dst = rows * cols * es"
    and "set ps = {0 ..< rows} \<times> {0 ..< cols}"
  shows "run_writes (copy_elem src rows cols es) ps dst = Some (transpose_ref rows cols es src)"
proof -
  obtain dst' where d: "run_writes (copy_elem src rows cols es) ps dst = Some dst'"
      "length dst' = length dst"
      "\<forall>j < length dst. dst' ! j =
       (if ((j div es) mod rows, (j div es) div rows) \<in> set ps then src ! src_pos rows cols es j
        else dst ! j)"
    using run_copies_spec [OF assms(1-3)] assms(4) by (metis order_refl)
  have "((j div es) mod rows, (j div es) div rows) \<in> set ps" if "j < length dst" for j
  proof -
    have "j div es < rows * cols" using that assms(3) by (simp add: less_mult_imp_div_less)
    then show ?thesis using assms(4)
      by (auto simp: less_mult_imp_div_less mult.commute intro!: mod_less_divisor gr0I)
  qed
  then have "dst' = transpose_ref rows cols es src"
    using d assms(3) by (intro nth_equalityI) (simp_all add: transpose_ref_def)
  with d show ?thesis by simp
qed

text \<open>The parallel, tiled transposition computes the reference, whatever the number of processors
  and however the scheduler interleaves the bands.\<close>

lemma transposeInto_ref:
  assumes "0 < es" "length src = rows * cols * es" "length dst = rows * cols * es"
    and "\<And>ps. mset (sched ps) = mset ps"
  shows "transposeInto sched procs dst src rows cols es = Some (transpose_ref rows cols es src)"
proof (cases "rows * cols \<ge> parallelMinElems \<and> min procs rows > 1")
  case True
  have "set (sched (concat (map (band_order cols) (bands rows (min procs rows))))) =
      {0 ..< rows} \<times> {0 ..< cols}"
    using bands_cover [where workers = "min procs rows" and rows = rows and cols = cols] True
      mset_eq_setD [OF assms(4)] by simp
  then show ?thesis using True run_copies_all [OF assms(1-3)]
    by (simp add: transposeInto_def Let_def)
next
  case False
  have "set (band_order cols (0, rows)) = {0 ..< rows} \<times> {0 ..< cols}" by (simp add: set_band_order)
  then show ?thesis using False run_copies_all [OF assms(1-3)]
    by (auto simp: transposeInto_def Let_def transposeBand_def)
qed

lemma transposeElems_ref:
  assumes "0 < es" "length src = rows * cols * es" "\<And>ps. mset (sched ps) = mset ps"
  shows "transposeElems sched procs src rows cols es = Some (transpose_ref rows cols es src)"
  unfolding transposeElems_def using assms by (intro transposeInto_ref) simp_all

lemma length_transpose_ref [simp]: "length (transpose_ref rows cols es src) = rows * cols * es"
  by (simp add: transpose_ref_def)

text \<open>Transposing twice, with the dimensions exchanged, gives the buffer back.\<close>

lemma transpose_ref_inverse:
  assumes "length src = rows * cols * es"
  shows "transpose_ref cols rows es (transpose_ref rows cols es src) = src"
proof (rule nth_equalityI)
  fix j assume "j < length (transpose_ref cols rows es (transpose_ref rows cols es src))"
  then have j: "j < cols * rows * es" by simp
  have es: "0 < es" and e: "j div es < cols * rows"
    using j by (auto simp: less_mult_imp_div_less intro: gr0I)
  then have cols: "0 < cols" by (auto intro: gr0I)
  define r where "r = (j div es) div cols"
  define c where "c = (j div es) mod cols"
  have rc: "r < rows" "c < cols" "j div es = r * cols + c"
    using e cols by (simp_all add: r_def c_def div_less_iff_less_mult mult.commute)
  have p: "src_pos cols rows es j = (c * rows + r) * es + j mod es"
    by (simp add: src_pos_def r_def c_def)
  have "src_pos cols rows es j < rows * cols * es"
    using src_pos_less [OF j] by (simp add: mult.commute)
  moreover have "src_pos rows cols es (src_pos cols rows es j) = j"
    using es rc by (simp add: src_pos_def [of rows cols] p) (simp add: rc(3) [symmetric])
  ultimately show "transpose_ref cols rows es (transpose_ref rows cols es src) ! j = src ! j"
    using j by (simp add: transpose_ref_def)
qed (simp add: assms mult.commute)

section \<open>The encoder\<close>

definition header_words ::
    "32 word \<Rightarrow> 32 word \<Rightarrow> 32 word \<Rightarrow> ImageElementType \<Rightarrow> ImageElementType
     \<Rightarrow> int \<Rightarrow> int \<Rightarrow> int \<Rightarrow> int \<Rightarrow> 32 word list" where
  "header_words errNum ctx stx elemType transmitType rank dim1 dim2 dim3 =
     [ImageBytesVersion, errNum, ctx, stx, of_nat ImageBytesHeaderLen, elemType, transmitType,
      word_of_int rank, word_of_int dim1, word_of_int dim2, word_of_int dim3]"

text \<open>\<open>putImageBytesHeader\<close>: the eleven words at the offsets 0, 4, \<open>\<dots>\<close>, 40.\<close>

definition putImageBytesHeader ::
    "bytes \<Rightarrow> 32 word \<Rightarrow> 32 word \<Rightarrow> 32 word \<Rightarrow> ImageElementType \<Rightarrow> ImageElementType
     \<Rightarrow> int \<Rightarrow> int \<Rightarrow> int \<Rightarrow> int \<Rightarrow> bytes option" where
  "putImageBytesHeader buf errNum ctx stx elemType transmitType rank dim1 dim2 dim3 =
     run_writes (\<lambda>(off, v). PutUint32 off v)
       (zip [0, 4, 8, 12, 16, 20, 24, 28, 32, 36, 40]
         (header_words errNum ctx stx elemType transmitType rank dim1 dim2 dim3)) buf"

text \<open>Go's \<open>copy(dst, src)\<close>.\<close>

definition go_copy :: "bytes \<Rightarrow> bytes \<Rightarrow> bytes" where
  "go_copy dst src = take (length dst) src @ drop (length src) dst"

definition transmit_type :: "ImageElementType \<Rightarrow> ImageElementType \<Rightarrow> ImageElementType" where
  "transmit_type transmission element = (if transmission = 0 then element else transmission)"

text \<open>The guard of the transposition, with Go's 64-bit product.\<close>

definition transposes :: "int \<Rightarrow> int \<Rightarrow> int \<Rightarrow> nat \<Rightarrow> nat \<Rightarrow> bool" where
  "transposes rank width height es len \<longleftrightarrow>
     rank = 2 \<and> es > 0 \<and> width > 0 \<and> height > 0 \<and> int len = wrap64 (width * height * int es)"

definition EncodeImageBytesInto ::
    "((nat \<times> nat) list \<Rightarrow> (nat \<times> nat) list) \<Rightarrow> nat \<Rightarrow> bytes \<Rightarrow> ImageFrame
     \<Rightarrow> 32 word \<Rightarrow> 32 word \<Rightarrow> bytes option" where
  "EncodeImageBytesInto sched procs dst frame clientTxID serverTxID =
     (let transmit = transmit_type (TransmissionElementType frame) (ElementType frame);
          es = ElementSize transmit in
      case putImageBytesHeader dst 0 clientTxID serverTxID (ElementType frame) transmit
             (Rank frame) (Width frame) (Height frame) (Planes frame) of
        None \<Rightarrow> None
      | Some dst \<Rightarrow>
          (let out = drop ImageBytesHeaderLen dst in
           if transposes (Rank frame) (Width frame) (Height frame) es (length (Pixels frame))
           then map_option (\<lambda>out. take ImageBytesHeaderLen dst @ out)
                  (transposeInto sched procs out (Pixels frame)
                     (nat (Height frame)) (nat (Width frame)) es)
           else Some (take ImageBytesHeaderLen dst @ go_copy out (Pixels frame))))"

definition EncodeImageBytes ::
    "((nat \<times> nat) list \<Rightarrow> (nat \<times> nat) list) \<Rightarrow> nat \<Rightarrow> ImageFrame \<Rightarrow> 32 word \<Rightarrow> 32 word
     \<Rightarrow> bytes option" where
  "EncodeImageBytes sched procs frame clientTxID serverTxID =
     EncodeImageBytesInto sched procs (replicate (ImageBytesHeaderLen + length (Pixels frame)) 0)
       frame clientTxID serverTxID"

definition bytes_of_string :: "string \<Rightarrow> bytes" where
  "bytes_of_string s = map of_char s"

definition string_of_bytes :: "bytes \<Rightarrow> string" where
  "string_of_bytes bs = map (\<lambda>b. char_of (unat b)) bs"

definition EncodeImageBytesError :: "int \<Rightarrow> string \<Rightarrow> 32 word \<Rightarrow> 32 word \<Rightarrow> bytes option" where
  "EncodeImageBytesError errNum msg clientTxID serverTxID =
     (let payload = bytes_of_string msg;
          buf = replicate (ImageBytesHeaderLen + length payload) 0 in
      case putImageBytesHeader buf (word_of_int errNum) clientTxID serverTxID
             ImgUnknown ImgUnknown 0 0 0 0 of
        None \<Rightarrow> None
      | Some buf \<Rightarrow> Some (take ImageBytesHeaderLen buf @ go_copy (drop ImageBytesHeaderLen buf) payload))"

section \<open>The decoder\<close>

definition short_header :: goerror where
  "short_header = EAlpaca (NewError ErrNumUnspecified
     (Text ''imagebytes response shorter than metadata header''))"

definition DecodeImageBytes ::
    "((nat \<times> nat) list \<Rightarrow> (nat \<times> nat) list) \<Rightarrow> nat \<Rightarrow> bytes
     \<Rightarrow> (goerror + ImageFrame) option" where
  "DecodeImageBytes sched procs data =
     (if length data < ImageBytesHeaderLen then Some (Inl short_header)
      else
        let errNum = GetUint32 data 4;
            dataStart = (let d = unat (GetUint32 data 16) in if d > length data then length data else d)
        in if errNum \<noteq> 0
           then Some (Inl (EAlpaca \<lparr>Number = sint errNum,
                                    Message = Text (string_of_bytes (drop dataStart data))\<rparr>))
           else
             let frame = \<lparr>Rank = uint (GetUint32 data 28), Width = uint (GetUint32 data 32),
                          Height = uint (GetUint32 data 36), Planes = uint (GetUint32 data 40),
                          ElementType = GetUint32 data 20,
                          TransmissionElementType = GetUint32 data 24, Pixels = []\<rparr>;
                 es = ElementSize (transmit_type (TransmissionElementType frame) (ElementType frame));
                 pixels = drop dataStart data
             in if transposes (Rank frame) (Width frame) (Height frame) es (length pixels)
                then map_option (\<lambda>p. Inr (frame\<lparr>Pixels := p\<rparr>))
                       (transposeElems sched procs pixels
                          (nat (Width frame)) (nat (Height frame)) es)
                else Some (Inr (frame\<lparr>Pixels := pixels\<rparr>)))"

record ImageBytesHeader =
  hErrorNumber :: int
  hDataStart :: int
  hElementType :: ImageElementType
  hTransmissionElementType :: ImageElementType
  hRank :: int
  hWidth :: int
  hHeight :: int
  hPlanes :: int

definition Transmit :: "ImageBytesHeader \<Rightarrow> ImageElementType" where
  "Transmit h = (if hTransmissionElementType h \<noteq> 0 then hTransmissionElementType h else hElementType h)"

definition PixelBytes :: "ImageBytesHeader \<Rightarrow> int" where
  "PixelBytes h =
     (let es = int (ElementSize (Transmit h)) in
      if es \<le> 0 \<or> hWidth h \<le> 0 \<or> hHeight h \<le> 0 then 0
      else
        (let planes = (if hRank h \<noteq> 3 \<or> hPlanes h \<le> 0 then 1 else hPlanes h) in
         wrap64 (hWidth h * hHeight h * planes * es)))"

definition ParseImageBytesHeader :: "bytes \<Rightarrow> goerror + ImageBytesHeader" where
  "ParseImageBytesHeader data =
     (if length data < ImageBytesHeaderLen then Inl short_header
      else Inr \<lparr>hErrorNumber = sint (GetUint32 data 4), hDataStart = uint (GetUint32 data 16),
                hElementType = GetUint32 data 20, hTransmissionElementType = GetUint32 data 24,
                hRank = uint (GetUint32 data 28), hWidth = uint (GetUint32 data 32),
                hHeight = uint (GetUint32 data 36), hPlanes = uint (GetUint32 data 40)\<rparr>)"

section \<open>Facts about the header\<close>

lemma PutUint32_mid:
  "length pre = off \<Longrightarrow> 4 \<le> length rest \<Longrightarrow>
   PutUint32 off v (pre @ rest) = Some ((pre @ le_bytes v) @ drop 4 rest)"
  by (simp add: PutUint32_def)

lemma put_words:
  "length offs = length vs \<Longrightarrow> (\<forall>i < length vs. offs ! i = length pre + 4 * i) \<Longrightarrow>
   4 * length vs \<le> length rest \<Longrightarrow>
   run_writes (\<lambda>(off, v). PutUint32 off v) (zip offs vs) (pre @ rest) =
     Some (pre @ concat (map le_bytes vs) @ drop (4 * length vs) rest)"
proof (induction vs arbitrary: offs pre rest)
  case Nil
  then show ?case by simp
next
  case (Cons v vs)
  then obtain off offs' where o: "offs = off # offs'" by (cases offs) auto
  have off: "length pre = off" using Cons.prems(2) o by (metis add_0_right length_greater_0_conv
      list.distinct(1) mult_0_right nth_Cons_0)
  have next_offs: "\<forall>i < length vs. offs' ! i = length (pre @ le_bytes v) + 4 * i"
  proof (intro allI impI)
    fix i assume "i < length vs"
    then show "offs' ! i = length (pre @ le_bytes v) + 4 * i"
      using Cons.prems(2) [rule_format, of "Suc i"] o by simp
  qed
  have "run_writes (\<lambda>(off, v). PutUint32 off v) (zip offs' vs) ((pre @ le_bytes v) @ drop 4 rest) =
      Some ((pre @ le_bytes v) @ concat (map le_bytes vs) @ drop (4 * length vs) (drop 4 rest))"
    using Cons.prems o next_offs by (intro Cons.IH) simp_all
  then show ?case using Cons.prems off PutUint32_mid [OF off, of rest v]
    by (simp add: o add.commute)
qed

lemma length_header_words [simp]: "length (header_words e c s t u r a b d) = 11"
  by (simp add: header_words_def)

lemma length_concat_le_bytes [simp]: "length (concat (map le_bytes ws)) = 4 * length ws"
  by (induction ws) simp_all

lemma putImageBytesHeader_eq:
  assumes "44 \<le> length buf"
  shows "putImageBytesHeader buf e c s t u r a b d =
    Some (concat (map le_bytes (header_words e c s t u r a b d)) @ drop 44 buf)"
proof -
  have offs: "\<forall>i < 11. [0::nat, 4, 8, 12, 16, 20, 24, 28, 32, 36, 40] ! i = 4 * i"
    by (simp add: All_less_Suc numeral_eq_Suc)
  show ?thesis unfolding putImageBytesHeader_def
    using put_words [of "[0, 4, 8, 12, 16, 20, 24, 28, 32, 36, 40]"
        "header_words e c s t u r a b d" "[]" buf] assms offs
    by simp
qed

lemma GetUint32_word:
  assumes "i < length ws"
  shows "GetUint32 (concat (map le_bytes ws) @ rest) (4 * i) = ws ! i"
proof -
  have "ws = take i ws @ ws ! i # drop (Suc i) ws" using assms by (rule id_take_nth_drop)
  then have "concat (map le_bytes ws) @ rest =
      concat (map le_bytes (take i ws)) @ le_bytes (ws ! i) @ (concat (map le_bytes (drop (Suc i) ws)) @ rest)"
    by (metis append.assoc concat.simps(2) concat_append list.simps(9) map_append)
  moreover have "length (concat (map le_bytes (take i ws))) = 4 * i" using assms by simp
  ultimately show ?thesis by (metis GetUint32_mid)
qed

lemma GetUint32_header:
  "GetUint32 (concat (map le_bytes (header_words e c s t u r a b d)) @ rest) 4 = e"
  "GetUint32 (concat (map le_bytes (header_words e c s t u r a b d)) @ rest) 8 = c"
  "GetUint32 (concat (map le_bytes (header_words e c s t u r a b d)) @ rest) 12 = s"
  "GetUint32 (concat (map le_bytes (header_words e c s t u r a b d)) @ rest) 16 = 44"
  "GetUint32 (concat (map le_bytes (header_words e c s t u r a b d)) @ rest) 20 = t"
  "GetUint32 (concat (map le_bytes (header_words e c s t u r a b d)) @ rest) 24 = u"
  "GetUint32 (concat (map le_bytes (header_words e c s t u r a b d)) @ rest) 28 = word_of_int r"
  "GetUint32 (concat (map le_bytes (header_words e c s t u r a b d)) @ rest) 32 = word_of_int a"
  "GetUint32 (concat (map le_bytes (header_words e c s t u r a b d)) @ rest) 36 = word_of_int b"
  "GetUint32 (concat (map le_bytes (header_words e c s t u r a b d)) @ rest) 40 = word_of_int d"
  using GetUint32_word [of 1 "header_words e c s t u r a b d" rest]
    GetUint32_word [of 2 "header_words e c s t u r a b d" rest]
    GetUint32_word [of 3 "header_words e c s t u r a b d" rest]
    GetUint32_word [of 4 "header_words e c s t u r a b d" rest]
    GetUint32_word [of 5 "header_words e c s t u r a b d" rest]
    GetUint32_word [of 6 "header_words e c s t u r a b d" rest]
    GetUint32_word [of 7 "header_words e c s t u r a b d" rest]
    GetUint32_word [of 8 "header_words e c s t u r a b d" rest]
    GetUint32_word [of 9 "header_words e c s t u r a b d" rest]
    GetUint32_word [of 10 "header_words e c s t u r a b d" rest]
  by (simp_all add: header_words_def ImageBytesHeaderLen_def)

section \<open>Correctness of the codec\<close>

text \<open>A frame the wire can carry: the dimensions fit their 32-bit fields, and the size in bytes does
  not leave Go's \<open>int\<close>.\<close>

definition wire_frame :: "ImageFrame \<Rightarrow> bool" where
  "wire_frame f \<longleftrightarrow>
     0 \<le> Rank f \<and> Rank f < 2 ^ 32 \<and> 0 \<le> Width f \<and> Width f < 2 ^ 32 \<and>
     0 \<le> Height f \<and> Height f < 2 ^ 32 \<and> 0 \<le> Planes f \<and> Planes f < 2 ^ 32 \<and>
     Width f * Height f * 8 < 2 ^ 63"

text \<open>What the decoder returns for an encoded frame: the transmission type is made explicit.\<close>

definition on_wire :: "ImageFrame \<Rightarrow> ImageFrame" where
  "on_wire f = f\<lparr>TransmissionElementType := transmit_type (TransmissionElementType f) (ElementType f)\<rparr>"

definition wire_pixels :: "ImageFrame \<Rightarrow> bytes" where
  "wire_pixels f =
     (let es = ElementSize (transmit_type (TransmissionElementType f) (ElementType f)) in
      if transposes (Rank f) (Width f) (Height f) es (length (Pixels f))
      then transpose_ref (nat (Height f)) (nat (Width f)) es (Pixels f) else Pixels f)"

lemma ElementSize_le: "ElementSize t \<le> 8"
  by (simp add: ElementSize_def)

lemma product_in_i64:
  assumes "wire_frame f"
  shows "in_i64 (Width f * Height f * int (ElementSize t))"
proof -
  define p where "p = Width f * Height f"
  have p: "0 \<le> p" "p * 8 < 2 ^ 63" using assms by (simp_all add: wire_frame_def p_def)
  have "0 \<le> p * int (ElementSize t)" using p by simp
  moreover have "p * int (ElementSize t) \<le> p * 8"
    using ElementSize_le [of t] p by (intro mult_left_mono) auto
  then have "p * int (ElementSize t) < 2 ^ 63" using p by linarith
  ultimately show ?thesis unfolding in_i64_def p_def [symmetric] by simp
qed

lemma transposes_length:
  assumes "transposes (Rank f) (Width f) (Height f) (ElementSize t) n" "wire_frame f"
  shows "0 < ElementSize t" "n = nat (Height f) * nat (Width f) * ElementSize t"
proof -
  show "0 < ElementSize t" using assms by (simp add: transposes_def)
  have "int n = Width f * Height f * int (ElementSize t)"
    using assms product_in_i64 [OF assms(2), of t] by (simp add: transposes_def)
  also have "\<dots> = int (nat (Height f) * nat (Width f) * ElementSize t)"
    using assms by (simp add: wire_frame_def mult.commute)
  finally show "n = nat (Height f) * nat (Width f) * ElementSize t" by linarith
qed

lemma length_wire_pixels:
  "wire_frame f \<Longrightarrow> length (wire_pixels f) = length (Pixels f)"
  by (auto simp: wire_pixels_def Let_def dest: transposes_length)

text \<open>The message for a frame: the header words, then the pixels in wire order.\<close>

definition image_message :: "ImageFrame \<Rightarrow> 32 word \<Rightarrow> 32 word \<Rightarrow> bytes" where
  "image_message f c s = concat (map le_bytes (header_words 0 c s (ElementType f)
     (transmit_type (TransmissionElementType f) (ElementType f))
     (Rank f) (Width f) (Height f) (Planes f))) @ wire_pixels f"

text \<open>What the buffer held before does not matter: every byte is overwritten.\<close>

lemma EncodeImageBytesInto_eq:
  assumes "wire_frame f" "\<And>ps. mset (sched ps) = mset ps" "length buf = ImageBytesHeaderLen + length (Pixels f)"
  shows "EncodeImageBytesInto sched procs buf f c s = Some (image_message f c s)"
proof -
  let ?t = "transmit_type (TransmissionElementType f) (ElementType f)"
  have len: "length (drop 44 buf) = length (Pixels f)" "44 \<le> length buf"
    using assms(3) by (simp_all add: ImageBytesHeaderLen_def)
  have "transposeInto sched procs (drop 44 buf) (Pixels f)
      (nat (Height f)) (nat (Width f)) (ElementSize ?t) =
      Some (transpose_ref (nat (Height f)) (nat (Width f)) (ElementSize ?t) (Pixels f))"
    if "transposes (Rank f) (Width f) (Height f) (ElementSize ?t) (length (Pixels f))"
    using transposes_length [OF that assms(1)] assms(2) len by (intro transposeInto_ref) simp_all
  then show ?thesis using len
    by (simp add: EncodeImageBytesInto_def Let_def putImageBytesHeader_eq image_message_def
        ImageBytesHeaderLen_def wire_pixels_def go_copy_def)
qed

lemma EncodeImageBytes_eq:
  assumes "wire_frame f" "\<And>ps. mset (sched ps) = mset ps"
  shows "EncodeImageBytes sched procs f c s = Some (image_message f c s)"
  unfolding EncodeImageBytes_def using assms by (rule EncodeImageBytesInto_eq) simp

lemma image_message_pixels: "drop 44 (image_message f c s) = wire_pixels f"
  by (simp add: image_message_def)

lemma length_image_message: "wire_frame f \<Longrightarrow> length (image_message f c s) = ImageBytesHeaderLen + length (Pixels f)"
  by (simp add: image_message_def ImageBytesHeaderLen_def length_wire_pixels)

lemma decode_image_message:
  assumes "wire_frame f" "\<And>ps. mset (sched ps) = mset ps"
  shows "DecodeImageBytes sched procs (image_message f c s) = Some (Inr (on_wire f))"
proof -
  let ?t = "transmit_type (TransmissionElementType f) (ElementType f)"
  have tt: "transmit_type ?t (ElementType f) = ?t" by (simp add: transmit_type_def)
  have u: "uint (word_of_int n :: 32 word) = n" if "0 \<le> n" "n < 2 ^ 32" for n
    using that by (simp add: unsigned_of_int take_bit_int_eq_self)
  have ints: "uint (word_of_int (Rank f) :: 32 word) = Rank f" "uint (word_of_int (Width f) :: 32 word) = Width f"
      "uint (word_of_int (Height f) :: 32 word) = Height f" "uint (word_of_int (Planes f) :: 32 word) = Planes f"
    using assms(1) by (simp_all add: wire_frame_def u)
  have undo: "transposeElems sched procs (wire_pixels f) (nat (Width f)) (nat (Height f))
        (ElementSize ?t) = Some (Pixels f)"
    if "transposes (Rank f) (Width f) (Height f) (ElementSize ?t) (length (Pixels f))"
    using transposes_length [OF that assms(1)] assms(2) that
    by (subst transposeElems_ref) (simp_all add: wire_pixels_def Let_def transpose_ref_inverse mult.commute)
  show ?thesis
  proof (cases "transposes (Rank f) (Width f) (Height f) (ElementSize ?t) (length (Pixels f))")
    case True
    then show ?thesis using undo
      by (simp add: DecodeImageBytes_def image_message_def GetUint32_header ints tt Let_def ImageBytesHeaderLen_def
          length_wire_pixels [OF assms(1)] on_wire_def)
  next
    case False
    then show ?thesis
      by (simp add: DecodeImageBytes_def image_message_def GetUint32_header ints tt Let_def ImageBytesHeaderLen_def
          length_wire_pixels [OF assms(1)] on_wire_def) (simp add: wire_pixels_def Let_def)
  qed
qed

text \<open>C1: The ImageBytes round trip.  For every frame whose dimensions fit the wire format, whatever
  the element type, the number of processors and the interleaving of the transposition goroutines on
  either side, the encoder returns a message without panicking, and the decoder gives back the same
  frame, pixels in sensor order included (with the transmission type made explicit).\<close>

theorem decode_encode:
  assumes "wire_frame f" "\<And>ps. mset (sched ps) = mset ps" "\<And>ps. mset (sched' ps) = mset ps"
  shows "\<exists>msg. EncodeImageBytes sched procs f c s = Some msg
    \<and> length msg = ImageBytesHeaderLen + length (Pixels f)
    \<and> DecodeImageBytes sched' procs' msg = Some (Inr (on_wire f))"
  using assms by (simp add: EncodeImageBytes_eq length_image_message decode_image_message)

definition small_frame :: ImageFrame where
  "small_frame = \<lparr>Rank = 2, Width = 3, Height = 2, Planes = 0, ElementType = ImgInt32,
     TransmissionElementType = ImgByte, Pixels = [1, 2, 3, 4, 5, 6]\<rparr>"

theorem decode_encode_witness:
  "\<exists>msg. EncodeImageBytes rev 4 small_frame 7 9 = Some msg
    \<and> length msg = ImageBytesHeaderLen + length (Pixels small_frame)
    \<and> DecodeImageBytes id 1 msg = Some (Inr (on_wire small_frame))"
  by (rule decode_encode) (simp_all add: wire_frame_def small_frame_def)

lemma error_envelope:
  assumes "errNum \<noteq> 0" "- (2 ^ 31) \<le> errNum" "errNum < 2 ^ 31"
  shows "\<exists>env. EncodeImageBytesError errNum msg c s = Some env \<and> length env = ImageBytesHeaderLen + length msg
    \<and> (\<forall>sched procs. DecodeImageBytes sched procs env = Some (Inl (EAlpaca \<lparr>Number = errNum, Message = Text msg\<rparr>)))"
proof -
  have n: "sint (word_of_int errNum :: 32 word) = errNum"
    using assms by (simp add: signed_of_int signed_take_bit_int_eq_self)
  then have nz: "(word_of_int errNum :: 32 word) \<noteq> 0" using assms(1) by (metis signed_0)
  have m: "string_of_bytes (bytes_of_string msg) = msg" "length (bytes_of_string msg) = length msg"
  proof -
    have "char_of (unat (of_char ch :: 8 word)) = ch" for ch
    proof -
      have "(of_char ch :: 8 word) = of_nat (of_char ch)" by (simp add: of_nat_of_char)
      then have "unat (of_char ch :: 8 word) = of_char ch"
        by (simp add: unat_of_nat)
      then show ?thesis by simp
    qed
    then show "string_of_bytes (bytes_of_string msg) = msg" "length (bytes_of_string msg) = length msg"
     by (simp_all add: string_of_bytes_def bytes_of_string_def o_def)
  qed
  show ?thesis using nz m
    by (simp add: EncodeImageBytesError_def DecodeImageBytes_def Let_def putImageBytesHeader_eq
        GetUint32_header ImageBytesHeaderLen_def go_copy_def n)
qed

text \<open>A failed image request survives the binary transport: the decoder turns the envelope that
  \<open>EncodeImageBytesError\<close> writes for any non-zero 32-bit error number back into an error with that
  number and that message.\<close>

lemma decode_error_envelope:
  assumes "errNum \<noteq> 0" "- (2 ^ 31) \<le> errNum" "errNum < 2 ^ 31"
  shows "\<exists>env. EncodeImageBytesError errNum msg c s = Some env
    \<and> DecodeImageBytes sched procs env = Some (Inl (EAlpaca \<lparr>Number = errNum, Message = Text msg\<rparr>))"
  using error_envelope [OF assms] by blast

lemma decode_error_envelope_witness:
  "\<exists>env. EncodeImageBytesError 0x40B ''Invalid operation'' 1 2 = Some env
    \<and> DecodeImageBytes id 1 env =
        Some (Inl (EAlpaca \<lparr>Number = 0x40B, Message = Text ''Invalid operation''\<rparr>))"
  by (rule decode_error_envelope) simp_all

subsection \<open>When the decoder panics\<close>

text \<open>The size check of the decoder multiplies three attacker-controlled fields in 64 bits.  The
  decoder panics exactly when that product wraps around to the number of bytes received.\<close>

definition size_wraps :: "bytes \<Rightarrow> bool" where
  "size_wraps data \<longleftrightarrow>
     (let w = uint (GetUint32 data 32); h = uint (GetUint32 data 36);
          es = ElementSize (transmit_type (GetUint32 data 24) (GetUint32 data 20));
          n = length data - min (unat (GetUint32 data 16)) (length data) in
      ImageBytesHeaderLen \<le> length data \<and> GetUint32 data 4 = 0
      \<and> transposes (uint (GetUint32 data 28)) w h es n \<and> w * h * int es \<noteq> int n)"

lemma copy_elem_short:
  "0 < es \<Longrightarrow> length src < (r * cols + c) * es + es \<Longrightarrow> copy_elem src rows cols es (r, c) dst = None"
  by (cases "es = 1 \<or> es = 2")
    (auto simp: copy_elem_def put_byte_def Let_def algebra_simps)

lemma run_writes_stuck:
  "x \<in> set xs \<Longrightarrow> (\<And>d. f x d = None) \<Longrightarrow> run_writes f xs dst = None"
  by (induction xs arbitrary: dst) (auto split: option.split)

lemma transposeElems_short:
  assumes "0 < es" "length src < rows * cols * es" "\<And>ps. mset (sched ps) = mset ps"
  shows "transposeElems sched procs src rows cols es = None"
proof -
  have pos: "0 < rows" "0 < cols" using assms(2) by (auto intro: gr0I)
  have "(rows - 1) * cols + (cols - 1) + 1 = rows * cols"
    using pos by (cases rows; cases cols) (simp_all add: algebra_simps)
  then have "((rows - 1) * cols + (cols - 1)) * es + es = rows * cols * es"
    by (metis add_mult_distrib mult_1)
  then have stuck: "copy_elem src rows cols es (rows - 1, cols - 1) d = None" for d
    using assms by (intro copy_elem_short) simp_all
  have m1: "(rows - 1, cols - 1) \<in> set (band_order cols (0, rows))"
    using pos by (simp add: set_band_order)
  have m2: "(rows - 1, cols - 1) \<in> set (sched (concat (map (band_order cols)
      (bands rows (min procs rows)))))" if "min procs rows > 1"
    using bands_cover [where workers = "min procs rows" and rows = rows and cols = cols] that pos
      mset_eq_setD [OF assms(3)] by simp
  show ?thesis
    using run_writes_stuck [OF m1, of "copy_elem src rows cols es", OF stuck] m2
      run_writes_stuck [of "(rows - 1, cols - 1)" _ "copy_elem src rows cols es", OF _ stuck]
    by (auto simp: transposeElems_def transposeInto_def transposeBand_def Let_def)
qed

lemma wrap64_le: "0 \<le> n \<Longrightarrow> wrap64 n \<le> n"
proof -
  assume n: "0 \<le> n"
  have "(n + 2 ^ 63) mod 2 ^ 64 \<le> n + 2 ^ 63" using n by (intro zmod_le_nonneg_dividend) simp
  then show ?thesis by (simp add: wrap64_def)
qed

text \<open>C25: The decoder is total up to integer wrap-around: on every input whatsoever it returns a
  frame or an error, unless the 64-bit product of width, height and element size in the header wraps
  around to the number of bytes received, and then it panics, on every schedule.\<close>

theorem decode_panics_iff:
  assumes "\<And>ps. mset (sched ps) = mset ps"
  shows "DecodeImageBytes sched procs data = None \<longleftrightarrow> size_wraps data"
proof (cases "ImageBytesHeaderLen \<le> length data \<and> GetUint32 data 4 = 0")
  case False
  then show ?thesis by (auto simp: DecodeImageBytes_def size_wraps_def Let_def)
next
  case hdr: True
  define w h es pix where "w = uint (GetUint32 data 32)" and "h = uint (GetUint32 data 36)"
    and "es = ElementSize (transmit_type (GetUint32 data 24) (GetUint32 data 20))"
    and "pix = drop (min (unat (GetUint32 data 16)) (length data)) data"
  have pix: "length pix = length data - min (unat (GetUint32 data 16)) (length data)"
    by (simp add: pix_def)
  have dec: "DecodeImageBytes sched procs data = None \<longleftrightarrow>
      transposes (uint (GetUint32 data 28)) w h es (length pix) \<and>
      transposeElems sched procs pix (nat w) (nat h) es = None"
    using hdr by (simp add: DecodeImageBytes_def Let_def w_def h_def es_def pix_def min_def not_le)
  have "transposeElems sched procs pix (nat w) (nat h) es = None \<longleftrightarrow> w * h * int es \<noteq> int (length pix)"
    if "transposes (uint (GetUint32 data 28)) w h es (length pix)"
  proof -
    have pos: "0 < es" "0 < w" "0 < h" and len: "int (length pix) = wrap64 (w * h * int es)"
      using that by (simp_all add: transposes_def)
    have prod: "w * h * int es = int (nat w * nat h * es)" using pos by simp
    show ?thesis
    proof (cases "w * h * int es = int (length pix)")
      case True
      then have "length pix = nat w * nat h * es" using prod by linarith
      then show ?thesis using True transposeElems_ref [OF pos(1) _ assms] by simp
    next
      case False
      moreover have "int (length pix) \<le> w * h * int es" using pos len wrap64_le by simp
      ultimately have "length pix < nat w * nat h * es" using prod by linarith
      then show ?thesis using False transposeElems_short [OF pos(1) _ assms] by simp
    qed
  qed
  then show ?thesis using dec hdr
    by (auto simp: size_wraps_def Let_def w_def h_def es_def pix)
qed

text \<open>The 44-byte message that crashes a client: two dimensions of \<open>2 ^ 31\<close>, 32-bit elements, no
  pixel.\<close>

definition crash_message :: bytes where
  "crash_message = concat (map le_bytes
     (header_words 0 0 0 ImgInt32 ImgInt32 2 (2 ^ 31) (2 ^ 31) 0))"

lemma crash_message_wraps: "size_wraps crash_message"
  using GetUint32_header [of 0 0 0 ImgInt32 ImgInt32 2 "2 ^ 31" "2 ^ 31" 0 "[]"]
  by (simp add: size_wraps_def crash_message_def Let_def ImageBytesHeaderLen_def transposes_def
      transmit_type_def ElementSize_def img_defs wrap64_def)

theorem decode_panics_iff_witness: "DecodeImageBytes rev 4 crash_message = None"
  by (rule decode_panics_iff [THEN iffD2, OF _ crash_message_wraps]) simp

text \<open>The streaming header parser agrees with the encoder: from the first 44 bytes alone it
  reports the frame's own dimensions and types, the data offset 44, and, for a monochrome frame,
  exactly the number of pixel bytes that follow.\<close>

lemma parse_header_encode:
  assumes "wire_frame f" "\<And>ps. mset (sched ps) = mset ps"
    and "EncodeImageBytes sched procs f c s = Some msg"
  shows "\<exists>h. ParseImageBytesHeader (take ImageBytesHeaderLen msg) = Inr h
    \<and> hErrorNumber h = 0 \<and> hDataStart h = 44
    \<and> hRank h = Rank f \<and> hWidth h = Width f \<and> hHeight h = Height f \<and> hPlanes h = Planes f
    \<and> Transmit h = transmit_type (TransmissionElementType f) (ElementType f)
    \<and> (transposes (Rank f) (Width f) (Height f) (ElementSize (Transmit h)) (length (Pixels f))
        \<longrightarrow> PixelBytes h = int (length msg) - 44)"
proof -
  let ?t = "transmit_type (TransmissionElementType f) (ElementType f)"
  let ?hdr = "concat (map le_bytes (header_words 0 c s (ElementType f) ?t
        (Rank f) (Width f) (Height f) (Planes f)))"
  have msg: "msg = ?hdr @ wire_pixels f" using EncodeImageBytes_eq [OF assms(1,2)] assms(3) by (simp add: image_message_def)
  have len: "length ?hdr = 44" by simp
  have u: "uint (word_of_int n :: 32 word) = n" if "0 \<le> n" "n < 2 ^ 32" for n
    using that by (simp add: unsigned_of_int take_bit_int_eq_self)
  have ints: "uint (word_of_int (Rank f) :: 32 word) = Rank f" "uint (word_of_int (Width f) :: 32 word) = Width f"
      "uint (word_of_int (Height f) :: 32 word) = Height f" "uint (word_of_int (Planes f) :: 32 word) = Planes f"
    using assms(1) by (simp_all add: wire_frame_def u)
  define h where "h = \<lparr>hErrorNumber = 0, hDataStart = 44, hElementType = ElementType f,
      hTransmissionElementType = ?t, hRank = Rank f, hWidth = Width f, hHeight = Height f,
      hPlanes = Planes f\<rparr>"
  have p: "ParseImageBytesHeader (take ImageBytesHeaderLen msg) = Inr h"
    using GetUint32_header [of 0 c s "ElementType f" ?t "Rank f" "Width f" "Height f" "Planes f" "[]"] len
    by (simp add: ParseImageBytesHeader_def msg ImageBytesHeaderLen_def ints h_def)
  have t: "Transmit h = ?t" by (simp add: Transmit_def h_def transmit_type_def)
  have "PixelBytes h = int (length msg) - 44"
    if "transposes (Rank f) (Width f) (Height f) (ElementSize ?t) (length (Pixels f))"
    using that length_wire_pixels [OF assms(1)]
    by (simp add: PixelBytes_def t Let_def msg) (simp add: h_def transposes_def)
  then show ?thesis using p t by (intro exI [of _ h]) (simp add: h_def)
qed

end
