(* ===== verification/Camera.thy ===== *)
theory Camera
  imports Gate Image_Bytes
begin

text \<open>
  The Camera interface (ICameraV4), its gates and HTTP members (\<open>server/camera.go\<close>,
  \<open>server/camera_http.go\<close>, \<open>server/gates.go\<close>) and the base defaults (\<open>server/basecamera.go\<close>).
  The image transport is in the router; a camera that reports asynchronous failures has an
  \<open>ExposureError\<close> method, an option here.
\<close>

section \<open>The interface\<close>

datatype cam_flag = CCanAsymmetricBin | CCanStopExposure | CCanAbortExposure | CImageReady | CHasShutter
  | CCanGain | CCanOffset | CCanFastReadout | CCoolerOn | CCanGetCoolerPower | CCanSetCCDTemperature
  | CCanPulseGuide | CIsPulseGuiding
datatype cam_int = CCameraXSize | CCameraYSize | CMaxADU | CBinX | CBinY | CMaxBinX | CMaxBinY
  | CStartX | CStartY | CNumX | CNumY | CPercentCompleted | CGain | CGainMin | CGainMax
  | COffset | COffsetMin | COffsetMax | CReadoutMode
datatype cam_float = CPixelSizeX | CPixelSizeY | CElectronsPerADU | CFullWellCapacity | CExposureMin
  | CExposureMax | CExposureResolution
datatype cam_float_err = CLastExposureDuration | CSubExposureDuration | CCCDTemperature
  | CHeatSinkTemperature | CCoolerPower | CSetCCDTemperature
datatype cam_bayer = CBayerOffsetX | CBayerOffsetY
datatype cam_list = CGains | COffsets
datatype cam_cmd = SetBinX int | SetBinY int | SetStartX int | SetStartY int | SetNumX int | SetNumY int
  | SetGain int | SetOffset int | SetReadoutMode int | SetFastReadout bool | SetCoolerOn bool
  | SetSetCCDTemperature f64 | StartExposure f64 bool | StopExposure | AbortExposure
  | SetSubExposureDuration f64 | CamPulseGuide int int

record 'w camera =
  cFlag :: "cam_flag \<Rightarrow> ('w, bool) act"
  cInt :: "cam_int \<Rightarrow> ('w, int) act"
  cFloat :: "cam_float \<Rightarrow> ('w, f64) act"
  cFloatErr :: "cam_float_err \<Rightarrow> ('w, goerror + f64) act"
  cBayer :: "cam_bayer \<Rightarrow> ('w, goerror + int) act"
  cList :: "cam_list \<Rightarrow> ('w, goerror + string list) act"
  cSensorName :: "('w, string) act"
  cSensorType :: "('w, SensorType) act"
  cCameraState :: "('w, CameraState) act"
  cLastExposureStartTime :: "('w, goerror + string) act"
  cReadoutModes :: "('w, string list) act"
  cFastReadout :: "('w, goerror + bool) act"
  cExposureError :: "'w command option"
  cImageFrame :: "('w, goerror + ImageFrame) act"
  cDo :: "cam_cmd \<Rightarrow> 'w command"

section \<open>Gates\<close>

definition camCan :: "'w camera \<Rightarrow> cam_flag \<Rightarrow> string \<Rightarrow> 'w command" where
  "camCan c flag member = ask (cFlag c flag) (\<lambda>can. if \<not> can then fail (notImplErr member) else pass)"

definition GateCameraBayerOffset :: "'w camera \<Rightarrow> string \<Rightarrow> 'w command" where
  "GateCameraBayerOffset c member = ask (cSensorType c) (\<lambda>s.
     if s = SensorMonochrome then fail (notImplErr member) else pass)"

definition GateCameraGain :: "'w camera \<Rightarrow> string \<Rightarrow> 'w command" where
  "GateCameraGain c member = camCan c CCanGain member"

definition GateCameraOffset :: "'w camera \<Rightarrow> string \<Rightarrow> 'w command" where
  "GateCameraOffset c member = camCan c CCanOffset member"

definition GateCameraCoolerPower :: "'w camera \<Rightarrow> 'w command" where
  "GateCameraCoolerPower c = camCan c CCanGetCoolerPower ''CoolerPower''"

definition GateCameraFastReadout :: "'w camera \<Rightarrow> string \<Rightarrow> 'w command" where
  "GateCameraFastReadout c member = camCan c CCanFastReadout member"

text \<open>List mode when the driver gives a list, value mode otherwise.\<close>

definition GateCameraSetGain :: "'w camera \<Rightarrow> int \<Rightarrow> 'w command" where
  "GateCameraSetGain c n = gate (GateCameraGain c ''Gain'')
     (ask (cList c CGains) (\<lambda>r. case r of
        Inr gains \<Rightarrow>
          if n < 0 \<or> n \<ge> int (length gains)
          then fail (invalidValuef ''Gain index %d is outside the Gains list (0 to %d)''
                       [FmtInt n, FmtInt (int (length gains) - 1)])
          else pass
      | Inl _ \<Rightarrow> ask (cInt c CGainMin) (\<lambda>mn. ask (cInt c CGainMax) (\<lambda>mx.
          if n < mn \<or> n > mx
          then fail (invalidValuef ''Gain %d is outside the valid range %d to %d''
                       [FmtInt n, FmtInt mn, FmtInt mx])
          else pass))))"

definition GateCameraSetOffset :: "'w camera \<Rightarrow> int \<Rightarrow> 'w command" where
  "GateCameraSetOffset c n = gate (GateCameraOffset c ''Offset'')
     (ask (cList c COffsets) (\<lambda>r. case r of
        Inr offsets \<Rightarrow>
          if n < 0 \<or> n \<ge> int (length offsets)
          then fail (invalidValuef ''Offset index %d is outside the Offsets list (0 to %d)''
                       [FmtInt n, FmtInt (int (length offsets) - 1)])
          else pass
      | Inl _ \<Rightarrow> ask (cInt c COffsetMin) (\<lambda>mn. ask (cInt c COffsetMax) (\<lambda>mx.
          if n < mn \<or> n > mx
          then fail (invalidValuef ''Offset %d is outside the valid range %d to %d''
                       [FmtInt n, FmtInt mn, FmtInt mx])
          else pass))))"

definition GateCameraSetReadoutMode :: "'w camera \<Rightarrow> int \<Rightarrow> 'w command" where
  "GateCameraSetReadoutMode c n = ask (cReadoutModes c) (\<lambda>modes.
     if n < 0 \<or> n \<ge> int (length modes)
     then fail (invalidValuef ''ReadoutMode %d is outside the ReadoutModes list (0 to %d)''
                  [FmtInt n, FmtInt (int (length modes) - 1)])
     else pass)"

definition GateCameraSetFastReadout :: "'w camera \<Rightarrow> 'w command" where
  "GateCameraSetFastReadout c = GateCameraFastReadout c ''FastReadout''"

definition GateCameraSetBinX :: "'w camera \<Rightarrow> int \<Rightarrow> 'w command" where
  "GateCameraSetBinX c n = ask (cInt c CMaxBinX) (\<lambda>mx.
     if n < 1 \<or> n > mx
     then fail (invalidValuef ''BinX %d is outside the valid range 1 to %d'' [FmtInt n, FmtInt mx])
     else pass)"

definition GateCameraSetBinY :: "'w camera \<Rightarrow> int \<Rightarrow> 'w command" where
  "GateCameraSetBinY c n = ask (cInt c CMaxBinY) (\<lambda>mx.
     if n < 1 \<or> n > mx
     then fail (invalidValuef ''BinY %d is outside the valid range 1 to %d'' [FmtInt n, FmtInt mx])
     else pass)"

definition GateCameraSubframeOrigin :: "string \<Rightarrow> int \<Rightarrow> goerror option" where
  "GateCameraSubframeOrigin member n =
     (if n < 0 then Some (invalidValuef ''%s %d is negative'' [FmtStr member, FmtInt n]) else None)"

definition GateCameraSubframeSize :: "string \<Rightarrow> int \<Rightarrow> goerror option" where
  "GateCameraSubframeSize member n =
     (if n < 0 then Some (invalidValuef ''%s %d is negative'' [FmtStr member, FmtInt n]) else None)"

definition GateCameraSetCCDTemperature :: "'w camera \<Rightarrow> f64 \<Rightarrow> 'w command" where
  "GateCameraSetCCDTemperature c celsius =
     ask (cFlag c CCanSetCCDTemperature) (\<lambda>can.
       if \<not> can then fail (notImplErr ''SetCCDTemperature'')
       else if celsius < Fin (-27315 / 100) \<or> celsius \<ge> 100
       then fail (invalidValuef
         ''SetCCDTemperature %g is outside the physically plausible range -273.15 to 100'' [FmtFloat celsius])
       else pass)"

definition GateCameraStartExposure :: "f64 \<Rightarrow> goerror option" where
  "GateCameraStartExposure duration = nonNegative ''Duration'' duration"

definition GateCameraStopExposure :: "'w camera \<Rightarrow> 'w command" where
  "GateCameraStopExposure c = camCan c CCanStopExposure ''StopExposure''"

definition GateCameraAbortExposure :: "'w camera \<Rightarrow> 'w command" where
  "GateCameraAbortExposure c = camCan c CCanAbortExposure ''AbortExposure''"

definition GateCameraSubExposureDuration :: "f64 \<Rightarrow> goerror option" where
  "GateCameraSubExposureDuration d = nonNegative ''SubExposureDuration'' d"

definition GateCameraPulseGuide :: "'w camera \<Rightarrow> int \<Rightarrow> int \<Rightarrow> 'w command" where
  "GateCameraPulseGuide c dir duration = gate (camCan c CCanPulseGuide ''PulseGuide'')
     (if \<not> validGuideDirection dir
      then fail (invalidValuef ''Direction %d is not a valid guide direction'' [FmtInt dir])
      else if duration < 0
      then fail (invalidValuef ''Duration %d is negative'' [FmtInt duration])
      else pass)"

text \<open>The readout rectangle, checked when an exposure starts.  The extents \<open>startX+numX\<close> and
  \<open>startY+numY\<close> are 64-bit sums.\<close>

definition subframe_check :: "int \<Rightarrow> int \<Rightarrow> int \<Rightarrow> int \<Rightarrow> int \<Rightarrow> int \<Rightarrow> goerror option" where
  "subframe_check maxW maxH startX startY numX numY =
     (if numX < 1 \<or> numY < 1
      then Some (invalidValuef ''NumX/NumY %dx%d is not a valid subframe size'' [FmtInt numX, FmtInt numY])
      else if startX < 0 \<or> startY < 0
      then Some (invalidValuef ''StartX/StartY %d,%d is not a valid subframe origin''
                   [FmtInt startX, FmtInt startY])
      else if wrap64 (startX + numX) > maxW
      then Some (invalidValuef ''subframe X extent %d exceeds the binned sensor width %d''
                   [FmtInt (wrap64 (startX + numX)), FmtInt maxW])
      else if wrap64 (startY + numY) > maxH
      then Some (invalidValuef ''subframe Y extent %d exceeds the binned sensor height %d''
                   [FmtInt (wrap64 (startY + numY)), FmtInt maxH])
      else None)"

definition validSubframe :: "'w camera \<Rightarrow> 'w command" where
  "validSubframe c =
     ask (cInt c CBinX) (\<lambda>binX. ask (cInt c CBinY) (\<lambda>binY.
       if binX < 1 \<or> binY < 1
       then fail (invalidValuef ''BinX/BinY %dx%d is not a valid binning'' [FmtInt binX, FmtInt binY])
       else
         ask (cInt c CCameraXSize) (\<lambda>xs. ask (cInt c CCameraYSize) (\<lambda>ys.
         ask (cInt c CStartX) (\<lambda>startX. ask (cInt c CStartY) (\<lambda>startY.
         ask (cInt c CNumX) (\<lambda>numX. ask (cInt c CNumY) (\<lambda>numY.
           ret (subframe_check (quot64 xs binX) (quot64 ys binY) startX startY numX numY)))))))))"

section \<open>HTTP members\<close>

definition camera_flags :: "'w camera \<Rightarrow> 'w get_table" where
  "camera_flags c = map (\<lambda>(n, f). (n, val VBool (cFlag c f)))
    [(''canasymmetricbin'', CCanAsymmetricBin), (''hasshutter'', CHasShutter),
     (''canstopexposure'', CCanStopExposure), (''canabortexposure'', CCanAbortExposure),
     (''canfastreadout'', CCanFastReadout), (''cooleron'', CCoolerOn),
     (''cangetcoolerpower'', CCanGetCoolerPower), (''cansetccdtemperature'', CCanSetCCDTemperature),
     (''canpulseguide'', CCanPulseGuide), (''ispulseguiding'', CIsPulseGuiding)]"

definition camera_numbers :: "'w camera \<Rightarrow> 'w get_table" where
  "camera_numbers c =
    map (\<lambda>(n, i). (n, val VInt (cInt c i)))
      [(''cameraxsize'', CCameraXSize), (''cameraysize'', CCameraYSize), (''maxadu'', CMaxADU),
       (''binx'', CBinX), (''biny'', CBinY), (''maxbinx'', CMaxBinX), (''maxbiny'', CMaxBinY),
       (''startx'', CStartX), (''starty'', CStartY), (''numx'', CNumX), (''numy'', CNumY),
       (''percentcompleted'', CPercentCompleted), (''readoutmode'', CReadoutMode)] @
    map (\<lambda>(n, x). (n, val VFloat (cFloat c x)))
      [(''pixelsizex'', CPixelSizeX), (''pixelsizey'', CPixelSizeY),
       (''electronsperadu'', CElectronsPerADU), (''fullwellcapacity'', CFullWellCapacity),
       (''exposuremin'', CExposureMin), (''exposuremax'', CExposureMax),
       (''exposureresolution'', CExposureResolution)] @
    map (\<lambda>(n, x). (n, vale VFloat (cFloatErr c x)))
      [(''lastexposureduration'', CLastExposureDuration), (''subexposureduration'', CSubExposureDuration),
       (''ccdtemperature'', CCCDTemperature), (''heatsinktemperature'', CHeatSinkTemperature),
       (''setccdtemperature'', CSetCCDTemperature)]"

text \<open>An asynchronous failure is reported in place of \<open>ImageReady\<close>.\<close>

definition camera_imageready :: "'w camera \<Rightarrow> 'w read" where
  "camera_imageready c = (case cExposureError c of
     None \<Rightarrow> val VBool (cFlag c CImageReady)
   | Some failed \<Rightarrow> gateV failed (val VBool (cFlag c CImageReady)))"

definition camera_gated :: "'w camera \<Rightarrow> 'w get_table" where
  "camera_gated c =
    [(''bayeroffsetx'', gateV (GateCameraBayerOffset c ''BayerOffsetX'') (vale VInt (cBayer c CBayerOffsetX))),
     (''bayeroffsety'', gateV (GateCameraBayerOffset c ''BayerOffsetY'') (vale VInt (cBayer c CBayerOffsetY))),
     (''imageready'', camera_imageready c),
     (''gain'', gateV (GateCameraGain c ''Gain'') (val VInt (cInt c CGain))),
     (''gainmin'', gateV (GateCameraGain c ''GainMin'') (val VInt (cInt c CGainMin))),
     (''gainmax'', gateV (GateCameraGain c ''GainMax'') (val VInt (cInt c CGainMax))),
     (''gains'', gateV (GateCameraGain c ''Gains'') (vale VStrs (cList c CGains))),
     (''offset'', gateV (GateCameraOffset c ''Offset'') (val VInt (cInt c COffset))),
     (''offsetmin'', gateV (GateCameraOffset c ''OffsetMin'') (val VInt (cInt c COffsetMin))),
     (''offsetmax'', gateV (GateCameraOffset c ''OffsetMax'') (val VInt (cInt c COffsetMax))),
     (''offsets'', gateV (GateCameraOffset c ''Offsets'') (vale VStrs (cList c COffsets))),
     (''fastreadout'', gateV (GateCameraFastReadout c ''FastReadout'') (vale VBool (cFastReadout c))),
     (''coolerpower'', gateV (GateCameraCoolerPower c) (vale VFloat (cFloatErr c CCoolerPower)))]"

definition camera_others :: "'w camera \<Rightarrow> 'w get_table" where
  "camera_others c =
    [(''sensorname'', val VStr (cSensorName c)),
     (''sensortype'', val (\<lambda>s. VInt (int_of_SensorType s)) (cSensorType c)),
     (''camerastate'', val (\<lambda>s. VInt (int_of_CameraState s)) (cCameraState c)),
     (''lastexposurestarttime'', vale VStr (cLastExposureStartTime c)),
     (''readoutmodes'', val VStrs (cReadoutModes c))]"

definition cameraGet :: "string \<Rightarrow> 'w camera \<Rightarrow> params \<Rightarrow> 'w read option" where
  "cameraGet member c p = map_of (camera_flags c @ camera_numbers c @ camera_gated c @ camera_others c) member"

definition camera_setters :: "'w camera \<Rightarrow> params \<Rightarrow> 'w put_table" where
  "camera_setters c p =
    [(''binx'', need (reqInt p ''BinX'') (\<lambda>n. gate (GateCameraSetBinX c n) (cDo c (SetBinX n)))),
     (''biny'', need (reqInt p ''BinY'') (\<lambda>n. gate (GateCameraSetBinY c n) (cDo c (SetBinY n)))),
     (''startx'', need (reqInt p ''StartX'') (\<lambda>n.
        gate (ret (GateCameraSubframeOrigin ''StartX'' n)) (cDo c (SetStartX n)))),
     (''starty'', need (reqInt p ''StartY'') (\<lambda>n.
        gate (ret (GateCameraSubframeOrigin ''StartY'' n)) (cDo c (SetStartY n)))),
     (''numx'', need (reqInt p ''NumX'') (\<lambda>n.
        gate (ret (GateCameraSubframeSize ''NumX'' n)) (cDo c (SetNumX n)))),
     (''numy'', need (reqInt p ''NumY'') (\<lambda>n.
        gate (ret (GateCameraSubframeSize ''NumY'' n)) (cDo c (SetNumY n)))),
     (''gain'', need (reqInt p ''Gain'') (\<lambda>n. gate (GateCameraSetGain c n) (cDo c (SetGain n)))),
     (''offset'', need (reqInt p ''Offset'') (\<lambda>n. gate (GateCameraSetOffset c n) (cDo c (SetOffset n)))),
     (''readoutmode'', need (reqInt p ''ReadoutMode'') (\<lambda>n.
        gate (GateCameraSetReadoutMode c n) (cDo c (SetReadoutMode n)))),
     (''fastreadout'', need (reqBool p ''FastReadout'') (\<lambda>b.
        gate (GateCameraSetFastReadout c) (cDo c (SetFastReadout b)))),
     (''cooleron'', need (reqBool p ''CoolerOn'') (\<lambda>b. cDo c (SetCoolerOn b))),
     (''setccdtemperature'', need (reqFloat p ''SetCCDTemperature'') (\<lambda>f.
        gate (GateCameraSetCCDTemperature c f) (cDo c (SetSetCCDTemperature f))))]"

definition camera_methods :: "'w camera \<Rightarrow> params \<Rightarrow> 'w put_table" where
  "camera_methods c p =
    [(''startexposure'', need (reqFloat p ''Duration'') (\<lambda>dur. need (reqBool p ''Light'') (\<lambda>light.
        gate (ret (GateCameraStartExposure dur)) (gate (validSubframe c)
          (cDo c (StartExposure dur light)))))),
     (''stopexposure'', gate (GateCameraStopExposure c) (cDo c StopExposure)),
     (''abortexposure'', gate (GateCameraAbortExposure c) (cDo c AbortExposure)),
     (''subexposureduration'', need (reqFloat p ''SubExposureDuration'') (\<lambda>f.
        gate (ret (GateCameraSubExposureDuration f)) (cDo c (SetSubExposureDuration f)))),
     (''pulseguide'', need (reqInt p ''Direction'') (\<lambda>dir. need (reqInt p ''Duration'') (\<lambda>dur.
        gate (GateCameraPulseGuide c dir dur) (cDo c (CamPulseGuide dir dur)))))]"

definition cameraPut :: "string \<Rightarrow> 'w camera \<Rightarrow> params \<Rightarrow> 'w command option" where
  "cameraPut member c p = map_of (camera_setters c p @ camera_methods c p) member"

section \<open>Drivers\<close>

text \<open>Reading keeps an invariant; then so do the gates.\<close>

locale camera_reads =
  fixes c :: "'w camera" and P :: "'w \<Rightarrow> bool"
  assumes flag_keeps: "keeps P (cFlag c f)"
    and int_keeps: "keeps P (cInt c i)"
    and list_keeps: "keeps P (cList c l)"
    and sensor_keeps: "keeps P (cSensorType c)"
    and modes_keeps: "keeps P (cReadoutModes c)"
begin

lemma gate_keeps:
  "keeps P (camCan c fl m)" "keeps P (GateCameraBayerOffset c m)"
  "keeps P (GateCameraGain c m)" "keeps P (GateCameraOffset c m)" "keeps P (GateCameraCoolerPower c)"
  "keeps P (GateCameraFastReadout c m)" "keeps P (GateCameraSetGain c n)"
  "keeps P (GateCameraSetOffset c n)" "keeps P (GateCameraSetReadoutMode c n)"
  "keeps P (GateCameraSetFastReadout c)" "keeps P (GateCameraSetBinX c n)"
  "keeps P (GateCameraSetBinY c n)" "keeps P (GateCameraSetCCDTemperature c x)"
  "keeps P (GateCameraStopExposure c)" "keeps P (GateCameraAbortExposure c)"
  "keeps P (GateCameraPulseGuide c dir dur)" "keeps P (validSubframe c)"
  by (simp_all add: camCan_def GateCameraBayerOffset_def GateCameraGain_def GateCameraOffset_def
      GateCameraCoolerPower_def GateCameraFastReadout_def GateCameraSetGain_def
      GateCameraSetOffset_def GateCameraSetReadoutMode_def GateCameraSetFastReadout_def
      GateCameraSetBinX_def GateCameraSetBinY_def GateCameraSetCCDTemperature_def
      GateCameraStopExposure_def GateCameraAbortExposure_def GateCameraPulseGuide_def
      validSubframe_def keeps_ask keeps_gate flag_keeps int_keeps list_keeps sensor_keeps modes_keeps
      split: sum.split)

end

locale camera_driver =
  fixes c :: "'w camera" and view :: "'w \<Rightarrow> 'v"
  assumes flag_quiet: "quiet view (cFlag c f)"
    and int_quiet: "quiet view (cInt c i)"
    and float_quiet: "quiet view (cFloat c x)"
    and float_err_quiet: "quiet view (cFloatErr c y)"
    and bayer_quiet: "quiet view (cBayer c b)"
    and list_quiet: "quiet view (cList c l)"
    and name_quiet: "quiet view (cSensorName c)"
    and sensor_quiet: "quiet view (cSensorType c)"
    and state_quiet: "quiet view (cCameraState c)"
    and start_quiet: "quiet view (cLastExposureStartTime c)"
    and modes_quiet: "quiet view (cReadoutModes c)"
    and fast_quiet: "quiet view (cFastReadout c)"
    and failed_quiet: "cExposureError c = Some e \<Longrightarrow> quiet view e"
    and do_blocked: "blocked view (cDo c k)"
begin

sublocale reads: camera_reads c "\<lambda>w. view w = v" for v
  using flag_quiet int_quiet list_quiet sensor_quiet modes_quiet
  by unfold_locales (simp_all add: quiet_keeps)

lemma gates_quiet:
  "quiet view (camCan c fl m)" "quiet view (GateCameraBayerOffset c m)"
  "quiet view (GateCameraGain c m)" "quiet view (GateCameraOffset c m)"
  "quiet view (GateCameraCoolerPower c)" "quiet view (GateCameraFastReadout c m)"
  "quiet view (GateCameraSetGain c n)" "quiet view (GateCameraSetOffset c n)"
  "quiet view (GateCameraSetReadoutMode c n)" "quiet view (GateCameraSetFastReadout c)"
  "quiet view (GateCameraSetBinX c n)" "quiet view (GateCameraSetBinY c n)"
  "quiet view (GateCameraSetCCDTemperature c x)" "quiet view (GateCameraStopExposure c)"
  "quiet view (GateCameraAbortExposure c)" "quiet view (GateCameraPulseGuide c dir dur)"
  "quiet view (validSubframe c)"
  by (simp_all add: quiet_keeps reads.gate_keeps)

lemma flags_quiet: "list_all (\<lambda>(n, r). quiet view r) (camera_flags c)"
  by (simp add: camera_flags_def quiet_val flag_quiet)

lemma numbers_quiet: "list_all (\<lambda>(n, r). quiet view r) (camera_numbers c)"
  by (simp add: camera_numbers_def quiet_val quiet_vale int_quiet float_quiet float_err_quiet)

lemma gated_quiet: "list_all (\<lambda>(n, r). quiet view r) (camera_gated c)"
  by (simp add: camera_gated_def camera_imageready_def quiet_gateV quiet_val quiet_vale gates_quiet
      bayer_quiet int_quiet list_quiet fast_quiet float_err_quiet flag_quiet failed_quiet
      split: option.split)

lemma others_quiet: "list_all (\<lambda>(n, r). quiet view r) (camera_others c)"
  by (simp add: camera_others_def quiet_val quiet_vale name_quiet sensor_quiet state_quiet start_quiet
      modes_quiet)

lemma get_quiet: "cameraGet member c p = Some r \<Longrightarrow> quiet view r"
  unfolding cameraGet_def
  by (erule_tac table_all [where P = "quiet view", rotated])
    (simp add: flags_quiet numbers_quiet gated_quiet others_quiet)

lemma setters_blocked: "list_all (\<lambda>(n, a). blocked view a) (camera_setters c p)"
  by (simp add: camera_setters_def blocked_gate blocked_need gates_quiet do_blocked)

lemma methods_blocked: "list_all (\<lambda>(n, a). blocked view a) (camera_methods c p)"
  by (simp add: camera_methods_def blocked_gate blocked_need gates_quiet do_blocked)

lemma put_blocked: "cameraPut member c p = Some a \<Longrightarrow> blocked view a"
  unfolding cameraPut_def
  by (erule_tac table_all [where P = "blocked view", rotated]) (simp add: setters_blocked methods_blocked)

sublocale tables: gated_tables "\<lambda>m p. cameraPut m c p" "\<lambda>m p. cameraGet m c p" view
  by unfold_locales (rule put_blocked get_quiet, assumption)+

end

text \<open>The gate in front of each command, and a driver whose commands keep an invariant behind their
  gate: then every request does.  Integer parameters below 2^62 keep the 64-bit sums of
  \<open>validSubframe\<close> exact.\<close>

fun camera_gate :: "'w camera \<Rightarrow> cam_cmd \<Rightarrow> 'w command" where
  "camera_gate c (SetBinX n) = GateCameraSetBinX c n"
| "camera_gate c (SetBinY n) = GateCameraSetBinY c n"
| "camera_gate c (SetStartX n) = ret (GateCameraSubframeOrigin ''StartX'' n)"
| "camera_gate c (SetStartY n) = ret (GateCameraSubframeOrigin ''StartY'' n)"
| "camera_gate c (SetNumX n) = ret (GateCameraSubframeSize ''NumX'' n)"
| "camera_gate c (SetNumY n) = ret (GateCameraSubframeSize ''NumY'' n)"
| "camera_gate c (SetGain n) = GateCameraSetGain c n"
| "camera_gate c (SetOffset n) = GateCameraSetOffset c n"
| "camera_gate c (SetReadoutMode n) = GateCameraSetReadoutMode c n"
| "camera_gate c (SetFastReadout b) = GateCameraSetFastReadout c"
| "camera_gate c (SetCoolerOn b) = pass"
| "camera_gate c (SetSetCCDTemperature x) = GateCameraSetCCDTemperature c x"
| "camera_gate c (StartExposure dur light) = gate (ret (GateCameraStartExposure dur)) (validSubframe c)"
| "camera_gate c StopExposure = GateCameraStopExposure c"
| "camera_gate c AbortExposure = GateCameraAbortExposure c"
| "camera_gate c (SetSubExposureDuration x) = ret (GateCameraSubExposureDuration x)"
| "camera_gate c (CamPulseGuide dir dur) = GateCameraPulseGuide c dir dur"

definition tame_params :: "params \<Rightarrow> bool" where
  "tame_params p \<longleftrightarrow> finite_params p \<and> (\<forall>name n. reqInt p name = Inr n \<longrightarrow> \<bar>n\<bar> < 2 ^ 62)"

fun cam_args_ok :: "cam_cmd \<Rightarrow> bool" where
  "cam_args_ok (SetStartX n) = (\<bar>n\<bar> < 2 ^ 62)"
| "cam_args_ok (SetStartY n) = (\<bar>n\<bar> < 2 ^ 62)"
| "cam_args_ok (SetNumX n) = (\<bar>n\<bar> < 2 ^ 62)"
| "cam_args_ok (SetNumY n) = (\<bar>n\<bar> < 2 ^ 62)"
| "cam_args_ok (SetSetCCDTemperature x) = finite64 x"
| "cam_args_ok (StartExposure dur light) = finite64 dur"
| "cam_args_ok (SetSubExposureDuration x) = finite64 x"
| "cam_args_ok _ = True"

locale camera_invariant =
  fixes c :: "'w camera" and P :: "'w \<Rightarrow> bool"
  assumes guarded: "cam_args_ok k \<Longrightarrow> keeps P (gate (camera_gate c k) (cDo c k))"
begin

lemma guarded_cases:
  "keeps P (gate (GateCameraSetBinX c n) (cDo c (SetBinX n)))"
  "keeps P (gate (GateCameraSetBinY c n) (cDo c (SetBinY n)))"
  "\<bar>n\<bar> < 2 ^ 62 \<Longrightarrow> keeps P (gate (ret (GateCameraSubframeOrigin ''StartX'' n)) (cDo c (SetStartX n)))"
  "\<bar>n\<bar> < 2 ^ 62 \<Longrightarrow> keeps P (gate (ret (GateCameraSubframeOrigin ''StartY'' n)) (cDo c (SetStartY n)))"
  "\<bar>n\<bar> < 2 ^ 62 \<Longrightarrow> keeps P (gate (ret (GateCameraSubframeSize ''NumX'' n)) (cDo c (SetNumX n)))"
  "\<bar>n\<bar> < 2 ^ 62 \<Longrightarrow> keeps P (gate (ret (GateCameraSubframeSize ''NumY'' n)) (cDo c (SetNumY n)))"
  "keeps P (gate (GateCameraSetGain c n) (cDo c (SetGain n)))"
  "keeps P (gate (GateCameraSetOffset c n) (cDo c (SetOffset n)))"
  "keeps P (gate (GateCameraSetReadoutMode c n) (cDo c (SetReadoutMode n)))"
  "keeps P (gate (GateCameraSetFastReadout c) (cDo c (SetFastReadout b)))"
  "keeps P (cDo c (SetCoolerOn b))"
  "finite64 x \<Longrightarrow> keeps P (gate (GateCameraSetCCDTemperature c x) (cDo c (SetSetCCDTemperature x)))"
  "finite64 x \<Longrightarrow> keeps P (gate (ret (GateCameraStartExposure x))
     (gate (validSubframe c) (cDo c (StartExposure x b))))"
  "keeps P (gate (GateCameraStopExposure c) (cDo c StopExposure))"
  "keeps P (gate (GateCameraAbortExposure c) (cDo c AbortExposure))"
  "finite64 x \<Longrightarrow> keeps P (gate (ret (GateCameraSubExposureDuration x)) (cDo c (SetSubExposureDuration x)))"
  "keeps P (gate (GateCameraPulseGuide c n m) (cDo c (CamPulseGuide n m)))"
  using guarded [of "SetBinX n"] guarded [of "SetBinY n"] guarded [of "SetStartX n"]
    guarded [of "SetStartY n"] guarded [of "SetNumX n"] guarded [of "SetNumY n"]
    guarded [of "SetGain n"] guarded [of "SetOffset n"] guarded [of "SetReadoutMode n"]
    guarded [of "SetFastReadout b"] guarded [of "SetCoolerOn b"] guarded [of "SetSetCCDTemperature x"]
    guarded [of "StartExposure x b"] guarded [of StopExposure] guarded [of AbortExposure]
    guarded [of "SetSubExposureDuration x"] guarded [of "CamPulseGuide n m"]
  by (simp_all add: gate_assoc)

lemma put_keeps:
  assumes "cameraPut member c p = Some a" "tame_params p"
  shows "keeps P a"
proof -
  have fin: "finite64 f" if "reqFloat p name = Inr f" for name f
    using assms(2) that by (auto simp: tame_params_def finite_params_def)
  have small: "\<bar>n\<bar> < 2 ^ 62" if "reqInt p name = Inr n" for name n
    using assms(2) that by (auto simp: tame_params_def)
  have "list_all (\<lambda>(n, a). keeps P a) (camera_setters c p @ camera_methods c p)"
    using small by (simp add: camera_setters_def camera_methods_def keeps_need guarded_cases fin)
  then show ?thesis using assms(1) unfolding cameraPut_def by (rule table_all)
qed

end

section \<open>\<open>BaseCamera\<close>\<close>

fun bc_int :: "cam_int \<Rightarrow> int" where
  "bc_int CBinX = 1"
| "bc_int CBinY = 1"
| "bc_int CMaxBinX = 1"
| "bc_int CMaxBinY = 1"
| "bc_int _ = 0"

definition BaseCamera :: "'w camera" where
  "BaseCamera = \<lparr>cFlag = (\<lambda>f. ret (f = CCanGain \<or> f = CCanOffset)), cInt = (\<lambda>i. ret (bc_int i)),
     cFloat = (\<lambda>_. ret 0),
     cFloatErr = (\<lambda>x. ret (Inl (if x = CLastExposureDuration then ErrValueNotSet else ErrNotImplemented))),
     cBayer = (\<lambda>_. ret (Inl ErrNotImplemented)), cList = (\<lambda>_. ret (Inl ErrNotImplemented)),
     cSensorName = ret [], cSensorType = ret SensorMonochrome, cCameraState = ret CameraIdle,
     cLastExposureStartTime = ret (Inl ErrValueNotSet), cReadoutModes = ret [''Default''],
     cFastReadout = ret (Inl ErrNotImplemented), cExposureError = None,
     cImageFrame = ret (Inl ErrNotImplemented), cDo = (\<lambda>_. fail ErrNotImplemented)\<rparr>"

interpretation base_camera: camera_driver BaseCamera "\<lambda>w. w"
  by unfold_locales (simp_all add: BaseCamera_def)

end
