(* ===== verification/Movers.thy ===== *)
theory Movers
  imports Gate
begin

text \<open>
  FilterWheel, Focuser and Rotator: interfaces, base defaults, gates and HTTP members
  (\<open>server/filterwheel.go\<close>, \<open>server/focuser.go\<close>, \<open>server/rotator.go\<close>, \<open>server/gates.go\<close>).
\<close>

section \<open>FilterWheel\<close>

record 'w filterwheel =
  fwFocusOffsets :: "('w, int list) act"
  fwNames :: "('w, string list) act"
  fwPosition :: "('w, int) act"
  fwSetPosition :: "int \<Rightarrow> 'w command"

definition GateFilterWheelPosition :: "'w filterwheel \<Rightarrow> int \<Rightarrow> 'w command" where
  "GateFilterWheelPosition w slot = ask (fwNames w) (\<lambda>names. let slots = int (length names) in
     if slot < 0 \<or> slot \<ge> slots
     then fail (invalidValuef ''Position %d is outside the valid range 0 to %d''
                  [FmtInt slot, FmtInt (slots - 1)])
     else pass)"

definition filterWheelGet :: "string \<Rightarrow> 'w filterwheel \<Rightarrow> params \<Rightarrow> 'w read option" where
  "filterWheelGet member fw p = map_of
    [(''focusoffsets'', val VInts (fwFocusOffsets fw)), (''names'', val VStrs (fwNames fw)),
     (''position'', val VInt (fwPosition fw))] member"

definition filterWheelPut :: "string \<Rightarrow> 'w filterwheel \<Rightarrow> params \<Rightarrow> 'w command option" where
  "filterWheelPut member fw p = map_of
    [(''position'', need (reqInt p ''Position'') (\<lambda>n.
        gate (GateFilterWheelPosition fw n) (fwSetPosition fw n)))] member"

definition BaseFilterWheel :: "'w filterwheel" where
  "BaseFilterWheel = \<lparr>fwFocusOffsets = ret [], fwNames = ret [], fwPosition = ret 0,
     fwSetPosition = (\<lambda>_. fail ErrNotImplemented)\<rparr>"

locale filterwheel_driver =
  fixes fw :: "'w filterwheel" and view :: "'w \<Rightarrow> 'v"
  assumes offsets_quiet: "quiet view (fwFocusOffsets fw)"
    and names_quiet: "quiet view (fwNames fw)"
    and position_quiet: "quiet view (fwPosition fw)"
    and set_blocked: "blocked view (fwSetPosition fw n)"
begin

lemma gate_quiet: "quiet view (GateFilterWheelPosition fw n)"
  by (simp add: GateFilterWheelPosition_def quiet_ask names_quiet Let_def)

lemma put_blocked: "filterWheelPut member fw p = Some a \<Longrightarrow> blocked view a"
  by (auto simp: filterWheelPut_def blocked_need blocked_gate gate_quiet set_blocked split: if_splits)

lemma get_quiet: "filterWheelGet member fw p = Some r \<Longrightarrow> quiet view r"
  by (auto simp: filterWheelGet_def quiet_val offsets_quiet names_quiet position_quiet split: if_splits)

sublocale tables: gated_tables "\<lambda>m p. filterWheelPut m fw p" "\<lambda>m p. filterWheelGet m fw p" view
  by unfold_locales (rule put_blocked get_quiet, assumption)+

end

interpretation base_filterwheel: filterwheel_driver BaseFilterWheel "\<lambda>w. w"
  by unfold_locales (simp_all add: BaseFilterWheel_def)

section \<open>Focuser\<close>

datatype foc_flag = FAbsolute | FIsMoving | FTempComp | FTempCompAvailable
datatype foc_int = FMaxIncrement | FMaxStep | FInterfaceVersion
datatype foc_float = FStepSize | FTemperature
datatype foc_cmd = SetTempComp bool | FHalt | FMove int

record 'w focuser =
  fFlag :: "foc_flag \<Rightarrow> ('w, bool) act"
  fInt :: "foc_int \<Rightarrow> ('w, int) act"
  fPosition :: "('w, goerror + int) act"
  fFloat :: "foc_float \<Rightarrow> ('w, goerror + f64) act"
  fDo :: "foc_cmd \<Rightarrow> 'w command"

definition GateFocuserTempComp :: "'w focuser \<Rightarrow> bool \<Rightarrow> 'w command" where
  "GateFocuserTempComp f on =
     (if on then ask (fFlag f FTempCompAvailable) (\<lambda>av.
        if \<not> av then fail (notImplErr ''TempComp'') else pass)
      else pass)"

definition GateFocuserMove :: "'w focuser \<Rightarrow> 'w command" where
  "GateFocuserMove f = ask (fInt f FInterfaceVersion) (\<lambda>v.
     if v < 3 then ask (fFlag f FTempComp) (\<lambda>tc.
       if tc then fail (invalidOpErr ''Move is not valid while temperature compensation is active'')
       else pass)
     else pass)"

definition focuserGet :: "string \<Rightarrow> 'w focuser \<Rightarrow> params \<Rightarrow> 'w read option" where
  "focuserGet member f p = map_of
    [(''absolute'', val VBool (fFlag f FAbsolute)), (''ismoving'', val VBool (fFlag f FIsMoving)),
     (''maxincrement'', val VInt (fInt f FMaxIncrement)), (''maxstep'', val VInt (fInt f FMaxStep)),
     (''position'', vale VInt (fPosition f)), (''stepsize'', vale VFloat (fFloat f FStepSize)),
     (''tempcomp'', val VBool (fFlag f FTempComp)),
     (''tempcompavailable'', val VBool (fFlag f FTempCompAvailable)),
     (''temperature'', vale VFloat (fFloat f FTemperature))] member"

definition focuserPut :: "string \<Rightarrow> 'w focuser \<Rightarrow> params \<Rightarrow> 'w command option" where
  "focuserPut member f p = map_of
    [(''tempcomp'', need (reqBool p ''TempComp'') (\<lambda>b.
        gate (GateFocuserTempComp f b) (fDo f (SetTempComp b)))),
     (''halt'', fDo f FHalt),
     (''move'', need (reqInt p ''Position'') (\<lambda>n. gate (GateFocuserMove f) (fDo f (FMove n))))] member"

definition BaseFocuser :: "int \<Rightarrow> 'w focuser" where
  "BaseFocuser iface = \<lparr>fFlag = (\<lambda>_. ret False),
     fInt = (\<lambda>i. ret (if i = FInterfaceVersion then iface else 0)),
     fPosition = ret (Inl ErrNotImplemented), fFloat = (\<lambda>_. ret (Inl ErrNotImplemented)),
     fDo = (\<lambda>_. fail ErrNotImplemented)\<rparr>"

locale focuser_driver =
  fixes f :: "'w focuser" and view :: "'w \<Rightarrow> 'v"
  assumes flag_quiet: "quiet view (fFlag f b)"
    and int_quiet: "quiet view (fInt f i)"
    and position_quiet: "quiet view (fPosition f)"
    and float_quiet: "quiet view (fFloat f x)"
    and do_blocked: "blocked view (fDo f c)"
begin

lemma put_blocked: "focuserPut member f p = Some a \<Longrightarrow> blocked view a"
  by (auto simp: focuserPut_def GateFocuserTempComp_def GateFocuserMove_def blocked_need blocked_gate
      quiet_ask flag_quiet int_quiet do_blocked split: if_splits)

lemma get_quiet: "focuserGet member f p = Some r \<Longrightarrow> quiet view r"
  by (auto simp: focuserGet_def quiet_val quiet_vale flag_quiet int_quiet position_quiet float_quiet
      split: if_splits)

sublocale tables: gated_tables "\<lambda>m p. focuserPut m f p" "\<lambda>m p. focuserGet m f p" view
  by unfold_locales (rule put_blocked get_quiet, assumption)+

end

text \<open>A driver whose reads and commands keep an invariant keeps it under every request.\<close>

locale focuser_invariant =
  fixes f :: "'w focuser" and P :: "'w \<Rightarrow> bool"
  assumes flag_keeps: "keeps P (fFlag f b)"
    and int_keeps: "keeps P (fInt f i)"
    and do_keeps: "keeps P (fDo f c)"
begin

lemma put_keeps: "focuserPut member f p = Some a \<Longrightarrow> keeps P a"
  by (auto simp: focuserPut_def GateFocuserTempComp_def GateFocuserMove_def keeps_need keeps_gate keeps_ask
      flag_keeps int_keeps do_keeps split: if_splits)

end

interpretation base_focuser: focuser_driver "BaseFocuser n" "\<lambda>w. w"
  by unfold_locales (simp_all add: BaseFocuser_def)

section \<open>Rotator\<close>

datatype rot_flag = RCanReverse | RIsMoving | RReverse
datatype rot_float = RMechanicalPosition | RPosition | RStepSize | RTargetPosition
datatype rot_cmd = SetReverse bool | RHalt | RMove f64 | RMoveAbsolute f64 | RMoveMechanical f64
  | RSync f64

record 'w rotator =
  rFlag :: "rot_flag \<Rightarrow> ('w, bool) act"
  rFloat :: "rot_float \<Rightarrow> ('w, f64) act"
  rDo :: "rot_cmd \<Rightarrow> 'w command"

definition GateRotatorReverse :: "'w rotator \<Rightarrow> 'w command" where
  "GateRotatorReverse r = ask (rFlag r RCanReverse) (\<lambda>can.
     if \<not> can then fail (notImplErr ''Reverse'') else pass)"

definition GateRotatorPosition :: "f64 \<Rightarrow> goerror option" where
  "GateRotatorPosition position =
     (if position < 0 \<or> position \<ge> 360
      then Some (invalidValuef ''Position %g is outside the valid range 0 to 359.999'' [FmtFloat position])
      else None)"

definition rotatorGet :: "string \<Rightarrow> 'w rotator \<Rightarrow> params \<Rightarrow> 'w read option" where
  "rotatorGet member r p = map_of
    [(''canreverse'', val VBool (rFlag r RCanReverse)), (''ismoving'', val VBool (rFlag r RIsMoving)),
     (''mechanicalposition'', val VFloat (rFloat r RMechanicalPosition)),
     (''position'', val VFloat (rFloat r RPosition)), (''reverse'', val VBool (rFlag r RReverse)),
     (''stepsize'', val VFloat (rFloat r RStepSize)),
     (''targetposition'', val VFloat (rFloat r RTargetPosition))] member"

definition rotatorPut :: "string \<Rightarrow> 'w rotator \<Rightarrow> params \<Rightarrow> 'w command option" where
  "rotatorPut member r p = map_of
    [(''reverse'', need (reqBool p ''Reverse'') (\<lambda>b.
        gate (GateRotatorReverse r) (rDo r (SetReverse b)))),
     (''halt'', rDo r RHalt),
     (''move'', need (reqFloat p ''Position'') (\<lambda>x. rDo r (RMove x))),
     (''moveabsolute'', need (reqFloat p ''Position'') (\<lambda>x.
        gate (ret (GateRotatorPosition x)) (rDo r (RMoveAbsolute x)))),
     (''movemechanical'', need (reqFloat p ''Position'') (\<lambda>x.
        gate (ret (GateRotatorPosition x)) (rDo r (RMoveMechanical x)))),
     (''sync'', need (reqFloat p ''Position'') (\<lambda>x.
        gate (ret (GateRotatorPosition x)) (rDo r (RSync x))))] member"

definition BaseRotator :: "'w rotator" where
  "BaseRotator = \<lparr>rFlag = (\<lambda>_. ret False), rFloat = (\<lambda>_. ret 0),
     rDo = (\<lambda>_. fail ErrNotImplemented)\<rparr>"

locale rotator_driver =
  fixes r :: "'w rotator" and view :: "'w \<Rightarrow> 'v"
  assumes flag_quiet: "quiet view (rFlag r b)"
    and float_quiet: "quiet view (rFloat r x)"
    and do_blocked: "blocked view (rDo r c)"
begin

lemma put_blocked: "rotatorPut member r p = Some a \<Longrightarrow> blocked view a"
  by (auto simp: rotatorPut_def GateRotatorReverse_def blocked_need blocked_gate quiet_ask
      flag_quiet do_blocked split: if_splits)

lemma get_quiet: "rotatorGet member r p = Some g \<Longrightarrow> quiet view g"
  by (auto simp: rotatorGet_def quiet_val flag_quiet float_quiet split: if_splits)

sublocale tables: gated_tables "\<lambda>m p. rotatorPut m r p" "\<lambda>m p. rotatorGet m r p" view
  by unfold_locales (rule put_blocked get_quiet, assumption)+

end

interpretation base_rotator: rotator_driver BaseRotator "\<lambda>w. w"
  by unfold_locales (simp_all add: BaseRotator_def)

text \<open>A driver whose moves keep an invariant when called with an angle in [0, 360) (any finite offset for
  the relative move) keeps it under every request with finite parameters.\<close>

definition angle_ok :: "f64 \<Rightarrow> bool" where
  "angle_ok x \<longleftrightarrow> 0 \<le> x \<and> x < 360"

lemma angle_ok_iff: "angle_ok x \<longleftrightarrow> (\<exists>r. x = Fin r \<and> 0 \<le> r \<and> r < 360)"
  by (cases x) (auto simp: angle_ok_def less_eq_f64_def less_f64_def eq64_def)

lemma angle_ok_Fin [simp]: "angle_ok (Fin r) \<longleftrightarrow> 0 \<le> r \<and> r < 360"
  by (simp add: angle_ok_iff)

fun rot_args_ok :: "rot_cmd \<Rightarrow> bool" where
  "rot_args_ok (RMove x) = finite64 x"
| "rot_args_ok (RMoveAbsolute x) = angle_ok x"
| "rot_args_ok (RMoveMechanical x) = angle_ok x"
| "rot_args_ok (RSync x) = angle_ok x"
| "rot_args_ok _ = True"

lemma GateRotatorPosition_None: "GateRotatorPosition x = None \<Longrightarrow> finite64 x \<Longrightarrow> angle_ok x"
  by (auto simp: GateRotatorPosition_def finite64_iff split: if_splits)

locale rotator_invariant =
  fixes r :: "'w rotator" and P :: "'w \<Rightarrow> bool"
  assumes flag_keeps: "keeps P (rFlag r b)"
    and do_keeps: "rot_args_ok c \<Longrightarrow> keeps P (rDo r c)"
begin

lemma put_keeps:
  assumes "rotatorPut member r p = Some a" "finite_params p"
  shows "keeps P a"
  using assms by (auto simp: rotatorPut_def GateRotatorReverse_def keeps_need keeps_gate keeps_gate_ret
      keeps_ask flag_keeps do_keeps GateRotatorPosition_None finite_params_def split: if_splits)

end

end
