(* ===== verification/Dome_Cover.thy ===== *)
theory Dome_Cover
  imports Gate
begin

text \<open>
  Dome and CoverCalibrator: interfaces, base defaults, gates and HTTP members (\<open>server/dome.go\<close>,
  \<open>server/covercalibrator.go\<close>, \<open>server/gates.go\<close>).
\<close>

section \<open>Dome\<close>

datatype dome_flag = DAtHome | DAtPark | DCanFindHome | DCanPark | DCanSetAltitude | DCanSetAzimuth
  | DCanSetPark | DCanSetShutter | DCanSlave | DCanSyncAzimuth | DSlaved | DSlewing
datatype dome_float = DAltitude | DAzimuth
datatype dome_cmd = SetSlaved bool | DAbortSlew | CloseShutter | DFindHome | OpenShutter | DPark
  | DSetPark | SlewToAltitude f64 | SlewToAzimuth f64 | SyncToAzimuth f64

record 'w dome =
  dFlag :: "dome_flag \<Rightarrow> ('w, bool) act"
  dFloat :: "dome_float \<Rightarrow> ('w, goerror + f64) act"
  dShutterStatus :: "('w, goerror + ShutterState) act"
  dDo :: "dome_cmd \<Rightarrow> 'w command"

definition domeGet :: "string \<Rightarrow> 'w dome \<Rightarrow> params \<Rightarrow> 'w read option" where
  "domeGet member d p = map_of
    [(''altitude'', vale VFloat (dFloat d DAltitude)), (''athome'', val VBool (dFlag d DAtHome)),
     (''atpark'', val VBool (dFlag d DAtPark)), (''azimuth'', vale VFloat (dFloat d DAzimuth)),
     (''canfindhome'', val VBool (dFlag d DCanFindHome)), (''canpark'', val VBool (dFlag d DCanPark)),
     (''cansetaltitude'', val VBool (dFlag d DCanSetAltitude)),
     (''cansetazimuth'', val VBool (dFlag d DCanSetAzimuth)),
     (''cansetpark'', val VBool (dFlag d DCanSetPark)),
     (''cansetshutter'', val VBool (dFlag d DCanSetShutter)),
     (''canslave'', val VBool (dFlag d DCanSlave)),
     (''cansyncazimuth'', val VBool (dFlag d DCanSyncAzimuth)),
     (''shutterstatus'', vale (\<lambda>s. VInt (int_of_ShutterState s)) (dShutterStatus d)),
     (''slaved'', val VBool (dFlag d DSlaved)), (''slewing'', val VBool (dFlag d DSlewing))] member"

text \<open>\<open>if !d.CanX() { return notImplErr(member) }\<close>.\<close>

definition domeCan :: "'w dome \<Rightarrow> dome_flag \<Rightarrow> string \<Rightarrow> 'w command" where
  "domeCan d flag member = ask (dFlag d flag) (\<lambda>can. if \<not> can then fail (notImplErr member) else pass)"

definition domePut :: "string \<Rightarrow> 'w dome \<Rightarrow> params \<Rightarrow> 'w command option" where
  "domePut member d p = map_of
    [(''slaved'', need (reqBool p ''Slaved'') (\<lambda>b.
        gate (if b then domeCan d DCanSlave ''Slaved'' else pass) (dDo d (SetSlaved b)))),
     (''abortslew'', dDo d DAbortSlew),
     (''closeshutter'', gate (domeCan d DCanSetShutter ''CloseShutter'') (dDo d CloseShutter)),
     (''findhome'', gate (domeCan d DCanFindHome ''FindHome'') (dDo d DFindHome)),
     (''openshutter'', gate (domeCan d DCanSetShutter ''OpenShutter'') (dDo d OpenShutter)),
     (''park'', gate (domeCan d DCanPark ''Park'') (dDo d DPark)),
     (''setpark'', gate (domeCan d DCanSetPark ''SetPark'') (dDo d DSetPark)),
     (''slewtoaltitude'', need (reqFloat p ''Altitude'') (\<lambda>f.
        gate (domeCan d DCanSetAltitude ''SlewToAltitude'')
          (gate (ret (invalidRange ''Altitude'' f 0 90)) (dDo d (SlewToAltitude f))))),
     (''slewtoazimuth'', need (reqFloat p ''Azimuth'') (\<lambda>f.
        gate (domeCan d DCanSetAzimuth ''SlewToAzimuth'')
          (gate (ret (invalidRange ''Azimuth'' f 0 360)) (dDo d (SlewToAzimuth f))))),
     (''synctoazimuth'', need (reqFloat p ''Azimuth'') (\<lambda>f.
        gate (domeCan d DCanSyncAzimuth ''SyncToAzimuth'')
          (gate (ret (invalidRange ''Azimuth'' f 0 360)) (dDo d (SyncToAzimuth f)))))] member"

definition BaseDome :: "'w dome" where
  "BaseDome = \<lparr>dFlag = (\<lambda>_. ret False), dFloat = (\<lambda>_. ret (Inl ErrNotImplemented)),
     dShutterStatus = ret (Inl ErrNotImplemented), dDo = (\<lambda>_. fail ErrNotImplemented)\<rparr>"

locale dome_driver =
  fixes d :: "'w dome" and view :: "'w \<Rightarrow> 'v"
  assumes flag_quiet: "quiet view (dFlag d b)"
    and float_quiet: "quiet view (dFloat d x)"
    and shutter_quiet: "quiet view (dShutterStatus d)"
    and do_blocked: "blocked view (dDo d c)"
begin

lemma can_quiet: "quiet view (domeCan d fl m)"
  by (simp add: domeCan_def quiet_ask flag_quiet)

lemma put_blocked: "domePut member d p = Some a \<Longrightarrow> blocked view a"
  by (auto simp: domePut_def blocked_need blocked_gate can_quiet do_blocked split: if_splits)

lemma get_quiet: "domeGet member d p = Some r \<Longrightarrow> quiet view r"
  by (auto simp: domeGet_def quiet_val quiet_vale flag_quiet float_quiet shutter_quiet split: if_splits)

sublocale tables: gated_tables "\<lambda>m p. domePut m d p" "\<lambda>m p. domeGet m d p" view
  by unfold_locales (rule put_blocked get_quiet, assumption)+

end

interpretation base_dome: dome_driver BaseDome "\<lambda>w. w"
  by unfold_locales (simp_all add: BaseDome_def)

text \<open>The arguments the gates let through.\<close>

fun dome_args_ok :: "dome_cmd \<Rightarrow> bool" where
  "dome_args_ok (SlewToAltitude x) = (0 \<le> x \<and> x \<le> 90)"
| "dome_args_ok (SlewToAzimuth x) = (0 \<le> x \<and> x \<le> 360)"
| "dome_args_ok (SyncToAzimuth x) = (0 \<le> x \<and> x \<le> 360)"
| "dome_args_ok _ = True"

locale dome_invariant =
  fixes d :: "'w dome" and P :: "'w \<Rightarrow> bool"
  assumes flag_keeps: "keeps P (dFlag d b)"
    and do_keeps: "dome_args_ok c \<Longrightarrow> keeps P (dDo d c)"
begin

lemma put_keeps:
  assumes "domePut member d p = Some a" "finite_params p"
  shows "keeps P a"
proof -
  have "invalidRange n f (Fin lo) (Fin hi) = None \<Longrightarrow> finite64 f \<Longrightarrow> Fin lo \<le> f \<and> f \<le> Fin hi" for n f lo hi
    by (auto simp: invalidRange_None finite64_iff)
  then show ?thesis using assms
    by (auto simp: domePut_def domeCan_def keeps_need keeps_gate keeps_gate_ret keeps_ask flag_keeps
        do_keeps finite_params_def split: if_splits)
qed

end

section \<open>CoverCalibrator\<close>

datatype cc_int = CBrightness | CMaxBrightness
datatype cc_flag = CCalibratorChanging | CCoverMoving
datatype cc_cmd = CalibratorOff_cmd | CalibratorOn int | CloseCover | HaltCover | OpenCover

record 'w covercalibrator =
  ccInt :: "cc_int \<Rightarrow> ('w, int) act"
  ccCalibratorState :: "('w, CalibratorStatus) act"
  ccCoverState :: "('w, CoverStatus) act"
  ccFlag :: "cc_flag \<Rightarrow> ('w, bool) act"
  ccDo :: "cc_cmd \<Rightarrow> 'w command"

definition GateCoverCalibratorCalibrator :: "'w covercalibrator \<Rightarrow> string \<Rightarrow> 'w command" where
  "GateCoverCalibratorCalibrator cc member = ask (ccCalibratorState cc) (\<lambda>s.
     if s = CalibratorNotPresent then fail (notImplErr member) else pass)"

definition GateCoverCalibratorCover :: "'w covercalibrator \<Rightarrow> string \<Rightarrow> 'w command" where
  "GateCoverCalibratorCover cc member = ask (ccCoverState cc) (\<lambda>s.
     if s = CoverNotPresent then fail (notImplErr member) else pass)"

definition GateCoverCalibratorOn :: "'w covercalibrator \<Rightarrow> int \<Rightarrow> 'w command" where
  "GateCoverCalibratorOn cc brightness = gate (GateCoverCalibratorCalibrator cc ''CalibratorOn'')
     (ask (ccInt cc CMaxBrightness) (\<lambda>mx.
       if brightness < 0 \<or> brightness > mx
       then fail (invalidValuef ''Brightness %d is outside the valid range 0 to %d''
                    [FmtInt brightness, FmtInt mx])
       else pass))"

definition coverCalibratorGet :: "string \<Rightarrow> 'w covercalibrator \<Rightarrow> params \<Rightarrow> 'w read option" where
  "coverCalibratorGet member cc p = map_of
    [(''brightness'', val VInt (ccInt cc CBrightness)),
     (''calibratorstate'', val (\<lambda>s. VInt (int_of_CalibratorStatus s)) (ccCalibratorState cc)),
     (''coverstate'', val (\<lambda>s. VInt (int_of_CoverStatus s)) (ccCoverState cc)),
     (''maxbrightness'', val VInt (ccInt cc CMaxBrightness)),
     (''calibratorchanging'', val VBool (ccFlag cc CCalibratorChanging)),
     (''covermoving'', val VBool (ccFlag cc CCoverMoving))] member"

definition coverCalibratorPut :: "string \<Rightarrow> 'w covercalibrator \<Rightarrow> params \<Rightarrow> 'w command option" where
  "coverCalibratorPut member cc p = map_of
    [(''calibratoroff'', gate (GateCoverCalibratorCalibrator cc ''CalibratorOff'') (ccDo cc CalibratorOff_cmd)),
     (''calibratoron'', need (reqInt p ''Brightness'') (\<lambda>n.
        gate (GateCoverCalibratorOn cc n) (ccDo cc (CalibratorOn n)))),
     (''closecover'', gate (GateCoverCalibratorCover cc ''CloseCover'') (ccDo cc CloseCover)),
     (''haltcover'', gate (GateCoverCalibratorCover cc ''HaltCover'') (ccDo cc HaltCover)),
     (''opencover'', gate (GateCoverCalibratorCover cc ''OpenCover'') (ccDo cc OpenCover))] member"

definition BaseCoverCalibrator :: "'w covercalibrator" where
  "BaseCoverCalibrator = \<lparr>ccInt = (\<lambda>_. ret 0), ccCalibratorState = ret CalibratorNotPresent,
     ccCoverState = ret CoverNotPresent, ccFlag = (\<lambda>_. ret False),
     ccDo = (\<lambda>_. fail ErrNotImplemented)\<rparr>"

locale covercalibrator_driver =
  fixes cc :: "'w covercalibrator" and view :: "'w \<Rightarrow> 'v"
  assumes int_quiet: "quiet view (ccInt cc i)"
    and cal_quiet: "quiet view (ccCalibratorState cc)"
    and cover_quiet: "quiet view (ccCoverState cc)"
    and flag_quiet: "quiet view (ccFlag cc b)"
    and do_blocked: "blocked view (ccDo cc c)"
begin

lemma gates_quiet:
  "quiet view (GateCoverCalibratorCalibrator cc m)" "quiet view (GateCoverCalibratorCover cc m)"
  "quiet view (GateCoverCalibratorOn cc n)"
  by (simp_all add: GateCoverCalibratorCalibrator_def GateCoverCalibratorCover_def
      GateCoverCalibratorOn_def quiet_ask quiet_gate int_quiet cal_quiet cover_quiet)

lemma put_blocked: "coverCalibratorPut member cc p = Some a \<Longrightarrow> blocked view a"
  by (auto simp: coverCalibratorPut_def blocked_need blocked_gate gates_quiet do_blocked split: if_splits)

lemma get_quiet: "coverCalibratorGet member cc p = Some r \<Longrightarrow> quiet view r"
  by (auto simp: coverCalibratorGet_def quiet_val int_quiet cal_quiet cover_quiet flag_quiet
      split: if_splits)

sublocale tables: gated_tables "\<lambda>m p. coverCalibratorPut m cc p" "\<lambda>m p. coverCalibratorGet m cc p" view
  by unfold_locales (rule put_blocked get_quiet, assumption)+

end

text \<open>A driver whose reads keep an invariant, and its commands too, lighting the calibrator behind the gate on
  the brightness.\<close>

locale covercalibrator_invariant =
  fixes cc :: "'w covercalibrator" and P :: "'w \<Rightarrow> bool"
  assumes int_keeps: "keeps P (ccInt cc i)"
    and cal_keeps: "keeps P (ccCalibratorState cc)"
    and cover_keeps: "keeps P (ccCoverState cc)"
    and flag_keeps: "keeps P (ccFlag cc b)"
    and on_keeps: "keeps P (gate (GateCoverCalibratorOn cc n) (ccDo cc (CalibratorOn n)))"
    and do_keeps: "(\<And>n. c \<noteq> CalibratorOn n) \<Longrightarrow> keeps P (ccDo cc c)"
begin

lemma put_keeps: "coverCalibratorPut member cc p = Some a \<Longrightarrow> keeps P a"
  by (auto simp: coverCalibratorPut_def GateCoverCalibratorCalibrator_def GateCoverCalibratorCover_def
      keeps_need keeps_gate keeps_ask cal_keeps cover_keeps on_keeps do_keeps split: if_splits)

lemma get_keeps: "coverCalibratorGet member cc p = Some r \<Longrightarrow> keeps P r"
  by (auto simp: coverCalibratorGet_def keeps_val int_keeps cal_keeps cover_keeps flag_keeps
      split: if_splits)

end

interpretation base_cover: covercalibrator_driver BaseCoverCalibrator "\<lambda>w. w"
  by unfold_locales (simp_all add: BaseCoverCalibrator_def)

end
