(* ===== verification/Sensors.thy ===== *)
theory Sensors
  imports Gate
begin

text \<open>
  ObservingConditions and SafetyMonitor: interfaces, base defaults, gates and HTTP members
  (\<open>server/observingconditions.go\<close>, \<open>server/safetymonitor.go\<close>, \<open>server/gates.go\<close>).
\<close>

section \<open>ObservingConditions\<close>

datatype oc_sensor = OCloudCover | ODewPoint | OHumidity | OPressure | ORainRate | OSkyBrightness
  | OSkyQuality | OSkyTemperature | OStarFWHM | OTemperature | OWindDirection | OWindGust | OWindSpeed

record 'w observingconditions =
  ocAveragePeriod :: "('w, f64) act"
  ocSetAveragePeriod :: "f64 \<Rightarrow> 'w command"
  ocSensor :: "oc_sensor \<Rightarrow> ('w, goerror + f64) act"
  ocSensorDescription :: "string \<Rightarrow> ('w, goerror + string) act"
  ocTimeSinceLastUpdate :: "string \<Rightarrow> ('w, goerror + f64) act"
  ocRefresh :: "'w command"

definition GateObservingConditionsSensor :: "string \<Rightarrow> bool \<Rightarrow> goerror option" where
  "GateObservingConditionsSensor name allowEmpty =
     (if \<not> validOCSensor name allowEmpty
      then Some (invalidValuef ''SensorName %q is not an ObservingConditions sensor'' [FmtStr name])
      else None)"

definition GateObservingConditionsAveragePeriod :: "f64 \<Rightarrow> goerror option" where
  "GateObservingConditionsAveragePeriod hours =
     (if hours < 0 then Some (invalidValuef ''AveragePeriod %g is negative'' [FmtFloat hours]) else None)"

definition oc_sensors :: "(string \<times> oc_sensor) list" where
  "oc_sensors =
    [(''cloudcover'', OCloudCover), (''dewpoint'', ODewPoint), (''humidity'', OHumidity),
     (''pressure'', OPressure), (''rainrate'', ORainRate), (''skybrightness'', OSkyBrightness),
     (''skyquality'', OSkyQuality), (''skytemperature'', OSkyTemperature), (''starfwhm'', OStarFWHM),
     (''temperature'', OTemperature), (''winddirection'', OWindDirection), (''windgust'', OWindGust),
     (''windspeed'', OWindSpeed)]"

definition sensor_param :: "params \<Rightarrow> string" where
  "sensor_param p = (case get p ''SensorName'' of None \<Rightarrow> [] | Some n \<Rightarrow> n)"

definition observingConditionsGet :: "string \<Rightarrow> 'w observingconditions \<Rightarrow> params \<Rightarrow> 'w read option" where
  "observingConditionsGet member oc p = map_of
    ([(''averageperiod'', val VFloat (ocAveragePeriod oc))] @
     map (\<lambda>(n, s). (n, vale VFloat (ocSensor oc s))) oc_sensors @
     [(''sensordescription'', gateV (ret (GateObservingConditionsSensor (sensor_param p) False))
         (vale VStr (ocSensorDescription oc (sensor_param p)))),
      (''timesincelastupdate'', gateV (ret (GateObservingConditionsSensor (sensor_param p) True))
         (vale VFloat (ocTimeSinceLastUpdate oc (sensor_param p))))]) member"

definition observingConditionsPut :: "string \<Rightarrow> 'w observingconditions \<Rightarrow> params \<Rightarrow> 'w command option" where
  "observingConditionsPut member oc p = map_of
    [(''averageperiod'', need (reqFloat p ''AveragePeriod'') (\<lambda>f.
        gate (ret (GateObservingConditionsAveragePeriod f)) (ocSetAveragePeriod oc f))),
     (''refresh'', ocRefresh oc)] member"

definition BaseObservingConditions :: "'w observingconditions" where
  "BaseObservingConditions = \<lparr>ocAveragePeriod = ret 0, ocSetAveragePeriod = (\<lambda>_. fail ErrNotImplemented),
     ocSensor = (\<lambda>_. ret (Inl ErrNotImplemented)),
     ocSensorDescription = (\<lambda>_. ret (Inl ErrNotImplemented)),
     ocTimeSinceLastUpdate = (\<lambda>_. ret (Inl ErrNotImplemented)), ocRefresh = fail ErrNotImplemented\<rparr>"

locale oc_driver =
  fixes oc :: "'w observingconditions" and view :: "'w \<Rightarrow> 'v"
  assumes period_quiet: "quiet view (ocAveragePeriod oc)"
    and sensor_quiet: "quiet view (ocSensor oc s)"
    and description_quiet: "quiet view (ocSensorDescription oc n)"
    and update_quiet: "quiet view (ocTimeSinceLastUpdate oc n)"
    and set_blocked: "blocked view (ocSetAveragePeriod oc x)"
    and refresh_blocked: "blocked view (ocRefresh oc)"
begin

lemma put_blocked: "observingConditionsPut member oc p = Some a \<Longrightarrow> blocked view a"
  by (auto simp: observingConditionsPut_def blocked_need blocked_gate set_blocked refresh_blocked
      split: if_splits)

lemma get_quiet: "observingConditionsGet member oc p = Some r \<Longrightarrow> quiet view r"
  by (auto simp: observingConditionsGet_def oc_sensors_def quiet_val quiet_vale quiet_gateV
      period_quiet sensor_quiet description_quiet update_quiet split: if_splits)

sublocale tables: gated_tables "\<lambda>m p. observingConditionsPut m oc p"
  "\<lambda>m p. observingConditionsGet m oc p" view
  by unfold_locales (rule put_blocked get_quiet, assumption)+

end

interpretation base_oc: oc_driver BaseObservingConditions "\<lambda>w. w"
  by unfold_locales (simp_all add: BaseObservingConditions_def)

text \<open>The sensor members of the GET table and the names that \<open>SensorDescription\<close> accepts agree.\<close>

lemma sensor_members: "set (map fst oc_sensors) = set ocSensors"
  by (simp add: oc_sensors_def ocSensors_def)

section \<open>SafetyMonitor\<close>

record 'w safetymonitor =
  smIsSafe :: "('w, bool) act"

definition safetyMonitorGet :: "string \<Rightarrow> 'w safetymonitor \<Rightarrow> params \<Rightarrow> 'w read option" where
  "safetyMonitorGet member sm p = map_of [(''issafe'', val VBool (smIsSafe sm))] member"

definition BaseSafetyMonitor :: "'w safetymonitor" where
  "BaseSafetyMonitor = \<lparr>smIsSafe = ret False\<rparr>"

end
