(* ===== verification/Switch.thy ===== *)
theory Switch
  imports Gate
begin

text \<open>
  The Switch interface (ISwitchV3), its gates and HTTP members (\<open>server/switch.go\<close>,
  \<open>server/gates.go\<close>).  Every member but \<open>MaxSwitch\<close> takes an Id, which is range-checked before the
  driver is called.
\<close>

datatype sw_flag = SCanWrite | SGetSwitch | SCanAsync | SStateChangeComplete
datatype sw_text = SGetSwitchDescription | SGetSwitchName
datatype sw_float = SGetSwitchValue | SMaxSwitchValue | SMinSwitchValue | SSwitchStep
datatype sw_cmd = SetSwitch int bool | SetSwitchName int string | SetSwitchValue int f64
  | SetAsync int bool | SetAsyncValue int f64 | CancelAsync int

record 'w switch =
  sMaxSwitch :: "('w, int) act"
  sFlag :: "sw_flag \<Rightarrow> int \<Rightarrow> ('w, goerror + bool) act"
  sText :: "sw_text \<Rightarrow> int \<Rightarrow> ('w, goerror + string) act"
  sFloat :: "sw_float \<Rightarrow> int \<Rightarrow> ('w, goerror + f64) act"
  sDo :: "sw_cmd \<Rightarrow> 'w command"

section \<open>Gates\<close>

definition validSwitchID :: "'w switch \<Rightarrow> int \<Rightarrow> 'w command" where
  "validSwitchID sw i = ask (sMaxSwitch sw) (\<lambda>mx.
     if i < 0 \<or> i \<ge> mx
     then fail (invalidValuef ''switch Id %d is outside the valid range 0 to %d''
                  [FmtInt i, FmtInt (wrap64 (mx - 1))])
     else pass)"

definition GateSwitchID :: "'w switch \<Rightarrow> int \<Rightarrow> 'w command" where
  "GateSwitchID = validSwitchID"

text \<open>The range check that \<open>GateSwitchValue\<close> and the \<open>setasyncvalue\<close> member share: a bound the driver
  cannot give leaves the check to the driver.\<close>

definition rangeCheck :: "'w switch \<Rightarrow> int \<Rightarrow> f64 \<Rightarrow> 'w command" where
  "rangeCheck sw i value =
     ask (sFloat sw SMinSwitchValue i) (\<lambda>r. case r of Inl _ \<Rightarrow> pass | Inr mn \<Rightarrow>
     ask (sFloat sw SMaxSwitchValue i) (\<lambda>r. case r of Inl _ \<Rightarrow> pass | Inr mx \<Rightarrow>
       if value < mn \<or> value > mx
       then fail (invalidValuef ''switch %d value %g is outside the valid range %g to %g''
                    [FmtInt i, FmtFloat value, FmtFloat mn, FmtFloat mx])
       else pass))"

definition GateSwitchValue :: "'w switch \<Rightarrow> int \<Rightarrow> f64 \<Rightarrow> 'w command" where
  "GateSwitchValue sw i value = gate (validSwitchID sw i) (rangeCheck sw i value)"

definition switchAsyncGate :: "'w switch \<Rightarrow> int \<Rightarrow> string \<Rightarrow> 'w command" where
  "switchAsyncGate sw i member = ask (sFlag sw SCanAsync i) (\<lambda>r. case r of
     Inl e \<Rightarrow> fail e | Inr can \<Rightarrow> if \<not> can then fail (notImplErr member) else pass)"

definition GateSwitchAsync :: "'w switch \<Rightarrow> int \<Rightarrow> string \<Rightarrow> 'w command" where
  "GateSwitchAsync sw i member = gate (validSwitchID sw i) (switchAsyncGate sw i member)"

section \<open>Members\<close>

definition idMembers :: "'w switch \<Rightarrow> (string \<times> (int \<Rightarrow> 'w read)) list" where
  "idMembers sw =
    [(''canwrite'', \<lambda>i. vale VBool (sFlag sw SCanWrite i)),
     (''getswitch'', \<lambda>i. vale VBool (sFlag sw SGetSwitch i)),
     (''getswitchdescription'', \<lambda>i. vale VStr (sText sw SGetSwitchDescription i)),
     (''getswitchname'', \<lambda>i. vale VStr (sText sw SGetSwitchName i)),
     (''getswitchvalue'', \<lambda>i. vale VFloat (sFloat sw SGetSwitchValue i)),
     (''maxswitchvalue'', \<lambda>i. vale VFloat (sFloat sw SMaxSwitchValue i)),
     (''minswitchvalue'', \<lambda>i. vale VFloat (sFloat sw SMinSwitchValue i)),
     (''switchstep'', \<lambda>i. vale VFloat (sFloat sw SSwitchStep i)),
     (''canasync'', \<lambda>i. vale VBool (sFlag sw SCanAsync i)),
     (''statechangecomplete'', \<lambda>i. vale VBool (sFlag sw SStateChangeComplete i))]"

definition switchGet :: "string \<Rightarrow> 'w switch \<Rightarrow> params \<Rightarrow> 'w read option" where
  "switchGet member sw p =
     (if member = ''maxswitch'' then Some (val VInt (sMaxSwitch sw))
      else (case map_of (idMembers sw) member of
        None \<Rightarrow> None
      | Some fn \<Rightarrow> Some (needV (reqInt p ''Id'') (\<lambda>i. gateV (GateSwitchID sw i) (fn i)))))"

text \<open>The members behind the common \<open>Id\<close> parameter; \<open>Name\<close> is optional.\<close>

definition switch_members :: "'w switch \<Rightarrow> params \<Rightarrow> (string \<times> (int \<Rightarrow> 'w command)) list" where
  "switch_members sw p =
    [(''setswitch'', \<lambda>i. need (reqBool p ''State'') (\<lambda>st.
        gate (GateSwitchID sw i) (sDo sw (SetSwitch i st)))),
     (''setswitchname'', \<lambda>i.
        gate (GateSwitchID sw i) (sDo sw (SetSwitchName i (case get p ''Name'' of None \<Rightarrow> [] | Some n \<Rightarrow> n)))),
     (''setswitchvalue'', \<lambda>i. need (reqFloat p ''Value'') (\<lambda>v.
        gate (GateSwitchValue sw i v) (sDo sw (SetSwitchValue i v)))),
     (''setasync'', \<lambda>i. need (reqBool p ''State'') (\<lambda>st.
        gate (GateSwitchID sw i) (gate (GateSwitchAsync sw i ''SetAsync'') (sDo sw (SetAsync i st))))),
     (''setasyncvalue'', \<lambda>i. need (reqFloat p ''Value'') (\<lambda>v.
        gate (GateSwitchID sw i) (gate (GateSwitchAsync sw i ''SetAsyncValue'')
          (gate (rangeCheck sw i v) (sDo sw (SetAsyncValue i v)))))),
     (''cancelasync'', \<lambda>i.
        gate (GateSwitchID sw i) (gate (GateSwitchAsync sw i ''CancelAsync'') (sDo sw (CancelAsync i))))]"

definition switchPut :: "string \<Rightarrow> 'w switch \<Rightarrow> params \<Rightarrow> 'w command option" where
  "switchPut member sw p = (case map_of (switch_members sw p) member of
     None \<Rightarrow> None
   | Some k \<Rightarrow> Some (need (reqInt p ''Id'') k))"

section \<open>Drivers\<close>

locale switch_driver =
  fixes sw :: "'w switch" and view :: "'w \<Rightarrow> 'v"
  assumes max_quiet: "quiet view (sMaxSwitch sw)"
    and flag_quiet: "quiet view (sFlag sw f i)"
    and text_quiet: "quiet view (sText sw x i)"
    and float_quiet: "quiet view (sFloat sw y i)"
    and do_blocked: "blocked view (sDo sw c)"
begin

lemma gates_quiet:
  "quiet view (validSwitchID sw i)" "quiet view (GateSwitchID sw i)"
  "quiet view (rangeCheck sw i v)" "quiet view (switchAsyncGate sw i m)"
  "quiet view (GateSwitchValue sw i v)" "quiet view (GateSwitchAsync sw i m)"
  by (simp_all add: validSwitchID_def GateSwitchID_def rangeCheck_def switchAsyncGate_def
      GateSwitchValue_def GateSwitchAsync_def quiet_ask quiet_gate max_quiet flag_quiet float_quiet
      split: sum.split)

lemma put_blocked: "switchPut member sw p = Some a \<Longrightarrow> blocked view a"
proof -
  have "list_all (\<lambda>(n, k). \<forall>i. blocked view (k i)) (switch_members sw p)"
    by (simp add: switch_members_def blocked_need blocked_gate gates_quiet do_blocked)
  then have "blocked view (k i)" if "map_of (switch_members sw p) member = Some k" for k i
    using table_all [of "\<lambda>k. \<forall>i. blocked view (k i)" "switch_members sw p"] that by blast
  then show "switchPut member sw p = Some a \<Longrightarrow> blocked view a"
    by (auto simp: switchPut_def blocked_need split: option.splits)
qed

lemma get_quiet: "switchGet member sw p = Some r \<Longrightarrow> quiet view r"
proof -
  have "list_all (\<lambda>(n, k). \<forall>i. quiet view (k i)) (idMembers sw)"
    by (simp add: idMembers_def quiet_vale flag_quiet text_quiet float_quiet)
  then have "quiet view (k i)" if "map_of (idMembers sw) member = Some k" for k i
    using table_all [of "\<lambda>k. \<forall>i. quiet view (k i)" "idMembers sw"] that by blast
  then show "switchGet member sw p = Some r \<Longrightarrow> quiet view r"
    by (auto simp: switchGet_def quiet_needV quiet_gateV gates_quiet quiet_val max_quiet
        split: option.splits if_splits)
qed

sublocale tables: gated_tables "\<lambda>m p. switchPut m sw p" "\<lambda>m p. switchGet m sw p" view
  by unfold_locales (rule put_blocked get_quiet, assumption)+

text \<open>An Id outside the range is refused by every member, before the driver's own Id-taking methods.\<close>

lemma bad_id_refused:
  assumes "switchPut member sw p = Some a" "reqInt p ''Id'' = Inr i"
    "i < 0 \<or> fst (sMaxSwitch sw w) \<le> i"
  shows "fst (a w) \<noteq> None"
proof -
  have r: "refused (\<lambda>w'. w' = w) (gate (validSwitchID sw i) k)" for k
    using assms(3) by (intro refused_gate)
      (auto simp: refused_def validSwitchID_def ask_def split: prod.split)
  have g: "refused (\<lambda>w'. w' = w) (gate (GateSwitchValue sw i v) k)" for v k
    unfolding GateSwitchValue_def gate_assoc by (rule r)
  have "list_all (\<lambda>(n, k). refused (\<lambda>w'. w' = w) (k i)) (switch_members sw p)"
    by (simp add: switch_members_def refused_need r g GateSwitchID_def)
  then have "refused (\<lambda>w'. w' = w) (k i)" if "map_of (switch_members sw p) member = Some k" for k
    using table_all [of "\<lambda>k. refused (\<lambda>w'. w' = w) (k i)" "switch_members sw p"] that by blast
  then show ?thesis using assms(1,2)
    by (auto simp: switchPut_def refused_def split: option.splits)
qed

end

section \<open>\<open>BaseSwitch\<close>\<close>

fun bs_flag :: "sw_flag \<Rightarrow> goerror + bool" where
  "bs_flag SCanWrite = Inr False"
| "bs_flag SGetSwitch = Inl ErrNotImplemented"
| "bs_flag SCanAsync = Inr False"
| "bs_flag SStateChangeComplete = Inr True"

fun bs_float :: "sw_float \<Rightarrow> goerror + f64" where
  "bs_float SGetSwitchValue = Inl ErrNotImplemented"
| "bs_float SMaxSwitchValue = Inr 1"
| "bs_float SMinSwitchValue = Inr 0"
| "bs_float SSwitchStep = Inr 1"

definition BaseSwitch :: "'w switch" where
  "BaseSwitch = \<lparr>sMaxSwitch = ret 0, sFlag = (\<lambda>f _. ret (bs_flag f)),
     sText = (\<lambda>_ _. ret (Inl ErrNotImplemented)), sFloat = (\<lambda>f _. ret (bs_float f)),
     sDo = (\<lambda>_. fail ErrNotImplemented)\<rparr>"

interpretation base_switch: switch_driver BaseSwitch "\<lambda>w. w"
  by unfold_locales (simp_all add: BaseSwitch_def)

end
