(* ===== verification/Device.thy ===== *)
theory Device
  imports Telescope Camera Movers Dome_Cover Sensors Switch Op
begin

text \<open>
  The interface every device implements (\<open>server/device.go\<close>), the default implementation
  \<open>BaseDevice\<close> (\<open>server/base.go\<close>), the members common to all types (\<open>server/device_http.go\<close>) and the
  batched \<open>DeviceState\<close> (\<open>server/devicestate.go\<close>).

  A Go device value may also implement a typed interface or one of the optional ones; a type assertion
  \<open>d.(Camera)\<close> is the option field \<open>asCamera\<close>, \<open>None\<close> when the assertion fails.
\<close>

section \<open>The interface\<close>

datatype dev_text = UniqueID | DevName | Description | DriverInfo | DriverVersion

type_synonym states = "(string \<times> any) list"

text \<open>\<open>Hardware\<close>.  \<open>hwCancel\<close> is what the end of the context given to \<open>Open\<close> sets off in the device:
  the background loops it started notice and stop.\<close>

record 'w hardware =
  hwOpen :: "'w command"
  hwCancel :: "('w, unit) act"
  hwClose :: "'w command"

text \<open>\<open>Configurable\<close> (\<open>server/setup.go\<close>): the setup form of a device and what applies a submission.\<close>

record SettingField =
  sfName :: string
  sfLabel :: string
  sfType :: string
  sfValue :: string
  sfOptions :: "string list"
  sfHelp :: string
  sfConstraints :: string
  sfLocked :: bool
  sfSource :: string

record 'w configurable =
  cfgSettingsForm :: "('w, SettingField list) act"
  cfgApplySettings :: "(string \<times> string) list \<Rightarrow> 'w command"

record 'w device =
  dvText :: "dev_text \<Rightarrow> ('w, string) act"
  dvInterfaceVersion :: "('w, int) act"
  dvConnect :: "'w command"
  dvDisconnect :: "'w command"
  dvConnected :: "('w, bool) act"
  dvConnecting :: "('w, bool) act"
  dvSupportedActions :: "('w, string list) act"
  dvAction :: "string \<Rightarrow> string \<Rightarrow> ('w, goerror + string) act"
  dvCommandString :: "string \<Rightarrow> bool \<Rightarrow> ('w, goerror + string) act"
  dvCommandBool :: "string \<Rightarrow> bool \<Rightarrow> ('w, goerror + bool) act"
  dvCommandBlind :: "string \<Rightarrow> bool \<Rightarrow> 'w command"
  dvDeviceState :: "('w, states) act"
  asBusyable :: "('w, bool) act option"
  asConnectErrorReporter :: "'w command option"
  asHardware :: "'w hardware option"
  asConfigurable :: "'w configurable option"
  asCamera :: "'w camera option"
  asCoverCalibrator :: "'w covercalibrator option"
  asDome :: "'w dome option"
  asFilterWheel :: "'w filterwheel option"
  asFocuser :: "'w focuser option"
  asObservingConditions :: "'w observingconditions option"
  asRotator :: "'w rotator option"
  asSafetyMonitor :: "'w safetymonitor option"
  asSwitch :: "'w switch option"
  asTelescope :: "'w telescope option"

section \<open>Common members\<close>

text \<open>The completion property of an asynchronous connect: a failed one is reported in-band.\<close>

definition connecting_member :: "'w device \<Rightarrow> 'w read" where
  "connecting_member d = ask (dvConnecting d) (\<lambda>connecting.
     if connecting then ret (Inr (VBool True))
     else (case asConnectErrorReporter d of
       None \<Rightarrow> ret (Inr (VBool False))
     | Some r \<Rightarrow> gateV r (ret (Inr (VBool False)))))"

definition deviceGet :: "string \<Rightarrow> 'w device \<Rightarrow> 'w read option" where
  "deviceGet member d = map_of
     [(''connected'', val VBool (dvConnected d)),
      (''connecting'', connecting_member d),
      (''name'', val VStr (dvText d DevName)),
      (''description'', val VStr (dvText d Description)),
      (''driverinfo'', val VStr (dvText d DriverInfo)),
      (''driverversion'', val VStr (dvText d DriverVersion)),
      (''interfaceversion'', val VInt (dvInterfaceVersion d)),
      (''supportedactions'', val VStrs (dvSupportedActions d))] member"

text \<open>\<open>cmd, _ := p.get(..)\<close> and \<open>raw, _ := p.reqBool(..)\<close>: the zero value when the parameter is missing
  or malformed.\<close>

definition opt_string :: "params \<Rightarrow> string \<Rightarrow> string" where
  "opt_string p name = (case get p name of None \<Rightarrow> [] | Some v \<Rightarrow> v)"

definition opt_bool :: "params \<Rightarrow> string \<Rightarrow> bool" where
  "opt_bool p name = (case reqBool p name of Inl _ \<Rightarrow> False | Inr b \<Rightarrow> b)"

definition devicePut :: "string \<Rightarrow> 'w device \<Rightarrow> params \<Rightarrow> 'w command option" where
  "devicePut member d p = map_of
     [(''connected'', need (reqBool p ''Connected'') (\<lambda>on. if on then dvConnect d else dvDisconnect d)),
      (''connect'', dvConnect d),
      (''disconnect'', dvDisconnect d),
      (''commandblind'', dvCommandBlind d (opt_string p ''Command'') (opt_bool p ''Raw''))] member"

definition devicePutValue :: "string \<Rightarrow> 'w device \<Rightarrow> params \<Rightarrow> 'w read option" where
  "devicePutValue member d p = map_of
     [(''action'', vale VStr (dvAction d (opt_string p ''Action'') (opt_string p ''Parameters''))),
      (''commandstring'', vale VStr (dvCommandString d (opt_string p ''Command'') (opt_bool p ''Raw''))),
      (''commandbool'', vale VBool (dvCommandBool d (opt_string p ''Command'') (opt_bool p ''Raw'')))] member"

definition stateValueArray :: "states \<Rightarrow> any" where
  "stateValueArray sv = VArray (map (\<lambda>(n, v). VObject [(''Name'', VStr n), (''Value'', v)]) sv)"

section \<open>DeviceState\<close>

definition appendIfOK :: "string \<Rightarrow> goerror + any \<Rightarrow> states" where
  "appendIfOK name r = (case r of Inl _ \<Rightarrow> [] | Inr v \<Rightarrow> [(name, v)])"

text \<open>The getters of a device type in their order; a getter that reports an error is left out.\<close>

fun state_entries :: "(string \<times> 'w read) list \<Rightarrow> ('w, states) act" where
  "state_entries [] = ret []"
| "state_entries ((name, r) # rs) =
     ask r (\<lambda>v. ask (state_entries rs) (\<lambda>sv. ret (appendIfOK name v @ sv)))"

definition cameraStateValues :: "'w camera \<Rightarrow> (string \<times> 'w read) list" where
  "cameraStateValues c =
     [(''CameraState'', val (VInt \<circ> int_of_CameraState) (cCameraState c)),
      (''ImageReady'', val VBool (cFlag c CImageReady)),
      (''IsPulseGuiding'', val VBool (cFlag c CIsPulseGuiding)),
      (''PercentCompleted'', val VInt (cInt c CPercentCompleted)),
      (''CCDTemperature'', vale VFloat (cFloatErr c CCCDTemperature)),
      (''CoolerPower'', vale VFloat (cFloatErr c CCoolerPower)),
      (''HeatSinkTemperature'', vale VFloat (cFloatErr c CHeatSinkTemperature))]"

definition coverCalibratorStateValues :: "'w covercalibrator \<Rightarrow> (string \<times> 'w read) list" where
  "coverCalibratorStateValues cc =
     [(''Brightness'', val VInt (ccInt cc CBrightness)),
      (''CalibratorState'', val (VInt \<circ> int_of_CalibratorStatus) (ccCalibratorState cc)),
      (''CoverState'', val (VInt \<circ> int_of_CoverStatus) (ccCoverState cc)),
      (''CalibratorChanging'', val VBool (ccFlag cc CCalibratorChanging)),
      (''CoverMoving'', val VBool (ccFlag cc CCoverMoving))]"

definition domeStateValues :: "'w dome \<Rightarrow> (string \<times> 'w read) list" where
  "domeStateValues d =
     [(''AtHome'', val VBool (dFlag d DAtHome)),
      (''AtPark'', val VBool (dFlag d DAtPark)),
      (''Slewing'', val VBool (dFlag d DSlewing)),
      (''Altitude'', vale VFloat (dFloat d DAltitude)),
      (''Azimuth'', vale VFloat (dFloat d DAzimuth)),
      (''ShutterStatus'', vale (VInt \<circ> int_of_ShutterState) (dShutterStatus d))]"

definition focuserStateValues :: "'w focuser \<Rightarrow> (string \<times> 'w read) list" where
  "focuserStateValues f =
     [(''IsMoving'', val VBool (fFlag f FIsMoving)),
      (''Position'', vale VInt (fPosition f)),
      (''Temperature'', vale VFloat (fFloat f FTemperature))]"

text \<open>The number of the channel is part of the names.\<close>

definition channel_entries :: "'w switch \<Rightarrow> nat \<Rightarrow> (string \<times> 'w read) list" where
  "channel_entries s i =
     [(''GetSwitch'' @ Itoa (int i), vale VBool (sFlag s SGetSwitch (int i))),
      (''GetSwitchValue'' @ Itoa (int i), vale VFloat (sFloat s SGetSwitchValue (int i))),
      (''StateChangeComplete'' @ Itoa (int i), vale VBool (sFlag s SStateChangeComplete (int i)))]"

text \<open>The capacity \<open>3*max\<close> of the slice (32 bytes an entry, 2^48 bytes at most) is checked by \<open>make\<close>,
  which panics; a panic is an error value.\<close>

definition makecap_panic :: goerror where
  "makecap_panic = EOther (Text ''runtime error: makeslice: cap out of range'')"

definition switchStateValues :: "'w switch \<Rightarrow> ('w, goerror + states) act" where
  "switchStateValues s = ask (sMaxSwitch s) (\<lambda>max.
     let cap = wrap64 (3 * max) in
     if cap < 0 \<or> cap * 32 > 2 ^ 48 then ret (Inl makecap_panic)
     else ask (state_entries (concat (map (channel_entries s) [0 ..< nat max]))) (\<lambda>sv. ret (Inr sv)))"

definition observingConditionsStateValues :: "'w observingconditions \<Rightarrow> (string \<times> 'w read) list" where
  "observingConditionsStateValues oc = map (\<lambda>(name, s). (name, vale VFloat (ocSensor oc s)))
     [(''CloudCover'', OCloudCover), (''DewPoint'', ODewPoint), (''Humidity'', OHumidity),
      (''Pressure'', OPressure), (''RainRate'', ORainRate), (''SkyBrightness'', OSkyBrightness),
      (''SkyQuality'', OSkyQuality), (''SkyTemperature'', OSkyTemperature), (''StarFWHM'', OStarFWHM),
      (''Temperature'', OTemperature), (''WindDirection'', OWindDirection), (''WindGust'', OWindGust),
      (''WindSpeed'', OWindSpeed)]"

definition telescopeStateValues :: "'w telescope \<Rightarrow> (string \<times> 'w read) list" where
  "telescopeStateValues t =
     [(''Altitude'', val VFloat (tFloat t TAltitude)),
      (''AtHome'', val VBool (tFlag t TAtHome)),
      (''AtPark'', val VBool (tFlag t TAtPark)),
      (''Azimuth'', val VFloat (tFloat t TAzimuth)),
      (''Declination'', val VFloat (tFloat t TDeclination)),
      (''IsPulseGuiding'', val VBool (tFlag t TIsPulseGuiding)),
      (''RightAscension'', val VFloat (tFloat t TRightAscension)),
      (''SideOfPier'', val VInt (tInt t TSideOfPier)),
      (''SiderealTime'', val VFloat (tFloat t TSiderealTime)),
      (''Slewing'', val VBool (tFlag t TSlewing)),
      (''Tracking'', val VBool (tFlag t TTracking)),
      (''UTCDate'', val VStr (tUTCDate t))]"

definition rotatorStateValues :: "'w rotator \<Rightarrow> (string \<times> 'w read) list" where
  "rotatorStateValues r =
     [(''IsMoving'', val VBool (rFlag r RIsMoving)),
      (''MechanicalPosition'', val VFloat (rFloat r RMechanicalPosition)),
      (''Position'', val VFloat (rFloat r RPosition))]"

text \<open>The set of a device type; nothing when the device does not implement the interface of its type.\<close>

definition typed_states :: "DeviceType \<Rightarrow> 'w device \<Rightarrow> ('w, goerror + states) act" where
  "typed_states ty d =
     (let entries = (\<lambda>rs. ask (state_entries rs) (\<lambda>sv. ret (Inr sv)))
      in case ty of
        CameraType \<Rightarrow> (case asCamera d of None \<Rightarrow> ret (Inr []) | Some x \<Rightarrow> entries (cameraStateValues x))
      | CoverCalibratorType \<Rightarrow>
          (case asCoverCalibrator d of None \<Rightarrow> ret (Inr []) | Some x \<Rightarrow> entries (coverCalibratorStateValues x))
      | DomeType \<Rightarrow> (case asDome d of None \<Rightarrow> ret (Inr []) | Some x \<Rightarrow> entries (domeStateValues x))
      | FilterWheelType \<Rightarrow> (case asFilterWheel d of None \<Rightarrow> ret (Inr [])
          | Some x \<Rightarrow> entries [(''Position'', val VInt (fwPosition x))])
      | FocuserType \<Rightarrow> (case asFocuser d of None \<Rightarrow> ret (Inr []) | Some x \<Rightarrow> entries (focuserStateValues x))
      | ObservingConditionsType \<Rightarrow> (case asObservingConditions d of None \<Rightarrow> ret (Inr [])
          | Some x \<Rightarrow> entries (observingConditionsStateValues x))
      | RotatorType \<Rightarrow> (case asRotator d of None \<Rightarrow> ret (Inr []) | Some x \<Rightarrow> entries (rotatorStateValues x))
      | SafetyMonitorType \<Rightarrow> (case asSafetyMonitor d of None \<Rightarrow> ret (Inr [])
          | Some x \<Rightarrow> entries [(''IsSafe'', val VBool (smIsSafe x))])
      | SwitchType \<Rightarrow> (case asSwitch d of None \<Rightarrow> ret (Inr []) | Some x \<Rightarrow> switchStateValues x)
      | TelescopeType \<Rightarrow> (case asTelescope d of None \<Rightarrow> ret (Inr []) | Some x \<Rightarrow> entries (telescopeStateValues x))
      | CustomType _ \<Rightarrow> ret (Inr []))"

text \<open>Overlaying one entry replaces the first of the same name, or appends.\<close>

fun overlay :: "states \<Rightarrow> string \<times> any \<Rightarrow> states" where
  "overlay [] e = [e]"
| "overlay (b # bs) e = (if fst b = fst e then e # bs else b # overlay bs e)"

definition mergeStateValues :: "states \<Rightarrow> states \<Rightarrow> states" where
  "mergeStateValues built extra = foldl overlay built extra"

text \<open>\<open>now\<close> is the clock of the world, read by \<open>nowISO8601\<close> after the getters.\<close>

definition stamped :: "string \<Rightarrow> states \<Rightarrow> states" where
  "stamped stamp sv = (if ''TimeStamp'' \<in> fst ` set sv then sv else sv @ [(''TimeStamp'', VStr stamp)])"

definition deviceStateValues :: "('w \<Rightarrow> time) \<Rightarrow> DeviceType \<Rightarrow> 'w device \<Rightarrow> ('w, goerror + states) act" where
  "deviceStateValues now ty d = ask (typed_states ty d) (\<lambda>r. case r of
     Inl e \<Rightarrow> ret (Inl e)
   | Inr built \<Rightarrow> ask (dvDeviceState d) (\<lambda>extra w.
       (Inr (stamped (format_utc (now w)) (mergeStateValues built extra)), w)))"

section \<open>BaseDevice\<close>

text \<open>A driver embeds a \<open>BaseDevice\<close> beside its own state: the world of its methods is the pair.\<close>

record base_device =
  ID :: string
  bdName :: string
  Desc :: string
  Info :: string
  Version :: string
  IfaceVer :: int
  Instance :: string
  bdConnected :: bool
  connectOp :: Op

definition on_fst :: "('a, 'x) act \<Rightarrow> ('a \<times> 'b, 'x) act" where
  "on_fst m w = (case w of (a, b) \<Rightarrow> (case m a of (x, a') \<Rightarrow> (x, (a', b))))"

definition on_snd :: "('b, 'x) act \<Rightarrow> ('a \<times> 'b, 'x) act" where
  "on_snd m w = (case w of (a, b) \<Rightarrow> (case m b of (x, b') \<Rightarrow> (x, (a, b'))))"

definition on_connectOp :: "(Op, 'x) act \<Rightarrow> (base_device, 'x) act" where
  "on_connectOp m b = (case m (connectOp b) of (x, q) \<Rightarrow> (x, b\<lparr>connectOp := q\<rparr>))"

definition MarkConnected :: "(base_device, unit) act" where
  "MarkConnected b = ((), b\<lparr>bdConnected := True\<rparr>)"

definition MarkDisconnected :: "(base_device, unit) act" where
  "MarkDisconnected b = ((), b\<lparr>bdConnected := False\<rparr>)"

definition bd_Connect :: "base_device command" where
  "bd_Connect = ask MarkConnected (\<lambda>_. pass)"

definition bd_Disconnect :: "base_device command" where
  "bd_Disconnect = ask MarkDisconnected (\<lambda>_. pass)"

definition Connecting :: "(base_device, bool) act" where
  "Connecting = on_connectOp Busy"

definition ConnectError :: "base_device command" where
  "ConnectError = on_connectOp Err"

definition Label :: "base_device \<Rightarrow> string" where
  "Label b = (if Instance b \<noteq> [] then Instance b else ID b)"

fun bd_text :: "dev_text \<Rightarrow> base_device \<Rightarrow> string" where
  "bd_text UniqueID b = ID b"
| "bd_text DevName b = bdName b"
| "bd_text Description b = Desc b"
| "bd_text DriverInfo b = Info b"
| "bd_text DriverVersion b = Version b"

definition field :: "('w \<Rightarrow> 'a) \<Rightarrow> ('w, 'a) act" where
  "field f w = (f w, w)"

definition BaseDevice :: "(base_device \<times> 'w) device" where
  "BaseDevice = \<lparr>dvText = (\<lambda>x. on_fst (field (bd_text x))), dvInterfaceVersion = on_fst (field IfaceVer),
     dvConnect = on_fst bd_Connect, dvDisconnect = on_fst bd_Disconnect,
     dvConnected = on_fst (field bdConnected), dvConnecting = on_fst Connecting,
     dvSupportedActions = ret [], dvAction = (\<lambda>name p. ret (Inl ErrActionNotImplemented)),
     dvCommandString = (\<lambda>cmd raw. ret (Inl ErrNotImplemented)),
     dvCommandBool = (\<lambda>cmd raw. ret (Inl ErrNotImplemented)),
     dvCommandBlind = (\<lambda>cmd raw. fail ErrNotImplemented), dvDeviceState = ret [],
     asBusyable = None, asConnectErrorReporter = Some (on_fst ConnectError), asHardware = None,
     asConfigurable = None,
     asCamera = None, asCoverCalibrator = None, asDome = None, asFilterWheel = None, asFocuser = None,
     asObservingConditions = None, asRotator = None, asSafetyMonitor = None, asSwitch = None,
     asTelescope = None\<rparr>"

lemma on_fst_apply [act_simps]: "on_fst m (a, b) = (fst (m a), (snd (m a), b))"
  by (simp add: on_fst_def split: prod.split)

lemma on_snd_apply [act_simps]: "on_snd m (a, b) = (fst (m b), (a, snd (m b)))"
  by (simp add: on_snd_def split: prod.split)

lemma field_apply [act_simps, simp]: "field f w = (f w, w)"
  by (simp add: field_def)

lemma Connecting_apply: "Connecting b = (op_state (connectOp b) = OpBusy, b)"
  by (simp add: Connecting_def on_connectOp_def Busy_def)

lemma ConnectError_apply: "ConnectError b = (op_err (connectOp b), b)"
  by (simp add: ConnectError_def on_connectOp_def Err_def)

lemmas base_reads = Connecting_apply ConnectError_apply

lemma BaseDevice_sel [simp]:
  "dvText BaseDevice x = on_fst (field (bd_text x))" "dvInterfaceVersion BaseDevice = on_fst (field IfaceVer)"
  "dvConnect BaseDevice = on_fst bd_Connect" "dvDisconnect BaseDevice = on_fst bd_Disconnect"
  "dvConnected BaseDevice = on_fst (field bdConnected)" "dvConnecting BaseDevice = on_fst Connecting"
  "dvSupportedActions BaseDevice = ret []" "dvAction BaseDevice a ps = ret (Inl ErrActionNotImplemented)"
  "dvCommandString BaseDevice c raw = ret (Inl ErrNotImplemented)"
  "dvCommandBool BaseDevice c raw = ret (Inl ErrNotImplemented)"
  "dvCommandBlind BaseDevice c raw = fail ErrNotImplemented" "dvDeviceState BaseDevice = ret []"
  "asBusyable BaseDevice = None" "asConnectErrorReporter BaseDevice = Some (on_fst ConnectError)"
  by (simp_all add: BaseDevice_def)

section \<open>The contract of a device\<close>

text \<open>A command with a value that reports an error has changed nothing observable.\<close>

definition blockedV :: "('w \<Rightarrow> 'v) \<Rightarrow> ('w, 'e + 'a) act \<Rightarrow> bool" where
  "blockedV view m \<longleftrightarrow> (\<forall>w e. fst (m w) = Inl e \<longrightarrow> view (snd (m w)) = view w)"

lemma map_sum_Inl: "map_sum id f r = Inl e \<longleftrightarrow> r = Inl e"
  by (cases r) simp_all

lemma blockedV_vale [blocked_intros]: "blockedV view m \<Longrightarrow> blockedV view (vale f m)"
  by (simp add: blockedV_def vale_apply case_prod_beta map_sum_Inl)

lemma blockedV_ret [simp]: "blockedV view (ret x)"
  by (simp add: blockedV_def)

locale device_driver =
  fixes d :: "'w device" and view :: "'w \<Rightarrow> 'v"
  assumes text_quiet: "quiet view (dvText d x)"
    and version_quiet: "quiet view (dvInterfaceVersion d)"
    and connected_quiet: "quiet view (dvConnected d)"
    and connecting_quiet: "quiet view (dvConnecting d)"
    and actions_quiet: "quiet view (dvSupportedActions d)"
    and state_quiet: "quiet view (dvDeviceState d)"
    and busy_quiet: "asBusyable d = Some b \<Longrightarrow> quiet view b"
    and report_quiet: "asConnectErrorReporter d = Some r \<Longrightarrow> quiet view r"
    and connect_blocked: "blocked view (dvConnect d)"
    and disconnect_blocked: "blocked view (dvDisconnect d)"
    and blind_blocked: "blocked view (dvCommandBlind d cmd raw)"
    and action_blocked: "blockedV view (dvAction d name args)"
    and string_blocked: "blockedV view (dvCommandString d cmd raw)"
    and bool_blocked: "blockedV view (dvCommandBool d cmd raw)"
begin

lemma connecting_member_quiet: "quiet view (connecting_member d)"
  unfolding connecting_member_def
  by (intro quiet_ask quiet_if quiet_case quiet_gateV quiet_ret connecting_quiet)
    (simp_all add: report_quiet)

lemma deviceGet_quiet: "deviceGet member d = Some r \<Longrightarrow> quiet view r"
  using connecting_member_quiet text_quiet version_quiet connected_quiet actions_quiet
  by (auto simp: deviceGet_def quiet_val split: if_splits)

lemma devicePut_blocked: "devicePut member d p = Some a \<Longrightarrow> blocked view a"
  using connect_blocked disconnect_blocked blind_blocked
  by (auto simp: devicePut_def blocked_need split: if_splits)

lemma devicePutValue_blocked: "devicePutValue member d p = Some r \<Longrightarrow> blockedV view r"
  using action_blocked string_blocked bool_blocked
  by (auto simp: devicePutValue_def blockedV_vale split: if_splits)

end

lemma quiet_state_entries:
  "list_all (\<lambda>(n, r). quiet view r) rs \<Longrightarrow> quiet view (state_entries rs)"
  by (induction rs rule: state_entries.induct) (auto intro!: quiet_ask)

section \<open>The merged DeviceState\<close>

lemma overlay_names: "map fst (overlay bs e) = map fst bs @ (if fst e \<in> fst ` set bs then [] else [fst e])"
  by (induction bs e rule: overlay.induct) auto

lemma overlay_set: "fst ` set (overlay bs e) = insert (fst e) (fst ` set bs)"
  using arg_cong [OF overlay_names [of bs e], of set] by auto

lemma merge_Cons [simp]: "mergeStateValues built (e # es) = mergeStateValues (overlay built e) es"
  "mergeStateValues built [] = built"
  by (simp_all add: mergeStateValues_def)

lemma merge_names:
  "fst ` set (mergeStateValues built extra) = fst ` set built \<union> fst ` set extra"
  "distinct (map fst built) \<Longrightarrow> distinct (map fst (mergeStateValues built extra))"
  "\<exists>new. map fst (mergeStateValues built extra) = map fst built @ new"
proof (induction extra arbitrary: built)
  case (Cons e es)
  {
    case 1
    show ?case unfolding merge_Cons Cons.IH(1) overlay_set by auto
  next
    case 2
    then have "distinct (map fst (overlay built e))" by (auto simp: overlay_names)
    then show ?case using Cons.IH(2) by simp
  next
    case 3
    show ?case using Cons.IH(3) [of "overlay built e"] by (auto simp: overlay_names)
  }
qed simp_all

lemma map_of_overlay: "distinct (map fst bs) \<Longrightarrow> map_of (overlay bs e) = (map_of bs)(fst e \<mapsto> snd e)"
  by (induction bs e rule: overlay.induct) (auto simp: fun_eq_iff map_of_eq_None_iff)

lemma map_of_merge:
  "distinct (map fst built) \<Longrightarrow>
   map_of (mergeStateValues built extra) = map_of built ++ map_of (rev extra)"
proof (induction extra arbitrary: built)
  case (Cons e es)
  have "distinct (map fst (overlay built e))" using Cons.prems by (auto simp: overlay_names)
  note d = this
  have "map_of (mergeStateValues built (e # es)) = (map_of built)(fst e \<mapsto> snd e) ++ map_of (rev es)"
    unfolding merge_Cons Cons.IH [OF d] map_of_overlay [OF Cons.prems]
    by (rule refl)
  also have "\<dots> = map_of built ++ map_of (rev (e # es))"
    by (cases e) (simp add: fun_eq_iff map_add_def split: option.splits)
  finally show ?case .
qed simp

end
