(* ===== verification/Float_Text.thy ===== *)
theory Float_Text
  imports Params
begin

text \<open>
  The texts of a \<open>float64\<close>: \<open>strconv.FormatFloat\<close> with the shortest digits, in the formats \<open>f\<close>
  (\<open>server/server.go\<close>), \<open>g\<close> (\<open>client/client.go\<close>) and the one of \<open>encoding/json\<close>.  The shortest decimal
  that reads back as a value is, for the exact numbers of the model, its decimal expansion; it is cut after
  1074 digits, the most an expansion of the format has.  What is written is read back by \<open>ParseFloat\<close>
  (\<open>ParseFloat_fmtF\<close>, \<open>ParseFloat_fmtE\<close>).
\<close>

section \<open>Digits\<close>

fun fraction_digits :: "nat \<Rightarrow> rat \<Rightarrow> string" where
  "fraction_digits 0 x = []"
| "fraction_digits (Suc k) x =
     (if x = 0 then [] else digit (nat \<lfloor>x * 10\<rfloor>) # fraction_digits k (x * 10 - of_int \<lfloor>x * 10\<rfloor>))"

abbreviation zero_char :: char where "zero_char \<equiv> CHR ''0''"

definition strip_zeros :: "string \<Rightarrow> string" where
  "strip_zeros s = rev (dropWhile (\<lambda>c. c = zero_char) (rev s))"

text \<open>The digits \<open>ds\<close> and the position \<open>dp\<close> of the point of a positive number: \<open>0.ds\<close> times \<open>10^dp\<close>.\<close>

definition all_digits :: "rat \<Rightarrow> string \<times> int" where
  "all_digits x = (let w = nat \<lfloor>x\<rfloor>; f = fraction_digits 1074 (x - of_int \<lfloor>x\<rfloor>) in
     if w = 0 then (f, 0) else (show_nat w @ f, int (length (show_nat w))))"

definition decimal :: "rat \<Rightarrow> string \<times> int" where
  "decimal x = (case all_digits x of (s, p) \<Rightarrow>
     let z = takeWhile (\<lambda>c. c = zero_char) s in (strip_zeros (drop (length z) s), p - int (length z)))"

section \<open>Formats\<close>

text \<open>\<open>fmtF\<close> and \<open>fmtE\<close> of \<open>strconv\<close>, without the sign.\<close>

definition fmtF :: "string \<Rightarrow> int \<Rightarrow> string" where
  "fmtF ds dp =
     (let nd = int (length ds);
          ip = (if dp > 0 then take (nat dp) ds @ replicate (nat (dp - nd)) zero_char else [zero_char]);
          fp = (if dp > 0 then drop (nat dp) ds else replicate (nat (- dp)) zero_char @ ds)
      in ip @ (if fp = [] then [] else CHR ''.'' # fp))"

definition exp_digits :: "nat \<Rightarrow> string" where
  "exp_digits n = (if n < 10 then zero_char # show_nat n else show_nat n)"

definition fmtE :: "string \<Rightarrow> int \<Rightarrow> string" where
  "fmtE ds dp = take 1 ds @ (if length ds \<le> 1 then [] else CHR ''.'' # drop 1 ds)
     @ CHR ''e'' # (if dp - 1 < 0 then CHR ''-'' else CHR ''+'') # exp_digits (nat \<bar>dp - 1\<bar>)"

definition with_sign :: "(string \<Rightarrow> int \<Rightarrow> string) \<Rightarrow> rat \<Rightarrow> string" where
  "with_sign fmt x = (if x < 0 then ''-'' else [])
     @ (if x = 0 then [zero_char] else (case decimal \<bar>x\<bar> of (ds, dp) \<Rightarrow> fmt ds dp))"

fun FormatFloat :: "f64 \<Rightarrow> string" where
  "FormatFloat NaN = ''NaN''"
| "FormatFloat PInf = ''+Inf''"
| "FormatFloat NInf = ''-Inf''"
| "FormatFloat (Fin x) = with_sign fmtF x"

definition fmtG :: "string \<Rightarrow> int \<Rightarrow> string" where
  "fmtG ds dp = (if dp - 1 < -4 \<or> dp - 1 \<ge> 6 then fmtE ds dp else fmtF ds dp)"

fun FormatFloat_g :: "f64 \<Rightarrow> string" where
  "FormatFloat_g (Fin x) = with_sign fmtG x"
| "FormatFloat_g v = FormatFloat v"

text \<open>The number text of \<open>encoding/json\<close>: \<open>e\<close> below \<open>1e-6\<close> and from \<open>1e21\<close> on, with \<open>e-09\<close> shortened to
  \<open>e-9\<close>; the special values have no text.\<close>

definition fmtE_json :: "string \<Rightarrow> int \<Rightarrow> string" where
  "fmtE_json ds dp = (if -9 \<le> dp - 1 \<and> dp - 1 < 0
     then take 1 ds @ (if length ds \<le> 1 then [] else CHR ''.'' # drop 1 ds) @ ''e-'' @ show_nat (nat \<bar>dp - 1\<bar>)
     else fmtE ds dp)"

fun json_float :: "f64 \<Rightarrow> string option" where
  "json_float (Fin x) = Some (with_sign (if x \<noteq> 0 \<and> (\<bar>x\<bar> < 1 / 10 ^ 6 \<or> \<bar>x\<bar> \<ge> 10 ^ 21) then fmtE_json else fmtF) x)"
| "json_float _ = None"

section \<open>Reading digits\<close>

definition digit_string :: "string \<Rightarrow> bool" where
  "digit_string s \<longleftrightarrow> (\<forall>c \<in> set s. digit_of c \<noteq> None)"

lemma digit_of_zero [simp]: "digit_of zero_char = Some 0"
  by (simp add: digit_of_def Let_def)

lemma digit_string_simps [simp]:
  "digit_string []" "digit_string (c # s) \<longleftrightarrow> digit_of c \<noteq> None \<and> digit_string s"
  "digit_string (s @ t) \<longleftrightarrow> digit_string s \<and> digit_string t"
  "digit_string (replicate n zero_char)"
  by (auto simp: digit_string_def)

lemma digit_string_show [simp]: "digit_string (show_nat n)"
proof (induction n rule: show_nat.induct)
  case (1 n)
  then show ?case by (subst show_nat.simps) simp
qed

lemma digit_string_fraction [simp]: "digit_string (fraction_digits k x)"
  by (induction k x rule: fraction_digits.induct) simp_all

text \<open>The number a digit string stands for.\<close>

fun digits_value :: "nat \<Rightarrow> string \<Rightarrow> nat" where
  "digits_value a [] = a"
| "digits_value a (c # s) = digits_value (10 * a + (case digit_of c of Some d \<Rightarrow> d | None \<Rightarrow> 0)) s"

lemma digits_from_number: "digit_string s \<Longrightarrow> digits_from a s = Some (digits_value a s)"
  by (induction a s rule: digits_value.induct) auto

lemma number_append: "digits_value a (s @ t) = digits_value (digits_value a s) t"
  by (induction a s rule: digits_value.induct) auto

lemma number_shift: "digits_value a s = a * 10 ^ length s + digits_value 0 s"
proof (induction s arbitrary: a)
  case (Cons c s)
  show ?case by (subst (1 2) digits_value.simps, subst (1 2) Cons) (simp add: algebra_simps)
qed simp

lemma number_zeros [simp]: "digits_value 0 (replicate n zero_char @ s) = digits_value 0 s"
  by (induction n) simp_all

lemma number_trailing: "digits_value 0 (s @ replicate n zero_char) = digits_value 0 s * 10 ^ n"
  using number_shift [of "digits_value 0 s" "replicate n zero_char"] number_zeros [of n "[]"]
  by (simp add: number_append)

lemma number_show [simp]: "digits_value 0 (show_nat n) = n"
  using digits_from_show [of n] digits_from_number [of "show_nat n" 0] by simp

text \<open>A prefix of digits that something else follows.\<close>

definition no_digit :: "string \<Rightarrow> bool" where
  "no_digit r \<longleftrightarrow> (case r of [] \<Rightarrow> True | c # _ \<Rightarrow> digit_of c = None)"

lemma no_digit_simps [simp]: "no_digit []" "no_digit (c # r) \<longleftrightarrow> digit_of c = None"
  by (simp_all add: no_digit_def)

lemma split_digits_append: "digit_string s \<Longrightarrow> no_digit r \<Longrightarrow> split_digits (s @ r) = (s, r)"
proof (induction s)
  case Nil
  then show ?case by (cases r) simp_all
qed simp

lemma split_digits_all [simp]: "digit_string s \<Longrightarrow> split_digits s = (s, [])"
  using split_digits_append [of s "[]"] by simp

lemma digits_number: "digit_string s \<Longrightarrow> s \<noteq> [] \<Longrightarrow> digits s = Some (digits_value 0 s)"
  by (simp add: digits_def digits_from_number)

section \<open>The digits of a value\<close>

text \<open>A value with a finite decimal expansion, as every \<open>float64\<close> has.\<close>

definition finite_decimal :: "rat \<Rightarrow> bool" where
  "finite_decimal x \<longleftrightarrow> (\<exists>k \<le> 1074. x * 10 ^ k \<in> \<int>)"

lemma fraction_number:
  assumes "0 \<le> y" "y < 1" "y * 10 ^ k \<in> \<int>" "k \<le> n"
  shows "of_nat (digits_value 0 (fraction_digits n y)) = y * 10 ^ length (fraction_digits n y)"
  using assms
proof (induction n arbitrary: y k)
  case 0
  then show ?case by (simp add: Ints_def) (auto simp: Ints_def)
next
  case (Suc n)
  show ?case
  proof (cases "y = 0")
    case False
    let ?d = "\<lfloor>y * 10\<rfloor>" and ?y = "y * 10 - of_int \<lfloor>y * 10\<rfloor>"
    have "k \<noteq> 0"
    proof
      assume "k = 0"
      then obtain i where "y = of_int i" using Suc.prems(3) by (auto elim: Ints_cases)
      then show False using Suc.prems(1,2) False by simp
    qed
    then obtain k' where k: "k = Suc k'" by (cases k) auto
    have d: "0 \<le> ?d" "?d < 10" using Suc.prems(1,2) by (simp_all add: floor_less_iff)
    have "?y * 10 ^ k' = y * 10 ^ k - of_int (?d * 10 ^ k')" by (simp add: k algebra_simps)
    then have "?y * 10 ^ k' \<in> \<int>" using Suc.prems(3) by (metis Ints_diff Ints_of_int)
    moreover have "0 \<le> ?y" "?y < 1" using of_int_floor_le [of "y * 10"] floor_correct [of "y * 10"] by linarith+
    ultimately have IH: "of_nat (digits_value 0 (fraction_digits n ?y)) = ?y * 10 ^ length (fraction_digits n ?y)"
      using Suc.IH [of ?y k'] Suc.prems(4) k by simp
    have "nat ?d mod 10 = nat ?d" using d by (intro mod_less) linarith
    then have "digit_of (digit (nat ?d)) = Some (nat ?d)" by (simp only: digit_of_digit)
    then have "(of_nat (digits_value 0 (fraction_digits (Suc n) y)) :: rat)
        = of_nat (nat ?d) * 10 ^ length (fraction_digits n ?y) + of_nat (digits_value 0 (fraction_digits n ?y))"
      using False number_shift [of "nat ?d" "fraction_digits n ?y"] by simp
    also have "\<dots> = (of_int ?d + ?y) * 10 ^ length (fraction_digits n ?y)"
      using d by (simp add: IH algebra_simps)
    finally show ?thesis using False by simp
  qed simp
qed

lemma all_digits_value:
  assumes "0 < x" "finite_decimal x" "all_digits x = (s, p)"
  shows "x * 10 ^ length s = of_nat (digits_value 0 s) * 10 ^ nat p" "0 \<le> p" "digit_string s"
proof -
  let ?w = "nat \<lfloor>x\<rfloor>" and ?y = "x - of_int \<lfloor>x\<rfloor>"
  let ?f = "fraction_digits 1074 ?y"
  have w: "of_int \<lfloor>x\<rfloor> = (of_nat ?w :: rat)" using assms(1) by simp
  obtain k where k: "k \<le> 1074" "x * 10 ^ k \<in> \<int>" using assms(2) by (auto simp: finite_decimal_def)
  have "?y * 10 ^ k = x * 10 ^ k - of_int (\<lfloor>x\<rfloor> * 10 ^ k)" by (simp add: algebra_simps)
  then have "?y * 10 ^ k \<in> \<int>" using k(2) by (metis Ints_diff Ints_of_int)
  moreover have "0 \<le> ?y" "?y < 1" using of_int_floor_le [of x] floor_correct [of x] by linarith+
  ultimately have f: "of_nat (digits_value 0 ?f) = ?y * 10 ^ length ?f" using fraction_number k(1) by blast
  show "0 \<le> p" "digit_string s" using assms(3) by (auto simp: all_digits_def Let_def split: if_splits)
  show "x * 10 ^ length s = of_nat (digits_value 0 s) * 10 ^ nat p"
  proof (cases "?w = 0")
    case True
    then show ?thesis using assms(3) f w by (auto simp: all_digits_def Let_def)
  next
    case False
    have "(of_nat (digits_value 0 (show_nat ?w @ ?f)) :: rat) = of_nat ?w * 10 ^ length ?f + of_nat (digits_value 0 ?f)"
      using number_shift [of "?w" ?f] by (simp add: number_append)
    also have "\<dots> = x * 10 ^ length ?f" using w f by (simp add: algebra_simps)
    finally show ?thesis using False assms(3) by (auto simp: all_digits_def Let_def power_add algebra_simps)
  qed
qed

lemma leading_zeros: "u = replicate (length (takeWhile (\<lambda>c. c = zero_char) u)) zero_char
    @ dropWhile (\<lambda>c. c = zero_char) u"
  by (induction u) auto

lemma strip_zeros_append: "\<exists>t. s = strip_zeros s @ replicate t zero_char"
proof -
  let ?t = "length (takeWhile (\<lambda>c. c = zero_char) (rev s))"
  have "rev (rev s) = rev (replicate ?t zero_char @ dropWhile (\<lambda>c. c = zero_char) (rev s))"
    by (rule arg_cong [OF leading_zeros])
  then have "s = rev (replicate ?t zero_char @ dropWhile (\<lambda>c. c = zero_char) (rev s))"
    unfolding rev_rev_ident .
  also have "\<dots> = strip_zeros s @ replicate ?t zero_char"
    unfolding rev_append rev_replicate strip_zeros_def ..
  finally show ?thesis by (rule exI)
qed

lemma number_pos: "digits_value 0 s \<noteq> 0 \<Longrightarrow> dropWhile (\<lambda>c. c = zero_char) s \<noteq> []"
proof
  assume n: "digits_value 0 s \<noteq> 0" and "dropWhile (\<lambda>c. c = zero_char) s = []"
  then have "\<forall>c \<in> set s. c = zero_char" by (simp add: dropWhile_eq_Nil_conv)
  then have "s = replicate (length s) zero_char" by (metis replicate_length_same)
  then have "digits_value 0 s = 0" using number_zeros [of "length s" "[]"] by simp
  then show False using n by simp
qed

lemma decimal_value:
  assumes "0 < x" "finite_decimal x" "decimal x = (ds, dp)"
  shows "scale10 (int (digits_value 0 ds)) (dp - int (length ds)) = x" "digit_string ds" "ds \<noteq> []" "hd ds \<noteq> zero_char"
proof -
  obtain s p where s: "all_digits x = (s, p)" by force
  note v = all_digits_value [OF assms(1,2) s]
  let ?z = "takeWhile (\<lambda>c. c = zero_char) s"
  let ?u = "drop (length ?z) s"
  have u: "?u = dropWhile (\<lambda>c. c = zero_char) s" by (rule dropWhile_eq_drop [symmetric])
  have "\<forall>c \<in> set ?z. c = zero_char" by (auto dest: set_takeWhileD)
  then have z: "?z = replicate (length ?z) zero_char" by (metis replicate_length_same)
  obtain t where t: "?u = strip_zeros ?u @ replicate t zero_char" using strip_zeros_append by blast
  have d: "ds = strip_zeros ?u" "dp = p - int (length ?z)" using assms(3) s by (simp_all add: decimal_def Let_def)
  have su: "s = ?z @ ?u" by (simp add: u)
  have sz: "s = replicate (length ?z) zero_char @ ds @ replicate t zero_char" using su z t d(1) by metis
  have len: "length s = length ?z + length ds + t" using arg_cong [OF sz, of length] by simp
  have num: "digits_value 0 s = digits_value 0 ds * 10 ^ t" using arg_cong [OF sz, of "digits_value 0"] by (simp add: number_trailing)
  have "digit_string s" by (rule v(3))
  then show "digit_string ds" using arg_cong [OF sz, of digit_string] by simp
  have n0: "digits_value 0 s \<noteq> 0"
  proof
    assume "digits_value 0 s = 0"
    then have "x * 10 ^ length s = 0" using v(1) by simp
    then show False using assms(1) by simp
  qed
  then show "ds \<noteq> []" using num by auto
  have "?u \<noteq> []" using number_pos [OF n0] u by simp
  then have "hd ?u \<noteq> zero_char" using hd_dropWhile [of "\<lambda>c. c = zero_char" s] u by simp
  then show "hd ds \<noteq> zero_char" using t d(1) \<open>ds \<noteq> []\<close> by (metis hd_append2)
  have "x * 10 ^ (length ?z + length ds) * 10 ^ t = of_nat (digits_value 0 ds) * 10 ^ nat p * 10 ^ t"
    using v(1) by (simp add: len num power_add)
  then have e: "x * 10 ^ (length ?z + length ds) = of_nat (digits_value 0 ds) * 10 ^ nat p" by simp
  show "scale10 (int (digits_value 0 ds)) (dp - int (length ds)) = x"
  proof (cases "0 \<le> dp - int (length ds)")
    case True
    then have "nat p = nat (dp - int (length ds)) + (length ?z + length ds)" using d(2) v(2) by linarith
    then show ?thesis using e True by (simp add: scale10_def power_add)
  next
    case False
    then have "length ?z + length ds = nat p + nat (- (dp - int (length ds)))" using d(2) v(2) by linarith
    then have "x * 10 ^ nat (- (dp - int (length ds))) = of_nat (digits_value 0 ds)" using e by (simp add: power_add)
    then show ?thesis using False by (simp add: scale10_def field_simps)
  qed
qed

section \<open>Reading a formatted value\<close>

definition sign_text :: "bool \<Rightarrow> string" where
  "sign_text neg = (if neg then ''-'' else [])"

definition sign_of :: "bool \<Rightarrow> int" where
  "sign_of neg = (if neg then -1 else 1)"

definition point :: "string \<Rightarrow> string" where
  "point fp = (if fp = [] then [] else CHR ''.'' # fp)"

lemma digit_not_sign: "digit_of c \<noteq> None \<Longrightarrow> c \<notin> {CHR ''+'', CHR ''-'', CHR ''.'', CHR ''e'', CHR ''E''}"
  by (auto simp: digit_of_def Let_def split: if_splits)

lemma signed_text:
  assumes "digit_string ip" "ip \<noteq> []"
  shows "signed (sign_text neg @ ip @ r) = (sign_of neg, ip @ r)"
  using assms digit_not_sign by (cases ip) (auto simp: signed_def sign_text_def sign_of_def)

lemma point_split:
  assumes "digit_string ip" "digit_string fp" "no_digit rest" "\<not> (\<exists>r. rest = CHR ''.'' # r)"
  shows "split_digits (ip @ point fp @ rest) = (ip, point fp @ rest)"
    "(case point fp @ rest of c # cs \<Rightarrow> (if c = CHR ''.'' then split_digits cs else ([], point fp @ rest)) | [] \<Rightarrow> ([], []))
       = (fp, rest)"
proof -
  have "no_digit (point fp @ rest)" using assms(3) by (simp add: point_def digit_of_def)
  then show "split_digits (ip @ point fp @ rest) = (ip, point fp @ rest)" by (rule split_digits_append [OF assms(1)])
  show "(case point fp @ rest of c # cs \<Rightarrow> (if c = CHR ''.'' then split_digits cs else ([], point fp @ rest)) | [] \<Rightarrow> ([], []))
       = (fp, rest)"
    using assms split_digits_append [OF assms(2,3)] by (cases rest) (auto simp: point_def)
qed

lemma read_point:
  assumes "digit_string ip" "ip \<noteq> []" "digit_string fp" "no_digit rest" "\<not> (\<exists>r. rest = CHR ''.'' # r)"
    "read_exponent rest = Some e"
  shows "read_decimal (sign_text neg @ ip @ point fp @ rest)
    = Some (scale10 (sign_of neg * int (digits_value 0 (ip @ fp))) (e - int (length fp)))"
  using point_split [OF assms(1,3,4,5)] assms(1-3,6)
  by (simp add: read_decimal_def signed_text Let_def digits_number)

lemma scale10_sign: "scale10 (sign_of neg * m) e = of_int (sign_of neg) * scale10 m e"
  by (simp add: scale10_def)

lemma scale10_shift: "scale10 (m * 10 ^ k) (e - int k) = scale10 m e"
proof (cases "0 \<le> e - int k")
  case True
  then have "nat e = nat (e - int k) + k" by linarith
  then show ?thesis using True by (simp add: scale10_def power_add)
next
  case False
  show ?thesis
  proof (cases "0 \<le> e")
    case True
    then have "k = nat e + nat (- (e - int k))" using False by linarith
    then have "(10 :: rat) ^ k = 10 ^ nat e * 10 ^ nat (- (e - int k))" by (metis power_add)
    then show ?thesis using False True by (simp add: scale10_def)
  next
    case neg: False
    then have "nat (- (e - int k)) = k + nat (- e)" by linarith
    then show ?thesis using False neg by (simp add: scale10_def power_add)
  qed
qed

text \<open>\<open>fmtF\<close> as digits around a point.\<close>

definition int_part :: "string \<Rightarrow> int \<Rightarrow> string" where
  "int_part ds dp = (if dp > 0 then take (nat dp) ds @ replicate (nat (dp - int (length ds))) zero_char else [zero_char])"

definition frac_part :: "string \<Rightarrow> int \<Rightarrow> string" where
  "frac_part ds dp = (if dp > 0 then drop (nat dp) ds else replicate (nat (- dp)) zero_char @ ds)"

lemma fmtF_eq: "fmtF ds dp = int_part ds dp @ point (frac_part ds dp)"
  by (simp add: fmtF_def int_part_def frac_part_def point_def Let_def)

lemma digit_string_take_drop: "digit_string ds \<Longrightarrow> digit_string (take n ds)" "digit_string ds \<Longrightarrow> digit_string (drop n ds)"
  by (auto simp: digit_string_def dest: in_set_takeD in_set_dropD)

lemma fmtF_digits:
  assumes "digit_string ds" "ds \<noteq> []"
  shows "digit_string (int_part ds dp)" "int_part ds dp \<noteq> []" "digit_string (frac_part ds dp)"
  using assms by (auto simp: int_part_def frac_part_def digit_string_take_drop)

lemma fmtF_value:
  assumes "ds \<noteq> []"
  shows "scale10 (int (digits_value 0 (int_part ds dp @ frac_part ds dp))) (0 - int (length (frac_part ds dp)))
    = scale10 (int (digits_value 0 ds)) (dp - int (length ds))"
proof (cases "dp \<le> int (length ds)")
  case True
  have "digits_value 0 (int_part ds dp @ frac_part ds dp) = digits_value 0 ds"
  proof (cases "dp > 0")
    case False
    then show ?thesis using number_zeros [of "Suc (nat (- dp))" ds] by (simp add: int_part_def frac_part_def)
  qed (use True in \<open>simp add: int_part_def frac_part_def\<close>)
  moreover have "int (length (frac_part ds dp)) = int (length ds) - dp" using True by (simp add: frac_part_def)
  ultimately show ?thesis by simp
next
  case False
  let ?k = "nat (dp - int (length ds))"
  have "int_part ds dp @ frac_part ds dp = ds @ replicate ?k zero_char" "frac_part ds dp = []"
    using False by (auto simp: int_part_def frac_part_def)
  then have "scale10 (int (digits_value 0 (int_part ds dp @ frac_part ds dp))) (0 - int (length (frac_part ds dp)))
      = scale10 (int (digits_value 0 ds) * 10 ^ ?k) 0"
    by (simp add: number_trailing)
  also have "\<dots> = scale10 (int (digits_value 0 ds)) (dp - int (length ds))"
    using scale10_shift [of "int (digits_value 0 ds)" ?k "dp - int (length ds)"] False by simp
  finally show ?thesis .
qed

lemma read_fmtF:
  assumes "digit_string ds" "ds \<noteq> []"
  shows "read_decimal (sign_text neg @ fmtF ds dp) = Some (of_int (sign_of neg) * scale10 (int (digits_value 0 ds)) (dp - int (length ds)))"
  using read_point [OF fmtF_digits [OF assms, of dp], of "[]" 0 neg] fmtF_value [OF assms(2), of dp]
  by (simp add: fmtF_eq read_exponent_def scale10_sign)

lemma digits_exp: "digits (exp_digits n) = Some n"
  using digits_from_show [of n] by (simp add: exp_digits_def digits_def)

lemma read_exp_text:
  assumes "\<bar>x\<bar> \<le> 10000" "t \<in> {exp_digits (nat \<bar>x\<bar>), show_nat (nat \<bar>x\<bar>)}"
  shows "read_exponent (CHR ''e'' # (if x < 0 then CHR ''-'' else CHR ''+'') # t) = Some x"
proof -
  have "digits (show_nat n) = Some n" for n by (simp add: digits_def digits_from_show)
  then have "digits t = Some (nat \<bar>x\<bar>)" using assms(2) digits_exp by auto
  then show ?thesis using assms(1) by (auto simp: read_exponent_def signed_def)
qed

lemma read_fmtE:
  assumes "digit_string ds" "ds \<noteq> []" "\<bar>dp - 1\<bar> \<le> 10000" "fmt \<in> {fmtE, fmtE_json}"
  shows "read_decimal (sign_text neg @ fmt ds dp) = Some (of_int (sign_of neg) * scale10 (int (digits_value 0 ds)) (dp - int (length ds)))"
proof -
  have d: "digit_string (take 1 ds)" "take 1 ds \<noteq> []" "digit_string (drop 1 ds)"
    using assms(1,2) by (simp_all add: digit_string_take_drop)
  have p: "(if length ds \<le> 1 then [] else CHR ''.'' # drop 1 ds) = point (drop 1 ds)"
    using assms(2) by (cases ds) (auto simp: point_def)
  obtain t where t: "fmt ds dp = take 1 ds @ point (drop 1 ds) @ CHR ''e'' # (if dp - 1 < 0 then CHR ''-'' else CHR ''+'') # t"
      "t \<in> {exp_digits (nat \<bar>dp - 1\<bar>), show_nat (nat \<bar>dp - 1\<bar>)}"
  proof (cases "fmt = fmtE_json \<and> -9 \<le> dp - 1 \<and> dp - 1 < 0")
    case True
    then have f: "fmt = fmtE_json" by simp
    have "fmt ds dp = take 1 ds @ point (drop 1 ds) @ CHR ''e'' # CHR ''-'' # show_nat (nat \<bar>dp - 1\<bar>)"
      unfolding f fmtE_json_def p using True by simp
    then show ?thesis using that True by simp
  next
    case False
    then have "fmt ds dp = fmtE ds dp" using assms(4) by (auto simp: fmtE_json_def)
    then show ?thesis using that unfolding fmtE_def p by blast
  qed
  have e: "digit_of CHR ''e'' = None" by (simp add: digit_of_def)
  have "digits_value 0 (take 1 ds @ drop 1 ds) = digits_value 0 ds" by simp
  moreover have "dp - 1 - int (length (drop 1 ds)) = dp - int (length ds)" using assms(2) by (cases ds) auto
  ultimately show ?thesis
    using read_point [OF d, of "CHR ''e'' # (if dp - 1 < 0 then CHR ''-'' else CHR ''+'') # t" "dp - 1" neg]
      read_exp_text [OF assms(3) t(2)] e
    unfolding t(1) by (simp add: scale10_sign)
qed

section \<open>Round trip\<close>

lemma show_nat_length: "n > 0 \<Longrightarrow> 10 ^ (length (show_nat n) - 1) \<le> n"
proof (induction n rule: show_nat.induct)
  case (1 n)
  show ?case
  proof (cases "n < 10")
    case False
    then have IH: "10 ^ (length (show_nat (n div 10)) - 1) \<le> n div 10" using 1(1) by simp
    have "length (show_nat (n div 10)) \<noteq> 0" by simp
    then have "(10 :: nat) ^ length (show_nat (n div 10)) = 10 * 10 ^ (length (show_nat (n div 10)) - 1)"
      by (metis Suc_pred' neq0_conv power_Suc)
    also have "\<dots> \<le> n" using IH by simp
    finally show ?thesis using False by (subst show_nat.simps) simp
  qed (use 1(2) in \<open>simp add: show_nat.simps [of n]\<close>)
qed

lemma fraction_length: "length (fraction_digits k x) \<le> k"
  by (induction k x rule: fraction_digits.induct) simp_all

text \<open>The range of a finite \<open>float64\<close> bounds the exponent.\<close>

definition in_f64 :: "rat \<Rightarrow> bool" where
  "in_f64 x \<longleftrightarrow> finite_decimal x \<and> \<bar>x\<bar> < 2 ^ 1024 - 2 ^ 970"

lemma all_digits_point:
  assumes "0 < x" "x < 2 ^ 1024" "all_digits x = (s, p)"
  shows "p \<le> 2000" "int (length s) \<le> p + 1074"
proof -
  let ?w = "nat \<lfloor>x\<rfloor>"
  have "p \<le> 2000 \<and> int (length s) \<le> p + 1074"
  proof (cases "?w = 0")
    case True
    then show ?thesis using assms(3) fraction_length [of 1074] by (auto simp: all_digits_def Let_def)
  next
    case False
    have "of_nat ?w \<le> x" using assms(1) by simp
    then have "(of_nat ?w :: rat) < of_nat (2 ^ 1024)" using assms(2) by simp
    then have w: "?w < 2 ^ 1024" by (simp only: of_nat_less_iff)
    have "length (show_nat ?w) \<le> 2000"
    proof (rule ccontr)
      assume "\<not> length (show_nat ?w) \<le> 2000"
      then have "(10 :: nat) ^ 2000 \<le> 10 ^ (length (show_nat ?w) - 1)" by (intro power_increasing) auto
      also have "\<dots> \<le> ?w" using False by (intro show_nat_length) linarith
      also have "\<dots> < 2 ^ 1024" by (rule w)
      also have "(2 :: nat) ^ 1024 \<le> 10 ^ 1024" by (rule power_mono) simp_all
      also have "(10 :: nat) ^ 1024 \<le> 10 ^ 2000" by (rule power_increasing) simp_all
      finally show False by (simp only: less_irrefl)
    qed
    then show ?thesis using False assms(3) fraction_length [of 1074 "x - of_int \<lfloor>x\<rfloor>"]
      by (auto simp: all_digits_def Let_def)
  qed
  then show "p \<le> 2000" "int (length s) \<le> p + 1074" by blast+
qed

lemma decimal_point:
  assumes "0 < x" "x < 2 ^ 1024" "decimal x = (ds, dp)"
  shows "\<bar>dp - 1\<bar> \<le> 10000"
proof -
  obtain s p where s: "all_digits x = (s, p)" by force
  have "length (takeWhile (\<lambda>c. c = zero_char) s) \<le> length s" by (rule length_takeWhile_le)
  moreover have "0 \<le> p" using s by (auto simp: all_digits_def Let_def split: if_splits)
  moreover have "dp = p - int (length (takeWhile (\<lambda>c. c = zero_char) s))" using assms(3) s by (simp add: decimal_def Let_def)
  ultimately show ?thesis using all_digits_point [OF assms(1,2) s] by linarith
qed

text \<open>A format that reads back.\<close>

definition reads_back :: "(string \<Rightarrow> int \<Rightarrow> string) \<Rightarrow> bool" where
  "reads_back fmt \<longleftrightarrow> (\<forall>ds dp neg. digit_string ds \<longrightarrow> ds \<noteq> [] \<longrightarrow> \<bar>dp - 1\<bar> \<le> 10000 \<longrightarrow>
     read_decimal (sign_text neg @ fmt ds dp) = Some (of_int (sign_of neg) * scale10 (int (digits_value 0 ds)) (dp - int (length ds)))
     \<and> (\<exists>c cs. fmt ds dp = c # cs \<and> digit_of c \<noteq> None))"

lemma digit_start: "digit_string s \<Longrightarrow> s \<noteq> [] \<Longrightarrow> \<exists>c cs. s @ r = c # cs \<and> digit_of c \<noteq> None"
  by (cases s) simp_all

lemma formats_read_back: "reads_back fmtF" "reads_back fmtE" "reads_back fmtE_json" "reads_back fmtG"
proof -
  have e: "\<exists>c cs. fmt ds dp = c # cs \<and> digit_of c \<noteq> None"
    if "digit_string ds" "ds \<noteq> []" "fmt \<in> {fmtE, fmtE_json}" for fmt ds dp
    using that by (cases ds) (auto simp: fmtE_json_def fmtE_def)
  have f: "\<exists>c cs. fmtF ds dp = c # cs \<and> digit_of c \<noteq> None" if "digit_string ds" "ds \<noteq> []" for ds dp
    unfolding fmtF_eq using fmtF_digits [OF that, of dp] by (intro digit_start)
  show F: "reads_back fmtF" using read_fmtF f by (simp add: reads_back_def)
  show E: "reads_back fmtE" using read_fmtE [of _ _ fmtE] e [of _ fmtE] by (simp add: reads_back_def)
  show "reads_back fmtE_json" using read_fmtE [of _ _ fmtE_json] e [of _ fmtE_json] by (simp add: reads_back_def)
  show "reads_back fmtG" using F E by (simp add: reads_back_def fmtG_def)
qed

lemma to_lower_digit: "digit_of c \<noteq> None \<Longrightarrow> to_lower (c # cs) = c # to_lower cs"
  by (auto simp: to_lower_def ascii_lower_def digit_of_def Let_def split: if_splits)

lemma read_back:
  assumes "reads_back fmt" "in_f64 x"
  shows "ParseFloat (with_sign fmt x) = Some (Fin x)"
proof (cases "x = 0")
  case True
  have "signed ''0'' = (1, ''0'')" "split_digits ''0'' = (''0'', [])" "digits ''0'' = Some 0"
    "to_lower ''0'' \<notin> {''inf'', ''infinity'', ''+inf'', ''+infinity'', ''-inf'', ''-infinity'', ''nan''}"
    by code_simp+
  from ParseFloat_int [OF this] have "ParseFloat ''0'' = Some (Fin 0)" by simp
  then show ?thesis using True by (simp add: with_sign_def)
next
  case False
  obtain ds dp where d: "decimal \<bar>x\<bar> = (ds, dp)" by force
  have x: "0 < \<bar>x\<bar>" "finite_decimal \<bar>x\<bar>"
    using assms(2) False by (auto simp: in_f64_def finite_decimal_def abs_if intro: exI [of _ k for k])
  have lt: "\<bar>x\<bar> < 2 ^ 1024 - 2 ^ 970" using assms(2) by (simp add: in_f64_def)
  then have "\<bar>x\<bar> < 2 ^ 1024" by (rule order_less_trans) simp
  note v = decimal_value [OF x d] decimal_point [OF x(1) this d]
  let ?neg = "x < 0"
  have t: "with_sign fmt x = sign_text ?neg @ fmt ds dp" using False d by (simp add: with_sign_def sign_text_def)
  obtain c cs where c: "fmt ds dp = c # cs" "digit_of c \<noteq> None"
    using assms(1) v(2,3,5) unfolding reads_back_def by blast
  have "to_lower (with_sign fmt x) \<notin> {''inf'', ''infinity'', ''+inf'', ''+infinity'', ''-inf'', ''-infinity'', ''nan''}"
    using c(2) to_lower_digit [OF c(2), of cs]
    by (auto simp: t c(1) sign_text_def digit_of_def Let_def to_lower_def split: if_splits)
  moreover have "read_decimal (with_sign fmt x) = Some (of_int (sign_of ?neg) * \<bar>x\<bar>)"
    using assms(1) v unfolding reads_back_def t by simp
  moreover have "of_int (sign_of ?neg) * \<bar>x\<bar> = x" by (simp add: sign_of_def)
  ultimately show ?thesis using lt by (simp add: ParseFloat_def Let_def)
qed

lemma ParseFloat_FormatFloat:
  assumes "in_f64 x"
  shows "ParseFloat (FormatFloat (Fin x)) = Some (Fin x)" "ParseFloat (FormatFloat_g (Fin x)) = Some (Fin x)"
    "map_option ParseFloat (json_float (Fin x)) = Some (Some (Fin x))"
  using read_back [OF _ assms] formats_read_back by simp_all

end
