(* ===== verification/Registry.thy ===== *)
theory Registry
  imports Device Float_Text
begin

text \<open>
  The server's registry of devices: \<open>server/server.go\<close> (registration, hardware, persisted settings),
  \<open>server/reload.go\<close>, and the parts of \<open>settings_store.go\<close> and \<open>configadapter.go\<close> that work on a
  registration.

  A \<open>*registeredDevice\<close> is shared by the map and the registration order, and a reload writes through it,
  so registrations live in a store \<open>svRegs\<close> addressed by numbers.  The world of an operation is the server
  with the world of its devices.  Log lines are left out; contexts are \<open>hwCancel\<close> (see \<open>Device\<close>).
\<close>

section \<open>The server\<close>

text \<open>\<open>SettingsStore\<close>: the values stored under a key, as decoded JSON.\<close>

record 'w store =
  stLoad :: "string \<Rightarrow> ('w, goerror + (string \<times> any) list) act"
  stSave :: "string \<Rightarrow> (string \<times> any) list \<Rightarrow> 'w command"

type_synonym regKey = "DeviceType \<times> int"
type_synonym 'w reloader = "('w, goerror + ('w device option \<times> 'w configurable option)) act"

record 'w registered =
  rgKey :: regKey
  rgDev :: "'w device"
  rgCfg :: "'w configurable option"
  rgHw :: "'w hardware option"
  rgReloader :: "'w reloader option"
  rgSettingsKey :: string

text \<open>\<open>svStateDir\<close> is \<open>StateDir\<close>, which asks the environment; \<open>svSprint\<close> is \<open>fmt.Sprint\<close> for the values a
  form has no control for.  \<open>svRunning\<close> says that \<open>Run\<close> has set \<open>runCtx\<close>.\<close>

record 'w server =
  svName :: string
  svManufacturer :: string
  svVersion :: string
  svLocation :: string
  svStrict :: bool
  svAlpacaPort :: int
  svPortScanBase :: int
  svPortScanLimit :: int
  svHosts :: "string list"
  svSettings :: "'w store option"
  svStateDir :: "string \<Rightarrow> string"
  svSprint :: "any \<Rightarrow> string"
  svDevices :: "regKey \<Rightarrow> nat option"
  svOrder :: "nat list"
  svRegs :: "nat \<Rightarrow> 'w registered"
  svNext :: nat
  svTx :: "32 word"
  svRunning :: bool
  svBoundPort :: int

type_synonym ('w, 'a) sact = "('w server \<times> 'w, 'a) act"

definition server_get :: "('w server \<Rightarrow> 'a) \<Rightarrow> ('w, 'a) sact" where
  "server_get f = on_fst (field f)"

definition server_set :: "('w server \<Rightarrow> 'w server) \<Rightarrow> ('w, unit) sact" where
  "server_set f = on_fst (\<lambda>s. ((), f s))"

text \<open>\<open>rd.f = v\<close>.\<close>

definition update_reg :: "nat \<Rightarrow> ('w registered \<Rightarrow> 'w registered) \<Rightarrow> 'w server \<Rightarrow> 'w server" where
  "update_reg i f s = s\<lparr>svRegs := (svRegs s)(i := f (svRegs s i))\<rparr>"

text \<open>\<open>New\<close>: the configuration fields as given, everything else empty.\<close>

definition New :: "'w server \<Rightarrow> 'w server" where
  "New cfg = cfg\<lparr>svDevices := Map.empty, svOrder := [], svNext := 0, svTx := 0, svRunning := False,
     svBoundPort := 0\<rparr>"

definition SetIdentity :: "string \<Rightarrow> string \<Rightarrow> string \<Rightarrow> 'w server \<Rightarrow> 'w server" where
  "SetIdentity name manufacturer version s =
     (let s = (if name \<noteq> [] then s\<lparr>svName := name\<rparr> else s);
          s = (if manufacturer \<noteq> [] then s\<lparr>svManufacturer := manufacturer\<rparr> else s)
      in if version \<noteq> [] then s\<lparr>svVersion := version\<rparr> else s)"

definition lookupRegistered :: "DeviceType \<Rightarrow> int \<Rightarrow> 'w server \<Rightarrow> nat option" where
  "lookupRegistered ty n s = svDevices s (ty, n)"

definition lookup :: "DeviceType \<Rightarrow> int \<Rightarrow> 'w server \<Rightarrow> 'w device option" where
  "lookup ty n s = map_option (\<lambda>i. rgDev (svRegs s i)) (lookupRegistered ty n s)"

definition implementsType :: "DeviceType \<Rightarrow> 'w device \<Rightarrow> bool" where
  "implementsType ty d = (case ty of
     CameraType \<Rightarrow> asCamera d \<noteq> None
   | CoverCalibratorType \<Rightarrow> asCoverCalibrator d \<noteq> None
   | DomeType \<Rightarrow> asDome d \<noteq> None
   | FilterWheelType \<Rightarrow> asFilterWheel d \<noteq> None
   | FocuserType \<Rightarrow> asFocuser d \<noteq> None
   | ObservingConditionsType \<Rightarrow> asObservingConditions d \<noteq> None
   | RotatorType \<Rightarrow> asRotator d \<noteq> None
   | SafetyMonitorType \<Rightarrow> asSafetyMonitor d \<noteq> None
   | SwitchType \<Rightarrow> asSwitch d \<noteq> None
   | TelescopeType \<Rightarrow> asTelescope d \<noteq> None
   | CustomType _ \<Rightarrow> True)"

section \<open>Persisted settings\<close>

definition form_string :: "(any \<Rightarrow> string) \<Rightarrow> any \<Rightarrow> string" where
  "form_string sprint v = (case v of
     VStr x \<Rightarrow> x
   | VBool b \<Rightarrow> (if b then ''true'' else ''false'')
   | VFloat x \<Rightarrow> FormatFloat x
   | _ \<Rightarrow> sprint v)"

definition formStrings :: "(any \<Rightarrow> string) \<Rightarrow> (string \<times> any) list \<Rightarrow> (string \<times> string) list" where
  "formStrings sprint stored = map (\<lambda>(k, v). (k, form_string sprint v)) stored"

definition settingsKey :: "'w server \<Rightarrow> 'w registered \<Rightarrow> string" where
  "settingsKey s r =
     (if rgSettingsKey r \<noteq> [] then rgSettingsKey r
      else svStateDir s (svName s) @ ''/'' @ segment (fst (rgKey r)) @ ''-'' @ Itoa (snd (rgKey r)) @ ''.json'')"

definition configurableFor :: "'w registered \<Rightarrow> 'w configurable option" where
  "configurableFor r = (case asConfigurable (rgDev r) of Some c \<Rightarrow> Some c | None \<Rightarrow> rgCfg r)"

text \<open>The keys a device may apply: those its form declares and does not lock.\<close>

definition applicable :: "SettingField list \<Rightarrow> (string \<times> any) list \<Rightarrow> (string \<times> any) list" where
  "applicable form stored = [(k, v) \<leftarrow> stored. k \<in> sfName ` {f \<in> set form. \<not> sfLocked f}]"

definition loadSettingsFor :: "nat \<Rightarrow> ('w, unit) sact" where
  "loadSettingsFor i = ask (server_get id) (\<lambda>s. let r = svRegs s i in
     case (svSettings s, configurableFor r) of
       (Some st, Some cfg) \<Rightarrow>
         on_snd (ask (stLoad st (settingsKey s r)) (\<lambda>loaded. case loaded of
           Inl _ \<Rightarrow> ret ()
         | Inr stored \<Rightarrow> if stored = [] then ret ()
             else ask (cfgSettingsForm cfg) (\<lambda>form. let stored = applicable form stored in
               if stored = [] then ret ()
               else ask (cfgApplySettings cfg (formStrings (svSprint s) stored)) (\<lambda>_. ret ()))))
     | _ \<Rightarrow> ret ())"

fun for_each :: "(nat \<Rightarrow> ('w, unit) sact) \<Rightarrow> nat list \<Rightarrow> ('w, unit) sact" where
  "for_each f [] = ret ()"
| "for_each f (i # is) = ask (f i) (\<lambda>_. for_each f is)"

definition loadSettings :: "('w, unit) sact" where
  "loadSettings = ask (server_get id) (\<lambda>s.
     if svSettings s = None then ret () else for_each loadSettingsFor (svOrder s))"

section \<open>Hardware\<close>

definition openHardwareFor :: "nat \<Rightarrow> ('w server \<times> 'w) command" where
  "openHardwareFor i = ask (server_get (\<lambda>s. svRegs s i)) (\<lambda>r.
     if rgHw r \<noteq> None then pass
     else (case asHardware (rgDev r) of
       None \<Rightarrow> pass
     | Some hw \<Rightarrow> gate (on_snd (hwOpen hw))
         (ask (server_set (update_reg i (rgHw_update (\<lambda>_. Some hw)))) (\<lambda>_. pass))))"

definition openHardware :: "('w, unit) sact" where
  "openHardware = ask (server_get svOrder) (for_each (\<lambda>i. ask (openHardwareFor i) (\<lambda>_. ret ())))"

definition closeHardwareFor :: "nat \<Rightarrow> ('w, unit) sact" where
  "closeHardwareFor i = ask (server_get (\<lambda>s. rgHw (svRegs s i))) (\<lambda>hw.
     ask (server_set (update_reg i (rgHw_update (\<lambda>_. None)))) (\<lambda>_.
       case hw of
         None \<Rightarrow> ret ()
       | Some hw \<Rightarrow> on_snd (ask (hwCancel hw) (\<lambda>_. ask (hwClose hw) (\<lambda>_. ret ())))))"

definition closeHardware :: "('w, unit) sact" where
  "closeHardware = ask (server_get svOrder) (\<lambda>order. for_each closeHardwareFor (rev order))"

section \<open>Registration\<close>

definition nil_device :: goerror where
  "nil_device = EOther (Text ''goalpaca: nil device'')"

definition wrong_type :: "DeviceType \<Rightarrow> goerror" where
  "wrong_type ty = EOther (Fmt ''goalpaca: device does not implement the %s interface'' [FmtStr (segment ty)])"

definition already_registered :: "DeviceType \<Rightarrow> int \<Rightarrow> goerror" where
  "already_registered ty n =
     EOther (Fmt ''goalpaca: %s device %d already registered'' [FmtStr (segment ty), FmtInt n])"

definition not_registered :: "DeviceType \<Rightarrow> int \<Rightarrow> goerror" where
  "not_registered ty n =
     EOther (Fmt ''goalpaca: %s device %d is not registered'' [FmtStr (segment ty), FmtInt n])"

definition add_reg :: "regKey \<Rightarrow> 'w device \<Rightarrow> 'w server \<Rightarrow> 'w server" where
  "add_reg k d s =
     s\<lparr>svRegs := (svRegs s)(svNext s := \<lparr>rgKey = k, rgDev = d, rgCfg = None, rgHw = None,
                                         rgReloader = None, rgSettingsKey = []\<rparr>),
       svDevices := (svDevices s)(k \<mapsto> svNext s), svOrder := svOrder s @ [svNext s],
       svNext := svNext s + 1\<rparr>"

definition Register :: "DeviceType \<Rightarrow> int \<Rightarrow> 'w device option \<Rightarrow> ('w server \<times> 'w) command" where
  "Register ty n d = (case d of
     None \<Rightarrow> fail nil_device
   | Some d \<Rightarrow>
       if \<not> implementsType ty d then fail (wrong_type ty)
       else ask (server_get id) (\<lambda>s.
         if svDevices s (ty, n) \<noteq> None then fail (already_registered ty n)
         else ask (server_set (add_reg (ty, n) d)) (\<lambda>_.
           if svRunning s
           then ask (loadSettingsFor (svNext s)) (\<lambda>_. ask (openHardwareFor (svNext s)) (\<lambda>_. pass))
           else pass)))"

definition drop_reg :: "regKey \<Rightarrow> nat \<Rightarrow> 'w server \<Rightarrow> 'w server" where
  "drop_reg k i s = s\<lparr>svDevices := (svDevices s)(k := None), svOrder := remove1 i (svOrder s)\<rparr>"

definition Unregister :: "DeviceType \<Rightarrow> int \<Rightarrow> ('w server \<times> 'w) command" where
  "Unregister ty n = ask (server_get (lookupRegistered ty n)) (\<lambda>found. case found of
     None \<Rightarrow> fail (not_registered ty n)
   | Some i \<Rightarrow> ask (server_set (drop_reg (ty, n) i)) (\<lambda>_. ask (closeHardwareFor i) (\<lambda>_. pass)))"

text \<open>The setters of a registration's fields: \<open>SetReloader\<close>, \<open>SettingsPath\<close>, \<open>RegisterConfigurable\<close>.\<close>

definition with_registered :: "DeviceType \<Rightarrow> int \<Rightarrow> (nat \<Rightarrow> ('w server \<times> 'w) command) \<Rightarrow> ('w server \<times> 'w) command" where
  "with_registered ty n k = ask (server_get (lookupRegistered ty n)) (\<lambda>found. case found of
     None \<Rightarrow> fail (not_registered ty n) | Some i \<Rightarrow> k i)"

definition SetReloader :: "DeviceType \<Rightarrow> int \<Rightarrow> 'w reloader option \<Rightarrow> ('w server \<times> 'w) command" where
  "SetReloader ty n r = with_registered ty n (\<lambda>i.
     ask (server_set (update_reg i (rgReloader_update (\<lambda>_. r)))) (\<lambda>_. pass))"

definition SettingsPath :: "DeviceType \<Rightarrow> int \<Rightarrow> string \<Rightarrow> ('w server \<times> 'w) command" where
  "SettingsPath ty n path = with_registered ty n (\<lambda>i.
     ask (server_set (update_reg i (rgSettingsKey_update (\<lambda>_. path)))) (\<lambda>_. pass))"

definition RegisterConfigurable :: "DeviceType \<Rightarrow> int \<Rightarrow> 'w configurable \<Rightarrow> ('w server \<times> 'w) command" where
  "RegisterConfigurable ty n c = with_registered ty n (\<lambda>i.
     ask (server_set (update_reg i (rgCfg_update (\<lambda>_. Some c)))) (\<lambda>_.
       ask (server_get svRunning) (\<lambda>running.
         if running then ask (loadSettingsFor i) (\<lambda>_. pass) else pass)))"

section \<open>Reload\<close>

definition ErrNotReloadable :: goerror where
  "ErrNotReloadable = EOther (Text ''goalpaca: this device has no reloader; restart the process to reload it'')"

definition reload_error :: "DeviceType \<Rightarrow> int \<Rightarrow> string \<Rightarrow> goerror" where
  "reload_error ty n what = EOther (Fmt (''goalpaca: reload %s %d: '' @ what) [FmtStr (segment ty), FmtInt n])"

definition reload_wrap :: "DeviceType \<Rightarrow> int \<Rightarrow> string \<Rightarrow> goerror \<Rightarrow> goerror" where
  "reload_wrap ty n what e = EWrap (Fmt (''goalpaca: reload %s %d: '' @ what) [FmtStr (segment ty), FmtInt n]) e"

definition swap_device :: "nat \<Rightarrow> 'w device \<Rightarrow> 'w configurable option \<Rightarrow> 'w server \<Rightarrow> 'w server" where
  "swap_device i d c = update_reg i (\<lambda>r. r\<lparr>rgDev := d, rgCfg := c\<rparr>)"

definition Reload :: "DeviceType \<Rightarrow> int \<Rightarrow> ('w server \<times> 'w) command" where
  "Reload ty n = with_registered ty n (\<lambda>i.
     ask (server_get (\<lambda>s. rgReloader (svRegs s i))) (\<lambda>reload. case reload of
       None \<Rightarrow> fail ErrNotReloadable
     | Some reload \<Rightarrow> ask (on_snd reload) (\<lambda>made. case made of
         Inl e \<Rightarrow> fail (reload_wrap ty n [] e)
       | Inr (None, _) \<Rightarrow> fail (reload_error ty n ''reloader returned no device'')
       | Inr (Some d, c) \<Rightarrow>
           if \<not> implementsType ty d then fail (reload_error ty n ''device does not implement the interface'')
           else ask (closeHardwareFor i) (\<lambda>_. ask (server_set (swap_device i d c)) (\<lambda>_.
             ask (loadSettingsFor i) (\<lambda>_. ask (openHardwareFor i) (\<lambda>err. case err of
               Some e \<Rightarrow> fail (reload_wrap ty n ''hardware open: '' e)
             | None \<Rightarrow> pass)))))))"

text \<open>\<open>ReloadAll\<close> joins the errors; they are listed here.\<close>

fun reload_each :: "nat list \<Rightarrow> ('w, goerror list) sact" where
  "reload_each [] = ret []"
| "reload_each (i # is) = ask (server_get (\<lambda>s. svRegs s i)) (\<lambda>r.
     if rgReloader r = None then reload_each is
     else ask (Reload (fst (rgKey r)) (snd (rgKey r))) (\<lambda>err. ask (reload_each is) (\<lambda>errs.
       ret ((case err of None \<Rightarrow> [] | Some e \<Rightarrow> [e]) @ errs))))"

definition ReloadAll :: "('w, goerror list) sact" where
  "ReloadAll = ask (server_get svOrder) reload_each"

section \<open>Running\<close>

text \<open>\<open>net.Listen\<close> on a host and a port is the parameter \<open>net\<close>; it returns the port of the listener, which
  the system chose when it was asked for port 0.\<close>

type_synonym 'w net = "string \<Rightarrow> int \<Rightarrow> ('w, goerror + int) act"

fun try_ports :: "'w net \<Rightarrow> string \<Rightarrow> int list \<Rightarrow> ('w, int option) act" where
  "try_ports net host [] = ret None"
| "try_ports net host (p # ps) = ask (net host p) (\<lambda>r. case r of
     Inr q \<Rightarrow> ret (Some q) | Inl _ \<Rightarrow> try_ports net host ps)"

definition scan_limit :: "'w server \<Rightarrow> int" where
  "scan_limit s = (if svPortScanLimit s \<le> 0 then 100 else svPortScanLimit s)"

definition scanListen :: "'w net \<Rightarrow> string \<Rightarrow> ('w, goerror + int) sact" where
  "scanListen net host = ask (server_get id) (\<lambda>s. let base = svPortScanBase s; limit = scan_limit s in
     ask (on_snd (try_ports net host [base .. wrap64 (base + limit) - 1])) (\<lambda>found. ret (case found of
        Some p \<Rightarrow> Inr p
      | None \<Rightarrow> Inl (EOther (Fmt ''goalpaca: no free port in %d..%d''
                      [FmtInt base, FmtInt (wrap64 (base + limit - 1))])))))"

text \<open>The local functions \<open>listen\<close> and \<open>recordPort\<close> of \<open>Run\<close>.\<close>

definition listen :: "'w net \<Rightarrow> string \<Rightarrow> ('w, goerror + int) sact" where
  "listen net host = ask (server_get id) (\<lambda>s.
     if svBoundPort s \<noteq> 0 then on_snd (net host (svBoundPort s))
     else if svAlpacaPort s = 0 \<and> svPortScanBase s > 0 then scanListen net host
     else on_snd (net host (svAlpacaPort s)))"

definition recordPort :: "int \<Rightarrow> ('w, unit) sact" where
  "recordPort p = server_set (\<lambda>s. if svBoundPort s = 0 then s\<lparr>svBoundPort := p\<rparr> else s)"

definition could_not_bind :: "string list \<Rightarrow> int \<Rightarrow> goerror" where
  "could_not_bind hosts p = EOther (Fmt ''goalpaca: could not bind any of %v on port %d''
     (map FmtStr hosts @ [FmtInt p]))"

text \<open>The listeners of a run: the wildcard host, or every configured host that can be bound.\<close>

fun listen_each :: "'w net \<Rightarrow> string list \<Rightarrow> ('w, (string \<times> int) list) sact" where
  "listen_each net [] = ret []"
| "listen_each net (h # hs) = ask (listen net h) (\<lambda>r. case r of
     Inl _ \<Rightarrow> listen_each net hs
   | Inr p \<Rightarrow> ask (recordPort p) (\<lambda>_. ask (listen_each net hs) (\<lambda>ls. ret ((h, p) # ls))))"

definition listeners :: "'w net \<Rightarrow> ('w, goerror + (string \<times> int) list) sact" where
  "listeners net = ask (server_get id) (\<lambda>s.
     if svHosts s = []
     then ask (listen net []) (\<lambda>r. case r of
         Inl e \<Rightarrow> ret (Inl e) | Inr p \<Rightarrow> ask (recordPort p) (\<lambda>_. ret (Inr [([], p)])))
     else ask (listen_each net (svHosts s)) (\<lambda>ls.
         ret (if ls = [] then Inl (could_not_bind (svHosts s) (svAlpacaPort s)) else Inr ls)))"

text \<open>A timeout of the configuration: zero selects the default, a negative value none.\<close>

definition timeoutValue :: "int \<Rightarrow> int \<Rightarrow> int" where
  "timeoutValue v dflt = (if v = 0 then dflt else if v < 0 then 0 else v)"

text \<open>\<open>Run\<close>; what happens between the start of the listeners and the end of the drained shutdown (requests,
  discovery, and the error of a listener, if one fails) is the parameter \<open>serve\<close>.\<close>

definition Run :: "'w net \<Rightarrow> ('w server \<times> 'w) command \<Rightarrow> ('w server \<times> 'w) command" where
  "Run net serve =
     ask (server_set (svRunning_update (\<lambda>_. True))) (\<lambda>_.
     ask loadSettings (\<lambda>_.
     ask openHardware (\<lambda>_.
     ask (listeners net) (\<lambda>bound. case bound of
       Inl e \<Rightarrow> ask closeHardware (\<lambda>_. fail e)
     | Inr _ \<Rightarrow> ask serve (\<lambda>runErr. ask closeHardware (\<lambda>_. ret runErr))))))"

end
