(* ===== verification/Image_JSON.thy ===== *)
theory Image_JSON
  imports Image_Bytes Gate
begin

text \<open>
  The plain JSON form of an image, \<open>server/imagearray.go\<close>: the text of one pixel, the validation of
  the frame and the loops that stream the nested array.  The shortest text of a floating-point pixel
  is the parameter \<open>show_float\<close> (its element type and its bits); integer pixels are exact.
\<close>

definition jsonImageType :: "ImageElementType \<Rightarrow> int" where
  "jsonImageType t =
     (if t = ImgInt16 then 1
      else if t = ImgByte \<or> t = ImgUInt16 \<or> t = ImgInt32 then 2
      else if t = ImgUInt32 \<or> t = ImgInt64 \<or> t = ImgUInt64 \<or> t = ImgSingle \<or> t = ImgDouble then 3
      else 0)"

text \<open>The little-endian number in a run of bytes, and its reading as a pixel of type \<open>t\<close>.\<close>

fun le_nat :: "bytes \<Rightarrow> nat" where
  "le_nat [] = 0"
| "le_nat (b # bs) = unat b + 256 * le_nat bs"

type_synonym float_text = "ImageElementType \<Rightarrow> nat \<Rightarrow> string"

definition pixel_text :: "float_text \<Rightarrow> ImageElementType \<Rightarrow> nat \<Rightarrow> string" where
  "pixel_text show_float t n =
     (if t = ImgInt16 then Itoa (sint (of_nat n :: 16 word))
      else if t = ImgInt32 then Itoa (sint (of_nat n :: 32 word))
      else if t = ImgInt64 then Itoa (sint (of_nat n :: 64 word))
      else if t = ImgSingle \<or> t = ImgDouble then show_float t n
      else Itoa (int n))"

text \<open>A slice or a read beyond the end of \<open>pix\<close> panics.\<close>

definition appendJSONElem :: "float_text \<Rightarrow> bytes \<Rightarrow> nat \<Rightarrow> ImageElementType \<Rightarrow> string option" where
  "appendJSONElem show_float pix i t =
     (let es = ElementSize t in
      if es = 0 then Some ''0''
      else if (i + 1) * es \<le> length pix
      then Some (pixel_text show_float t (le_nat (take es (drop (i * es) pix)))) else None)"

text \<open>\<open>for i := 0; i < n; i++ { if i > 0 { "," }; body(i) }\<close>: the text the loop writes, unless the body
  panics.\<close>

definition comma_loop :: "nat \<Rightarrow> (nat \<Rightarrow> string option) \<Rightarrow> string option" where
  "comma_loop n body =
     map_option concat (those (map (\<lambda>i. map_option ((@) (if i > 0 then '','' else [])) (body i)) [0 ..< n]))"

definition bracketed :: "string option \<Rightarrow> string option" where
  "bracketed = map_option (\<lambda>s. ''['' @ s @ '']'')"

definition value_text :: "float_text \<Rightarrow> ImageFrame \<Rightarrow> ImageElementType \<Rightarrow> nat \<Rightarrow> string option" where
  "value_text show_float frame transmit planes =
     (let w = nat (Width frame); h = nat (Height frame) in
      comma_loop w (\<lambda>x. bracketed (comma_loop h (\<lambda>y.
        if Rank frame = 2 then appendJSONElem show_float (Pixels frame) (y * w + x) transmit
        else bracketed (comma_loop planes (\<lambda>p.
          appendJSONElem show_float (Pixels frame) ((x * h + y) * planes + p) transmit))))))"

definition malformed_frame :: "ImageFrame \<Rightarrow> goerror" where
  "malformed_frame f = EAlpaca (NewError ErrNumUnspecified
     (Fmt ''malformed image frame: rank %d, %dx%dx%d, %d pixel bytes''
       [FmtInt (Rank f), FmtInt (Width f), FmtInt (Height f), FmtInt (Planes f), FmtInt (int (length (Pixels f)))]))"

definition image_prefix :: "ImageFrame \<Rightarrow> string" where
  \<open>image_prefix frame = ''{"Type":'' @ Itoa (jsonImageType (ElementType frame)) @ '',"Rank":''
     @ Itoa (Rank frame) @ '',"Value":[''\<close>

definition image_suffix :: "32 word \<Rightarrow> 32 word \<Rightarrow> string" where
  \<open>image_suffix ctx stx = ''],"ClientTransactionID":'' @ Itoa (uint ctx) @ '',"ServerTransactionID":''
     @ Itoa (uint stx) @ '',"ErrorNumber":0,"ErrorMessage":""}''\<close>

definition frame_planes :: "ImageFrame \<Rightarrow> int" where
  "frame_planes frame = (if Rank frame = 2 then 1 else Planes frame)"

definition frame_ok :: "ImageFrame \<Rightarrow> ImageElementType \<Rightarrow> bool" where
  "frame_ok frame transmit \<longleftrightarrow>
     (let es = ElementSize transmit; planes = frame_planes frame in
      \<not> (es = 0 \<or> Width frame \<le> 0 \<or> Height frame \<le> 0 \<or> planes \<le> 0
         \<or> (Rank frame \<noteq> 2 \<and> Rank frame \<noteq> 3)
         \<or> int (length (Pixels frame)) \<noteq> wrap64 (Width frame * Height frame * planes * int es)))"

definition writeImageArrayJSON :: "float_text \<Rightarrow> ImageFrame \<Rightarrow> 32 word \<Rightarrow> 32 word \<Rightarrow> response" where
  "writeImageArrayJSON show_float frame ctx stx =
     (let transmit = transmit_type (TransmissionElementType frame) (ElementType frame) in
      if \<not> frame_ok frame transmit then writeValue (Inl (malformed_frame frame)) ctx stx
      else (case value_text show_float frame transmit (nat (frame_planes frame)) of
          None \<Rightarrow> Dropped
        | Some v \<Rightarrow> JsonText (image_prefix frame @ v @ image_suffix ctx stx)))"


section \<open>The two transports carry the same numbers\<close>

fun commas :: "string list \<Rightarrow> string" where
  "commas [] = []"
| "commas [x] = x"
| "commas (x # y # xs) = x @ '','' @ commas (y # xs)"

definition json_list :: "string list \<Rightarrow> string" where
  "json_list xs = ''['' @ commas xs @ '']''"

lemma commas_Cons: "commas (x # xs) = x @ concat (map ((@) '','') xs)"
  by (induction xs arbitrary: x) simp_all

lemma those_map_Some: "(\<And>i. i \<in> set is \<Longrightarrow> f i = Some (t i)) \<Longrightarrow> those (map f is) = Some (map t is)"
  by (induction "is") auto

lemma comma_loop_commas:
  assumes "\<And>i. i < n \<Longrightarrow> body i = Some (t i)"
  shows "comma_loop n body = Some (commas (map t [0 ..< n]))"
proof -
  let ?t = "\<lambda>i. (if i > 0 then '','' else []) @ t i"
  have "those (map (\<lambda>i. map_option ((@) (if i > 0 then '','' else [])) (body i)) [0 ..< n])
      = Some (map ?t [0 ..< n])"
    using assms by (intro those_map_Some) auto
  moreover have "concat (map ?t [0 ..< n]) = commas (map t [0 ..< n])"
  proof (cases n)
    case (Suc m)
    have "map ?t [Suc 0 ..< n] = map ((@) '','') (map t [Suc 0 ..< n])" by simp
    moreover have "[0 ..< n] = 0 # [Suc 0 ..< n]" by (simp add: Suc upt_rec del: upt_Suc)
    ultimately show ?thesis by (simp only: list.map concat.simps commas_Cons) simp
  qed simp
  ultimately show ?thesis by (simp add: comma_loop_def)
qed

text \<open>Element \<open>k\<close> of a buffer of elements of \<open>es\<close> bytes.\<close>

definition element :: "nat \<Rightarrow> bytes \<Rightarrow> nat \<Rightarrow> bytes" where
  "element es pix k = take es (drop (k * es) pix)"

lemma element_transposed:
  assumes "x < w" "y < h" "length src = h * w * es" "0 < es"
  shows "element es (transpose_ref h w es src) (x * h + y) = element es src (y * w + x)"
proof (rule nth_equalityI)
  have b: "(x * h + y) * es + es \<le> h * w * es" "(y * w + x) * es + es \<le> h * w * es"
    using grid_block [OF grid_pos_less [OF assms(2,1)], of es] grid_block [OF grid_pos_less [OF assms(1,2)], of es]
    by (simp_all add: mult.commute)
  then show "length (element es (transpose_ref h w es src) (x * h + y)) = length (element es src (y * w + x))"
    using assms(3) by (simp add: element_def)
  fix j assume "j < length (element es (transpose_ref h w es src) (x * h + y))"
  then have j: "j < es" using b by (simp add: element_def)
  let ?k = "(x * h + y) * es + j"
  have k: "?k div es = x * h + y" "?k mod es = j" "?k < h * w * es" using j b by auto
  have "(x * h + y) mod h = y" "(x * h + y) div h = x" using assms(2) by auto
  then have "src_pos h w es ?k = (y * w + x) * es + j" using j by (simp add: src_pos_def k)
  have "drop ((x * h + y) * es) (transpose_ref h w es src) ! j = transpose_ref h w es src ! ?k"
    using b(1) length_transpose_ref [of h w es src] by (intro nth_drop) linarith
  also have "\<dots> = src ! src_pos h w es ?k" using k(3) by (simp add: transpose_ref_def)
  also have "\<dots> = drop ((y * w + x) * es) src ! j"
    unfolding \<open>src_pos h w es ?k = (y * w + x) * es + j\<close> assms(3) [symmetric]
    using b(2) assms(3) by (intro nth_drop [symmetric]) linarith
  finally show "element es (transpose_ref h w es src) (x * h + y) ! j = element es src (y * w + x) ! j"
    using j by (simp add: element_def)
qed

lemma appendJSONElem_element:
  "0 < ElementSize t \<Longrightarrow> (i + 1) * ElementSize t \<le> length pix \<Longrightarrow>
   appendJSONElem sf pix i t = Some (pixel_text sf t (le_nat (element (ElementSize t) pix i)))"
  by (simp add: appendJSONElem_def element_def Let_def)

text \<open>What the wire carries at element \<open>k\<close>, as JSON text.\<close>

definition wire_number :: "float_text \<Rightarrow> ImageElementType \<Rightarrow> bytes \<Rightarrow> nat \<Rightarrow> string" where
  "wire_number sf t msg k = pixel_text sf t (le_nat (element (ElementSize t) (drop 44 msg) k))"

lemma frame_size:
  assumes "frame_ok f t" "in_i64 (Width f * Height f * frame_planes f * int (ElementSize t))"
  shows "length (Pixels f) = nat (Width f) * nat (Height f) * nat (frame_planes f) * ElementSize t"
    "0 < ElementSize t" "0 < Width f" "0 < Height f" "0 < frame_planes f" "Rank f = 2 \<or> Rank f = 3"
proof -
  show p: "0 < ElementSize t" "0 < Width f" "0 < Height f" "0 < frame_planes f" "Rank f = 2 \<or> Rank f = 3"
    using assms by (auto simp: frame_ok_def Let_def)
  have "int (length (Pixels f)) = Width f * Height f * frame_planes f * int (ElementSize t)"
    using assms by (simp add: frame_ok_def Let_def)
  also have "\<dots> = int (nat (Width f) * nat (Height f) * nat (frame_planes f) * ElementSize t)"
    using p by simp
  finally show "length (Pixels f) = nat (Width f) * nat (Height f) * nat (frame_planes f) * ElementSize t"
    by linarith
qed

lemma value_text_plane:
  assumes "frame_ok f t" "wire_frame f" "Rank f = 2" "t = transmit_type (TransmissionElementType f) (ElementType f)"
  shows "value_text sf f t 1 = Some (commas (map (\<lambda>x. json_list (map (\<lambda>y.
      pixel_text sf t (le_nat (element (ElementSize t) (wire_pixels f) (x * nat (Height f) + y))))
      [0 ..< nat (Height f)])) [0 ..< nat (Width f)]))"
proof -
  let ?w = "nat (Width f)" and ?h = "nat (Height f)" and ?es = "ElementSize t"
  have pl: "frame_planes f = 1" using assms(3) by (simp add: frame_planes_def)
  have i: "in_i64 (Width f * Height f * frame_planes f * int ?es)"
    using product_in_i64 [OF assms(2), of t] pl by simp
  note sz = frame_size [OF assms(1) i]
  have len: "length (Pixels f) = ?h * ?w * ?es" using sz(1) pl by simp
  have "transposes (Rank f) (Width f) (Height f) ?es (length (Pixels f))"
    using assms(1,3) pl by (auto simp: transposes_def frame_ok_def Let_def)
  then have wp: "wire_pixels f = transpose_ref ?h ?w ?es (Pixels f)"
    by (simp add: wire_pixels_def assms(4) Let_def)
  have e: "appendJSONElem sf (Pixels f) (y * ?w + x) t =
      Some (pixel_text sf t (le_nat (element ?es (wire_pixels f) (x * ?h + y))))"
    if "x < ?w" "y < ?h" for x y
    using element_transposed [OF that len sz(2)] grid_block [OF grid_pos_less [OF that], of ?es] len sz(2) wp
    by (subst appendJSONElem_element) (simp_all add: mult.commute)
  show ?thesis unfolding value_text_def Let_def
    by (rule comma_loop_commas)
      (simp add: assms(3) comma_loop_commas [OF e] bracketed_def json_list_def)
qed

lemma value_text_planes:
  assumes "frame_ok f t" "in_i64 (Width f * Height f * Planes f * int (ElementSize t))" "Rank f = 3"
  shows "value_text sf f t (nat (Planes f)) = Some (commas (map (\<lambda>x. json_list (map (\<lambda>y. json_list (map (\<lambda>p.
      pixel_text sf t (le_nat (element (ElementSize t) (Pixels f)
        ((x * nat (Height f) + y) * nat (Planes f) + p))))
      [0 ..< nat (Planes f)])) [0 ..< nat (Height f)])) [0 ..< nat (Width f)]))"
proof -
  let ?w = "nat (Width f)" and ?h = "nat (Height f)" and ?p = "nat (Planes f)" and ?es = "ElementSize t"
  have pl: "frame_planes f = Planes f" using assms(3) by (simp add: frame_planes_def)
  note sz = frame_size [OF assms(1) assms(2) [folded pl], unfolded pl]
  have e: "appendJSONElem sf (Pixels f) ((x * ?h + y) * ?p + p) t =
      Some (pixel_text sf t (le_nat (element ?es (Pixels f) ((x * ?h + y) * ?p + p))))"
    if "x < ?w" "y < ?h" "p < ?p" for x y p
  proof -
    have "x * ?h + y < ?w * ?h" using grid_pos_less [OF that(2,1)] by (simp add: mult.commute)
    then have "(x * ?h + y) * ?p + p < ?w * ?h * ?p"
      using grid_pos_less [OF that(3), of "x * ?h + y" "?w * ?h"] by (simp add: mult.commute)
    then have "((x * ?h + y) * ?p + p + 1) * ?es \<le> length (Pixels f)"
      unfolding sz(1) by (intro mult_le_mono1) simp
    then show ?thesis using sz(2) by (rule_tac appendJSONElem_element)
  qed
  have r: "Rank f \<noteq> 2" using assms(3) by simp
  have b: "bracketed (comma_loop ?p (\<lambda>p. appendJSONElem sf (Pixels f) ((x * ?h + y) * ?p + p) t)) =
      Some (json_list (map (\<lambda>p. pixel_text sf t (le_nat (element ?es (Pixels f) ((x * ?h + y) * ?p + p))))
        [0 ..< ?p]))" if "x < ?w" "y < ?h" for x y
    using comma_loop_commas [OF e [OF that]] by (simp add: bracketed_def json_list_def)
  have "bracketed (comma_loop ?h (\<lambda>y. if Rank f = 2 then appendJSONElem sf (Pixels f) (y * ?w + x) t
        else bracketed (comma_loop ?p (\<lambda>p. appendJSONElem sf (Pixels f) ((x * ?h + y) * ?p + p) t)))) =
      Some (json_list (map (\<lambda>y. json_list (map (\<lambda>p. pixel_text sf t (le_nat (element ?es (Pixels f)
        ((x * ?h + y) * ?p + p)))) [0 ..< ?p])) [0 ..< ?h]))" if "x < ?w" for x
    using comma_loop_commas [OF b [OF that]] r by (simp add: bracketed_def json_list_def)
  then show ?thesis unfolding value_text_def Let_def by (rule comma_loop_commas)
qed

text \<open>C23: The two image transports agree.  For a well-formed frame the JSON array has the shape
  [Width][Height] or [Width][Height][Planes], and the number at every position is the text of the
  element at the same position, counted in wire order, of the pixels that ImageBytes sends for the same
  frame; the streaming loops never panic.\<close>

theorem json_matches_imagebytes:
  assumes "wire_frame f" "frame_ok f t" "t = transmit_type (TransmissionElementType f) (ElementType f)"
    and "in_i64 (Width f * Height f * Planes f * int (ElementSize t))"
    and "\<And>ps. mset (sched ps) = mset ps" "EncodeImageBytes sched procs f c s = Some msg"
  defines "h \<equiv> nat (Height f)" and "n \<equiv> nat (Planes f)"
  shows "writeImageArrayJSON sf f c s = JsonText (image_prefix f @ commas (map (\<lambda>x. json_list (map (\<lambda>y.
      if Rank f = 2 then wire_number sf t msg (x * h + y)
      else json_list (map (\<lambda>p. wire_number sf t msg ((x * h + y) * n + p)) [0 ..< n]))
      [0 ..< h])) [0 ..< nat (Width f)]) @ image_suffix c s)"
proof -
  have m: "drop 44 msg = wire_pixels f"
    using EncodeImageBytes_eq [OF assms(1,5)] assms(6) by (auto simp: image_message_pixels)
  show ?thesis
  proof (cases "Rank f = 2")
    case True
    have "value_text sf f t (nat (frame_planes f)) = Some (commas (map (\<lambda>x. json_list (map (\<lambda>y.
        wire_number sf t msg (x * h + y)) [0 ..< h])) [0 ..< nat (Width f)]))"
      using value_text_plane [OF assms(2,1) True assms(3)] True m
      by (simp add: frame_planes_def wire_number_def h_def)
    then show ?thesis using True assms(2,3) by (simp add: writeImageArrayJSON_def Let_def)
  next
    case False
    then have r: "Rank f = 3" using assms(2) by (auto simp: frame_ok_def Let_def)
    have "wire_pixels f = Pixels f" using r by (simp add: wire_pixels_def transposes_def)
    then have "value_text sf f t (nat (frame_planes f)) = Some (commas (map (\<lambda>x. json_list (map (\<lambda>y.
        json_list (map (\<lambda>p. wire_number sf t msg ((x * h + y) * n + p)) [0 ..< n])) [0 ..< h]))
        [0 ..< nat (Width f)]))"
      using value_text_planes [OF assms(2,4) r] r m
      by (simp add: frame_planes_def wire_number_def h_def n_def)
    then show ?thesis using r assms(2,3) by (simp add: writeImageArrayJSON_def Let_def)
  qed
qed

theorem json_matches_imagebytes_witness:
  "\<forall>sf. \<exists>msg. EncodeImageBytes rev 4 small_frame 7 9 = Some msg
    \<and> writeImageArrayJSON sf small_frame 7 9 = JsonText (image_prefix small_frame
        @ commas [json_list [wire_number sf ImgByte msg 0, wire_number sf ImgByte msg 1],
            json_list [wire_number sf ImgByte msg 2, wire_number sf ImgByte msg 3],
            json_list [wire_number sf ImgByte msg 4, wire_number sf ImgByte msg 5]]
        @ image_suffix 7 9)"
proof
  fix sf
  have wf: "wire_frame small_frame" by (simp add: wire_frame_def small_frame_def)
  obtain msg where msg: "EncodeImageBytes rev 4 small_frame 7 9 = Some msg"
    using EncodeImageBytes_eq [OF wf, of rev 4 7 9] by auto
  have t: "transmit_type (TransmissionElementType small_frame) (ElementType small_frame) = ImgByte"
    by (simp add: small_frame_def transmit_type_def img_defs)
  have ok: "frame_ok small_frame ImgByte" "in_i64 (Width small_frame * Height small_frame
      * Planes small_frame * int (ElementSize ImgByte))"
    by (simp_all add: frame_ok_def small_frame_def ElementSize_def img_defs frame_planes_def in_i64_def wrap64_def Let_def)
  show "\<exists>msg. EncodeImageBytes rev 4 small_frame 7 9 = Some msg
    \<and> writeImageArrayJSON sf small_frame 7 9 = JsonText (image_prefix small_frame
        @ commas [json_list [wire_number sf ImgByte msg 0, wire_number sf ImgByte msg 1],
            json_list [wire_number sf ImgByte msg 2, wire_number sf ImgByte msg 3],
            json_list [wire_number sf ImgByte msg 4, wire_number sf ImgByte msg 5]]
        @ image_suffix 7 9)"
    using json_matches_imagebytes [OF wf ok(1) t [symmetric] ok(2) _ msg, where sf = sf] msg
    by (simp add: small_frame_def upt_rec numeral_eq_Suc)
qed

end
