(* ===== verification/Router.thy ===== *)
theory Router
  imports Registry Image_JSON
begin

text \<open>
  The HTTP front end, \<open>server/httpserver.go\<close> with the buffer pool of \<open>server/imagebytes.go\<close>: from a request
  to a response and the new state of the server and its devices.

  What the handlers take from their surroundings is the record \<open>env\<close>: the clock, the scheduler and the
  number of processors of the image encoder, the buffer the pool returns, and the texts of floating-point
  pixels and of formatted messages.  Logging is left out.
\<close>

section \<open>Requests\<close>

text \<open>\<open>rqForm\<close> is the merged query and form; \<open>rqAccept\<close> the \<open>Accept\<close> header.\<close>

record request =
  rqMethod :: string
  rqPath :: string
  rqAccept :: string
  rqForm :: "(string \<times> string list) list"

record 'w env =
  envNow :: "'w \<Rightarrow> time"
  envSched :: "(nat \<times> nat) list \<Rightarrow> (nat \<times> nat) list"
  envProcs :: nat
  envPooled :: "bytes option"
  envFloat :: float_text
  envRender :: "message \<Rightarrow> string"

text \<open>\<open>strings.HasPrefix\<close>, \<open>TrimPrefix\<close> and \<open>Contains\<close>.\<close>

definition HasPrefix :: "string \<Rightarrow> string \<Rightarrow> bool" where
  "HasPrefix s prefix = (take (length prefix) s = prefix)"

definition TrimPrefix :: "string \<Rightarrow> string \<Rightarrow> string" where
  "TrimPrefix s prefix = (if HasPrefix s prefix then drop (length prefix) s else s)"

fun Contains :: "string \<Rightarrow> string \<Rightarrow> bool" where
  "Contains [] sub = (sub = [])"
| "Contains (c # cs) sub = (HasPrefix (c # cs) sub \<or> Contains cs sub)"

definition device_type :: "string \<Rightarrow> DeviceType" where
  "device_type s = (case filter (\<lambda>ty. segment ty = s) [CameraType, CoverCalibratorType, DomeType,
       FilterWheelType, FocuserType, ObservingConditionsType, RotatorType, SafetyMonitorType, SwitchType,
       TelescopeType] of
     ty # _ \<Rightarrow> ty | [] \<Rightarrow> CustomType s)"

definition http_error :: "nat \<Rightarrow> string \<Rightarrow> response" where
  "http_error code text = PlainStatus code (Text text)"

section \<open>Gates by member\<close>

definition connectionExemptMembers :: "string list" where
  "connectionExemptMembers = [''connected'', ''connect'', ''disconnect'', ''connecting'', ''name'',
     ''description'', ''driverinfo'', ''driverversion'', ''interfaceversion'', ''supportedactions'']"

definition interruptMembers :: "string list" where
  "interruptMembers = [''abortexposure'', ''stopexposure'', ''halt'', ''abortslew'', ''moveaxis'',
     ''haltcover'', ''calibratoroff'', ''cancelasync'']"

definition passthroughMembers :: "string list" where
  "passthroughMembers = [''commandstring'', ''commandbool'', ''commandblind'', ''action'']"

text \<open>Whether the request may go on, and whether the device is busy; the device is asked only when the
  answer matters.\<close>

definition connection_gate :: "string \<Rightarrow> 'w device \<Rightarrow> ('w, bool) act" where
  "connection_gate member d =
     (if member \<in> set connectionExemptMembers then ret True else dvConnected d)"

definition busy_gate :: "string \<Rightarrow> 'w device \<Rightarrow> ('w, bool) act" where
  "busy_gate member d =
     (if member \<in> set connectionExemptMembers \<or> member \<in> set interruptMembers
         \<or> member \<in> set passthroughMembers
      then ret False
      else (case asBusyable d of None \<Rightarrow> ret False | Some busy \<Rightarrow> busy))"

section \<open>Dispatch on the device type\<close>

definition typeGet :: "DeviceType \<Rightarrow> string \<Rightarrow> 'w device \<Rightarrow> params \<Rightarrow> 'w read option" where
  "typeGet ty member d p = (case ty of
     CameraType \<Rightarrow> Option.bind (asCamera d) (\<lambda>x. cameraGet member x p)
   | CoverCalibratorType \<Rightarrow> Option.bind (asCoverCalibrator d) (\<lambda>x. coverCalibratorGet member x p)
   | DomeType \<Rightarrow> Option.bind (asDome d) (\<lambda>x. domeGet member x p)
   | FilterWheelType \<Rightarrow> Option.bind (asFilterWheel d) (\<lambda>x. filterWheelGet member x p)
   | FocuserType \<Rightarrow> Option.bind (asFocuser d) (\<lambda>x. focuserGet member x p)
   | ObservingConditionsType \<Rightarrow> Option.bind (asObservingConditions d) (\<lambda>x. observingConditionsGet member x p)
   | RotatorType \<Rightarrow> Option.bind (asRotator d) (\<lambda>x. rotatorGet member x p)
   | SafetyMonitorType \<Rightarrow> Option.bind (asSafetyMonitor d) (\<lambda>x. safetyMonitorGet member x p)
   | SwitchType \<Rightarrow> Option.bind (asSwitch d) (\<lambda>x. switchGet member x p)
   | TelescopeType \<Rightarrow> Option.bind (asTelescope d) (\<lambda>x. telescopeGet member x p)
   | CustomType _ \<Rightarrow> None)"

text \<open>A safety monitor has no PUT member of its own.\<close>

definition typePut :: "DeviceType \<Rightarrow> string \<Rightarrow> 'w device \<Rightarrow> params \<Rightarrow> 'w command option" where
  "typePut ty member d p = (case ty of
     CameraType \<Rightarrow> Option.bind (asCamera d) (\<lambda>x. cameraPut member x p)
   | CoverCalibratorType \<Rightarrow> Option.bind (asCoverCalibrator d) (\<lambda>x. coverCalibratorPut member x p)
   | DomeType \<Rightarrow> Option.bind (asDome d) (\<lambda>x. domePut member x p)
   | FilterWheelType \<Rightarrow> Option.bind (asFilterWheel d) (\<lambda>x. filterWheelPut member x p)
   | FocuserType \<Rightarrow> Option.bind (asFocuser d) (\<lambda>x. focuserPut member x p)
   | ObservingConditionsType \<Rightarrow> Option.bind (asObservingConditions d) (\<lambda>x. observingConditionsPut member x p)
   | RotatorType \<Rightarrow> Option.bind (asRotator d) (\<lambda>x. rotatorPut member x p)
   | SwitchType \<Rightarrow> Option.bind (asSwitch d) (\<lambda>x. switchPut member x p)
   | TelescopeType \<Rightarrow> Option.bind (asTelescope d) (\<lambda>x. telescopePut member x p)
   | _ \<Rightarrow> None)"

section \<open>The image\<close>

definition ImageBytesMIME :: string where "ImageBytesMIME = ''application/imagebytes''"

definition getImageBuf :: "bytes option \<Rightarrow> nat \<Rightarrow> bytes" where
  "getImageBuf pooled n = (case pooled of
     Some b \<Rightarrow> (if length b \<ge> n then take n b else replicate n 0)
   | None \<Rightarrow> replicate n 0)"

definition sent :: "bytes option \<Rightarrow> response" where
  "sent q = (case q of None \<Rightarrow> Dropped | Some b \<Rightarrow> ImageBody b)"

definition image_reply :: "'w env \<Rightarrow> bool \<Rightarrow> goerror + ImageFrame \<Rightarrow> 32 word \<Rightarrow> 32 word \<Rightarrow> response" where
  "image_reply env wantBytes r ctx stx = (case r of
     Inl e \<Rightarrow>
       (if wantBytes
        then (let (num, msg) = ErrorNumberFor (Some e) in
              sent (EncodeImageBytesError num (envRender env msg) ctx stx))
        else writeValue (Inl e) ctx stx)
   | Inr frame \<Rightarrow>
       (if \<not> wantBytes then writeImageArrayJSON (envFloat env) frame ctx stx
        else sent (EncodeImageBytesInto (envSched env) (envProcs env)
               (getImageBuf (envPooled env) (ImageBytesHeaderLen + length (Pixels frame))) frame ctx stx)))"

definition no_image :: goerror where
  "no_image = invalidOpErr ''there is no image available: ImageReady is false''"

definition handleImage :: "'w env \<Rightarrow> string \<Rightarrow> 'w device \<Rightarrow> params \<Rightarrow> 32 word \<Rightarrow> ('w, response) act" where
  "handleImage env accept d p stx = (case asCamera d of
     None \<Rightarrow> ret (http_error 400 ''not a camera'')
   | Some c \<Rightarrow> ask (cFlag c CImageReady) (\<lambda>ready.
       ask (if \<not> ready then ret (Inl no_image) else cImageFrame c) (\<lambda>r.
         ret (image_reply env (Contains (to_lower accept) ImageBytesMIME) r
               (clientTransactionID p) stx))))"

section \<open>Handlers of the device API\<close>

definition unknown_member :: "string \<Rightarrow> response" where
  "unknown_member member = http_error 400 (''unknown member: '' @ member)"

text \<open>Behind the gates: the common members first, then those of the type.\<close>

definition dispatchGet :: "'w env \<Rightarrow> string \<Rightarrow> DeviceType \<Rightarrow> string \<Rightarrow> 'w device \<Rightarrow> params \<Rightarrow> 32 word
    \<Rightarrow> ('w, response) act" where
  "dispatchGet env accept ty member d p stx =
     (let reply = (\<lambda>v. writeValue v (clientTransactionID p) stx) in
      if ty = CameraType \<and> (member = ''imagearray'' \<or> member = ''imagearrayvariant'')
      then handleImage env accept d p stx
      else if member = ''devicestate''
      then ask (deviceStateValues (envNow env) ty d) (\<lambda>sv. ret (reply (map_sum id stateValueArray sv)))
      else (case deviceGet member d of
        Some r \<Rightarrow> ask r (\<lambda>v. ret (reply v))
      | None \<Rightarrow> (case typeGet ty member d p of
          Some r \<Rightarrow> ask r (\<lambda>v. ret (reply v))
        | None \<Rightarrow> ret (unknown_member member))))"

definition handleGet :: "'w env \<Rightarrow> string \<Rightarrow> DeviceType \<Rightarrow> string \<Rightarrow> 'w device \<Rightarrow> params \<Rightarrow> 32 word
    \<Rightarrow> ('w, response) act" where
  "handleGet env accept ty member d p stx = ask (connection_gate member d) (\<lambda>go.
     if \<not> go then ret (writeValue (Inl ErrNotConnected) (clientTransactionID p) stx)
     else dispatchGet env accept ty member d p stx)"

definition dispatchPut :: "DeviceType \<Rightarrow> string \<Rightarrow> 'w device \<Rightarrow> params \<Rightarrow> 32 word \<Rightarrow> ('w, response) act" where
  "dispatchPut ty member d p stx =
     (let reply = (\<lambda>e. writeMethod e (clientTransactionID p) stx) in
      case devicePutValue member d p of
        Some r \<Rightarrow> ask r (\<lambda>v. ret (writeValue v (clientTransactionID p) stx))
      | None \<Rightarrow> (case devicePut member d p of
          Some a \<Rightarrow> ask a (\<lambda>e. ret (reply e))
        | None \<Rightarrow> (case typePut ty member d p of
            Some a \<Rightarrow> ask a (\<lambda>e. ret (reply e))
          | None \<Rightarrow> ret (unknown_member member))))"

definition handlePut :: "DeviceType \<Rightarrow> string \<Rightarrow> 'w device \<Rightarrow> params \<Rightarrow> 32 word \<Rightarrow> ('w, response) act" where
  "handlePut ty member d p stx = ask (connection_gate member d) (\<lambda>go.
     if \<not> go then ret (writeMethod (Some ErrNotConnected) (clientTransactionID p) stx)
     else ask (busy_gate member d) (\<lambda>busy.
       if busy then ret (writeMethod (Some ErrInvalidOperation) (clientTransactionID p) stx)
       else dispatchPut ty member d p stx))"

text \<open>\<open>s.tx.next()\<close>.\<close>

definition next_server_tx :: "('w, 32 word) sact" where
  "next_server_tx = on_fst (\<lambda>s. let (r, n) = next_tx (svTx s) in (r, s\<lparr>svTx := n\<rparr>))"

definition handleDeviceAPI :: "'w env \<Rightarrow> request \<Rightarrow> ('w, response) sact" where
  "handleDeviceAPI env r = (case split_on CHR ''/'' (TrimPrefix (rqPath r) ''/api/v1/'') of
     [seg, no, mem] \<Rightarrow> (case Atoi no of
       None \<Rightarrow> ret (http_error 400 ''bad device number'')
     | Some number \<Rightarrow> ask (server_get id) (\<lambda>s.
         let ty = device_type seg; member = to_lower mem in
         case lookup ty number s of
           None \<Rightarrow> ret (http_error 400 ''no such device'')
         | Some d \<Rightarrow>
             let p = parseParams (rqForm r) (rqMethod r = ''PUT'') (svStrict s) in
             ask next_server_tx (\<lambda>stx.
               if rqMethod r = ''GET'' then on_snd (handleGet env (rqAccept r) ty member d p stx)
               else if rqMethod r = ''PUT'' then on_snd (handlePut ty member d p stx)
               else ret (http_error 405 ''method not allowed''))))
   | _ \<Rightarrow> ret (http_error 400 ''bad device API path''))"

section \<open>Management\<close>

definition device_entry :: "'w registered \<Rightarrow> ('w, any) act" where
  "device_entry r = ask (dvText (rgDev r) DevName) (\<lambda>name. ask (dvText (rgDev r) UniqueID) (\<lambda>uid.
     ret (VObject [(''DeviceName'', VStr name), (''DeviceType'', VStr (segment (fst (rgKey r)))),
       (''DeviceNumber'', VInt (snd (rgKey r))), (''UniqueID'', VStr uid)])))"

fun device_entries :: "'w registered list \<Rightarrow> ('w, any list) act" where
  "device_entries [] = ret []"
| "device_entries (r # rs) = ask (device_entry r) (\<lambda>e. ask (device_entries rs) (\<lambda>es. ret (e # es)))"

definition configuredDevices :: "('w, any) sact" where
  "configuredDevices = ask (server_get (\<lambda>s. map (svRegs s) (svOrder s))) (\<lambda>rs.
     on_snd (ask (device_entries rs) (\<lambda>es. ret (VArray es))))"

definition server_description :: "'w server \<Rightarrow> any" where
  "server_description s = VObject [(''ServerName'', VStr (svName s)),
     (''Manufacturer'', VStr (svManufacturer s)), (''ManufacturerVersion'', VStr (svVersion s)),
     (''Location'', VStr (svLocation s))]"

definition notFound_plain :: response where
  "notFound_plain = http_error 404 ''404 page not found''"

definition handleManagement :: "request \<Rightarrow> ('w, response) sact" where
  "handleManagement r =
     (if rqMethod r \<noteq> ''GET'' then ret (http_error 405 ''method not allowed'')
      else ask (server_get svStrict) (\<lambda>strict_mode.
        let p = parseParams (rqForm r) (rqMethod r = ''PUT'') strict_mode in
        ask next_server_tx (\<lambda>stx.
          let reply = (\<lambda>v. writeValue (Inr v) (clientTransactionID p) stx) in
          if rqPath r = ''/management/apiversions'' then ret (reply (VInts [1]))
          else if rqPath r = ''/management/v1/description''
          then ask (server_get server_description) (\<lambda>v. ret (reply v))
          else if rqPath r = ''/management/v1/configureddevices''
          then ask configuredDevices (\<lambda>v. ret (reply v))
          else ret notFound_plain)))"

definition notFound :: "request \<Rightarrow> ('w, response) sact" where
  "notFound r = ret (if Contains (rqAccept r) ''text/html'' then HtmlPage 404 else notFound_plain)"

text \<open>The handlers of the setup pages and of the discovery relay are arguments.\<close>

definition route :: "'w env \<Rightarrow> (request \<Rightarrow> ('w, response) sact) \<Rightarrow> (request \<Rightarrow> ('w, response) sact)
    \<Rightarrow> request \<Rightarrow> ('w, response) sact" where
  "route env handleSetup handleDiscoveryReply r =
     (if HasPrefix (rqPath r) ''/management'' then handleManagement r
      else if HasPrefix (rqPath r) ''/api/v1/'' then handleDeviceAPI env r
      else if rqPath r = ''/setup'' \<or> HasPrefix (rqPath r) ''/setup/'' then handleSetup r
      else if rqPath r = ''/discovery/reply'' then handleDiscoveryReply r
      else if rqPath r = ''/health'' then ret (http_error 200 ''ok'')
      else if rqPath r = ''/'' \<and> rqMethod r = ''GET'' then ret (Redirect ''/setup'')
      else notFound r)"

end
