(* ===== verification/Device_State.thy ===== *)
theory Device_State
  imports Device
begin

text \<open>
  What a \<open>DeviceState\<close> reply contains (\<open>server/devicestate.go\<close>): the names of the entries, and which
  value wins.
\<close>

lemma state_entries_Cons:
  "fst (state_entries ((n, r) # rs) w) = appendIfOK n (fst (r w)) @ fst (state_entries rs (snd (r w)))"
  by (simp add: ask_apply case_prod_beta)

lemma appendIfOK_names: "set (map fst (appendIfOK n v)) \<subseteq> {n}" "distinct (map fst (appendIfOK n v))"
  by (auto simp: appendIfOK_def split: sum.split)

lemma state_entries_names:
  "set (map fst (fst (state_entries rs w))) \<subseteq> set (map fst rs)"
  "distinct (map fst rs) \<Longrightarrow> distinct (map fst (fst (state_entries rs w)))"
proof (induction rs arbitrary: w)
  case (Cons p rs)
  obtain n r where p: "p = (n, r)" by force
  {
    case 1
    show ?case using Cons.IH(1) [of "snd (r w)"] appendIfOK_names(1) [of n "fst (r w)"]
      unfolding p state_entries_Cons by auto
  next
    case 2
    then show ?case using Cons.IH [of "snd (r w)"] appendIfOK_names [of n "fst (r w)"]
      unfolding p state_entries_Cons map_append distinct_append by auto
  }
qed simp_all

lemma Itoa_not_Value: "Itoa (int i) \<noteq> ''Value'' @ x"
proof
  assume "Itoa (int i) = ''Value'' @ x"
  then have "digits_from 0 (''Value'' @ x) = Some i" using digits_from_show [of i] by (simp add: Itoa_def)
  moreover have "digit_of CHR ''V'' = None" by code_simp
  ultimately show False by simp
qed

lemma Itoa_inject: "Itoa (int i) = Itoa (int j) \<longleftrightarrow> i = j"
  by (simp add: Itoa_def)

lemma channel_names:
  "distinct (map fst (channel_entries s i))"
  "i \<noteq> j \<Longrightarrow> fst ` set (channel_entries s i) \<inter> fst ` set (channel_entries s j) = {}"
  using Itoa_not_Value [of i "Itoa (int i)"] Itoa_not_Value [of i "Itoa (int j)"]
    Itoa_not_Value [of j "Itoa (int i)"] Itoa_inject [of i j]
  by (auto simp: channel_entries_def)

lemma all_channel_names: "distinct (map fst (concat (map (channel_entries s) [0 ..< n])))"
proof (induction n)
  case (Suc n)
  have disj: "set (map fst (concat (map (channel_entries s) [0 ..< n]))) \<inter> set (map fst (channel_entries s n)) = {}"
  proof (rule equals0I)
    fix x assume "x \<in> set (map fst (concat (map (channel_entries s) [0 ..< n]))) \<inter> set (map fst (channel_entries s n))"
    then obtain i a b where "i < n" "(x, a) \<in> set (channel_entries s i)" "(x, b) \<in> set (channel_entries s n)"
      by auto
    then have "x \<in> fst ` set (channel_entries s i) \<inter> fst ` set (channel_entries s n)"
      by (force intro: rev_image_eqI)
    then show False using channel_names(2) [of i n s] \<open>i < n\<close> by simp
  qed
  have "map fst (concat (map (channel_entries s) [0 ..< Suc n]))
      = map fst (concat (map (channel_entries s) [0 ..< n])) @ map fst (channel_entries s n)" by simp
  then show ?case using Suc.IH channel_names(1) [of s n] disj by (simp only: distinct_append)
qed simp

text \<open>Names that are distinct and leave the time stamp to the library.\<close>

definition names_ok :: "(string \<times> 'a) list \<Rightarrow> bool" where
  "names_ok xs \<longleftrightarrow> distinct (map fst xs) \<and> ''TimeStamp'' \<notin> fst ` set xs"

lemma names_ok_entries: "names_ok rs \<Longrightarrow> names_ok (fst (state_entries rs w))"
  using state_entries_names [of rs w] unfolding names_ok_def set_map by blast

lemma entries_names_ok:
  assumes "names_ok rs" "fst (ask (state_entries rs) (\<lambda>sv. ret (Inr sv)) w) = (Inr sv :: goerror + states)"
  shows "names_ok sv"
proof -
  have "sv = fst (state_entries rs w)" using assms(2) by (simp add: ask_def case_prod_beta)
  then show ?thesis using names_ok_entries [OF assms(1)] by simp
qed

lemma typed_names_ok:
  "(\<And>x. names_ok (f x)) \<Longrightarrow>
   fst ((case q of None \<Rightarrow> ret (Inr []) | Some x \<Rightarrow> ask (state_entries (f x)) (\<lambda>sv. ret (Inr sv))) w)
     = (Inr sv :: goerror + states) \<Longrightarrow> names_ok sv"
  by (cases q) (simp add: names_ok_def, metis entries_names_ok option.case(2))

lemma getter_names_ok:
  "names_ok (cameraStateValues c)" "names_ok (coverCalibratorStateValues cc)" "names_ok (domeStateValues dm)"
  "names_ok (focuserStateValues f)" "names_ok (observingConditionsStateValues oc)"
  "names_ok (rotatorStateValues ro)" "names_ok (telescopeStateValues t)"
  by (simp_all add: names_ok_def cameraStateValues_def coverCalibratorStateValues_def domeStateValues_def
      focuserStateValues_def observingConditionsStateValues_def rotatorStateValues_def telescopeStateValues_def)

lemma channels_names_ok: "names_ok (concat (map (channel_entries s) [0 ..< n]))"
  using all_channel_names [of s n] by (auto simp: names_ok_def channel_entries_def)

lemma switch_names_ok: "fst (switchStateValues s w) = Inr sv \<Longrightarrow> names_ok sv"
proof -
  obtain n u where n: "sMaxSwitch s w = (n, u)" by force
  assume "fst (switchStateValues s w) = Inr sv"
  then have "fst (ask (state_entries (concat (map (channel_entries s) [0 ..< nat n]))) (\<lambda>sv. ret (Inr sv)) u) = (Inr sv :: goerror + states)"
    by (simp add: switchStateValues_def ask_apply [of "sMaxSwitch s"] n Let_def split: if_splits)
  then show ?thesis by (rule entries_names_ok [OF channels_names_ok])
qed

lemma typed_names: "fst (typed_states ty d w) = Inr sv \<Longrightarrow> names_ok sv"
proof (cases ty)
  case SwitchType
  then show "fst (typed_states ty d w) = Inr sv \<Longrightarrow> names_ok sv"
    by (cases "asSwitch d") (simp add: typed_states_def names_ok_def, simp add: typed_states_def switch_names_ok)
next
  case (CustomType s)
  then show "fst (typed_states ty d w) = Inr sv \<Longrightarrow> names_ok sv" by (simp add: typed_states_def names_ok_def)
qed (simp only: typed_states_def Let_def DeviceType.case; erule typed_names_ok [rotated],
    (rule getter_names_ok | simp add: names_ok_def))+

text \<open>A \<open>DeviceState\<close> reply is well formed whatever the driver adds: every name occurs once, so a
  client may read it as a map; the entries the driver reports itself win over the getters (the last one,
  when it reports a name twice); everything else is what the getters of the device type answered, with
  those that failed left out; and there is a time stamp, the driver's own or the clock in UTC.\<close>

lemma device_state_reply:
  assumes "fst (deviceStateValues now ty d w) = Inr sv"
  defines "w1 \<equiv> snd (typed_states ty d w)"
  defines "extra \<equiv> fst (dvDeviceState d w1)" and "w2 \<equiv> snd (dvDeviceState d w1)"
  shows "distinct (map fst sv) \<and> (\<exists>built. fst (typed_states ty d w) = Inr built
    \<and> map_of sv = (map_of [(''TimeStamp'', VStr (format_utc (now w2)))] ++ map_of built) ++ map_of (rev extra))"
proof -
  obtain built where b: "fst (typed_states ty d w) = Inr built"
    and sv: "sv = stamped (format_utc (now w2)) (mergeStateValues built extra)"
    using assms(1) by (auto simp: deviceStateValues_def ask_apply case_prod_beta w1_def w2_def extra_def
        split: sum.splits)
  let ?m = "mergeStateValues built extra"
  note n = typed_names [OF b, unfolded names_ok_def]
  have d: "distinct (map fst ?m)" using n merge_names(2) by blast
  have m: "map_of ?m = map_of built ++ map_of (rev extra)" using n map_of_merge by blast
  have t: "map_of built ''TimeStamp'' = None" using n by (simp add: map_of_eq_None_iff)
  show ?thesis
  proof (cases "''TimeStamp'' \<in> fst ` set ?m")
    case True
    then obtain v where "map_of ?m ''TimeStamp'' = Some v"
      by (metis domD dom_map_of_conv_image_fst)
    then have "map_of sv = (map_of [(''TimeStamp'', VStr (format_utc (now w2)))] ++ map_of built) ++ map_of (rev extra)"
      using True m t by (auto simp: sv stamped_def fun_eq_iff map_add_def split: option.splits)
    then show ?thesis using b d True by (auto simp: sv stamped_def)
  next
    case False
    then have "map_of (rev extra) ''TimeStamp'' = None"
      using m by (metis (no_types, lifting) map_add_None map_of_eq_None_iff)
    then have "map_of sv = (map_of [(''TimeStamp'', VStr (format_utc (now w2)))] ++ map_of built) ++ map_of (rev extra)"
      using False m t by (auto simp: sv stamped_def fun_eq_iff map_add_def split: option.splits)
    then show ?thesis using b d False by (auto simp: sv stamped_def)
  qed
qed

text \<open>A safety monitor whose driver reports its own \<open>IsSafe\<close>.\<close>

definition overriding_monitor :: "(base_device \<times> time) device" where
  "overriding_monitor = BaseDevice\<lparr>dvDeviceState := ret [(''IsSafe'', VBool False)],
     asSafetyMonitor := Some \<lparr>smIsSafe = ret True\<rparr>\<rparr>"

lemma device_state_reply_witness:
  "\<forall>b. \<exists>sv. fst (deviceStateValues snd SafetyMonitorType overriding_monitor (b, 0)) = Inr sv
     \<and> map_of sv ''IsSafe'' = Some (VBool False) \<and> map_of sv ''TimeStamp'' = Some (VStr (format_utc 0))"
proof
  fix b
  have t: "typed_states SafetyMonitorType overriding_monitor (b, 0) = (Inr [(''IsSafe'', VBool True)], (b, 0))"
    by (simp add: typed_states_def overriding_monitor_def ask_apply val_def appendIfOK_def)
  have e: "dvDeviceState overriding_monitor (b, 0) = ([(''IsSafe'', VBool False)], (b, 0))"
    by (simp add: overriding_monitor_def)
  obtain sv where sv: "fst (deviceStateValues snd SafetyMonitorType overriding_monitor (b, 0)) = Inr sv"
    by (simp add: deviceStateValues_def ask_apply t e)
  from device_state_reply [OF sv]
  show "\<exists>sv. fst (deviceStateValues snd SafetyMonitorType overriding_monitor (b, 0)) = Inr sv
     \<and> map_of sv ''IsSafe'' = Some (VBool False) \<and> map_of sv ''TimeStamp'' = Some (VStr (format_utc 0))"
    using sv by (auto simp: t e)
qed

end
