(* ===== verification/Router_Spec.thy ===== *)
theory Router_Spec
  imports Router Device_State
begin

text \<open>
  What the front end guarantees for every device.  The gates of \<open>handleGet\<close> and \<open>handlePut\<close> need no
  hypothesis on the device; that a refused request has no effect rests on the contract \<open>served_device\<close>,
  which the typed driver contracts give and the simulated devices satisfy.
\<close>

section \<open>The gates\<close>

definition accepted :: "response \<Rightarrow> bool" where
  "accepted r \<longleftrightarrow> (case r of Json e \<Rightarrow> ErrorNumber e = 0 | _ \<Rightarrow> False)"

lemma refused_writeMethod: "\<not> accepted (writeMethod e c s) \<Longrightarrow> e \<noteq> None"
  by (cases e) (simp_all add: accepted_def writeMethod_def ErrorNumberFor_def)

lemma accepted_writeValue: "accepted (writeValue (Inr v) c s)"
  by (simp add: accepted_def writeValue_def)

text \<open>C21: A disconnected device is out of reach.  For every device, every member that is not one of the
  ten connection and introspection members is answered with NotConnected, on GET and on PUT, and all
  the server does with the device is to ask it whether it is connected.\<close>

theorem not_connected_gate:
  assumes "dvConnected d w = (False, w')" "member \<notin> set connectionExemptMembers"
  shows "handleGet env accept ty member d p stx w
      = (writeValue (Inl ErrNotConnected) (clientTransactionID p) stx, w')
    \<and> handlePut ty member d p stx w = (writeMethod (Some ErrNotConnected) (clientTransactionID p) stx, w')"
  using assms by (simp add: handleGet_def handlePut_def connection_gate_def ask_apply Let_def)

text \<open>A device as \<open>NewTelescope\<close> and its siblings make it: identity set, not connected.\<close>

definition some_base :: base_device where
  "some_base = \<lparr>ID = ''goalpaca-sim-telescope-1'', bdName = ''Alpaca Telescope Simulator'',
     Desc = ''goalpaca simulated telescope'', Info = ''goalpaca sim'', Version = ''1.0'', IfaceVer = 4,
     Instance = [], bdConnected = False, connectOp = new_op\<rparr>"

theorem not_connected_gate_witness:
  "\<forall>p stx. handlePut TelescopeType ''park'' BaseDevice p stx (some_base, 3 :: nat)
    = (writeMethod (Some ErrNotConnected) (clientTransactionID p) stx, (some_base, 3))"
proof -
  have "dvConnected BaseDevice (some_base, 3 :: nat) = (False, (some_base, 3))"
    by (simp add: on_fst_apply some_base_def)
  then show ?thesis using not_connected_gate [of BaseDevice "(some_base, 3 :: nat)" _ "''park''"]
    by (simp add: connectionExemptMembers_def)
qed

text \<open>C22: A busy device can only be stopped.  While a connected device reports busy, a PUT that is neither
  a connection member, nor one of the eight interrupts, nor one of the four vendor commands is refused
  with InvalidOperation before the device sees it; the interrupts, the connection members and every
  GET go through as if it were idle.\<close>

theorem busy_gate_stops:
  assumes "dvConnected d w = (True, w1)" "asBusyable d = Some busy" "busy w1 = (True, w2)"
    "member \<notin> set connectionExemptMembers"
  shows "(if member \<in> set interruptMembers \<or> member \<in> set passthroughMembers
      then handlePut ty member d p stx w = handlePut ty member (d\<lparr>asBusyable := None\<rparr>) p stx w
      else handlePut ty member d p stx w
        = (writeMethod (Some ErrInvalidOperation) (clientTransactionID p) stx, w2))
    \<and> handleGet env accept ty member d p stx w
        = handleGet env accept ty member (d\<lparr>asBusyable := None\<rparr>) p stx w"
proof -
  let ?d = "d\<lparr>asBusyable := None\<rparr>"
  have ty: "typed_states ty ?d = typed_states ty d" "typeGet ty member ?d p = typeGet ty member d p"
    "typePut ty member ?d p = typePut ty member d p"
    by (cases ty; simp add: typed_states_def typeGet_def typePut_def)+
  have sel: "dvDeviceState ?d = dvDeviceState d" "asConnectErrorReporter ?d = asConnectErrorReporter d"
    "dvConnect ?d = dvConnect d" "dvDisconnect ?d = dvDisconnect d" "dvConnecting ?d = dvConnecting d"
    "dvConnected ?d = dvConnected d" "dvText ?d = dvText d" "dvInterfaceVersion ?d = dvInterfaceVersion d"
    "dvSupportedActions ?d = dvSupportedActions d" "dvCommandBlind ?d = dvCommandBlind d"
    "dvAction ?d = dvAction d" "dvCommandString ?d = dvCommandString d" "dvCommandBool ?d = dvCommandBool d"
    "asCamera ?d = asCamera d"
    by simp_all
  have same: "deviceStateValues now ty ?d = deviceStateValues now ty d" "deviceGet member ?d = deviceGet member d"
    "devicePut member ?d p = devicePut member d p" "devicePutValue member ?d p = devicePutValue member d p"
    "handleImage env accept ?d p stx = handleImage env accept d p stx" for now
    unfolding deviceStateValues_def ty deviceGet_def connecting_member_def devicePut_def devicePutValue_def
      handleImage_def sel
    by (rule refl)+
  have get: "dispatchGet env accept ty member ?d p stx = dispatchGet env accept ty member d p stx"
    and put: "dispatchPut ty member ?d p stx = dispatchPut ty member d p stx"
    unfolding dispatchGet_def dispatchPut_def same ty by (rule refl)+
  show ?thesis using assms
    by (simp add: handleGet_def handlePut_def connection_gate_def busy_gate_def ask_apply get put)
qed

theorem busy_gate_stops_witness:
  "\<forall>p stx. handlePut TelescopeType ''park'' (BaseDevice\<lparr>asBusyable := Some (ret True)\<rparr>) p stx
      (some_base\<lparr>bdConnected := True\<rparr>, 3 :: nat)
    = (writeMethod (Some ErrInvalidOperation) (clientTransactionID p) stx, (some_base\<lparr>bdConnected := True\<rparr>, 3))"
proof -
  let ?d = "BaseDevice\<lparr>asBusyable := Some (ret True)\<rparr>" and ?w = "(some_base\<lparr>bdConnected := True\<rparr>, 3 :: nat)"
  have "dvConnected ?d ?w = (True, ?w)" by (simp add: on_fst_apply)
  then show ?thesis using busy_gate_stops [of ?d ?w ?w "ret True" ?w "''park''"]
    by (simp add: connectionExemptMembers_def interruptMembers_def passthroughMembers_def)
qed

section \<open>Refused requests have no effect\<close>

lemma connection_gate_quiet: "quiet view (dvConnected d) \<Longrightarrow> quiet view (connection_gate member d)"
  by (simp add: connection_gate_def)

text \<open>The contract of a device registered under a type.\<close>

locale served_device = device_driver d view
  for d :: "'w device" and view :: "'w \<Rightarrow> 'v" +
  fixes ty :: DeviceType
  assumes type_put: "typePut ty member d p = Some a \<Longrightarrow> blocked view a"
    and type_get: "typeGet ty member d p = Some r \<Longrightarrow> quiet view r"
    and type_states: "quiet view (typed_states ty d)"
    and image_ready: "ty = CameraType \<Longrightarrow> asCamera d = Some c \<Longrightarrow> quiet view (cFlag c CImageReady)"
    and image_frame: "ty = CameraType \<Longrightarrow> asCamera d = Some c \<Longrightarrow> quiet view (cImageFrame c)"
begin

lemma states_quiet: "quiet view (deviceStateValues now ty d)"
  unfolding deviceStateValues_def
  by (intro quiet_ask [OF type_states] quiet_case quiet_ret quiet_ask [OF state_quiet])
    (simp add: quiet_def)

lemma handleImage_quiet: "ty = CameraType \<Longrightarrow> quiet view (handleImage env accept d p stx)"
  unfolding handleImage_def
  by (auto split: option.split intro!: quiet_ask image_ready image_frame)

lemma dispatchGet_quiet: "quiet view (dispatchGet env accept ty member d p stx)"
  unfolding dispatchGet_def Let_def
  by (auto split: option.split intro!: quiet_ask
      intro: handleImage_quiet states_quiet deviceGet_quiet type_get)

lemma handleGet_quiet: "quiet view (handleGet env accept ty member d p stx)"
  unfolding handleGet_def
  by (intro quiet_ask quiet_if quiet_ret connection_gate_quiet connected_quiet dispatchGet_quiet)

lemma busy_gate_quiet: "quiet view (busy_gate member d)"
  unfolding busy_gate_def by (auto split: option.split intro: busy_quiet)

lemma dispatchPut_refused:
  assumes "\<not> accepted (fst (dispatchPut ty member d p stx w))"
  shows "view (snd (dispatchPut ty member d p stx w)) = view w"
proof -
  consider (result) r where "devicePutValue member d p = Some r"
    | (common) a where "devicePutValue member d p = None" "devicePut member d p = Some a"
    | (typed) a where "devicePutValue member d p = None" "devicePut member d p = None"
        "typePut ty member d p = Some a"
    | (unknown) "devicePutValue member d p = None" "devicePut member d p = None" "typePut ty member d p = None"
    by (cases "devicePutValue member d p"; cases "devicePut member d p"; cases "typePut ty member d p") auto
  then show ?thesis
  proof cases
    case result
    then obtain e where "fst (r w) = Inl e"
      using assms by (cases "fst (r w)")
        (auto simp: dispatchPut_def ask_apply case_prod_beta accepted_writeValue)
    then show ?thesis using devicePutValue_blocked [OF result] result
      by (simp add: dispatchPut_def ask_apply case_prod_beta blockedV_def)
  next
    case common
    have "fst (a w) \<noteq> None"
      using assms common refused_writeMethod by (simp only: dispatchPut_def Let_def option.case ask_apply case_prod_beta ret_apply fst_conv) blast
    then show ?thesis using devicePut_blocked [OF common(2)] common
      by (simp add: dispatchPut_def ask_apply case_prod_beta blocked_def)
  next
    case typed
    have "fst (a w) \<noteq> None"
      using assms typed refused_writeMethod by (simp only: dispatchPut_def Let_def option.case ask_apply case_prod_beta ret_apply fst_conv) blast
    then show ?thesis using type_put [OF typed(3)] typed
      by (simp add: dispatchPut_def ask_apply case_prod_beta blocked_def)
  next
    case unknown
    then show ?thesis by (simp add: dispatchPut_def)
  qed
qed

lemma handlePut_refused:
  assumes "\<not> accepted (fst (handlePut ty member d p stx w))"
  shows "view (snd (handlePut ty member d p stx w)) = view w"
proof -
  obtain go w1 where g: "connection_gate member d w = (go, w1)" by force
  obtain busy w2 where b: "busy_gate member d w1 = (busy, w2)" by force
  have "view w1 = view w" using quietD' [OF connection_gate_quiet [OF connected_quiet] g] .
  moreover have "view w2 = view w1" using quietD' [OF busy_gate_quiet b] .
  ultimately show ?thesis using assms dispatchPut_refused [of member p stx w2]
    by (cases go; cases busy) (auto simp: handlePut_def ask_apply g b)
qed

end

end
