(* ===== verification/Sim_Camera.thy ===== *)
theory Sim_Camera
  imports Sim_World Camera
begin

text \<open>
  The simulated camera (\<open>sim/camera.go\<close>): binning, subframe, gain, offset and cooler settings, and an
  exposure whose progress is computed from the clock on read.  The frame is a horizontal 16-bit
  gradient of the geometry captured when the exposure started.
\<close>

section \<open>State\<close>

record sim_camera =
  binX :: int
  binY :: int
  startX :: int
  startY :: int
  numX :: int
  numY :: int
  gain :: int
  offset :: int
  coolerOn :: bool
  setpoint :: f64
  startTime :: time
  readyAt :: time
  lastDuration :: f64
  lastStartTime :: string
  hasExposure :: bool
  exposing :: bool
  expW :: int
  expH :: int

type_synonym cworld = "sim_camera world"

definition NewCamera :: sim_camera where
  "NewCamera = \<lparr>binX = 1, binY = 1, startX = 0, startY = 0, numX = 1936, numY = 1096, gain = 100,
     offset = 10, coolerOn = False, setpoint = 0, startTime = zero_time, readyAt = zero_time,
     lastDuration = 0, lastStartTime = [], hasExposure = False, exposing = False, expW = 0, expH = 0\<rparr>"

section \<open>Exposure\<close>

definition cam_StartExposure :: "f64 \<Rightarrow> bool \<Rightarrow> cworld command" where
  "cam_StartExposure duration light w =
     (if duration < Fin (1 / 1000) \<or> duration > 3600 then (Some ErrInvalidValue, w)
      else let now = clock w; c = dev w in
        (None, w\<lparr>dev := c\<lparr>startTime := now,
           readyAt := now + int_of_f64 (duration * Fin 1000000000),
           lastDuration := duration, lastStartTime := format_date now, hasExposure := True,
           exposing := True, expW := numX c, expH := numY c\<rparr>\<rparr>))"

definition cam_StopExposure :: "time \<Rightarrow> sim_camera \<Rightarrow> sim_camera" where
  "cam_StopExposure now c =
     (let c = (if exposing c \<and> now < readyAt c
               then c\<lparr>readyAt := now, lastDuration := since_sec now (startTime c)\<rparr> else c)
      in c\<lparr>exposing := False\<rparr>)"

definition cam_AbortExposure :: "time \<Rightarrow> sim_camera \<Rightarrow> sim_camera" where
  "cam_AbortExposure now c =
     (let c = (if exposing c \<and> now < readyAt c then c\<lparr>hasExposure := False\<rparr> else c)
      in c\<lparr>exposing := False\<rparr>)"

definition cam_ImageReady :: "time \<Rightarrow> sim_camera \<Rightarrow> bool" where
  "cam_ImageReady now c \<longleftrightarrow> hasExposure c \<and> \<not> now < readyAt c"

definition cam_CameraState :: "time \<Rightarrow> sim_camera \<Rightarrow> CameraState" where
  "cam_CameraState now c = (if exposing c \<and> now < readyAt c then CameraExposing else CameraIdle)"

definition cam_PercentCompleted :: "time \<Rightarrow> sim_camera \<Rightarrow> int" where
  "cam_PercentCompleted now c =
     (if \<not> hasExposure c \<or> lastDuration c \<le> 0 then 0
      else if \<not> now < readyAt c then 100
      else (let elapsed = since_sec now (startTime c);
                pct = int_of_f64 ((elapsed / lastDuration c) * Fin 100);
                pct = (if pct < 0 then 0 else pct)
            in if pct > 100 then 100 else pct))"

definition cam_LastExposureDuration :: "time \<Rightarrow> sim_camera \<Rightarrow> goerror + f64" where
  "cam_LastExposureDuration now c =
     (if \<not> hasExposure c then Inl ErrValueNotSet else Inr (lastDuration c))"

definition cam_LastExposureStartTime :: "time \<Rightarrow> sim_camera \<Rightarrow> goerror + string" where
  "cam_LastExposureStartTime now c =
     (if \<not> hasExposure c then Inl ErrValueNotSet else Inr (lastStartTime c))"

section \<open>The frame\<close>

text \<open>\<open>make([]byte, n)\<close> panics when \<open>n\<close> is negative or larger than the address space (2^48 on
  amd64); \<open>PutUint16\<close> panics when fewer than two bytes follow the offset.\<close>

definition make_bytes :: "int \<Rightarrow> bytes option" where
  "make_bytes n = (if n < 0 \<or> n > 2 ^ 48 then None else Some (replicate (nat n) 0))"

definition PutUint16 :: "nat \<Rightarrow> 16 word \<Rightarrow> bytes \<Rightarrow> bytes option" where
  "PutUint16 off v buf =
     (if off + 2 \<le> length buf then Some (buf[off := ucast v, off + 1 := ucast (drop_bit 8 v)]) else None)"

text \<open>\<open>uint16((x * 65535) / w)\<close>.\<close>

definition gradient :: "int \<Rightarrow> nat \<Rightarrow> 16 word" where
  "gradient w x = word_of_int (quot64 (wrap64 (int x * 65535)) w)"

definition image_buffer :: "int \<Rightarrow> int \<Rightarrow> bytes option" where
  "image_buffer w h = Option.bind (make_bytes (wrap64 (w * h * 2)))
     (run_writes (\<lambda>(x, y) buf. PutUint16 ((y * nat w + x) * 2) (gradient w x) buf)
        [(x, y). x \<leftarrow> [0 ..< nat w], y \<leftarrow> [0 ..< nat h]])"

text \<open>The frame; a panic of the handler is an error value.\<close>

definition makeslice_panic :: goerror where
  "makeslice_panic = EOther (Text ''runtime error: makeslice: len out of range'')"

definition cam_ImageFrame :: "time \<Rightarrow> sim_camera \<Rightarrow> goerror + ImageFrame" where
  "cam_ImageFrame now c =
     (if \<not> hasExposure c \<or> now < readyAt c then Inl ErrInvalidOperation
      else case image_buffer (expW c) (expH c) of
        None \<Rightarrow> Inl makeslice_panic
      | Some buf \<Rightarrow> Inr \<lparr>Rank = 2, Width = expW c, Height = expH c, Planes = 0,
          ElementType = ImgInt32, TransmissionElementType = ImgUInt16, Pixels = buf\<rparr>)"

section \<open>Cooling\<close>

definition cam_CCDTemperature :: "time \<Rightarrow> sim_camera \<Rightarrow> f64" where
  "cam_CCDTemperature now c =
     (let target = (if coolerOn c then setpoint c else 20);
          elapsed = (if startTime c = zero_time then 5 else since_sec now (startTime c));
          frac = elapsed / 5;
          frac = (if frac < 0 then 0 else frac);
          frac = (if frac > 1 then 1 else frac)
      in 20 + (target - 20) * frac)"

definition cam_SetSetCCDTemperature :: "f64 \<Rightarrow> cworld command" where
  "cam_SetSetCCDTemperature v w =
     (if v < Fin (-27315 / 100) \<or> v > 30 then (Some ErrInvalidValue, w)
      else (None, w\<lparr>dev := (dev w)\<lparr>setpoint := v\<rparr>\<rparr>))"

section \<open>The instance of the interface\<close>

fun cam_flag_read :: "cam_flag \<Rightarrow> (cworld, bool) act" where
  "cam_flag_read CCanStopExposure = ret True"
| "cam_flag_read CCanAbortExposure = ret True"
| "cam_flag_read CImageReady = reading as_is cam_ImageReady"
| "cam_flag_read CHasShutter = ret True"
| "cam_flag_read CCoolerOn = reading as_is (\<lambda>_. coolerOn)"
| "cam_flag_read CCanGetCoolerPower = ret True"
| "cam_flag_read CCanSetCCDTemperature = ret True"
| "cam_flag_read CCanGain = ret True"
| "cam_flag_read CCanOffset = ret True"
| "cam_flag_read _ = ret False"

fun cam_int_read :: "cam_int \<Rightarrow> (cworld, int) act" where
  "cam_int_read CCameraXSize = ret 1936"
| "cam_int_read CCameraYSize = ret 1096"
| "cam_int_read CMaxADU = ret 65535"
| "cam_int_read CBinX = reading as_is (\<lambda>_. binX)"
| "cam_int_read CBinY = reading as_is (\<lambda>_. binY)"
| "cam_int_read CMaxBinX = ret 4"
| "cam_int_read CMaxBinY = ret 4"
| "cam_int_read CStartX = reading as_is (\<lambda>_. startX)"
| "cam_int_read CStartY = reading as_is (\<lambda>_. startY)"
| "cam_int_read CNumX = reading as_is (\<lambda>_. numX)"
| "cam_int_read CNumY = reading as_is (\<lambda>_. numY)"
| "cam_int_read CPercentCompleted = reading as_is cam_PercentCompleted"
| "cam_int_read CGain = reading as_is (\<lambda>_. gain)"
| "cam_int_read CGainMin = ret 0"
| "cam_int_read CGainMax = ret 300"
| "cam_int_read COffset = reading as_is (\<lambda>_. offset)"
| "cam_int_read COffsetMin = ret 0"
| "cam_int_read COffsetMax = ret 100"
| "cam_int_read CReadoutMode = ret 0"

fun cam_float_read :: "cam_float \<Rightarrow> f64" where
  "cam_float_read CPixelSizeX = Fin (586 / 100)"
| "cam_float_read CPixelSizeY = Fin (586 / 100)"
| "cam_float_read CElectronsPerADU = Fin (1 / 4)"
| "cam_float_read CFullWellCapacity = 51000"
| "cam_float_read CExposureMin = Fin (1 / 1000)"
| "cam_float_read CExposureMax = 3600"
| "cam_float_read CExposureResolution = Fin (1 / 1000)"

fun cam_float_err_read :: "cam_float_err \<Rightarrow> (cworld, goerror + f64) act" where
  "cam_float_err_read CLastExposureDuration = reading as_is cam_LastExposureDuration"
| "cam_float_err_read CSubExposureDuration = ret (Inl ErrNotImplemented)"
| "cam_float_err_read CCCDTemperature = reading as_is (\<lambda>now c. Inr (cam_CCDTemperature now c))"
| "cam_float_err_read CHeatSinkTemperature = ret (Inr 20)"
| "cam_float_err_read CCoolerPower = reading as_is (\<lambda>_ c. Inr (if coolerOn c then 50 else 0))"
| "cam_float_err_read CSetCCDTemperature = reading as_is (\<lambda>_ c. Inr (setpoint c))"

fun cam_do :: "cam_cmd \<Rightarrow> cworld command" where
  "cam_do (SetBinX v) = updating (\<lambda>_ c. c\<lparr>binX := v\<rparr>)"
| "cam_do (SetBinY v) = updating (\<lambda>_ c. c\<lparr>binY := v\<rparr>)"
| "cam_do (SetStartX v) = updating (\<lambda>_ c. c\<lparr>startX := v\<rparr>)"
| "cam_do (SetStartY v) = updating (\<lambda>_ c. c\<lparr>startY := v\<rparr>)"
| "cam_do (SetNumX v) = updating (\<lambda>_ c. c\<lparr>numX := v\<rparr>)"
| "cam_do (SetNumY v) = updating (\<lambda>_ c. c\<lparr>numY := v\<rparr>)"
| "cam_do (SetGain v) = updating (\<lambda>_ c. c\<lparr>gain := v\<rparr>)"
| "cam_do (SetOffset v) = updating (\<lambda>_ c. c\<lparr>offset := v\<rparr>)"
| "cam_do (SetReadoutMode v) = pass"
| "cam_do (SetCoolerOn v) = updating (\<lambda>_ c. c\<lparr>coolerOn := v\<rparr>)"
| "cam_do (SetSetCCDTemperature v) = cam_SetSetCCDTemperature v"
| "cam_do (StartExposure duration light) = cam_StartExposure duration light"
| "cam_do StopExposure = updating cam_StopExposure"
| "cam_do AbortExposure = updating cam_AbortExposure"
| "cam_do _ = fail ErrNotImplemented"

definition SimCamera :: "cworld camera" where
  "SimCamera = \<lparr>cFlag = cam_flag_read, cInt = cam_int_read, cFloat = (\<lambda>x. ret (cam_float_read x)),
     cFloatErr = cam_float_err_read, cBayer = (\<lambda>_. ret (Inl ErrNotImplemented)),
     cList = (\<lambda>_. ret (Inl ErrNotImplemented)), cSensorName = ret ''SimSensor'',
     cSensorType = ret SensorMonochrome, cCameraState = reading as_is cam_CameraState,
     cLastExposureStartTime = reading as_is cam_LastExposureStartTime,
     cReadoutModes = ret [''Default''], cFastReadout = ret (Inl ErrNotImplemented),
     cExposureError = None, cImageFrame = reading as_is cam_ImageFrame, cDo = cam_do\<rparr>"

text \<open>No getter settles anything: a client observes the clock and the state itself.\<close>

abbreviation cam_view :: "cworld \<Rightarrow> time \<times> sim_camera" where
  "cam_view \<equiv> observe as_is"

lemma cam_do_blocked: "blocked cam_view (cam_do k)"
  by (cases k) (simp_all add: blocked_def cam_StartExposure_def cam_SetSetCCDTemperature_def Let_def)

interpretation sim_cam: camera_driver SimCamera cam_view
proof
  show "quiet cam_view (cFlag SimCamera f)" for f by (cases f) (simp_all add: SimCamera_def)
  show "quiet cam_view (cInt SimCamera i)" for i by (cases i) (simp_all add: SimCamera_def)
  show "quiet cam_view (cFloatErr SimCamera y)" for y by (cases y) (simp_all add: SimCamera_def)
qed (simp_all add: SimCamera_def cam_do_blocked)

end
