(* ===== verification/Sim_Rotator.thy ===== *)
theory Sim_Rotator
  imports Sim_World Movers
begin

text \<open>
  The simulated rotator (\<open>sim/rotator.go\<close>) and the arithmetic of angles that it shares with the dome:
  the position converges on the target along the shortest way round, at a fixed rate computed from
  the clock, and a sync offset separates the mechanical from the sky angle.
\<close>

section \<open>Angles\<close>

definition wrap360 :: "f64 \<Rightarrow> f64" where
  "wrap360 a = (let a = Mod a 360 in if a < 0 then a + 360 else a)"

definition shortestDelta :: "f64 \<Rightarrow> f64 \<Rightarrow> f64" where
  "shortestDelta from to =
     (let d = Mod (to - from) 360;
          d = (if d < -180 then d + 360 else d)
      in if d > 180 then d - 360 else d)"

text \<open>The rational numbers behind them.\<close>

definition wrap_rat :: "rat \<Rightarrow> rat" where
  "wrap_rat r = (if rat_mod r 360 < 0 then rat_mod r 360 + 360 else rat_mod r 360)"

definition delta_rat :: "rat \<Rightarrow> rat \<Rightarrow> rat" where
  "delta_rat a b = (let d = rat_mod (b - a) 360 in
     if d < -180 then d + 360 else if d > 180 then d - 360 else d)"

lemma wrap360_Fin [simp]: "wrap360 (Fin r) = Fin (wrap_rat r)"
  by (simp add: wrap360_def wrap_rat_def)

lemma shortestDelta_Fin [simp]: "shortestDelta (Fin a) (Fin b) = Fin (delta_rat a b)"
  using rat_mod_bounds [of 360 "b - a"] by (simp add: shortestDelta_def delta_rat_def Let_def)

lemma wrap_rat_range: "0 \<le> wrap_rat r \<and> wrap_rat r < 360"
  using rat_mod_bounds [of 360 r] by (auto simp: wrap_rat_def)

lemma wrap_rat_id: "0 \<le> r \<Longrightarrow> r < 360 \<Longrightarrow> wrap_rat r = r"
  by (simp add: wrap_rat_def rat_mod_id)

lemma rat_mod_turns: "\<exists>k::int. rat_mod x 360 = x + 360 * of_int k"
proof -
  have "rat_mod x 360 = x + 360 * of_int (- rat_trunc (x / 360))" by (simp add: rat_mod_def)
  then show ?thesis by blast
qed

lemma shift_turn:
  fixes x y :: rat
  assumes "x = y + 360 * of_int k"
  shows "x + 360 = y + 360 * of_int (k + 1)" "x - 360 = y + 360 * of_int (k - 1)"
  using assms by (simp_all add: algebra_simps)

lemma wrap_rat_turns: "\<exists>k::int. wrap_rat r = r + 360 * of_int k"
  using rat_mod_turns [of r] shift_turn unfolding wrap_rat_def by metis

lemma delta_rat_turns: "\<exists>k::int. delta_rat a b = (b - a) + 360 * of_int k"
  using rat_mod_turns [of "b - a"] shift_turn unfolding delta_rat_def Let_def by metis

text \<open>Two angles that differ by whole turns and both lie in [0, 360) are the same.\<close>

lemma turns_unique:
  fixes x y :: rat
  assumes "x = y + 360 * of_int k" "0 \<le> x" "x < 360" "0 \<le> y" "y < 360"
  shows "x = y"
proof -
  have "\<bar>360 * (of_int k :: rat)\<bar> < 360 * of_int 1" using assms by auto
  then have "\<bar>of_int k :: rat\<bar> < of_int 1" by (simp add: abs_mult)
  then have "k = 0" by (simp flip: of_int_abs)
  then show ?thesis using assms(1) by simp
qed

lemma wrap_rat_cong: "x = y + 360 * of_int k \<Longrightarrow> wrap_rat x = wrap_rat y"
proof -
  assume e: "x = y + 360 * of_int k"
  obtain i j where "wrap_rat x = x + 360 * of_int i" "wrap_rat y = y + 360 * of_int j"
    using wrap_rat_turns by metis
  then have "wrap_rat x = wrap_rat y + 360 * of_int (k + i - j)" using e by (simp add: algebra_simps)
  then show ?thesis using wrap_rat_range turns_unique by blast
qed

lemma wrap_rat_plus [simp]: "wrap_rat (wrap_rat x + y) = wrap_rat (x + y)" "wrap_rat (wrap_rat x) = wrap_rat x"
proof -
  obtain k where k: "wrap_rat x = x + 360 * of_int k" using wrap_rat_turns by blast
  show "wrap_rat (wrap_rat x + y) = wrap_rat (x + y)"
    by (rule wrap_rat_cong [of _ _ k]) (simp add: k)
  show "wrap_rat (wrap_rat x) = wrap_rat x" using wrap_rat_range by (simp add: wrap_rat_id)
qed

text \<open>The shortest way: at most half a turn, it ends on the target, and no way there is shorter.\<close>

lemma delta_rat_range: "- 180 \<le> delta_rat a b \<and> delta_rat a b \<le> 180"
  using rat_mod_bounds [of 360 "b - a"] by (auto simp: delta_rat_def Let_def)

lemma delta_rat_ends: "wrap_rat (a + delta_rat a b) = wrap_rat b"
proof -
  obtain k where "delta_rat a b = (b - a) + 360 * of_int k" using delta_rat_turns by blast
  then show ?thesis by (intro wrap_rat_cong [of _ _ k]) simp
qed

lemma delta_rat_shortest: "\<bar>delta_rat a b\<bar> \<le> \<bar>b - a + 360 * of_int k\<bar>"
proof -
  obtain i where i: "delta_rat a b = (b - a) + 360 * of_int i" using delta_rat_turns by blast
  show ?thesis
  proof (cases "k = i")
    case False
    then have "1 \<le> \<bar>k - i\<bar>" by linarith
    then have "(1::rat) \<le> \<bar>of_int (k - i)\<bar>" by (metis of_int_1_le_iff of_int_abs)
    then have "360 \<le> \<bar>360 * (of_int (k - i) :: rat)\<bar>" by (simp add: abs_mult)
    moreover have "b - a + 360 * of_int k = delta_rat a b + 360 * of_int (k - i)"
      using i by (simp add: algebra_simps)
    ultimately show ?thesis using delta_rat_range [of a b] by linarith
  qed (simp add: i)
qed

lemma delta_rat_zero: "0 \<le> a \<Longrightarrow> a < 360 \<Longrightarrow> 0 \<le> b \<Longrightarrow> b < 360 \<Longrightarrow> delta_rat a b = 0 \<longleftrightarrow> a = b"
proof
  assume "0 \<le> a" "a < 360" "0 \<le> b" "b < 360" "delta_rat a b = 0"
  then show "a = b" using delta_rat_ends [of a b] by (simp add: wrap_rat_id)
next
  show "a = b \<Longrightarrow> delta_rat a b = 0" by (simp add: delta_rat_def rat_mod_def rat_trunc_def)
qed

section \<open>State and motion\<close>

record sim_rotator =
  rotRate :: f64
  canReverse :: bool
  reverse_flag :: bool
  syncOffset :: f64
  rotStart :: f64
  rotTarget :: f64
  rotStartTime :: time
  rotMoving :: bool

type_synonym rworld = "sim_rotator world"

definition NewRotator :: sim_rotator where
  "NewRotator = \<lparr>rotRate = 3, canReverse = True, reverse_flag = False, syncOffset = 0, rotStart = 0,
     rotTarget = 0, rotStartTime = zero_time, rotMoving = False\<rparr>"

definition WithRotationRate :: "f64 \<Rightarrow> sim_rotator \<Rightarrow> sim_rotator" where
  "WithRotationRate degPerSec r = r\<lparr>rotRate := degPerSec\<rparr>"

text \<open>The present mechanical angle, and the state settled on arrival.\<close>

definition currentMechanicalLocked :: "time \<Rightarrow> sim_rotator \<Rightarrow> f64 \<times> sim_rotator" where
  "currentMechanicalLocked now r =
     (if \<not> rotMoving r then (rotStart r, r)
      else
        (let dist = shortestDelta (rotStart r) (rotTarget r);
             traveled = since_sec now (rotStartTime r) * rotRate r
         in if traveled \<ge> \<bar>dist\<bar>
            then (let r = r\<lparr>rotStart := rotTarget r, rotMoving := False\<rparr> in (rotStart r, r))
            else (wrap360 (rotStart r + Copysign traveled dist), r)))"

definition beginMoveLocked :: "f64 \<Rightarrow> time \<Rightarrow> sim_rotator \<Rightarrow> sim_rotator" where
  "beginMoveLocked targetMech now r =
     (let (v, r) = currentMechanicalLocked now r;
          r = r\<lparr>rotStart := v, rotTarget := wrap360 targetMech, rotStartTime := now\<rparr>
      in r\<lparr>rotMoving := (\<not> eq64 (shortestDelta (rotStart r) (rotTarget r)) 0)\<rparr>)"

definition rot_Position :: "time \<Rightarrow> sim_rotator \<Rightarrow> f64 \<times> sim_rotator" where
  "rot_Position now r = (case currentMechanicalLocked now r of (v, r) \<Rightarrow> (wrap360 (v + syncOffset r), r))"

definition rot_IsMoving :: "time \<Rightarrow> sim_rotator \<Rightarrow> bool \<times> sim_rotator" where
  "rot_IsMoving now r = (case currentMechanicalLocked now r of (_, r) \<Rightarrow> (rotMoving r, r))"

definition rot_TargetPosition :: "sim_rotator \<Rightarrow> f64" where
  "rot_TargetPosition r = wrap360 (rotTarget r + syncOffset r)"

definition rot_Halt :: "time \<Rightarrow> sim_rotator \<Rightarrow> sim_rotator" where
  "rot_Halt now r = (case currentMechanicalLocked now r of (v, r) \<Rightarrow>
     r\<lparr>rotStart := v, rotTarget := v, rotMoving := False\<rparr>)"

definition rot_MoveAbsolute :: "f64 \<Rightarrow> time \<Rightarrow> sim_rotator \<Rightarrow> sim_rotator" where
  "rot_MoveAbsolute position now r = beginMoveLocked (position - syncOffset r) now r"

definition rot_Move :: "f64 \<Rightarrow> rworld command" where
  "rot_Move relative w =
     (if relative \<le> -360 \<or> relative \<ge> 360 then (Some ErrInvalidValue, w)
      else updating (\<lambda>now r. case currentMechanicalLocked now r of (v, r) \<Rightarrow>
             beginMoveLocked (v + relative) now r) w)"

definition rot_Sync :: "f64 \<Rightarrow> time \<Rightarrow> sim_rotator \<Rightarrow> sim_rotator" where
  "rot_Sync position now r = (case currentMechanicalLocked now r of (v, r) \<Rightarrow>
     r\<lparr>syncOffset := wrap360 (position - v)\<rparr>)"

fun rot_flag_read :: "rot_flag \<Rightarrow> (rworld, bool) act" where
  "rot_flag_read RCanReverse = reading as_is (\<lambda>_. canReverse)"
| "rot_flag_read RIsMoving = stepping rot_IsMoving"
| "rot_flag_read RReverse = reading as_is (\<lambda>_. reverse_flag)"

fun rot_float_read :: "rot_float \<Rightarrow> (rworld, f64) act" where
  "rot_float_read RMechanicalPosition = stepping currentMechanicalLocked"
| "rot_float_read RPosition = stepping rot_Position"
| "rot_float_read RStepSize = reading as_is (\<lambda>_ r. rotRate r * Fin (1 / 4))"
| "rot_float_read RTargetPosition = reading as_is (\<lambda>_. rot_TargetPosition)"

fun rot_do :: "rot_cmd \<Rightarrow> rworld command" where
  "rot_do (SetReverse v) = updating (\<lambda>_ r. r\<lparr>reverse_flag := v\<rparr>)"
| "rot_do RHalt = updating rot_Halt"
| "rot_do (RMove x) = rot_Move x"
| "rot_do (RMoveAbsolute x) = updating (rot_MoveAbsolute x)"
| "rot_do (RMoveMechanical x) = updating (beginMoveLocked x)"
| "rot_do (RSync x) = updating (rot_Sync x)"

definition SimRotator :: "rworld rotator" where
  "SimRotator = \<lparr>rFlag = rot_flag_read, rFloat = rot_float_read, rDo = rot_do\<rparr>"

section \<open>The driver contract\<close>

text \<open>A client observes the clock and the settled state.\<close>

definition rot_norm :: "time \<Rightarrow> sim_rotator \<Rightarrow> sim_rotator" where
  "rot_norm now r = snd (currentMechanicalLocked now r)"

definition rot_arrived :: "time \<Rightarrow> sim_rotator \<Rightarrow> bool" where
  "rot_arrived now r \<longleftrightarrow>
     \<bar>shortestDelta (rotStart r) (rotTarget r)\<bar> \<le> since_sec now (rotStartTime r) * rotRate r"

lemma rot_norm_eq:
  "rot_norm now r =
     (if rotMoving r \<and> rot_arrived now r then r\<lparr>rotStart := rotTarget r, rotMoving := False\<rparr> else r)"
  by (simp add: rot_norm_def currentMechanicalLocked_def rot_arrived_def Let_def)

lemma snd_current: "snd (currentMechanicalLocked now r) = rot_norm now r"
  by (simp add: rot_norm_def)

lemma rot_norm_norm [simp]: "rot_norm now (rot_norm now r) = rot_norm now r"
  by (simp add: rot_norm_eq)

lemma snd_reads:
  "snd (rot_Position now r) = rot_norm now r" "snd (rot_IsMoving now r) = rot_norm now r"
  by (simp_all add: rot_Position_def rot_IsMoving_def rot_norm_def split: prod.split)

lemma rot_do_blocked: "blocked (observe rot_norm) (rot_do c)"
  by (cases c) (simp_all add: rot_Move_def blocked_def)

interpretation sim_rot: rotator_driver SimRotator "observe rot_norm"
proof
  show "quiet (observe rot_norm) (rFlag SimRotator b)" for b
    by (cases b) (simp_all add: SimRotator_def quiet_stepping snd_reads)
  show "quiet (observe rot_norm) (rFloat SimRotator x)" for x
    by (cases x) (simp_all add: SimRotator_def quiet_stepping snd_reads snd_current)
qed (simp add: SimRotator_def rot_do_blocked)

section \<open>The invariant\<close>

definition rot_ok :: "time \<Rightarrow> sim_rotator \<Rightarrow> bool" where
  "rot_ok now r \<longleftrightarrow> angle_ok (rotStart r) \<and> angle_ok (rotTarget r) \<and> angle_ok (syncOffset r)
     \<and> finite64 (rotRate r) \<and> rotRate r > 0 \<and> rotStartTime r \<le> now"

lemma rot_ok_New: "0 \<le> now \<Longrightarrow> rot_ok now NewRotator"
  by (simp add: rot_ok_def NewRotator_def zero_time_def)

lemma rot_ok_later: "rot_ok now r \<Longrightarrow> now \<le> now' \<Longrightarrow> rot_ok now' r"
  by (simp add: rot_ok_def)

lemma rot_okE:
  assumes "rot_ok now r"
  obtains s t o' v where "rotStart r = Fin s" "0 \<le> s" "s < 360" "rotTarget r = Fin t" "0 \<le> t" "t < 360"
    "syncOffset r = Fin o'" "0 \<le> o'" "o' < 360" "rotRate r = Fin v" "0 < v" "rotStartTime r \<le> now"
  using assms by (auto simp: rot_ok_def angle_ok_iff finite64_iff)

lemma wrap360_ok: "angle_ok (wrap360 (Fin r))"
  using wrap_rat_range by simp

lemma rot_current_ok:
  assumes "rot_ok now r"
  shows "angle_ok (fst (currentMechanicalLocked now r))" "rot_ok now (snd (currentMechanicalLocked now r))"
proof -
  show "angle_ok (fst (currentMechanicalLocked now r))"
    using assms wrap_rat_range by (elim rot_okE) (simp add: currentMechanicalLocked_def Let_def)
  show "rot_ok now (snd (currentMechanicalLocked now r))"
    using assms by (simp add: snd_current rot_norm_eq rot_ok_def)
qed

lemma beginMove_ok: "rot_ok now r \<Longrightarrow> rot_ok now (beginMoveLocked (Fin x) now r)"
  using rot_current_ok [of now r] wrap_rat_range
  by (cases "currentMechanicalLocked now r") (simp add: beginMoveLocked_def Let_def rot_ok_def)

lemma moves_ok:
  assumes "rot_ok now r"
  shows "rot_ok now (rot_Halt now r)" "rot_ok now (rot_MoveAbsolute (Fin x) now r)"
    "rot_ok now (rot_Sync (Fin x) now r)"
    "rot_ok now (case currentMechanicalLocked now r of (v, r) \<Rightarrow> beginMoveLocked (v + Fin x) now r)"
    "rot_ok now (r\<lparr>reverse_flag := b\<rparr>)"
proof -
  obtain v r' where c: "currentMechanicalLocked now r = (Fin v, r')" "0 \<le> v" "v < 360" "rot_ok now r'"
    using rot_current_ok [OF assms] by (cases "currentMechanicalLocked now r") (auto simp: angle_ok_iff)
  then show "rot_ok now (rot_Halt now r)" "rot_ok now (rot_Sync (Fin x) now r)"
    using wrap_rat_range by (simp_all add: rot_Halt_def rot_Sync_def rot_ok_def)
  show "rot_ok now (rot_MoveAbsolute (Fin x) now r)"
    using assms beginMove_ok by (elim rot_okE) (simp add: rot_MoveAbsolute_def assms)
  show "rot_ok now (case currentMechanicalLocked now r of (v, r) \<Rightarrow> beginMoveLocked (v + Fin x) now r)"
    using c beginMove_ok by simp
  show "rot_ok now (r\<lparr>reverse_flag := b\<rparr>)" using assms by (simp add: rot_ok_def)
qed

abbreviation rinv :: "rworld \<Rightarrow> bool" where
  "rinv w \<equiv> rot_ok (clock w) (dev w)"

lemma rot_do_keeps: "rot_args_ok c \<Longrightarrow> keeps rinv (rot_do c)"
proof (cases c)
  case (RMove x)
  assume "rot_args_ok c"
  then show ?thesis using RMove moves_ok by (auto simp: keeps_def rot_Move_def finite64_iff)
qed (auto simp: angle_ok_iff moves_ok beginMove_ok intro!: keeps_updating)

interpretation sim_rot_inv: rotator_invariant SimRotator rinv
proof
  show "keeps rinv (rFlag SimRotator b)" for b
    by (cases b) (simp_all add: SimRotator_def keeps_reading keeps_stepping snd_reads rot_current_ok
        flip: snd_current)
qed (simp add: SimRotator_def rot_do_keeps)

section \<open>Properties\<close>

text \<open>Every request whose numbers are finite keeps the rotator's angles in [0, 360): resting and
  target angle, sync offset, and the mechanical and sky position it reports at any later time.\<close>

lemma rotator_angles_in_range:
  assumes "rotatorPut member SimRotator p = Some a" "finite_params p" "rot_ok (clock w) (dev w)"
    "clock (snd (a w)) \<le> later"
  shows "rot_ok later (dev (snd (a w)))
    \<and> angle_ok (fst (currentMechanicalLocked later (dev (snd (a w)))))
    \<and> angle_ok (fst (rot_Position later (dev (snd (a w)))))"
proof -
  have "rinv (snd (a w))" using sim_rot_inv.put_keeps [OF assms(1,2)] assms(3) by (simp add: keeps_def)
  then have k: "rot_ok later (dev (snd (a w)))" using assms(4) by (rule rot_ok_later)
  from rot_current_ok [OF this] show ?thesis using k wrap_rat_range
    by (cases "currentMechanicalLocked later (dev (snd (a w)))")
      (auto simp: rot_Position_def angle_ok_iff rot_ok_def)
qed

lemma no_params_finite: "finite_params (parseParams [] b s)"
  by (auto simp: finite_params_def req_defs get_def parseParams_def split: option.splits)

lemma rotator_angles_in_range_witness:
  "\<exists>a. rotatorPut ''halt'' SimRotator (parseParams [] True False) = Some a
     \<and> rot_ok 9 (dev (snd (a \<lparr>clock = 7, dev = NewRotator\<rparr>)))"
proof -
  let ?w = "\<lparr>clock = 7, dev = NewRotator\<rparr>"
  have a: "rotatorPut ''halt'' SimRotator (parseParams [] True False) = Some (updating rot_Halt)"
    by (simp add: rotatorPut_def SimRotator_def)
  then show ?thesis
    using rotator_angles_in_range [OF a no_params_finite, of ?w 9] rot_ok_New [of 7] by simp
qed

lemma delta_unique:
  assumes "y = (b - a) + 360 * of_int k" "\<bar>y\<bar> < 180"
  shows "delta_rat a b = y"
proof -
  obtain i where "delta_rat a b = (b - a) + 360 * of_int i" using delta_rat_turns by blast
  then have "delta_rat a b - y = 360 * of_int (i - k)" using assms(1) by (simp add: algebra_simps)
  moreover have "\<bar>delta_rat a b - y\<bar> < 360" using delta_rat_range [of a b] assms(2) by linarith
  ultimately have "\<bar>of_int (i - k) :: rat\<bar> < of_int 1" by (simp add: abs_mult)
  then have "i = k" by (simp flip: of_int_abs)
  then show ?thesis using assms(1) \<open>delta_rat a b = (b - a) + 360 * of_int i\<close> by simp
qed

text \<open>Going \<open>c\<close> along the shortest way leaves the rest of it.\<close>

lemma delta_rest:
  assumes "0 \<le> c" "c < \<bar>delta_rat a b\<bar>" "x = a + (if delta_rat a b < 0 then - c else c)" "c = 0 \<longrightarrow> 0 \<le> a \<and> a < 360"
  shows "\<bar>delta_rat (wrap_rat x) b\<bar> = \<bar>delta_rat a b\<bar> - c"
proof (cases "c = 0")
  case True
  then show ?thesis using assms by (simp add: wrap_rat_id)
next
  case False
  let ?d = "delta_rat a b"
  let ?y = "?d - (if ?d < 0 then - c else c)"
  obtain i where "?d = (b - a) + 360 * of_int i" using delta_rat_turns by blast
  moreover obtain j where "wrap_rat x = x + 360 * of_int j" using wrap_rat_turns by blast
  ultimately have "?y = (b - wrap_rat x) + 360 * of_int (i + j)" using assms(3) by (simp add: algebra_simps)
  moreover have "\<bar>?y\<bar> < 180" using False assms(1,2) delta_rat_range [of a b] by auto
  ultimately have "delta_rat (wrap_rat x) b = ?y" by (rule delta_unique)
  then show ?thesis using assms(1,2) by auto
qed

text \<open>C36: Moves converge.  After \<open>MoveAbsolute\<close> to a sky angle the angle still to go shrinks at exactly
  the rotation rate, along the shortest way round (never more than half a turn), reaches zero and stays
  there; \<open>IsMoving\<close> is the completion property, and on arrival \<open>Position\<close> is the requested angle,
  whatever the sync offset and whatever move was under way.\<close>

theorem MoveAbsolute_converges:
  assumes "rot_ok now r" "0 \<le> p" "p < 360" "now \<le> later" "rotRate r = Fin v"
  defines "r1 \<equiv> rot_MoveAbsolute (Fin p) now r"
  shows "\<exists>togo. \<bar>shortestDelta (fst (currentMechanicalLocked now r1)) (rotTarget r1)\<bar> = Fin togo \<and> togo \<le> 180
    \<and> \<bar>shortestDelta (fst (currentMechanicalLocked later r1)) (rotTarget r1)\<bar>
        = Fin (max 0 (togo - secs later now * v))
    \<and> (fst (rot_IsMoving later r1) \<longleftrightarrow> togo > secs later now * v)
    \<and> (\<not> fst (rot_IsMoving later r1) \<longrightarrow> fst (rot_Position later r1) = Fin p)"
proof -
  obtain m r' where c: "currentMechanicalLocked now r = (Fin m, r')" "0 \<le> m" "m < 360" "rot_ok now r'"
    using rot_current_ok [OF assms(1)] by (cases "currentMechanicalLocked now r") (auto simp: angle_ok_iff)
  have r': "r' = rot_norm now r" using c(1) snd_current [of now r] by simp
  have v: "0 < v" using assms(1,5) by (simp add: rot_ok_def)
  obtain o' where o': "syncOffset r = Fin o'" using assms(1) by (elim rot_okE)
  define t where "t = wrap_rat (p - o')"
  have t: "0 \<le> t" "t < 360" using wrap_rat_range by (simp_all add: t_def)
  define d where "d = delta_rat m t"
  have r1: "rotStart r1 = Fin m" "rotTarget r1 = Fin t" "rotStartTime r1 = now" "rotRate r1 = Fin v"
    "syncOffset r1 = Fin o'" "rotMoving r1 = (d \<noteq> 0)"
    using c(1) o' assms(5) by (simp_all add: r1_def rot_MoveAbsolute_def beginMoveLocked_def Let_def t_def
        d_def r' rot_norm_eq)
  let ?tr = "secs later now * v"
  have tr: "0 \<le> ?tr" using v secs_nonneg [OF assms(4)] by simp
  have d0: "d = 0 \<longleftrightarrow> m = t" using c(2,3) t by (simp add: d_def delta_rat_zero)
  have "fst (currentMechanicalLocked now r1) = Fin m"
    using r1 c(2,3) by (auto simp: currentMechanicalLocked_def Let_def wrap_rat_id simp flip: d_def)
  moreover have "\<bar>d\<bar> \<le> 180" using delta_rat_range [of m t] by (simp add: d_def abs_le_iff)
  moreover have "\<bar>shortestDelta (fst (currentMechanicalLocked later r1)) (rotTarget r1)\<bar> = Fin (max 0 (\<bar>d\<bar> - ?tr))"
  proof (cases "\<bar>d\<bar> \<le> ?tr")
    case True
    then have "fst (currentMechanicalLocked later r1) = Fin t"
      using r1 d0 by (auto simp: currentMechanicalLocked_def Let_def simp flip: d_def)
    then show ?thesis using True t r1 by (simp add: delta_rat_zero)
  next
    case False
    then have "fst (currentMechanicalLocked later r1) = Fin (wrap_rat (m + (if d < 0 then - ?tr else ?tr)))"
      using r1 tr by (auto simp: currentMechanicalLocked_def Let_def simp flip: d_def)
    then show ?thesis using delta_rest [of ?tr m t] False tr c(2,3) r1 by (simp add: d_def)
  qed
  moreover have "fst (rot_IsMoving later r1) \<longleftrightarrow> \<bar>d\<bar> > ?tr"
    using r1 tr by (auto simp: rot_IsMoving_def currentMechanicalLocked_def Let_def simp flip: d_def)
  moreover have "fst (rot_Position later r1) = Fin p" if "\<not> fst (rot_IsMoving later r1)"
  proof -
    have "\<bar>d\<bar> \<le> ?tr" using that calculation(4) by simp
    then have "currentMechanicalLocked later r1 = (Fin t, r1\<lparr>rotStart := Fin t, rotMoving := False\<rparr>)"
      using r1 d0 by (cases r1) (auto simp: currentMechanicalLocked_def Let_def simp flip: d_def)
    then show ?thesis using r1 assms(2,3) by (simp add: rot_Position_def t_def wrap_rat_id)
  qed
  ultimately show ?thesis using r1 by (intro exI [of _ "\<bar>d\<bar>"]) (simp flip: d_def)
qed

theorem MoveAbsolute_converges_witness:
  "\<exists>togo. \<bar>shortestDelta (fst (currentMechanicalLocked 5 (rot_MoveAbsolute (Fin 350) 5 NewRotator)))
      (rotTarget (rot_MoveAbsolute (Fin 350) 5 NewRotator))\<bar> = Fin togo \<and> togo \<le> 180"
  using MoveAbsolute_converges [of 5 NewRotator 350 "5 + ms 2000" 3] rot_ok_New [of 5]
  by (simp add: NewRotator_def ms_def) blast

text \<open>\<open>Sync\<close> calibrates without moving: the sky position reads as the angle given, the mechanical
  position and a move under way are as before, and the target moves along with the offset.\<close>

lemma Sync_sets_the_position:
  assumes "rot_ok now r" "0 \<le> p" "p < 360"
  defines "r1 \<equiv> rot_Sync (Fin p) now r"
  shows "fst (rot_Position now r1) = Fin p
    \<and> fst (currentMechanicalLocked now r1) = fst (currentMechanicalLocked now r)
    \<and> fst (rot_IsMoving now r1) = fst (rot_IsMoving now r) \<and> rotTarget r1 = rotTarget r
    \<and> (\<not> fst (rot_IsMoving now r1) \<and> rotTarget r = fst (currentMechanicalLocked now r)
         \<longrightarrow> rot_TargetPosition r1 = Fin p)"
proof -
  obtain m r' where c: "currentMechanicalLocked now r = (Fin m, r')" "0 \<le> m" "m < 360"
    using rot_current_ok [OF assms(1)] by (cases "currentMechanicalLocked now r") (auto simp: angle_ok_iff)
  have r': "r' = rot_norm now r" using c(1) snd_current [of now r] by simp
  have r1: "r1 = r'\<lparr>syncOffset := Fin (wrap_rat (p - m))\<rparr>" using c(1) by (simp add: r1_def rot_Sync_def)
  have "currentMechanicalLocked now r' = (Fin m, r')"
    using c(1) r' by (auto simp: currentMechanicalLocked_def rot_norm_eq rot_arrived_def Let_def split: if_splits)
  then have c1: "currentMechanicalLocked now r1 = (Fin m, r1)"
    by (cases r') (auto simp: r1 currentMechanicalLocked_def Let_def split: if_splits)
  have "wrap_rat (m + wrap_rat (p - m)) = p"
    using wrap_rat_plus(1) [of "p - m" m] assms(2,3) by (simp add: add.commute wrap_rat_id)
  then show ?thesis using c c1 r'
    by (simp add: rot_Position_def rot_IsMoving_def rot_TargetPosition_def r1 rot_norm_eq)
qed

lemma Sync_sets_the_position_witness:
  "fst (rot_Position 5 (rot_Sync (Fin 77) 5 NewRotator)) = Fin 77"
  using Sync_sets_the_position [of 5 NewRotator 77] rot_ok_New [of 5] by simp

text \<open>The documented interval of \<open>shortestDelta\<close>, (-180, 180], is one end too small: half a turn
  backwards comes out as -180.  Everything else the comment says holds: the value has magnitude at most
  180, leads from one angle to the other, and no other way there is shorter.\<close>

lemma shortestDelta_spec:
  "\<exists>d. shortestDelta (Fin a) (Fin b) = Fin d \<and> - 180 \<le> d \<and> d \<le> 180
     \<and> wrap360 (Fin a + Fin d) = wrap360 (Fin b)
     \<and> (\<forall>k::int. \<bar>d\<bar> \<le> \<bar>b - a + 360 * of_int k\<bar>)
     \<and> shortestDelta (Fin 180) (Fin 0) = Fin (-180)"
proof -
  have "\<lfloor>1 / 2 :: rat\<rfloor> = 0" by (simp add: floor_eq_iff)
  then have "delta_rat 180 0 = -180" by (simp add: delta_rat_def rat_mod_def rat_trunc_def)
  then show ?thesis using delta_rat_range [of a b] delta_rat_ends delta_rat_shortest by simp
qed

end
