(* ===== verification/Sim_Dome.thy ===== *)
theory Sim_Dome
  imports Sim_Rotator Dome_Cover
begin

text \<open>
  The simulated dome (\<open>sim/dome.go\<close>): azimuth along the shortest way round, altitude without wrap, both
  at a fixed rate computed from the clock, and a shutter whose opening or closing takes a second.
\<close>

section \<open>State and motion\<close>

record sim_dome =
  domeRate :: f64
  azStart :: f64
  azTarget :: f64
  azTime :: time
  azMoving :: bool
  altStart :: f64
  altTarget :: f64
  altTime :: time
  altMoving :: bool
  shutterState :: ShutterState
  shutterTarget :: ShutterState
  shutterTime :: time
  domeAtHome :: bool
  domeAtPark :: bool

type_synonym dworld = "sim_dome world"

definition NewDome :: sim_dome where
  "NewDome = \<lparr>domeRate = 5, azStart = 0, azTarget = 0, azTime = zero_time, azMoving = False, altStart = 0,
     altTarget = 0, altTime = zero_time, altMoving = False, shutterState = ShutterClosed,
     shutterTarget = ShutterClosed, shutterTime = zero_time, domeAtHome = False, domeAtPark = False\<rparr>"

definition WithDomeRate :: "f64 \<Rightarrow> sim_dome \<Rightarrow> sim_dome" where
  "WithDomeRate degPerSec d = d\<lparr>domeRate := degPerSec\<rparr>"

definition currentAzimuthLocked :: "time \<Rightarrow> sim_dome \<Rightarrow> f64 \<times> sim_dome" where
  "currentAzimuthLocked now d =
     (if \<not> azMoving d then (azStart d, d)
      else
        (let dist = shortestDelta (azStart d) (azTarget d);
             traveled = since_sec now (azTime d) * domeRate d
         in if traveled \<ge> \<bar>dist\<bar>
            then (let d = d\<lparr>azStart := azTarget d, azMoving := False\<rparr> in (azStart d, d))
            else (wrap360 (azStart d + Copysign traveled dist), d)))"

definition currentAltitudeLocked :: "time \<Rightarrow> sim_dome \<Rightarrow> f64 \<times> sim_dome" where
  "currentAltitudeLocked now d =
     (if \<not> altMoving d then (altStart d, d)
      else
        (let dist = altTarget d - altStart d;
             traveled = since_sec now (altTime d) * domeRate d
         in if traveled \<ge> \<bar>dist\<bar>
            then (let d = d\<lparr>altStart := altTarget d, altMoving := False\<rparr> in (altStart d, d))
            else (altStart d + Copysign traveled dist, d)))"

definition currentShutterLocked :: "time \<Rightarrow> sim_dome \<Rightarrow> ShutterState \<times> sim_dome" where
  "currentShutterLocked now d =
     (if shutterState d = shutterTarget d then (shutterState d, d)
      else
        (let d = (if since_sec now (shutterTime d) \<ge> 1 then d\<lparr>shutterState := shutterTarget d\<rparr> else d)
         in (shutterState d, d)))"

definition beginAzimuthLocked :: "f64 \<Rightarrow> time \<Rightarrow> sim_dome \<Rightarrow> sim_dome" where
  "beginAzimuthLocked target now d =
     (let (v, d) = currentAzimuthLocked now d;
          d = d\<lparr>azStart := v, azTarget := wrap360 target, azTime := now\<rparr>
      in d\<lparr>azMoving := (\<not> eq64 (shortestDelta (azStart d) (azTarget d)) 0)\<rparr>)"

definition beginAltitudeLocked :: "f64 \<Rightarrow> time \<Rightarrow> sim_dome \<Rightarrow> sim_dome" where
  "beginAltitudeLocked target now d =
     (let (v, d) = currentAltitudeLocked now d;
          d = d\<lparr>altStart := v, altTarget := target, altTime := now\<rparr>
      in d\<lparr>altMoving := (\<not> eq64 (altTarget d) (altStart d))\<rparr>)"

section \<open>Members\<close>

definition dome_AtHome :: "time \<Rightarrow> sim_dome \<Rightarrow> bool \<times> sim_dome" where
  "dome_AtHome now d = (case currentAzimuthLocked now d of (_, d) \<Rightarrow> (domeAtHome d \<and> \<not> azMoving d, d))"

definition dome_AtPark :: "time \<Rightarrow> sim_dome \<Rightarrow> bool \<times> sim_dome" where
  "dome_AtPark now d = (case currentAzimuthLocked now d of (_, d) \<Rightarrow> (domeAtPark d \<and> \<not> azMoving d, d))"

definition dome_Slewing :: "time \<Rightarrow> sim_dome \<Rightarrow> bool \<times> sim_dome" where
  "dome_Slewing now d =
     (let (_, d) = currentAzimuthLocked now d;
          (_, d) = currentAltitudeLocked now d;
          (s, d) = currentShutterLocked now d;
          shutterMoving = (s \<noteq> shutterTarget d)
      in (azMoving d \<or> altMoving d \<or> shutterMoving, d))"

definition dome_SlewToAzimuth :: "f64 \<Rightarrow> time \<Rightarrow> sim_dome \<Rightarrow> sim_dome" where
  "dome_SlewToAzimuth az now d = (beginAzimuthLocked az now d)\<lparr>domeAtHome := False, domeAtPark := False\<rparr>"

definition dome_SyncToAzimuth :: "f64 \<Rightarrow> time \<Rightarrow> sim_dome \<Rightarrow> sim_dome" where
  "dome_SyncToAzimuth az now d = d\<lparr>azStart := wrap360 az, azTarget := wrap360 az, azMoving := False\<rparr>"

definition dome_OpenShutter :: "time \<Rightarrow> sim_dome \<Rightarrow> sim_dome" where
  "dome_OpenShutter now d = (case currentShutterLocked now d of (_, d) \<Rightarrow>
     d\<lparr>shutterState := ShutterOpening, shutterTarget := ShutterOpen, shutterTime := now\<rparr>)"

definition dome_CloseShutter :: "time \<Rightarrow> sim_dome \<Rightarrow> sim_dome" where
  "dome_CloseShutter now d = (case currentShutterLocked now d of (_, d) \<Rightarrow>
     d\<lparr>shutterState := ShutterClosing, shutterTarget := ShutterClosed, shutterTime := now\<rparr>)"

definition dome_FindHome :: "time \<Rightarrow> sim_dome \<Rightarrow> sim_dome" where
  "dome_FindHome now d = (beginAzimuthLocked 0 now d)\<lparr>domeAtHome := True, domeAtPark := False\<rparr>"

definition dome_Park :: "time \<Rightarrow> sim_dome \<Rightarrow> sim_dome" where
  "dome_Park now d =
     (let d = (beginAzimuthLocked 0 now d)\<lparr>domeAtPark := True, domeAtHome := False\<rparr>;
          (_, d) = currentShutterLocked now d
      in d\<lparr>shutterState := ShutterClosing, shutterTarget := ShutterClosed, shutterTime := now\<rparr>)"

definition dome_AbortSlew :: "time \<Rightarrow> sim_dome \<Rightarrow> sim_dome" where
  "dome_AbortSlew now d =
     (let (v, d) = currentAzimuthLocked now d;
          d = d\<lparr>azStart := v, azTarget := v, azMoving := False\<rparr>;
          (u, d) = currentAltitudeLocked now d;
          d = d\<lparr>altStart := u, altTarget := u, altMoving := False\<rparr>
      in d\<lparr>domeAtHome := False, domeAtPark := False\<rparr>)"

fun dome_flag_read :: "dome_flag \<Rightarrow> (dworld, bool) act" where
  "dome_flag_read DAtHome = stepping dome_AtHome"
| "dome_flag_read DAtPark = stepping dome_AtPark"
| "dome_flag_read DSlewing = stepping dome_Slewing"
| "dome_flag_read DCanSlave = ret False"
| "dome_flag_read DSlaved = ret False"
| "dome_flag_read _ = ret True"

definition dome_ok_read :: "(time \<Rightarrow> sim_dome \<Rightarrow> 'a \<times> sim_dome) \<Rightarrow> (dworld, goerror + 'a) act" where
  "dome_ok_read f = ask (stepping f) (\<lambda>v. ret (Inr v))"

fun dome_float_read :: "dome_float \<Rightarrow> (dworld, goerror + f64) act" where
  "dome_float_read DAltitude = dome_ok_read currentAltitudeLocked"
| "dome_float_read DAzimuth = dome_ok_read currentAzimuthLocked"

fun dome_update :: "dome_cmd \<Rightarrow> time \<Rightarrow> sim_dome \<Rightarrow> sim_dome" where
  "dome_update (SetSlaved _) = as_is"
| "dome_update DAbortSlew = dome_AbortSlew"
| "dome_update CloseShutter = dome_CloseShutter"
| "dome_update DFindHome = dome_FindHome"
| "dome_update OpenShutter = dome_OpenShutter"
| "dome_update DPark = dome_Park"
| "dome_update DSetPark = as_is"
| "dome_update (SlewToAltitude x) = beginAltitudeLocked x"
| "dome_update (SlewToAzimuth x) = dome_SlewToAzimuth x"
| "dome_update (SyncToAzimuth x) = dome_SyncToAzimuth x"

definition SimDome :: "dworld dome" where
  "SimDome = \<lparr>dFlag = dome_flag_read, dFloat = dome_float_read,
     dShutterStatus = dome_ok_read currentShutterLocked, dDo = (\<lambda>c. updating (dome_update c))\<rparr>"

section \<open>The driver contract\<close>

definition az_settle :: "time \<Rightarrow> sim_dome \<Rightarrow> sim_dome" where
  "az_settle now d = snd (currentAzimuthLocked now d)"

definition alt_settle :: "time \<Rightarrow> sim_dome \<Rightarrow> sim_dome" where
  "alt_settle now d = snd (currentAltitudeLocked now d)"

definition shutter_settle :: "time \<Rightarrow> sim_dome \<Rightarrow> sim_dome" where
  "shutter_settle now d = snd (currentShutterLocked now d)"

lemma settle_eqs:
  "az_settle now d = (if azMoving d \<and> \<bar>shortestDelta (azStart d) (azTarget d)\<bar> \<le> since_sec now (azTime d) * domeRate d
     then d\<lparr>azStart := azTarget d, azMoving := False\<rparr> else d)"
  "alt_settle now d = (if altMoving d \<and> \<bar>altTarget d - altStart d\<bar> \<le> since_sec now (altTime d) * domeRate d
     then d\<lparr>altStart := altTarget d, altMoving := False\<rparr> else d)"
  "shutter_settle now d = (if shutterState d \<noteq> shutterTarget d \<and> 1 \<le> since_sec now (shutterTime d)
     then d\<lparr>shutterState := shutterTarget d\<rparr> else d)"
  by (simp_all add: az_settle_def alt_settle_def shutter_settle_def currentAzimuthLocked_def
      currentAltitudeLocked_def currentShutterLocked_def Let_def)

lemma snd_currents:
  "snd (currentAzimuthLocked now d) = az_settle now d"
  "snd (currentAltitudeLocked now d) = alt_settle now d"
  "snd (currentShutterLocked now d) = shutter_settle now d"
  by (simp_all add: az_settle_def alt_settle_def shutter_settle_def)

text \<open>The settlings concern different fields, so they commute and each is idempotent.\<close>

lemma settles_commute:
  "alt_settle now (az_settle now d) = az_settle now (alt_settle now d)"
  "shutter_settle now (az_settle now d) = az_settle now (shutter_settle now d)"
  "shutter_settle now (alt_settle now d) = alt_settle now (shutter_settle now d)"
  "az_settle now (az_settle now d) = az_settle now d"
  "alt_settle now (alt_settle now d) = alt_settle now d"
  "shutter_settle now (shutter_settle now d) = shutter_settle now d"
  by (auto simp: settle_eqs)

definition dome_norm :: "time \<Rightarrow> sim_dome \<Rightarrow> sim_dome" where
  "dome_norm now d = az_settle now (alt_settle now (shutter_settle now d))"

lemma dome_norm_settle [simp]:
  "dome_norm now (az_settle now d) = dome_norm now d"
  "dome_norm now (alt_settle now d) = dome_norm now d"
  "dome_norm now (shutter_settle now d) = dome_norm now d"
  by (simp_all add: dome_norm_def settles_commute)

lemma snd_dome_reads:
  "snd (dome_AtHome now d) = az_settle now d" "snd (dome_AtPark now d) = az_settle now d"
  "snd (dome_Slewing now d) = shutter_settle now (alt_settle now (az_settle now d))"
  by (simp_all add: dome_AtHome_def dome_AtPark_def dome_Slewing_def Let_def case_prod_beta snd_currents)

interpretation sim_dome: dome_driver SimDome "observe dome_norm"
proof
  show "quiet (observe dome_norm) (dFlag SimDome b)" for b
    by (cases b) (simp_all add: SimDome_def quiet_stepping snd_dome_reads)
  show "quiet (observe dome_norm) (dFloat SimDome x)" for x
    by (cases x) (simp_all add: SimDome_def dome_ok_read_def quiet_ask quiet_stepping snd_currents)
qed (simp_all add: SimDome_def dome_ok_read_def quiet_ask quiet_stepping snd_currents)

section \<open>The invariant\<close>

text \<open>Azimuth in [0, 360), altitude in [0, 90], and a shutter that is at its target or on its way there.\<close>

definition alt_ok :: "f64 \<Rightarrow> bool" where
  "alt_ok x \<longleftrightarrow> 0 \<le> x \<and> x \<le> 90"

lemma alt_ok_iff: "alt_ok x \<longleftrightarrow> (\<exists>r. x = Fin r \<and> 0 \<le> r \<and> r \<le> 90)"
  by (cases x) (auto simp: alt_ok_def less_eq_f64_def less_f64_def eq64_def)

lemma alt_ok_Fin [simp]: "alt_ok (Fin r) \<longleftrightarrow> 0 \<le> r \<and> r \<le> 90"
  by (simp add: alt_ok_iff)

definition shutter_ok :: "ShutterState \<Rightarrow> ShutterState \<Rightarrow> bool" where
  "shutter_ok s target \<longleftrightarrow> (s, target) \<in> {(ShutterOpen, ShutterOpen), (ShutterClosed, ShutterClosed),
     (ShutterOpening, ShutterOpen), (ShutterClosing, ShutterClosed)}"

definition dome_ok :: "time \<Rightarrow> sim_dome \<Rightarrow> bool" where
  "dome_ok now d \<longleftrightarrow> angle_ok (azStart d) \<and> angle_ok (azTarget d) \<and> alt_ok (altStart d) \<and> alt_ok (altTarget d)
     \<and> finite64 (domeRate d) \<and> domeRate d > 0 \<and> azTime d \<le> now \<and> altTime d \<le> now
     \<and> shutter_ok (shutterState d) (shutterTarget d)"

lemma dome_ok_New: "0 \<le> now \<Longrightarrow> dome_ok now NewDome"
  by (simp add: dome_ok_def NewDome_def zero_time_def shutter_ok_def)

lemma dome_ok_later: "dome_ok now d \<Longrightarrow> now \<le> now' \<Longrightarrow> dome_ok now' d"
  by (simp add: dome_ok_def)

lemma settles_ok:
  assumes "dome_ok now d"
  shows "dome_ok now (az_settle now d)" "dome_ok now (alt_settle now d)" "dome_ok now (shutter_settle now d)"
proof -
  show "dome_ok now (az_settle now d)" using assms by (simp add: settle_eqs(1) dome_ok_def)
  show "dome_ok now (alt_settle now d)" using assms by (simp add: settle_eqs(2) dome_ok_def)
  show "dome_ok now (shutter_settle now d)" using assms by (auto simp: settle_eqs(3) dome_ok_def shutter_ok_def)
qed

lemma current_dome_ok:
  assumes "dome_ok now d"
  shows "angle_ok (fst (currentAzimuthLocked now d))" "alt_ok (fst (currentAltitudeLocked now d))"
proof -
  obtain a b where az: "azStart d = Fin a" "0 \<le> a" "a < 360" "azTarget d = Fin b" "0 \<le> b" "b < 360"
    using assms by (auto simp: dome_ok_def angle_ok_iff)
  obtain x y where alt: "altStart d = Fin x" "0 \<le> x" "x \<le> 90" "altTarget d = Fin y" "0 \<le> y" "y \<le> 90"
    using assms by (auto simp: dome_ok_def alt_ok_iff)
  obtain v where v: "domeRate d = Fin v" "0 < v" using assms by (auto simp: dome_ok_def finite64_iff)
  show "angle_ok (fst (currentAzimuthLocked now d))"
    using az v wrap_rat_range by (simp add: currentAzimuthLocked_def Let_def)
  have "0 \<le> secs now (altTime d)" using assms by (simp add: dome_ok_def secs_nonneg)
  then have "0 \<le> secs now (altTime d) * v" using v by simp
  then show "alt_ok (fst (currentAltitudeLocked now d))"
    using alt v by (auto simp: currentAltitudeLocked_def Let_def abs_le_iff abs_if)
qed

lemma begins_ok:
  assumes "dome_ok now d"
  shows "dome_ok now (beginAzimuthLocked (Fin x) now d)"
    "alt_ok y \<Longrightarrow> dome_ok now (beginAltitudeLocked y now d)"
proof -
  have "dome_ok now (az_settle now d)" "dome_ok now (alt_settle now d)" using settles_ok [OF assms] by simp_all
  then show "dome_ok now (beginAzimuthLocked (Fin x) now d)"
    "alt_ok y \<Longrightarrow> dome_ok now (beginAltitudeLocked y now d)"
    using current_dome_ok [OF assms] wrap_rat_range
    by (simp_all add: beginAzimuthLocked_def beginAltitudeLocked_def Let_def case_prod_beta snd_currents
        dome_ok_def)
qed

lemma shutter_moves_ok:
  assumes "dome_ok now d"
  shows "dome_ok now (dome_OpenShutter now d)" "dome_ok now (dome_CloseShutter now d)" "dome_ok now (dome_Park now d)"
proof -
  have s: "dome_ok now (shutter_settle now d)" using settles_ok [OF assms] by simp
  then show "dome_ok now (dome_OpenShutter now d)" "dome_ok now (dome_CloseShutter now d)"
    by (simp_all add: dome_OpenShutter_def dome_CloseShutter_def case_prod_beta snd_currents
        dome_ok_def shutter_ok_def)
  have "dome_ok now ((beginAzimuthLocked (Fin 0) now d)\<lparr>domeAtPark := True, domeAtHome := False\<rparr>)"
    using begins_ok(1) [OF assms, of 0] by (simp add: dome_ok_def)
  from settles_ok(3) [OF this] show "dome_ok now (dome_Park now d)"
    by (simp add: dome_Park_def Let_def case_prod_beta snd_currents dome_ok_def shutter_ok_def)
qed

lemma AbortSlew_dome_ok: "dome_ok now d \<Longrightarrow> dome_ok now (dome_AbortSlew now d)"
proof -
  assume d: "dome_ok now d"
  let ?v = "fst (currentAzimuthLocked now d)"
  let ?d = "(az_settle now d)\<lparr>azStart := ?v, azTarget := ?v, azMoving := False\<rparr>"
  have "dome_ok now ?d" using current_dome_ok(1) [OF d] settles_ok(1) [OF d] by (simp add: dome_ok_def)
  from current_dome_ok(2) [OF this] settles_ok(2) [OF this] show ?thesis
    by (simp add: dome_AbortSlew_def Let_def case_prod_beta snd_currents dome_ok_def)
qed

abbreviation dinv :: "dworld \<Rightarrow> bool" where
  "dinv w \<equiv> dome_ok (clock w) (dev w)"

lemma dome_update_ok: "dome_args_ok c \<Longrightarrow> dome_ok now d \<Longrightarrow> dome_ok now (dome_update c now d)"
proof (cases c)
  case (SlewToAltitude x)
  assume "dome_args_ok c" "dome_ok now d"
  then show ?thesis using SlewToAltitude by (simp add: begins_ok alt_ok_def)
next
  case (SlewToAzimuth x)
  assume a: "dome_args_ok c" "dome_ok now d"
  then obtain r where "x = Fin r" using SlewToAzimuth by (cases x) (auto simp: less_eq_f64_def less_f64_def eq64_def)
  then show ?thesis using begins_ok(1) [OF a(2), of r] SlewToAzimuth
    by (simp add: dome_SlewToAzimuth_def dome_ok_def)
next
  case (SyncToAzimuth x)
  assume a: "dome_args_ok c" "dome_ok now d"
  then obtain r where "x = Fin r" using SyncToAzimuth by (cases x) (auto simp: less_eq_f64_def less_f64_def eq64_def)
  then show ?thesis using a(2) SyncToAzimuth wrap_rat_range by (simp add: dome_SyncToAzimuth_def dome_ok_def)
next
  case DFindHome
  assume "dome_ok now d"
  from begins_ok(1) [OF this, of 0] show ?thesis using DFindHome by (simp add: dome_FindHome_def dome_ok_def)
qed (simp_all add: shutter_moves_ok AbortSlew_dome_ok)

interpretation sim_dome_inv: dome_invariant SimDome dinv
proof
  show "keeps dinv (dFlag SimDome b)" for b
    by (cases b) (simp_all add: SimDome_def keeps_stepping snd_dome_reads settles_ok)
qed (simp add: SimDome_def dome_update_ok keeps_updating)

section \<open>Properties\<close>



text \<open>C33: Parking.  After \<open>Park\<close> the dome turns to azimuth 0 the shortest way and closes its shutter:
  \<open>AtPark\<close> becomes true exactly when the angle has been covered, at azimuth 0, and the shutter reads
  Closing for one second and Closed from then on.  Within 180 degrees of turning and one second the
  dome is parked, closed and no longer slewing, as long as no altitude move is pending.\<close>

theorem dome_park_completes:
  assumes "dome_ok now d" "domeRate d = Fin v" "now \<le> later"
  defines "d1 \<equiv> dome_Park now d" and "e \<equiv> secs later now"
  shows "\<exists>togo. \<bar>shortestDelta (fst (currentAzimuthLocked now d)) 0\<bar> = Fin togo \<and> togo \<le> 180
    \<and> (fst (dome_AtPark later d1) \<longleftrightarrow> togo \<le> e * v)
    \<and> (fst (dome_AtPark later d1) \<longrightarrow> fst (currentAzimuthLocked later d1) = 0)
    \<and> fst (currentShutterLocked later d1) = (if 1 \<le> e then ShutterClosed else ShutterClosing)
    \<and> (1 \<le> e \<and> 180 \<le> e * v \<and> \<not> altMoving d \<longrightarrow> \<not> fst (dome_Slewing later d1))"
proof -
  obtain m where m: "fst (currentAzimuthLocked now d) = Fin m" "0 \<le> m" "m < 360"
    using current_dome_ok(1) [OF assms(1)] by (auto simp: angle_ok_iff)
  define D where "D = delta_rat m 0"
  have D: "\<bar>D\<bar> \<le> 180" "D = 0 \<longleftrightarrow> m = 0"
    using delta_rat_range [of m 0] delta_rat_zero [of m 0] m(2,3) by (simp_all add: D_def abs_le_iff)
  have wrap0: "wrap_rat 0 = 0" by (simp add: wrap_rat_id)
  have d1: "azStart d1 = Fin m" "azTarget d1 = 0" "azTime d1 = now" "azMoving d1 = (D \<noteq> 0)"
    "domeAtPark d1" "domeRate d1 = Fin v" "shutterState d1 = ShutterClosing" "shutterTarget d1 = ShutterClosed"
    "shutterTime d1 = now" "altMoving d1 = altMoving d"
    using m(1) assms(2) by (simp_all add: d1_def dome_Park_def beginAzimuthLocked_def Let_def case_prod_beta
        snd_currents settle_eqs wrap0 D_def)
  have az: "currentAzimuthLocked later d1 = (if \<bar>D\<bar> \<le> e * v then (0, d1\<lparr>azStart := 0, azMoving := False\<rparr>)
      else (wrap360 (Fin m + Copysign (Fin (e * v)) (Fin D)), d1))"
  proof (cases "D = 0")
    case True
    have "0 \<le> e * v" using assms(1-3) by (simp add: e_def dome_ok_def secs_nonneg)
    then show ?thesis using True D d1 by (cases d1) (simp add: currentAzimuthLocked_def)
  next
    case False
    then show ?thesis using d1 by (simp add: currentAzimuthLocked_def Let_def e_def flip: D_def)
  qed
  have "fst (dome_AtPark later d1) \<longleftrightarrow> \<bar>D\<bar> \<le> e * v"
    using az d1 D(2) assms(1-3) by (auto simp: dome_AtPark_def e_def dome_ok_def secs_nonneg split: if_splits)
  moreover have "fst (currentShutterLocked later d1) = (if 1 \<le> e then ShutterClosed else ShutterClosing)"
    using d1 by (simp add: currentShutterLocked_def Let_def e_def)
  moreover have "\<not> fst (dome_Slewing later d1)" if "1 \<le> e" "180 \<le> e * v" "\<not> altMoving d"
    using that az D(1) d1 by (simp add: dome_Slewing_def Let_def currentAltitudeLocked_def
        currentShutterLocked_def e_def)
  ultimately show ?thesis using m(1) D(1) az by (intro exI [of _ "\<bar>D\<bar>"]) (simp flip: D_def)
qed

theorem dome_park_completes_witness:
  "\<not> fst (dome_Slewing (5 + ms 36000) (dome_Park 5 (NewDome\<lparr>azStart := 120\<rparr>)))"
proof -
  have "dome_ok 5 (NewDome\<lparr>azStart := 120\<rparr>)" by (simp add: dome_ok_def NewDome_def zero_time_def shutter_ok_def)
  moreover have "secs (5 + ms 36000) 5 = 36" by (simp add: secs_def time_sub_def ms_def)
  ultimately show ?thesis
    using dome_park_completes [of 5 "NewDome\<lparr>azStart := 120\<rparr>" 5 "5 + ms 36000"]
    by (simp add: NewDome_def ms_def) blast
qed

text \<open>A sync that arrives while the dome is parking stops it where it is but leaves the park flag:
  \<open>AtPark\<close> reads true at once, at any azimuth the client chose to sync to.\<close>

lemma sync_during_park_reads_parked:
  assumes "0 \<le> x" "x < 360"
  shows "let d1 = dome_SyncToAzimuth (Fin x) now (dome_Park now d) in
    fst (dome_AtPark later d1) \<and> fst (currentAzimuthLocked later d1) = Fin x"
  using assms by (simp add: Let_def dome_SyncToAzimuth_def dome_AtPark_def currentAzimuthLocked_def
      dome_Park_def case_prod_beta snd_currents settle_eqs wrap_rat_id)

lemma sync_during_park_reads_parked_witness:
  "fst (dome_AtPark 5 (dome_SyncToAzimuth (Fin 200) 5 (dome_Park 5 (NewDome\<lparr>azStart := 120\<rparr>))))"
  using sync_during_park_reads_parked [of 200 5 "NewDome\<lparr>azStart := 120\<rparr>" 5] by (simp add: Let_def)

end
