(* ===== verification/Sim_Focuser.thy ===== *)
theory Sim_Focuser
  imports Sim_World Movers
begin

text \<open>
  The simulated focuser (\<open>sim/focuser.go\<close>): an absolute focuser whose position converges on the target
  at a fixed step rate computed from the clock.
\<close>

section \<open>State and motion\<close>

record sim_focuser =
  maxStep :: int
  stepRate :: f64
  focStart :: int
  focTarget :: int
  focStartTime :: time
  focMoving :: bool
  focTempComp :: bool

type_synonym fworld = "sim_focuser world"

definition NewFocuser :: sim_focuser where
  "NewFocuser = \<lparr>maxStep = 50000, stepRate = 5000, focStart = 0, focTarget = 0,
     focStartTime = zero_time, focMoving = False, focTempComp = False\<rparr>"

definition WithStepRate :: "f64 \<Rightarrow> sim_focuser \<Rightarrow> sim_focuser" where
  "WithStepRate stepsPerSec f = f\<lparr>stepRate := stepsPerSec\<rparr>"

definition foc_currentLocked :: "time \<Rightarrow> sim_focuser \<Rightarrow> int \<times> sim_focuser" where
  "foc_currentLocked now f =
     (if \<not> focMoving f then (focStart f, f)
      else
        (let dist = wrap64 (focTarget f - focStart f);
             mag = (if dist < 0 then wrap64 (- dist) else dist);
             traveled = int_of_f64 (since_sec now (focStartTime f) * stepRate f)
         in if traveled \<ge> mag
            then (let f = f\<lparr>focStart := focTarget f, focMoving := False\<rparr> in (focStart f, f))
            else if dist \<ge> 0 then (wrap64 (focStart f + traveled), f)
            else (wrap64 (focStart f - traveled), f)))"

definition foc_IsMoving :: "time \<Rightarrow> sim_focuser \<Rightarrow> bool \<times> sim_focuser" where
  "foc_IsMoving now f = (case foc_currentLocked now f of (_, f) \<Rightarrow> (focMoving f, f))"

definition foc_Move :: "int \<Rightarrow> time \<Rightarrow> sim_focuser \<Rightarrow> sim_focuser" where
  "foc_Move target now f =
     (let target = (if target < 0 then 0 else target);
          target = (if target > maxStep f then maxStep f else target);
          (v, f) = foc_currentLocked now f;
          f = f\<lparr>focStart := v, focTarget := target, focStartTime := now\<rparr>
      in f\<lparr>focMoving := (focStart f \<noteq> focTarget f)\<rparr>)"

definition foc_Halt :: "time \<Rightarrow> sim_focuser \<Rightarrow> sim_focuser" where
  "foc_Halt now f = (case foc_currentLocked now f of (v, f) \<Rightarrow>
     f\<lparr>focStart := v, focTarget := v, focMoving := False\<rparr>)"

fun foc_flag_read :: "foc_flag \<Rightarrow> (fworld, bool) act" where
  "foc_flag_read FAbsolute = ret True"
| "foc_flag_read FIsMoving = stepping foc_IsMoving"
| "foc_flag_read FTempComp = reading as_is (\<lambda>_. focTempComp)"
| "foc_flag_read FTempCompAvailable = ret True"

fun foc_int_read :: "foc_int \<Rightarrow> (fworld, int) act" where
  "foc_int_read FMaxIncrement = reading as_is (\<lambda>_. maxStep)"
| "foc_int_read FMaxStep = reading as_is (\<lambda>_. maxStep)"
| "foc_int_read FInterfaceVersion = ret 4"

fun foc_float_read :: "foc_float \<Rightarrow> (fworld, goerror + f64) act" where
  "foc_float_read FStepSize = ret (Inr 1)"
| "foc_float_read FTemperature = ret (Inr 15)"

fun foc_update :: "foc_cmd \<Rightarrow> time \<Rightarrow> sim_focuser \<Rightarrow> sim_focuser" where
  "foc_update (SetTempComp v) = (\<lambda>_ f. f\<lparr>focTempComp := v\<rparr>)"
| "foc_update FHalt = foc_Halt"
| "foc_update (FMove target) = foc_Move target"

definition SimFocuser :: "fworld focuser" where
  "SimFocuser = \<lparr>fFlag = foc_flag_read, fInt = foc_int_read,
     fPosition = ask (stepping foc_currentLocked) (\<lambda>v. ret (Inr v)), fFloat = foc_float_read,
     fDo = (\<lambda>c. updating (foc_update c))\<rparr>"

definition foc_norm :: "time \<Rightarrow> sim_focuser \<Rightarrow> sim_focuser" where
  "foc_norm now f = snd (foc_currentLocked now f)"

lemma foc_norm_norm [simp]: "foc_norm now (foc_norm now f) = foc_norm now f"
  by (simp add: foc_norm_def foc_currentLocked_def Let_def)

lemma snd_foc_reads:
  "snd (foc_currentLocked now f) = foc_norm now f" "snd (foc_IsMoving now f) = foc_norm now f"
  by (simp_all add: foc_IsMoving_def foc_norm_def split: prod.split)

interpretation sim_foc: focuser_driver SimFocuser "observe foc_norm"
proof
  show "quiet (observe foc_norm) (fFlag SimFocuser b)" for b
    by (cases b) (simp_all add: SimFocuser_def quiet_stepping snd_foc_reads)
  show "quiet (observe foc_norm) (fInt SimFocuser i)" for i by (cases i) (simp_all add: SimFocuser_def)
  show "quiet (observe foc_norm) (fFloat SimFocuser x)" for x by (cases x) (simp_all add: SimFocuser_def)
qed (simp_all add: SimFocuser_def quiet_ask quiet_stepping snd_foc_reads)

section \<open>Bounds\<close>

definition foc_ok :: "time \<Rightarrow> sim_focuser \<Rightarrow> bool" where
  "foc_ok now f \<longleftrightarrow> 0 \<le> focStart f \<and> focStart f \<le> maxStep f \<and> 0 \<le> focTarget f \<and> focTarget f \<le> maxStep f
     \<and> maxStep f < 2 ^ 62 \<and> (\<exists>v. stepRate f = Fin v \<and> 0 < v \<and> v \<le> 10 ^ 6) \<and> focStartTime f \<le> now"

lemma foc_ok_New: "0 \<le> now \<Longrightarrow> foc_ok now NewFocuser"
  by (simp add: foc_ok_def NewFocuser_def zero_time_def)

text \<open>The steps covered, in exact arithmetic: a duration of at most 2^63 ns at up to a million steps a
  second stays far below 2^63.\<close>

lemma secs_le: "secs now u \<le> 9223372037"
proof -
  have "time_sub now u \<le> 2 ^ 63" by (simp add: time_sub_def)
  then have "(of_int (time_sub now u) :: rat) \<le> of_int (2 ^ 63)" by (simp only: of_int_le_iff)
  then show ?thesis by (simp add: secs_def)
qed

lemma foc_traveled:
  assumes "foc_ok now f" "stepRate f = Fin v"
  shows "int_of_f64 (since_sec now (focStartTime f) * stepRate f) = \<lfloor>secs now (focStartTime f) * v\<rfloor>"
    "0 \<le> \<lfloor>secs now (focStartTime f) * v\<rfloor>"
proof -
  let ?s = "secs now (focStartTime f)"
  have v: "0 < v" "v \<le> 10 ^ 6" and s: "0 \<le> ?s" using assms by (auto simp: foc_ok_def secs_nonneg)
  then have x: "0 \<le> ?s * v" by simp
  have "?s * v \<le> 9223372037 * 10 ^ 6" using secs_le v s by (intro mult_mono) simp_all
  then show "int_of_f64 (since_sec now (focStartTime f) * stepRate f) = \<lfloor>?s * v\<rfloor>"
    using x assms(2) by (simp add: rat_trunc_nonneg in_i64_def floor_less_iff le_floor_iff)
  show "0 \<le> \<lfloor>?s * v\<rfloor>" using x by simp
qed

text \<open>The reference: on the way from \<open>a\<close> to \<open>b\<close>, \<open>n\<close> steps gone.\<close>

definition stepped :: "int \<Rightarrow> int \<Rightarrow> int \<Rightarrow> int" where
  "stepped a b n = (if a \<le> b then min b (a + n) else max b (a - n))"

lemma current_stepped:
  assumes "foc_ok now f" "stepRate f = Fin v" "focMoving f"
  shows "fst (foc_currentLocked now f)
    = stepped (focStart f) (focTarget f) \<lfloor>secs now (focStartTime f) * v\<rfloor>"
proof -
  let ?n = "\<lfloor>secs now (focStartTime f) * v\<rfloor>"
  note t = foc_traveled [OF assms(1,2)]
  have b: "0 \<le> focStart f" "focStart f < 2 ^ 62" "0 \<le> focTarget f" "focTarget f < 2 ^ 62"
    using assms(1) by (auto simp: foc_ok_def)
  then have "in_i64 (focTarget f - focStart f)" "in_i64 (- (focTarget f - focStart f))"
    by (auto simp: in_i64_def)
  moreover have "in_i64 (focStart f + n)" if "0 \<le> n" "n < focTarget f - focStart f" for n
    using that b by (auto simp: in_i64_def)
  moreover have "in_i64 (focStart f - n)" if "0 \<le> n" "n < focStart f - focTarget f" for n
    using that b by (auto simp: in_i64_def)
  ultimately show ?thesis using assms(3) t
    by (simp add: foc_currentLocked_def Let_def stepped_def)
qed

lemma stepped_between: "0 \<le> n \<Longrightarrow> min a b \<le> stepped a b n \<and> stepped a b n \<le> max a b"
  by (auto simp: stepped_def)

lemma current_bounds:
  assumes "foc_ok now f"
  shows "0 \<le> fst (foc_currentLocked now f) \<and> fst (foc_currentLocked now f) \<le> maxStep f"
proof (cases "focMoving f")
  case True
  obtain v where v: "stepRate f = Fin v" using assms by (auto simp: foc_ok_def)
  let ?n = "\<lfloor>secs now (focStartTime f) * v\<rfloor>"
  have "min (focStart f) (focTarget f) \<le> stepped (focStart f) (focTarget f) ?n"
    "stepped (focStart f) (focTarget f) ?n \<le> max (focStart f) (focTarget f)"
    using stepped_between foc_traveled(2) [OF assms v] by blast+
  then show ?thesis using current_stepped [OF assms v True] assms by (auto simp: foc_ok_def)
qed (use assms in \<open>simp add: foc_currentLocked_def foc_ok_def\<close>)

lemma foc_norm_ok: "foc_ok now f \<Longrightarrow> foc_ok now (foc_norm now f)"
  by (auto simp: foc_norm_def foc_currentLocked_def Let_def foc_ok_def)

lemma foc_norm_sel [simp]:
  "maxStep (foc_norm now f) = maxStep f" "stepRate (foc_norm now f) = stepRate f"
  by (simp_all add: foc_norm_def foc_currentLocked_def Let_def)

lemma foc_update_ok: "foc_ok now f \<Longrightarrow> foc_ok now (foc_update c now f)"
proof (cases c)
  case (FMove n)
  assume f: "foc_ok now f"
  from foc_norm_ok [OF f] current_bounds [OF f] show ?thesis using FMove
    by (auto simp: foc_Move_def Let_def case_prod_beta snd_foc_reads foc_ok_def)
next
  case FHalt
  assume f: "foc_ok now f"
  from foc_norm_ok [OF f] current_bounds [OF f] show ?thesis using FHalt
    by (auto simp: foc_Halt_def case_prod_beta snd_foc_reads foc_ok_def)
qed (simp add: foc_ok_def)

abbreviation finv :: "fworld \<Rightarrow> bool" where
  "finv w \<equiv> foc_ok (clock w) (dev w)"

interpretation sim_foc_inv: focuser_invariant SimFocuser finv
proof
  show "keeps finv (fFlag SimFocuser b)" for b
    by (cases b) (simp_all add: SimFocuser_def keeps_reading keeps_stepping snd_foc_reads foc_norm_ok)
  show "keeps finv (fInt SimFocuser i)" for i by (cases i) (simp_all add: SimFocuser_def keeps_reading)
  show "keeps finv (fDo SimFocuser c)" for c by (simp add: SimFocuser_def keeps_updating foc_update_ok)
qed

text \<open>C34: The position stays within the travel.  Whatever is requested (a target far outside, 64 bits
  wide, a halt in mid-travel), at every later time the reported position is between 0 and \<open>MaxStep\<close>, and
  the state keeps the bounds that make every 64-bit operation of the motion exact.\<close>

theorem focuser_stays_in_travel:
  assumes "focuserPut member SimFocuser p = Some a" "foc_ok (clock w) (dev w)" "clock (snd (a w)) \<le> later"
  shows "foc_ok later (dev (snd (a w)))
    \<and> 0 \<le> fst (foc_currentLocked later (dev (snd (a w))))
    \<and> fst (foc_currentLocked later (dev (snd (a w)))) \<le> maxStep (dev (snd (a w)))"
proof -
  have "finv (snd (a w))" using sim_foc_inv.put_keeps [OF assms(1)] assms(2) by (simp add: keeps_def)
  then have "foc_ok later (dev (snd (a w)))" using assms(3) by (auto simp: foc_ok_def)
  with current_bounds [OF this] show ?thesis by simp
qed

theorem focuser_stays_in_travel_witness:
  "foc_ok 9 (dev (snd (updating foc_Halt \<lparr>clock = 7, dev = NewFocuser\<rparr>)))"
proof -
  have a: "focuserPut ''halt'' SimFocuser (parseParams [] True False) = Some (updating foc_Halt)"
    by (simp add: focuserPut_def SimFocuser_def)
  show ?thesis
    using focuser_stays_in_travel [OF a, of "\<lparr>clock = 7, dev = NewFocuser\<rparr>" 9] foc_ok_New [of 7] by simp
qed

text \<open>C35: A move ends.  \<open>Move\<close> to any target, clamped to the travel, advances from where the focuser is by
  whole steps at the step rate, monotonically and never past the target; once \<open>maxStep\<close> steps' time has
  passed it is at the target and \<open>IsMoving\<close> reads false.\<close>

theorem focuser_move_completes:
  fixes target :: int
  assumes "foc_ok now f" "stepRate f = Fin v" "now \<le> later"
  defines "f1 \<equiv> foc_Move target now f" and "goal \<equiv> min (maxStep f) (max 0 target)"
    and "n \<equiv> \<lfloor>secs later now * v\<rfloor>"
  shows "fst (foc_currentLocked later f1) = stepped (fst (foc_currentLocked now f)) goal n
    \<and> (maxStep f \<le> n \<longrightarrow> fst (foc_currentLocked later f1) = goal \<and> \<not> fst (foc_IsMoving later f1))"
proof -
  have g: "goal = (let target = (if target < 0 then 0 else target) in
      if target > maxStep f then maxStep f else target)"
    using assms(1) by (auto simp: goal_def foc_ok_def Let_def)
  let ?m = "fst (foc_currentLocked now f)"
  have f1: "focStart f1 = ?m" "focTarget f1 = goal" "focStartTime f1 = now" "focMoving f1 = (?m \<noteq> goal)"
    "stepRate f1 = Fin v" "maxStep f1 = maxStep f"
    using assms(2) g by (simp_all add: f1_def foc_Move_def Let_def case_prod_beta snd_foc_reads)
  have ok: "foc_ok later f1"
    using foc_update_ok [OF assms(1), of "FMove target"] assms(3) by (simp add: f1_def foc_ok_def)
  have n: "0 \<le> n" using foc_traveled(2) [OF ok f1(5)] f1(3) by (simp add: n_def)
  have cur: "fst (foc_currentLocked later f1) = stepped ?m goal n"
  proof (cases "?m = goal")
    case True
    then show ?thesis using f1 n by (simp add: foc_currentLocked_def stepped_def)
  next
    case False
    then show ?thesis using current_stepped [OF ok f1(5)] f1 by (simp add: n_def)
  qed
  have "stepped ?m goal n = goal \<and> \<not> fst (foc_IsMoving later f1)" if "maxStep f \<le> n"
  proof -
    have b: "0 \<le> ?m" "?m \<le> maxStep f" "0 \<le> goal" "goal \<le> maxStep f"
      using current_bounds [OF assms(1)] assms(1) by (auto simp: goal_def foc_ok_def)
    then have "in_i64 (goal - ?m)" "in_i64 (- (goal - ?m))" using assms(1) by (auto simp: in_i64_def foc_ok_def)
    then have "\<not> fst (foc_IsMoving later f1)"
      using f1 foc_traveled(1) [OF ok f1(5)] b that
      by (auto simp: foc_IsMoving_def foc_currentLocked_def Let_def n_def)
    then show ?thesis using b that by (auto simp: stepped_def)
  qed
  with cur show ?thesis by simp
qed

theorem focuser_move_completes_witness:
  "fst (foc_currentLocked (5 + ms 10000) (foc_Move 60000 5 NewFocuser)) = 50000"
proof -
  have "secs (5 + ms 10000) 5 = 10" by (simp add: secs_def time_sub_def ms_def)
  then show ?thesis
    using focuser_move_completes [of 5 NewFocuser 5000 "5 + ms 10000" 60000] foc_ok_New [of 5]
    by (simp add: NewFocuser_def ms_def)
qed

end
