(* ===== verification/Sim_Cover.thy ===== *)
theory Sim_Cover
  imports Sim_World Dome_Cover
begin

text \<open>
  The simulated cover and calibrator (\<open>sim/covercalibrator.go\<close>): two timed transitions computed from the
  clock.  The states a client can bring about are the reachable worlds of \<open>serves\<close>.
\<close>

section \<open>State and transitions\<close>

record sim_cover =
  maxBrightness :: int
  brightness :: int
  calUntil :: time
  calChanging :: bool
  calTransient :: CalibratorStatus
  calSettled :: CalibratorStatus
  covUntil :: time
  covMoving :: bool
  covSettled :: CoverStatus

type_synonym ccworld = "sim_cover world"

definition NewCoverCalibrator :: sim_cover where
  "NewCoverCalibrator = \<lparr>maxBrightness = 100, brightness = 0, calUntil = zero_time, calChanging = False,
     calTransient = CalibratorNotPresent, calSettled = CalibratorOff, covUntil = zero_time,
     covMoving = False, covSettled = CoverClosed\<rparr>"

definition WithMaxBrightness :: "int \<Rightarrow> sim_cover \<Rightarrow> sim_cover" where
  "WithMaxBrightness m c = c\<lparr>maxBrightness := m\<rparr>"

definition settleCalibratorLocked :: "time \<Rightarrow> sim_cover \<Rightarrow> sim_cover" where
  "settleCalibratorLocked now c = (if calChanging c \<and> \<not> now < calUntil c then c\<lparr>calChanging := False\<rparr> else c)"

definition settleCoverLocked :: "time \<Rightarrow> sim_cover \<Rightarrow> sim_cover" where
  "settleCoverLocked now c = (if covMoving c \<and> \<not> now < covUntil c then c\<lparr>covMoving := False\<rparr> else c)"

definition cc_CalibratorState :: "time \<Rightarrow> sim_cover \<Rightarrow> CalibratorStatus" where
  "cc_CalibratorState now c = (if calChanging c then calTransient c else calSettled c)"

definition cc_CoverState :: "time \<Rightarrow> sim_cover \<Rightarrow> CoverStatus" where
  "cc_CoverState now c = (if covMoving c then CoverMoving else covSettled c)"

definition cc_CalibratorOn :: "int \<Rightarrow> time \<Rightarrow> sim_cover \<Rightarrow> sim_cover" where
  "cc_CalibratorOn b now c = c\<lparr>brightness := b, calChanging := True, calTransient := CalibratorNotReady,
     calSettled := CalibratorReady, calUntil := now + ms 400\<rparr>"

definition cc_CalibratorOff :: "time \<Rightarrow> sim_cover \<Rightarrow> sim_cover" where
  "cc_CalibratorOff now c = c\<lparr>brightness := 0, calChanging := True, calTransient := CalibratorNotReady,
     calSettled := CalibratorOff, calUntil := now + ms 400\<rparr>"

definition cc_OpenCover :: "time \<Rightarrow> sim_cover \<Rightarrow> sim_cover" where
  "cc_OpenCover now c = c\<lparr>covMoving := True, covSettled := CoverOpen, covUntil := now + ms 700\<rparr>"

definition cc_CloseCover :: "time \<Rightarrow> sim_cover \<Rightarrow> sim_cover" where
  "cc_CloseCover now c = c\<lparr>covMoving := True, covSettled := CoverClosed, covUntil := now + ms 700\<rparr>"

definition cc_HaltCover :: "time \<Rightarrow> sim_cover \<Rightarrow> sim_cover" where
  "cc_HaltCover now c = (let c = settleCoverLocked now c in
     if covMoving c then c\<lparr>covMoving := False, covSettled := CoverUnknown\<rparr> else c)"

fun cc_int_read :: "cc_int \<Rightarrow> (ccworld, int) act" where
  "cc_int_read CBrightness = reading as_is (\<lambda>_. brightness)"
| "cc_int_read CMaxBrightness = reading as_is (\<lambda>_. maxBrightness)"

fun cc_flag_read :: "cc_flag \<Rightarrow> (ccworld, bool) act" where
  "cc_flag_read CCalibratorChanging = reading settleCalibratorLocked (\<lambda>_. calChanging)"
| "cc_flag_read CCoverMoving = reading settleCoverLocked (\<lambda>_. covMoving)"

fun cc_update :: "cc_cmd \<Rightarrow> time \<Rightarrow> sim_cover \<Rightarrow> sim_cover" where
  "cc_update CalibratorOff_cmd = cc_CalibratorOff"
| "cc_update (CalibratorOn b) = cc_CalibratorOn b"
| "cc_update CloseCover = cc_CloseCover"
| "cc_update HaltCover = cc_HaltCover"
| "cc_update OpenCover = cc_OpenCover"

definition SimCover :: "ccworld covercalibrator" where
  "SimCover = \<lparr>ccInt = cc_int_read, ccCalibratorState = reading settleCalibratorLocked cc_CalibratorState,
     ccCoverState = reading settleCoverLocked cc_CoverState, ccFlag = cc_flag_read,
     ccDo = (\<lambda>c. updating (cc_update c))\<rparr>"

definition cc_norm :: "time \<Rightarrow> sim_cover \<Rightarrow> sim_cover" where
  "cc_norm now c = settleCalibratorLocked now (settleCoverLocked now c)"

lemma cc_norm_settle [simp]:
  "cc_norm now (settleCalibratorLocked now c) = cc_norm now c"
  "cc_norm now (settleCoverLocked now c) = cc_norm now c"
  by (auto simp: cc_norm_def settleCalibratorLocked_def settleCoverLocked_def)

interpretation sim_cc: covercalibrator_driver SimCover "observe cc_norm"
proof
  show "quiet (observe cc_norm) (ccInt SimCover i)" for i by (cases i) (simp_all add: SimCover_def)
  show "quiet (observe cc_norm) (ccFlag SimCover b)" for b
    by (cases b) (simp_all add: SimCover_def quiet_reading)
qed (simp_all add: SimCover_def quiet_reading)

section \<open>The reachable states\<close>

definition cc_ok :: "sim_cover \<Rightarrow> bool" where
  "cc_ok c \<longleftrightarrow> 0 \<le> brightness c \<and> brightness c \<le> maxBrightness c
     \<and> (calChanging c \<longrightarrow> calTransient c = CalibratorNotReady)
     \<and> calSettled c \<in> {CalibratorOff, CalibratorReady} \<and> (calSettled c = CalibratorOff \<longrightarrow> brightness c = 0)
     \<and> covSettled c \<in> {CoverOpen, CoverClosed, CoverUnknown}"

abbreviation ccinv :: "ccworld \<Rightarrow> bool" where
  "ccinv w \<equiv> cc_ok (dev w)"

lemma cc_settle_ok: "cc_ok c \<Longrightarrow> cc_ok (settleCalibratorLocked now c)" "cc_ok c \<Longrightarrow> cc_ok (settleCoverLocked now c)"
  by (auto simp: cc_ok_def settleCalibratorLocked_def settleCoverLocked_def)

lemma cc_On_ok: "keeps ccinv (gate (GateCoverCalibratorOn SimCover n) (updating (cc_CalibratorOn n)))"
proof -
  have on: "cc_ok (cc_CalibratorOn n now c)" if "0 \<le> n" "n \<le> maxBrightness c" "cc_ok c" for now c
    using that by (simp add: cc_ok_def cc_CalibratorOn_def)
  have max: "maxBrightness (settleCalibratorLocked now c) = maxBrightness c" for now c
    by (simp add: settleCalibratorLocked_def)
  have "cc_ok (dev (snd (gate (GateCoverCalibratorOn SimCover n) (updating (cc_CalibratorOn n)) w)))"
    if "ccinv w" for w
    using cc_settle_ok(1) [OF that, of "clock w"] on [of "settleCalibratorLocked (clock w) (dev w)" "clock w"] max
    by (simp add: gate_apply ask_apply GateCoverCalibratorOn_def GateCoverCalibratorCalibrator_def
        SimCover_def reading_def updating_def Let_def)
  then show ?thesis by (simp add: keeps_def)
qed

interpretation sim_cc_inv: covercalibrator_invariant SimCover ccinv
proof
  show "keeps ccinv (ccInt SimCover i)" for i by (cases i) (simp_all add: SimCover_def keeps_def)
  show "keeps ccinv (ccFlag SimCover b)" for b
    by (cases b) (simp_all add: SimCover_def keeps_def cc_settle_ok)
  show "keeps ccinv (gate (GateCoverCalibratorOn SimCover n) (ccDo SimCover (CalibratorOn n)))" for n
    using cc_On_ok [of n] by (simp add: SimCover_def)
  show "keeps ccinv (ccDo SimCover k)" if "\<And>n. k \<noteq> CalibratorOn n" for k
    using that by (cases k) (auto simp: SimCover_def keeps_def cc_ok_def cc_CalibratorOff_def
        cc_OpenCover_def cc_CloseCover_def cc_HaltCover_def settleCoverLocked_def Let_def)
qed (simp_all add: SimCover_def keeps_def cc_settle_ok)

lemma cc_reachable:
  assumes "serves (\<lambda>m p. coverCalibratorPut m SimCover p) (\<lambda>m p. coverCalibratorGet m SimCover p) w v" "ccinv w"
  shows "ccinv v"
  using assms by (rule serves_invariant) (auto intro: sim_cc_inv.put_keeps sim_cc_inv.get_keeps)

lemma settle_brightness:
  "brightness (settleCalibratorLocked now c) = brightness c"
  "maxBrightness (settleCalibratorLocked now c) = maxBrightness c"
  by (simp_all add: settleCalibratorLocked_def)

lemma cc_ok_reads:
  "cc_ok c \<Longrightarrow> cc_CalibratorState now c \<in> {CalibratorOff, CalibratorNotReady, CalibratorReady}
     \<and> (cc_CalibratorState now c = CalibratorNotReady \<longleftrightarrow> calChanging c)
     \<and> (cc_CalibratorState now c = CalibratorOff \<longrightarrow> brightness c = 0)
     \<and> 0 \<le> brightness c \<and> brightness c \<le> maxBrightness c"
  "cc_ok c \<Longrightarrow> cc_CoverState now c \<in> {CoverOpen, CoverClosed, CoverMoving, CoverUnknown}
     \<and> (cc_CoverState now c = CoverMoving \<longleftrightarrow> covMoving c)"
  by (cases "calSettled c"; cases "calChanging c"; simp add: cc_ok_def cc_CalibratorState_def)
    (cases "covSettled c"; cases "covMoving c"; simp add: cc_ok_def cc_CoverState_def)

text \<open>C37: In every world a client can bring about, by any sequence of accepted and refused requests and
  any waiting: the calibrator is Off, NotReady or Ready, NotReady exactly while it reports changing, its
  brightness within the maximum and zero when off; the cover is Open, Closed, Moving or Unknown, Moving
  exactly while it reports moving.  The two flags are the completion properties of the two states.\<close>

theorem cover_reachable_states:
  assumes "serves (\<lambda>m p. coverCalibratorPut m SimCover p) (\<lambda>m p. coverCalibratorGet m SimCover p)
      \<lparr>clock = t, dev = NewCoverCalibrator\<rparr> w"
  defines "cal \<equiv> fst (ccCalibratorState SimCover w)" and "cov \<equiv> fst (ccCoverState SimCover w)"
  shows "cal \<in> {CalibratorOff, CalibratorNotReady, CalibratorReady}
    \<and> (cal = CalibratorNotReady \<longleftrightarrow> fst (ccFlag SimCover CCalibratorChanging w))
    \<and> 0 \<le> brightness (dev w) \<and> brightness (dev w) \<le> maxBrightness (dev w)
    \<and> (cal = CalibratorOff \<longrightarrow> brightness (dev w) = 0)
    \<and> cov \<in> {CoverOpen, CoverClosed, CoverMoving, CoverUnknown}
    \<and> (cov = CoverMoving \<longleftrightarrow> fst (ccFlag SimCover CCoverMoving w))"
proof -
  have "cc_ok NewCoverCalibrator" by (simp add: cc_ok_def NewCoverCalibrator_def)
  then have "cc_ok (dev w)" using cc_reachable [OF assms(1)] by simp
  then have "cc_ok (settleCalibratorLocked (clock w) (dev w))" "cc_ok (settleCoverLocked (clock w) (dev w))"
    by (simp_all add: cc_settle_ok)
  note reads = cc_ok_reads(1) [OF this(1), of "clock w"] cc_ok_reads(2) [OF this(2), of "clock w"]
  have "fst (ccFlag SimCover CCalibratorChanging w) = calChanging (settleCalibratorLocked (clock w) (dev w))"
    "fst (ccFlag SimCover CCoverMoving w) = covMoving (settleCoverLocked (clock w) (dev w))"
    "cal = cc_CalibratorState (clock w) (settleCalibratorLocked (clock w) (dev w))"
    "cov = cc_CoverState (clock w) (settleCoverLocked (clock w) (dev w))"
    by (simp_all add: cal_def cov_def SimCover_def)
  then show ?thesis using reads by (simp only: settle_brightness) blast
qed

theorem cover_reachable_states_witness:
  "fst (ccCoverState SimCover (sleep (ms 5) (snd (updating cc_OpenCover \<lparr>clock = 5, dev = NewCoverCalibrator\<rparr>))))
     \<in> {CoverOpen, CoverClosed, CoverMoving, CoverUnknown}"
proof -
  let ?put = "\<lambda>m p. coverCalibratorPut m SimCover p" and ?get = "\<lambda>m p. coverCalibratorGet m SimCover p"
  let ?w = "\<lparr>clock = 5, dev = NewCoverCalibrator\<rparr>"
  let ?p = "parseParams [] True False"
  obtain a where a: "?put ''opencover'' ?p = Some a" by (simp add: coverCalibratorPut_def)
  have "snd (a ?w) = snd (updating cc_OpenCover ?w)" using a
    by (auto simp: coverCalibratorPut_def GateCoverCalibratorCover_def SimCover_def gate_apply ask_apply
        reading_def settleCoverLocked_def cc_CoverState_def NewCoverCalibrator_def Let_def)
  moreover have "serves ?put ?get ?w (sleep (ms 5) (snd (a ?w)))"
    by (intro serves.wait serves.put [where member = "''opencover''" and p = ?p] serves.start a) (simp add: ms_def)
  ultimately have "serves ?put ?get ?w (sleep (ms 5) (snd (updating cc_OpenCover ?w)))" by simp
  from cover_reachable_states [OF this] show ?thesis by blast
qed

text \<open>A cover takes 700 ms, and halting tells where it got to.  After \<open>OpenCover\<close> the cover reads Moving
  until 700 ms have passed and Open from then on; a \<open>HaltCover\<close> before that leaves it Unknown for good,
  a later one leaves it Open.  The same for \<open>CloseCover\<close>.\<close>

lemma cover_travel:
  assumes "0 \<le> e" "0 \<le> e'"
  shows "\<forall>(move, goal) \<in> {(cc_OpenCover, CoverOpen), (cc_CloseCover, CoverClosed)}.
    let c1 = move now c; later = now + e; c2 = cc_HaltCover later c1 in
    cc_CoverState later (settleCoverLocked later c1) = (if e < ms 700 then CoverMoving else goal)
    \<and> cc_CoverState (later + e') (settleCoverLocked (later + e') c2) = (if e < ms 700 then CoverUnknown else goal)"
  using assms by (auto simp: cc_OpenCover_def cc_CloseCover_def cc_HaltCover_def cc_CoverState_def
      settleCoverLocked_def Let_def)

lemma cover_travel_witness:
  "cc_CoverState (5 + ms 300) (settleCoverLocked (5 + ms 300) (cc_HaltCover (5 + ms 300) (cc_OpenCover 5 NewCoverCalibrator)))
     = CoverUnknown"
  using cover_travel [of "ms 300" 0 5 NewCoverCalibrator] by (simp add: Let_def ms_def)

end
