(* ===== verification/Sim_Instruments.thy ===== *)
theory Sim_Instruments
  imports Sim_World Movers Switch Sensors
begin

text \<open>
  The simulators with little or no motion: the filter wheel (\<open>sim/filterwheel.go\<close>), the switch bank
  (\<open>sim/switch.go\<close>), the weather station (\<open>sim/observingconditions.go\<close>) and the safety monitor
  (\<open>sim/safetymonitor.go\<close>).
\<close>

section \<open>FilterWheel\<close>

record sim_filterwheel =
  wheelNames :: "string list"
  wheelOffsets :: "int list"
  wheelPosition :: int
  moveUntil :: time

type_synonym wworld = "sim_filterwheel world"

definition NewFilterWheel :: sim_filterwheel where
  "NewFilterWheel = \<lparr>wheelNames = [''Red'', ''Green'', ''Blue'', ''Luminance''],
     wheelOffsets = [0, 0, 0, 0], wheelPosition = 0, moveUntil = zero_time\<rparr>"

definition WithFilters :: "string list \<Rightarrow> int list \<Rightarrow> sim_filterwheel \<Rightarrow> sim_filterwheel" where
  "WithFilters ns os fw = fw\<lparr>wheelNames := ns, wheelOffsets := os\<rparr>"

definition wheel_Position :: "time \<Rightarrow> sim_filterwheel \<Rightarrow> int" where
  "wheel_Position now fw = (if now < moveUntil fw then -1 else wheelPosition fw)"

definition wheel_SetPosition :: "int \<Rightarrow> time \<Rightarrow> sim_filterwheel \<Rightarrow> sim_filterwheel" where
  "wheel_SetPosition slot now fw = fw\<lparr>wheelPosition := slot, moveUntil := now + ms 300\<rparr>"

definition SimFilterWheel :: "wworld filterwheel" where
  "SimFilterWheel = \<lparr>fwFocusOffsets = reading as_is (\<lambda>_. wheelOffsets),
     fwNames = reading as_is (\<lambda>_. wheelNames), fwPosition = reading as_is wheel_Position,
     fwSetPosition = (\<lambda>slot. updating (wheel_SetPosition slot))\<rparr>"

interpretation sim_wheel: filterwheel_driver SimFilterWheel "observe as_is"
  by unfold_locales (simp_all add: SimFilterWheel_def)

text \<open>Changing filters over HTTP.  A slot outside the list of names is refused with InvalidValue and
  nothing changes.  A valid one is accepted, \<open>Position\<close> reads -1 for 300 ms, and from then on it reads
  the requested slot.\<close>

lemma filter_change:
  assumes "reqInt p ''Position'' = Inr n" "0 \<le> e"
  shows "\<exists>a. filterWheelPut ''position'' SimFilterWheel p = Some a \<and>
    (if n < 0 \<or> int (length (wheelNames (dev w))) \<le> n
     then (\<exists>err. fst (a w) = Some err \<and> err_number err = ErrNumInvalidValue) \<and> snd (a w) = w
     else fst (a w) = None \<and>
       wheel_Position (clock w + e) (dev (sleep e (snd (a w)))) = (if e < ms 300 then -1 else n))"
  using assms by (auto simp: filterWheelPut_def gate_apply ask_apply GateFilterWheelPosition_def
      SimFilterWheel_def reading_def updating_def wheel_SetPosition_def wheel_Position_def Let_def)

lemma position_3: "reqInt (parseParams [(''Position'', [''3''])] True False) ''Position'' = Inr 3"
  by code_simp

lemma filter_change_witness:
  "\<exists>a. filterWheelPut ''position'' SimFilterWheel (parseParams [(''Position'', [''3''])] True False) = Some a
    \<and> wheel_Position (5 + ms 400) (dev (sleep (ms 400) (snd (a \<lparr>clock = 5, dev = NewFilterWheel\<rparr>)))) = 3"
  using filter_change [OF position_3, of "ms 400" "\<lparr>clock = 5, dev = NewFilterWheel\<rparr>"]
  by (simp add: NewFilterWheel_def ms_def) blast

section \<open>Switch\<close>

record sim_switch =
  swCount :: int
  swValues :: "f64 list"
  swNames :: "string list option"

type_synonym sworld = "sim_switch world"

definition NewSwitch :: sim_switch where
  "NewSwitch = \<lparr>swCount = 4, swValues = [0, 0, 0, 0], swNames = None\<rparr>"

definition WithSwitches :: "nat \<Rightarrow> sim_switch \<Rightarrow> sim_switch" where
  "WithSwitches n s = s\<lparr>swCount := int n, swValues := replicate n 0\<rparr>"

text \<open>Indexing a slice; out of range is a panic.\<close>

definition elem_at :: "'a list \<Rightarrow> int \<Rightarrow> 'a option" where
  "elem_at xs i = (if 0 \<le> i \<and> i < int (length xs) then Some (xs ! nat i) else None)"

definition or_panic :: "'a option \<Rightarrow> goerror + 'a" where
  "or_panic x = (case x of None \<Rightarrow> Inl index_panic | Some v \<Rightarrow> Inr v)"

definition sw_GetSwitch :: "int \<Rightarrow> sim_switch \<Rightarrow> goerror + bool" where
  "sw_GetSwitch i s = map_sum (\<lambda>e. e) (\<lambda>v. v > 0) (or_panic (elem_at (swValues s) i))"

definition sw_GetSwitchValue :: "int \<Rightarrow> sim_switch \<Rightarrow> goerror + f64" where
  "sw_GetSwitchValue i s = or_panic (elem_at (swValues s) i)"

definition sw_GetSwitchName :: "int \<Rightarrow> sim_switch \<Rightarrow> goerror + string" where
  "sw_GetSwitchName i s =
     (case swNames s of
        None \<Rightarrow> Inr (''Switch '' @ Itoa i)
      | Some ns \<Rightarrow> (case elem_at ns i of
           None \<Rightarrow> Inl index_panic
         | Some n \<Rightarrow> Inr (if n \<noteq> [] then n else ''Switch '' @ Itoa i)))"

definition sw_GetSwitchDescription :: "int \<Rightarrow> string" where
  "sw_GetSwitchDescription i = ''Simulated switch '' @ Itoa i"

definition sw_store :: "int \<Rightarrow> f64 \<Rightarrow> sworld command" where
  "sw_store i v w = (case elem_at (swValues (dev w)) i of
     None \<Rightarrow> (Some index_panic, w)
   | Some _ \<Rightarrow> (None, w\<lparr>dev := (dev w)\<lparr>swValues := (swValues (dev w))[nat i := v]\<rparr>\<rparr>))"

definition sw_SetSwitch :: "int \<Rightarrow> bool \<Rightarrow> sworld command" where
  "sw_SetSwitch i state = sw_store i (if state then 100 else 0)"

definition sw_SetSwitchName :: "int \<Rightarrow> string \<Rightarrow> sworld command" where
  "sw_SetSwitchName i name w =
     (let s = dev w;
          ns = (case swNames s of None \<Rightarrow> replicate (nat (swCount s)) [] | Some ns \<Rightarrow> ns)
      in case elem_at ns i of
           None \<Rightarrow> (Some index_panic, w\<lparr>dev := s\<lparr>swNames := Some ns\<rparr>\<rparr>)
         | Some _ \<Rightarrow> (None, w\<lparr>dev := s\<lparr>swNames := Some (ns[nat i := name])\<rparr>\<rparr>))"

fun sw_flag_read :: "sw_flag \<Rightarrow> int \<Rightarrow> (sworld, goerror + bool) act" where
  "sw_flag_read SCanWrite i = ret (Inr True)"
| "sw_flag_read SGetSwitch i = reading as_is (\<lambda>_. sw_GetSwitch i)"
| "sw_flag_read SCanAsync i = ret (Inr False)"
| "sw_flag_read SStateChangeComplete i = ret (Inr True)"

fun sw_text_read :: "sw_text \<Rightarrow> int \<Rightarrow> (sworld, goerror + string) act" where
  "sw_text_read SGetSwitchDescription i = ret (Inr (sw_GetSwitchDescription i))"
| "sw_text_read SGetSwitchName i = reading as_is (\<lambda>_. sw_GetSwitchName i)"

fun sw_float_read :: "sw_float \<Rightarrow> int \<Rightarrow> (sworld, goerror + f64) act" where
  "sw_float_read SGetSwitchValue i = reading as_is (\<lambda>_. sw_GetSwitchValue i)"
| "sw_float_read SMaxSwitchValue i = ret (Inr 100)"
| "sw_float_read SMinSwitchValue i = ret (Inr 0)"
| "sw_float_read SSwitchStep i = ret (Inr 1)"

fun sw_do :: "sw_cmd \<Rightarrow> sworld command" where
  "sw_do (SetSwitch i state) = sw_SetSwitch i state"
| "sw_do (SetSwitchName i name) = sw_SetSwitchName i name"
| "sw_do (SetSwitchValue i v) = sw_store i v"
| "sw_do _ = fail ErrNotImplemented"

definition SimSwitch :: "sworld switch" where
  "SimSwitch = \<lparr>sMaxSwitch = reading as_is (\<lambda>_. swCount), sFlag = sw_flag_read, sText = sw_text_read,
     sFloat = sw_float_read, sDo = sw_do\<rparr>"

text \<open>An unallocated name table reads like a table of empty names.\<close>

definition sw_norm :: "time \<Rightarrow> sim_switch \<Rightarrow> sim_switch" where
  "sw_norm now s = s\<lparr>swNames := Some (case swNames s of None \<Rightarrow> replicate (nat (swCount s)) [] | Some ns \<Rightarrow> ns)\<rparr>"

lemma sw_do_blocked: "blocked (observe sw_norm) (sw_do c)"
  by (cases c) (auto simp: blocked_def sw_SetSwitch_def sw_store_def sw_SetSwitchName_def sw_norm_def
      observe_def Let_def split: option.splits)

interpretation sim_sw: switch_driver SimSwitch "observe sw_norm"
proof
  show "quiet (observe sw_norm) (sFlag SimSwitch f i)" for f i by (cases f) (simp_all add: SimSwitch_def)
  show "quiet (observe sw_norm) (sText SimSwitch x i)" for x i by (cases x) (simp_all add: SimSwitch_def)
  show "quiet (observe sw_norm) (sFloat SimSwitch y i)" for y i by (cases y) (simp_all add: SimSwitch_def)
qed (simp_all add: SimSwitch_def sw_do_blocked)

lemma elem_at_update:
  "elem_at xs i = Some u \<Longrightarrow> elem_at (xs[nat i := v]) j = (if j = i then Some v else elem_at xs j)"
  by (auto simp: elem_at_def nth_list_update split: if_splits)


lemma switch_request:
  "reqInt (parseParams [(''Id'', [''2'']), (''Value'', [''5''])] True False) ''Id'' = Inr 2"
  "ParseFloat ''5'' = Some (Fin 5) \<Longrightarrow>
     reqFloat (parseParams [(''Id'', [''2'']), (''Value'', [''5''])] True False) ''Value'' = Inr (Fin 5)"
proof -
  show "reqInt (parseParams [(''Id'', [''2'']), (''Value'', [''5''])] True False) ''Id'' = Inr 2"
    by code_simp
  have "get (parseParams [(''Id'', [''2'']), (''Value'', [''5''])] True False) ''Value'' = Some ''5''"
    by code_simp
  then show "ParseFloat ''5'' = Some (Fin 5) \<Longrightarrow>
     reqFloat (parseParams [(''Id'', [''2'']), (''Value'', [''5''])] True False) ''Value'' = Inr (Fin 5)"
    by (simp add: req_defs)
qed

lemma parse_five: "ParseFloat ''5'' = Some (Fin 5)"
proof -
  have s: "signed ''5'' = (1, ''5'')" by code_simp
  have d: "split_digits ''5'' = (''5'', [])" by code_simp
  have n: "digits ''5'' = Some 5" by code_simp
  have w: "to_lower ''5'' \<notin> {''inf'', ''infinity'', ''+inf'', ''+infinity'', ''-inf'', ''-infinity'', ''nan''}"
    by code_simp
  show ?thesis using ParseFloat_int [OF s d n w] by simp
qed


text \<open>The entries a switch bank contributes to DeviceState (\<open>(*Switch).DeviceState\<close>).\<close>

definition sw_DeviceState :: "sim_switch \<Rightarrow> (string \<times> any) list" where
  "sw_DeviceState s = concat (map (\<lambda>i.
     [(''GetSwitch'' @ Itoa (int i), VBool (swValues s ! i > 0)),
      (''GetSwitchValue'' @ Itoa (int i), VFloat (swValues s ! i)),
      (''StateChangeComplete'' @ Itoa (int i), VBool True)]) [0 ..< nat (swCount s)])"

section \<open>ObservingConditions and SafetyMonitor\<close>

fun oc_value :: "oc_sensor \<Rightarrow> f64" where
  "oc_value OCloudCover = 10"
| "oc_value ODewPoint = Fin (33 / 10)"
| "oc_value OHumidity = 45"
| "oc_value OPressure = 1010"
| "oc_value ORainRate = 0"
| "oc_value OSkyBrightness = Fin (215 / 10)"
| "oc_value OSkyQuality = Fin (205 / 10)"
| "oc_value OSkyTemperature = -25"
| "oc_value OStarFWHM = Fin (24 / 10)"
| "oc_value OTemperature = 15"
| "oc_value OWindDirection = 180"
| "oc_value OWindGust = 4"
| "oc_value OWindSpeed = Fin (25 / 10)"

record sim_observingconditions =
  averagePeriod :: f64

definition NewObservingConditions :: sim_observingconditions where
  "NewObservingConditions = \<lparr>averagePeriod = 0\<rparr>"

definition SimObservingConditions :: "sim_observingconditions world observingconditions" where
  "SimObservingConditions = \<lparr>ocAveragePeriod = reading as_is (\<lambda>_. averagePeriod),
     ocSetAveragePeriod = (\<lambda>hours. updating (\<lambda>_ oc. oc\<lparr>averagePeriod := hours\<rparr>)),
     ocSensor = (\<lambda>s. ret (Inr (oc_value s))),
     ocSensorDescription = (\<lambda>name. ret (Inr (''Simulated '' @ name @ '' sensor''))),
     ocTimeSinceLastUpdate = (\<lambda>_. ret (Inr (Fin (1 / 2)))), ocRefresh = pass\<rparr>"

interpretation sim_oc: oc_driver SimObservingConditions "observe as_is"
  by unfold_locales (simp_all add: SimObservingConditions_def)

record sim_safetymonitor =
  safe :: bool

definition NewSafetyMonitor :: sim_safetymonitor where
  "NewSafetyMonitor = \<lparr>safe = True\<rparr>"

definition WithSafe :: "bool \<Rightarrow> sim_safetymonitor \<Rightarrow> sim_safetymonitor" where
  "WithSafe b s = s\<lparr>safe := b\<rparr>"

definition SimSafetyMonitor :: "sim_safetymonitor world safetymonitor" where
  "SimSafetyMonitor = \<lparr>smIsSafe = reading as_is (\<lambda>_. safe)\<rparr>"

text \<open>The gate of the sensor names, on every spelling: \<open>SensorDescription\<close> answers for the thirteen sensors
  of the interface in any letter case, and refuses every other name, the empty one included.\<close>

lemma sensor_description:
  assumes "sensor_param p = n"
  shows "\<exists>r. observingConditionsGet ''sensordescription'' SimObservingConditions p = Some r \<and>
    fst (r w) = (if to_lower n \<in> set ocSensors then Inr (VStr (''Simulated '' @ n @ '' sensor''))
      else Inl (invalidValuef ''SensorName %q is not an ObservingConditions sensor'' [FmtStr n]))"
proof -
  have "[] \<notin> set ocSensors" by (simp add: ocSensors_def)
  then have "validOCSensor n False = (to_lower n \<in> set ocSensors)"
    by (cases n) (simp_all add: validOCSensor_def to_lower_def)
  then show ?thesis using assms
    by (simp add: observingConditionsGet_def oc_sensors_def gateV_apply vale_apply
        GateObservingConditionsSensor_def SimObservingConditions_def)
qed

end
