(* ===== verification/Hosted.thy ===== *)
theory Hosted
  imports Router_Spec Sim_Telescope Sim_Camera Sim_Dome Sim_Focuser Sim_Cover Sim_Instruments
begin

text \<open>
  The simulated devices as the server sees them: each embeds a \<open>BaseDevice\<close> (\<open>sim/*.go\<close>), so its world is
  the pair of the two, its own methods work on the second part (Go's promotion of the methods of an
  embedded struct) and the common members on the first.  Every one of them meets the contract of a
  served device, from the driver contract of its type.
\<close>

section \<open>Own methods beside a BaseDevice\<close>

definition lift_telescope :: "'w telescope \<Rightarrow> (base_device \<times> 'w) telescope" where
  "lift_telescope t = \<lparr>tFlag = (\<lambda>f. on_snd (tFlag t f)), tFloat = (\<lambda>x. on_snd (tFloat t x)),
     tInt = (\<lambda>i. on_snd (tInt t i)), tTarget = (\<lambda>g. on_snd (tTarget t g)), tUTCDate = on_snd (tUTCDate t),
     tTrackingRates = on_snd (tTrackingRates t), tAxisRates = (\<lambda>a. on_snd (tAxisRates t a)),
     tCanMoveAxis = (\<lambda>a. on_snd (tCanMoveAxis t a)),
     tDestinationSideOfPier = (\<lambda>ra dec. on_snd (tDestinationSideOfPier t ra dec)),
     tDo = (\<lambda>c. on_snd (tDo t c))\<rparr>"

definition lift_camera :: "'w camera \<Rightarrow> (base_device \<times> 'w) camera" where
  "lift_camera c = \<lparr>cFlag = (\<lambda>f. on_snd (cFlag c f)), cInt = (\<lambda>i. on_snd (cInt c i)),
     cFloat = (\<lambda>x. on_snd (cFloat c x)), cFloatErr = (\<lambda>x. on_snd (cFloatErr c x)),
     cBayer = (\<lambda>b. on_snd (cBayer c b)), cList = (\<lambda>l. on_snd (cList c l)), cSensorName = on_snd (cSensorName c),
     cSensorType = on_snd (cSensorType c), cCameraState = on_snd (cCameraState c),
     cLastExposureStartTime = on_snd (cLastExposureStartTime c), cReadoutModes = on_snd (cReadoutModes c),
     cFastReadout = on_snd (cFastReadout c), cExposureError = map_option on_snd (cExposureError c),
     cImageFrame = on_snd (cImageFrame c), cDo = (\<lambda>k. on_snd (cDo c k))\<rparr>"

definition lift_filterwheel :: "'w filterwheel \<Rightarrow> (base_device \<times> 'w) filterwheel" where
  "lift_filterwheel w = \<lparr>fwFocusOffsets = on_snd (fwFocusOffsets w), fwNames = on_snd (fwNames w),
     fwPosition = on_snd (fwPosition w), fwSetPosition = (\<lambda>n. on_snd (fwSetPosition w n))\<rparr>"

definition lift_focuser :: "'w focuser \<Rightarrow> (base_device \<times> 'w) focuser" where
  "lift_focuser f = \<lparr>fFlag = (\<lambda>b. on_snd (fFlag f b)), fInt = (\<lambda>i. on_snd (fInt f i)),
     fPosition = on_snd (fPosition f), fFloat = (\<lambda>x. on_snd (fFloat f x)), fDo = (\<lambda>c. on_snd (fDo f c))\<rparr>"

definition lift_rotator :: "'w rotator \<Rightarrow> (base_device \<times> 'w) rotator" where
  "lift_rotator r = \<lparr>rFlag = (\<lambda>b. on_snd (rFlag r b)), rFloat = (\<lambda>x. on_snd (rFloat r x)),
     rDo = (\<lambda>c. on_snd (rDo r c))\<rparr>"

definition lift_dome :: "'w dome \<Rightarrow> (base_device \<times> 'w) dome" where
  "lift_dome d = \<lparr>dFlag = (\<lambda>b. on_snd (dFlag d b)), dFloat = (\<lambda>x. on_snd (dFloat d x)),
     dShutterStatus = on_snd (dShutterStatus d), dDo = (\<lambda>c. on_snd (dDo d c))\<rparr>"

definition lift_covercalibrator :: "'w covercalibrator \<Rightarrow> (base_device \<times> 'w) covercalibrator" where
  "lift_covercalibrator cc = \<lparr>ccInt = (\<lambda>i. on_snd (ccInt cc i)),
     ccCalibratorState = on_snd (ccCalibratorState cc), ccCoverState = on_snd (ccCoverState cc),
     ccFlag = (\<lambda>b. on_snd (ccFlag cc b)), ccDo = (\<lambda>c. on_snd (ccDo cc c))\<rparr>"

definition lift_observingconditions :: "'w observingconditions \<Rightarrow> (base_device \<times> 'w) observingconditions" where
  "lift_observingconditions oc = \<lparr>ocAveragePeriod = on_snd (ocAveragePeriod oc),
     ocSetAveragePeriod = (\<lambda>x. on_snd (ocSetAveragePeriod oc x)), ocSensor = (\<lambda>s. on_snd (ocSensor oc s)),
     ocSensorDescription = (\<lambda>n. on_snd (ocSensorDescription oc n)),
     ocTimeSinceLastUpdate = (\<lambda>n. on_snd (ocTimeSinceLastUpdate oc n)), ocRefresh = on_snd (ocRefresh oc)\<rparr>"

definition lift_safetymonitor :: "'w safetymonitor \<Rightarrow> (base_device \<times> 'w) safetymonitor" where
  "lift_safetymonitor s = \<lparr>smIsSafe = on_snd (smIsSafe s)\<rparr>"

definition lift_switch :: "'w switch \<Rightarrow> (base_device \<times> 'w) switch" where
  "lift_switch s = \<lparr>sMaxSwitch = on_snd (sMaxSwitch s), sFlag = (\<lambda>f i. on_snd (sFlag s f i)),
     sText = (\<lambda>x i. on_snd (sText s x i)), sFloat = (\<lambda>x i. on_snd (sFloat s x i)), sDo = (\<lambda>c. on_snd (sDo s c))\<rparr>"

definition hostTelescope :: "(base_device \<times> tworld) device" where
  "hostTelescope = BaseDevice\<lparr>asTelescope := Some (lift_telescope SimTelescope)\<rparr>"

definition hostCamera :: "(base_device \<times> cworld) device" where
  "hostCamera = BaseDevice\<lparr>asCamera := Some (lift_camera SimCamera)\<rparr>"

definition hostFilterWheel :: "(base_device \<times> wworld) device" where
  "hostFilterWheel = BaseDevice\<lparr>asFilterWheel := Some (lift_filterwheel SimFilterWheel)\<rparr>"

definition hostFocuser :: "(base_device \<times> fworld) device" where
  "hostFocuser = BaseDevice\<lparr>asFocuser := Some (lift_focuser SimFocuser)\<rparr>"

definition hostRotator :: "(base_device \<times> rworld) device" where
  "hostRotator = BaseDevice\<lparr>asRotator := Some (lift_rotator SimRotator)\<rparr>"

definition hostDome :: "(base_device \<times> dworld) device" where
  "hostDome = BaseDevice\<lparr>asDome := Some (lift_dome SimDome)\<rparr>"

definition hostCover :: "(base_device \<times> ccworld) device" where
  "hostCover = BaseDevice\<lparr>asCoverCalibrator := Some (lift_covercalibrator SimCover)\<rparr>"

definition hostObservingConditions :: "(base_device \<times> sim_observingconditions world) device" where
  "hostObservingConditions = BaseDevice\<lparr>asObservingConditions := Some (lift_observingconditions SimObservingConditions)\<rparr>"

definition hostSafetyMonitor :: "(base_device \<times> sim_safetymonitor world) device" where
  "hostSafetyMonitor = BaseDevice\<lparr>asSafetyMonitor := Some (lift_safetymonitor SimSafetyMonitor)\<rparr>"

text \<open>The switch overrides \<open>DeviceState\<close>.\<close>

definition hostSwitch :: "(base_device \<times> sworld) device" where
  "hostSwitch = BaseDevice\<lparr>dvDeviceState := on_snd (reading as_is (\<lambda>_. sw_DeviceState)),
     asSwitch := Some (lift_switch SimSwitch)\<rparr>"

section \<open>The base device keeps the contract\<close>

definition hosted :: "('w \<Rightarrow> 'v) \<Rightarrow> base_device \<times> 'w \<Rightarrow> base_device \<times> 'v" where
  "hosted view w = (fst w, view (snd w))"

lemma hosted_quiet: "quiet view m \<Longrightarrow> quiet (hosted view) (on_snd m)"
  by (simp add: quiet_def hosted_def on_snd_def case_prod_beta)

lemma hosted_blocked: "blocked view m \<Longrightarrow> blocked (hosted view) (on_snd m)"
  by (simp add: blocked_def hosted_def on_snd_def case_prod_beta)

lemma base_field_quiet: "quiet (hosted view) (on_fst (field f))"
  by (simp add: quiet_def hosted_def on_fst_def case_prod_beta)

lemma base_op_quiet: "quiet (hosted view) (on_fst Connecting)" "quiet (hosted view) (on_fst ConnectError)"
  by (simp_all add: quiet_def hosted_def on_fst_def case_prod_beta base_reads)

lemma base_connect_blocked: "blocked view (on_fst bd_Connect)" "blocked view (on_fst bd_Disconnect)"
  by (simp_all add: blocked_def on_fst_def case_prod_beta bd_Connect_def bd_Disconnect_def ask_apply
      MarkConnected_def MarkDisconnected_def)

text \<open>A device whose common members are those of \<open>BaseDevice\<close>.\<close>

definition based :: "(base_device \<times> 'w) device \<Rightarrow> bool" where
  "based d \<longleftrightarrow> dvText d = dvText BaseDevice \<and> dvInterfaceVersion d = dvInterfaceVersion BaseDevice
     \<and> dvConnect d = dvConnect BaseDevice \<and> dvDisconnect d = dvDisconnect BaseDevice
     \<and> dvConnected d = dvConnected BaseDevice \<and> dvConnecting d = dvConnecting BaseDevice
     \<and> dvSupportedActions d = dvSupportedActions BaseDevice \<and> dvAction d = dvAction BaseDevice
     \<and> dvCommandString d = dvCommandString BaseDevice \<and> dvCommandBool d = dvCommandBool BaseDevice
     \<and> dvCommandBlind d = dvCommandBlind BaseDevice
     \<and> asBusyable d = None \<and> asConnectErrorReporter d = Some (on_fst ConnectError)"

lemma based_driver: "based d \<Longrightarrow> quiet (hosted view) (dvDeviceState d) \<Longrightarrow> device_driver d (hosted view)"
  by unfold_locales
    (auto simp: based_def base_field_quiet base_op_quiet base_connect_blocked)

lemma hosts_based:
  "based hostTelescope" "based hostCamera" "based hostFilterWheel" "based hostFocuser" "based hostRotator"
  "based hostDome" "based hostCover" "based hostObservingConditions" "based hostSafetyMonitor" "based hostSwitch"
  by (simp_all add: based_def hostTelescope_def hostCamera_def hostFilterWheel_def hostFocuser_def
      hostRotator_def hostDome_def hostCover_def hostObservingConditions_def hostSafetyMonitor_def hostSwitch_def)

section \<open>From the driver contracts to the contract of a served device\<close>

declare state_entries.simps [simp del]

lemma quiet_entries:
  "list_all (\<lambda>(n, r). quiet view r) rs \<Longrightarrow> quiet view (ask (state_entries rs) (\<lambda>sv. ret (Inr sv)))"
  by (intro quiet_ask quiet_state_entries) simp_all

lemma servedI:
  assumes "device_driver d view" "\<And>member p a. typePut ty member d p = Some a \<Longrightarrow> blocked view a"
    "\<And>member p r. typeGet ty member d p = Some r \<Longrightarrow> quiet view r" "quiet view (typed_states ty d)"
    "ty \<noteq> CameraType"
  shows "served_device d view ty"
  using assms by (intro served_device.intro served_device_axioms.intro) auto

context telescope_driver
begin

lemma serves_telescope: "device_driver d view \<Longrightarrow> asTelescope d = Some t \<Longrightarrow> served_device d view TelescopeType"
  by (rule servedI)
    (auto simp: typePut_def typeGet_def typed_states_def telescopeStateValues_def quiet_val
      flag_quiet float_quiet int_quiet utc_quiet intro!: quiet_entries intro: put_blocked get_quiet)

end

context camera_driver
begin

lemma serves_camera:
  assumes "device_driver d view" "asCamera d = Some c" "quiet view (cImageFrame c)"
  shows "served_device d view CameraType"
  using assms flag_quiet
  by (intro served_device.intro served_device_axioms.intro)
    (auto simp: typePut_def typeGet_def typed_states_def cameraStateValues_def quiet_val quiet_vale
      flag_quiet int_quiet state_quiet float_err_quiet intro!: quiet_entries intro: put_blocked get_quiet)

end

context filterwheel_driver
begin

lemma serves_filterwheel: "device_driver d view \<Longrightarrow> asFilterWheel d = Some fw \<Longrightarrow> served_device d view FilterWheelType"
  by (rule servedI)
    (auto simp: typePut_def typeGet_def typed_states_def quiet_val position_quiet
      intro!: quiet_entries intro: put_blocked get_quiet)

end

context focuser_driver
begin

lemma serves_focuser: "device_driver d view \<Longrightarrow> asFocuser d = Some f \<Longrightarrow> served_device d view FocuserType"
  by (rule servedI)
    (auto simp: typePut_def typeGet_def typed_states_def focuserStateValues_def quiet_val quiet_vale
      flag_quiet position_quiet float_quiet intro!: quiet_entries intro: put_blocked get_quiet)

end

context rotator_driver
begin

lemma serves_rotator: "device_driver d view \<Longrightarrow> asRotator d = Some r \<Longrightarrow> served_device d view RotatorType"
  by (rule servedI)
    (auto simp: typePut_def typeGet_def typed_states_def rotatorStateValues_def quiet_val
      flag_quiet float_quiet intro!: quiet_entries intro: put_blocked get_quiet)

end

context dome_driver
begin

lemma serves_dome: "device_driver x view \<Longrightarrow> asDome x = Some d \<Longrightarrow> served_device x view DomeType"
  by (rule servedI)
    (auto simp: typePut_def typeGet_def typed_states_def domeStateValues_def quiet_val quiet_vale
      flag_quiet float_quiet shutter_quiet intro!: quiet_entries intro: put_blocked get_quiet)

end

context covercalibrator_driver
begin

lemma serves_cover: "device_driver d view \<Longrightarrow> asCoverCalibrator d = Some cc \<Longrightarrow> served_device d view CoverCalibratorType"
  by (rule servedI)
    (auto simp: typePut_def typeGet_def typed_states_def coverCalibratorStateValues_def quiet_val
      int_quiet cal_quiet cover_quiet flag_quiet intro!: quiet_entries intro: put_blocked get_quiet)

end

context oc_driver
begin

lemma serves_oc:
  "device_driver d view \<Longrightarrow> asObservingConditions d = Some oc \<Longrightarrow> served_device d view ObservingConditionsType"
  by (rule servedI)
    (auto simp: typePut_def typeGet_def typed_states_def observingConditionsStateValues_def quiet_vale
      sensor_quiet intro!: quiet_entries intro: put_blocked get_quiet)

end

context switch_driver
begin

lemma switchStateValues_quiet: "quiet view (switchStateValues sw)"
proof -
  have "list_all (\<lambda>(n, r). quiet view r) (concat (map (channel_entries sw) is))" for "is"
    by (induction "is") (auto simp: channel_entries_def quiet_vale flag_quiet float_quiet)
  then show ?thesis unfolding switchStateValues_def Let_def
    by (intro quiet_ask max_quiet quiet_if quiet_ret quiet_entries)
qed

lemma serves_switch: "device_driver d view \<Longrightarrow> asSwitch d = Some sw \<Longrightarrow> served_device d view SwitchType"
  by (rule servedI)
    (auto simp: typePut_def typeGet_def typed_states_def switchStateValues_quiet
      intro: put_blocked get_quiet)

end

lemma serves_safetymonitor:
  assumes "device_driver d view" "asSafetyMonitor d = Some s" "quiet view (smIsSafe s)"
  shows "served_device d view SafetyMonitorType"
  using assms by (intro servedI)
    (auto simp: typePut_def typeGet_def typed_states_def safetyMonitorGet_def quiet_val
      intro!: quiet_entries split: if_splits)

section \<open>Lifting the driver contracts\<close>

context telescope_driver
begin

lemma lifted: "telescope_driver (lift_telescope t) (hosted view)"
proof
  show "fst (tFlag (lift_telescope t) TAtPark w) = fst (tFlag (lift_telescope t) TAtPark w')"
    if "hosted view w = hosted view w'" for w w'
    using that park_view [of "snd w" "snd w'"]
    by (simp add: lift_telescope_def hosted_def on_snd_def case_prod_beta)
qed (simp_all add: lift_telescope_def hosted_quiet hosted_blocked flag_quiet float_quiet int_quiet target_quiet
    utc_quiet rates_quiet axis_quiet move_quiet side_quiet do_blocked)

end

context camera_driver
begin

lemma lifted: "camera_driver (lift_camera c) (hosted view)"
  by unfold_locales
    (auto simp: lift_camera_def hosted_quiet hosted_blocked flag_quiet int_quiet float_quiet float_err_quiet
      bayer_quiet list_quiet name_quiet sensor_quiet state_quiet start_quiet modes_quiet fast_quiet
      failed_quiet do_blocked)

end

context filterwheel_driver
begin

lemma lifted: "filterwheel_driver (lift_filterwheel fw) (hosted view)"
  by unfold_locales
    (simp_all add: lift_filterwheel_def hosted_quiet hosted_blocked offsets_quiet names_quiet position_quiet set_blocked)

end

context focuser_driver
begin

lemma lifted: "focuser_driver (lift_focuser f) (hosted view)"
  by unfold_locales
    (simp_all add: lift_focuser_def hosted_quiet hosted_blocked flag_quiet int_quiet position_quiet float_quiet do_blocked)

end

context rotator_driver
begin

lemma lifted: "rotator_driver (lift_rotator r) (hosted view)"
  by unfold_locales (simp_all add: lift_rotator_def hosted_quiet hosted_blocked flag_quiet float_quiet do_blocked)

end

context dome_driver
begin

lemma lifted: "dome_driver (lift_dome d) (hosted view)"
  by unfold_locales (simp_all add: lift_dome_def hosted_quiet hosted_blocked flag_quiet float_quiet shutter_quiet do_blocked)

end

context covercalibrator_driver
begin

lemma lifted: "covercalibrator_driver (lift_covercalibrator cc) (hosted view)"
  by unfold_locales
    (simp_all add: lift_covercalibrator_def hosted_quiet hosted_blocked int_quiet cal_quiet cover_quiet flag_quiet do_blocked)

end

context oc_driver
begin

lemma lifted: "oc_driver (lift_observingconditions oc) (hosted view)"
  by unfold_locales
    (simp_all add: lift_observingconditions_def hosted_quiet hosted_blocked period_quiet sensor_quiet
      description_quiet update_quiet set_blocked refresh_blocked)

end

context switch_driver
begin

lemma lifted: "switch_driver (lift_switch sw) (hosted view)"
  by unfold_locales
    (simp_all add: lift_switch_def hosted_quiet hosted_blocked max_quiet flag_quiet text_quiet float_quiet do_blocked)

end

section \<open>Every simulated device is served as the contract says\<close>

lemma plain_state: "dvDeviceState d = ret [] \<Longrightarrow> quiet view (dvDeviceState d)"
  by simp

interpretation host_tel: served_device hostTelescope "hosted (observe tel_norm)" TelescopeType
  by (rule telescope_driver.serves_telescope [OF sim_tel.lifted] based_driver hosts_based plain_state
      | simp add: hostTelescope_def)+

interpretation host_cam: served_device hostCamera "hosted cam_view" CameraType
proof (rule camera_driver.serves_camera [OF sim_cam.lifted])
  show "device_driver hostCamera (hosted cam_view)"
    by (rule based_driver hosts_based plain_state | simp add: hostCamera_def)+
  show "quiet (hosted cam_view) (cImageFrame (lift_camera SimCamera))"
    by (simp add: lift_camera_def SimCamera_def hosted_quiet)
qed (simp add: hostCamera_def)

interpretation host_wheel: served_device hostFilterWheel "hosted (observe as_is)" FilterWheelType
  by (rule filterwheel_driver.serves_filterwheel [OF sim_wheel.lifted] based_driver hosts_based plain_state
      | simp add: hostFilterWheel_def)+

interpretation host_foc: served_device hostFocuser "hosted (observe foc_norm)" FocuserType
  by (rule focuser_driver.serves_focuser [OF sim_foc.lifted] based_driver hosts_based plain_state
      | simp add: hostFocuser_def)+

interpretation host_rot: served_device hostRotator "hosted (observe rot_norm)" RotatorType
  by (rule rotator_driver.serves_rotator [OF sim_rot.lifted] based_driver hosts_based plain_state
      | simp add: hostRotator_def)+

interpretation host_dome: served_device hostDome "hosted (observe dome_norm)" DomeType
  by (rule dome_driver.serves_dome [OF sim_dome.lifted] based_driver hosts_based plain_state
      | simp add: hostDome_def)+

interpretation host_cc: served_device hostCover "hosted (observe cc_norm)" CoverCalibratorType
  by (rule covercalibrator_driver.serves_cover [OF sim_cc.lifted] based_driver hosts_based plain_state
      | simp add: hostCover_def)+

interpretation host_oc: served_device hostObservingConditions "hosted (observe as_is)" ObservingConditionsType
  by (rule oc_driver.serves_oc [OF sim_oc.lifted] based_driver hosts_based plain_state
      | simp add: hostObservingConditions_def)+

interpretation host_safe: served_device hostSafetyMonitor "hosted (observe as_is)" SafetyMonitorType
  by (rule serves_safetymonitor based_driver hosts_based plain_state
      | simp add: hostSafetyMonitor_def lift_safetymonitor_def SimSafetyMonitor_def hosted_quiet)+

interpretation host_sw: served_device hostSwitch "hosted (observe sw_norm)" SwitchType
  by (rule switch_driver.serves_switch [OF sim_sw.lifted] based_driver hosts_based
      | simp add: hostSwitch_def hosted_quiet)+

end
