(* ===== verification/Registry_Spec.thy ===== *)
theory Registry_Spec
  imports Registry Device_State
begin

text \<open>
  The registry refines an ordered map from addresses to devices.  \<open>registry_ok\<close> is the representation
  invariant, \<open>devices_of\<close> the abstraction; the hardware and settings fields are outside both, so the
  operations on them are \<open>quiet\<close> for the part \<open>core\<close> that matters.
\<close>

section \<open>The part of the state that matters\<close>

definition core :: "'w server \<times> 'w \<Rightarrow> (regKey \<Rightarrow> nat option) \<times> nat list \<times> nat \<times> (nat \<Rightarrow> regKey \<times> 'w device)" where
  "core w = (svDevices (fst w), svOrder (fst w), svNext (fst w),
     \<lambda>i. (rgKey (svRegs (fst w) i), rgDev (svRegs (fst w) i)))"

definition registry_ok :: "'w server \<Rightarrow> bool" where
  "registry_ok s \<longleftrightarrow> distinct (svOrder s) \<and> (\<forall>i \<in> set (svOrder s). i < svNext s)
     \<and> (\<forall>k i. svDevices s k = Some i \<longleftrightarrow> i \<in> set (svOrder s) \<and> rgKey (svRegs s i) = k)
     \<and> (\<forall>i \<in> set (svOrder s). implementsType (fst (rgKey (svRegs s i))) (rgDev (svRegs s i)))"

definition devices_of :: "'w server \<Rightarrow> (regKey \<times> 'w device) list" where
  "devices_of s = map (\<lambda>i. (rgKey (svRegs s i), rgDev (svRegs s i))) (svOrder s)"

lemma core_eq:
  assumes "core w' = core w"
  shows "registry_ok (fst w') = registry_ok (fst w)" "devices_of (fst w') = devices_of (fst w)"
proof -
  have s: "svDevices (fst w') = svDevices (fst w)" "svOrder (fst w') = svOrder (fst w)"
    "svNext (fst w') = svNext (fst w)"
    and "(\<lambda>i. (rgKey (svRegs (fst w') i), rgDev (svRegs (fst w') i)))
      = (\<lambda>i. (rgKey (svRegs (fst w) i), rgDev (svRegs (fst w) i)))"
    using assms by (simp_all add: core_def)
  then have r: "rgKey (svRegs (fst w') i) = rgKey (svRegs (fst w) i)"
    "rgDev (svRegs (fst w') i) = rgDev (svRegs (fst w) i)" for i
    by (metis prod.inject)+
  show "registry_ok (fst w') = registry_ok (fst w)" "devices_of (fst w') = devices_of (fst w)"
    by (simp_all add: registry_ok_def devices_of_def s r)
qed

lemma quiet_on_snd [quiet_intros]: "quiet core (on_snd m)"
  by (simp add: quiet_def core_def on_snd_def case_prod_beta)

lemma quiet_server_get [quiet_intros]: "quiet view (server_get f)"
  by (simp add: quiet_def server_get_def on_fst_def case_prod_beta)

lemma quiet_update_reg [quiet_intros]:
  assumes "\<And>r. rgKey (f r) = rgKey r" "\<And>r. rgDev (f r) = rgDev r"
  shows "quiet core (server_set (update_reg i f))"
  by (auto simp: quiet_def core_def server_set_def on_fst_def update_reg_def assms split: prod.split)

lemma loadSettingsFor_quiet [quiet_intros]: "quiet core (loadSettingsFor i)"
  unfolding loadSettingsFor_def Let_def
  by (intro quiet_ask quiet_server_get) (auto split: option.split intro: quiet_on_snd)

lemma hw_update_quiet [quiet_intros]: "quiet core (server_set (update_reg i (rgHw_update f)))"
  by (rule quiet_update_reg) simp_all

lemma openHardwareFor_quiet [quiet_intros]: "quiet core (openHardwareFor i)"
  unfolding openHardwareFor_def by (intro quiet_intros)

lemma closeHardwareFor_quiet [quiet_intros]: "quiet core (closeHardwareFor i)"
  unfolding closeHardwareFor_def by (intro quiet_intros)

lemma for_each_quiet: "(\<And>i. quiet view (f i)) \<Longrightarrow> quiet view (for_each f is)"
  by (induction "is") (auto intro: quiet_ask)

lemma all_hardware_quiet [quiet_intros]: "quiet core openHardware" "quiet core closeHardware"
    "quiet core loadSettings"
  unfolding openHardware_def closeHardware_def loadSettings_def
  by (intro quiet_intros for_each_quiet)+

section \<open>The interface the router uses\<close>

locale registry =
  fixes entries :: "'s \<Rightarrow> (regKey \<times> 'd) list" and find_device :: "regKey \<Rightarrow> 's \<Rightarrow> 'd option"
    and good :: "'s \<Rightarrow> bool"
  assumes unique: "good s \<Longrightarrow> distinct (map fst (entries s))"
    and found: "good s \<Longrightarrow> find_device k s = map_of (entries s) k"
begin

lemma served_iff_listed: "good s \<Longrightarrow> find_device k s = Some d \<longleftrightarrow> (k, d) \<in> set (entries s)"
  by (simp add: unique found)

end

lemma registry_okD:
  assumes "registry_ok s"
  shows "distinct (svOrder s)" "i \<in> set (svOrder s) \<Longrightarrow> i < svNext s"
    "svDevices s k = Some i \<longleftrightarrow> i \<in> set (svOrder s) \<and> rgKey (svRegs s i) = k"
    "i \<in> set (svOrder s) \<Longrightarrow> implementsType (fst (rgKey (svRegs s i))) (rgDev (svRegs s i))"
  using assms unfolding registry_ok_def by blast+

lemma devices_of_distinct:
  assumes "registry_ok s"
  shows "distinct (map fst (devices_of s))"
proof -
  have "inj_on (\<lambda>i. rgKey (svRegs s i)) (set (svOrder s))"
    using registry_okD(3) [OF assms] by (intro inj_onI) (metis option.inject)
  then show ?thesis using assms by (simp add: devices_of_def o_def distinct_map registry_ok_def)
qed

lemma map_of_devices_of:
  assumes "registry_ok s"
  shows "map_of (devices_of s) (ty, n) = lookup ty n s"
proof (cases "svDevices s (ty, n)")
  case None
  then have "(ty, n) \<notin> fst ` set (devices_of s)"
    using registry_okD(3) [OF assms, of "(ty, n)"] unfolding devices_of_def by (force simp: image_iff)
  then show ?thesis using None by (simp add: map_of_eq_None_iff lookup_def lookupRegistered_def)
next
  case (Some i)
  then have "((ty, n), rgDev (svRegs s i)) \<in> set (devices_of s)"
    using registry_okD(3) [OF assms, of "(ty, n)"] by (force simp: devices_of_def)
  then show ?thesis using Some devices_of_distinct [OF assms] by (simp add: lookup_def lookupRegistered_def)
qed

interpretation reg: registry devices_of "\<lambda>k. lookup (fst k) (snd k)" registry_ok
  by unfold_locales (simp_all add: devices_of_distinct flip: map_of_devices_of)

section \<open>Refinement\<close>

lemma add_reg_ok:
  assumes "registry_ok s" "svDevices s k = None" "implementsType (fst k) d"
  shows "registry_ok (add_reg k d s)" "devices_of (add_reg k d s) = devices_of s @ [(k, d)]"
proof -
  have new: "svNext s \<notin> set (svOrder s)" using registry_okD(2) [OF assms(1)] by blast
  then have old: "(svRegs (add_reg k d s)) i = svRegs s i" if "i \<in> set (svOrder s)" for i
    using that by (auto simp: add_reg_def)
  have regs: "rgKey (svRegs (add_reg k d s) (svNext s)) = k" "rgDev (svRegs (add_reg k d s) (svNext s)) = d"
    "svOrder (add_reg k d s) = svOrder s @ [svNext s]" "svNext (add_reg k d s) = svNext s + 1"
    "svDevices (add_reg k d s) = (svDevices s)(k \<mapsto> svNext s)"
    by (simp_all add: add_reg_def)
  show "devices_of (add_reg k d s) = devices_of s @ [(k, d)]" by (simp add: devices_of_def regs old)
  have free: "rgKey (svRegs s i) \<noteq> k" if "i \<in> set (svOrder s)" for i
    using that assms(2) registry_okD(3) [OF assms(1), of k i] by auto
  show "registry_ok (add_reg k d s)"
    unfolding registry_ok_def regs
  proof (intro conjI allI ballI)
    show "distinct (svOrder s @ [svNext s])" using new registry_okD(1) [OF assms(1)] by simp
    show "i < svNext s + 1" if "i \<in> set (svOrder s @ [svNext s])" for i
      using that registry_okD(2) [OF assms(1), of i] by auto
    show "((svDevices s)(k \<mapsto> svNext s)) k' = Some i \<longleftrightarrow>
        i \<in> set (svOrder s @ [svNext s]) \<and> rgKey (svRegs (add_reg k d s) i) = k'" for k' i
      using registry_okD(3) [OF assms(1), of k' i] new old [of i] free [of i] regs(1) by auto
    show "implementsType (fst (rgKey (svRegs (add_reg k d s) i))) (rgDev (svRegs (add_reg k d s) i))"
      if "i \<in> set (svOrder s @ [svNext s])" for i
      using that assms(3) registry_okD(4) [OF assms(1), of i] old [of i] regs(1,2) by auto
  qed
qed

lemma drop_reg_ok:
  assumes "registry_ok s" "svDevices s k = Some i"
  shows "registry_ok (drop_reg k i s)" "devices_of (drop_reg k i s) = filter (\<lambda>(k', _). k' \<noteq> k) (devices_of s)"
proof -
  note ok = registry_okD [OF assms(1)]
  have i: "i \<in> set (svOrder s)" "rgKey (svRegs s i) = k" using ok(3) [of k i] assms(2) by auto
  have regs: "svRegs (drop_reg k i s) = svRegs s" "svOrder (drop_reg k i s) = remove1 i (svOrder s)"
    "svNext (drop_reg k i s) = svNext s" "svDevices (drop_reg k i s) = (svDevices s)(k := None)"
    by (simp_all add: drop_reg_def)
  have only: "rgKey (svRegs s j) = k \<longleftrightarrow> j = i" if "j \<in> set (svOrder s)" for j
    using ok(3) [of k j] assms(2) that i(2) by auto
  have rest: "remove1 i (svOrder s) = filter (\<lambda>j. rgKey (svRegs s j) \<noteq> k) (svOrder s)"
    using only ok(1) by (simp add: distinct_remove1_removeAll removeAll_filter_not_eq cong: filter_cong) metis
  show "devices_of (drop_reg k i s) = filter (\<lambda>(k', _). k' \<noteq> k) (devices_of s)"
    unfolding devices_of_def regs rest by (simp add: filter_map o_def)
  show "registry_ok (drop_reg k i s)"
    unfolding registry_ok_def regs
  proof (intro conjI allI ballI)
    show "((svDevices s)(k := None)) k' = Some j \<longleftrightarrow> j \<in> set (remove1 i (svOrder s)) \<and> rgKey (svRegs s j) = k'" for k' j
      using ok(3) [of k' j] only [of j] by (auto simp: rest)
  qed (use ok in \<open>auto simp: rest\<close>)
qed

lemma swap_device_ok:
  assumes "registry_ok s" "svDevices s k = Some i" "implementsType (fst k) d"
  shows "registry_ok (swap_device i d c s)"
    "devices_of (swap_device i d c s) = map (\<lambda>(k', d'). if k' = k then (k', d) else (k', d')) (devices_of s)"
proof -
  note ok = registry_okD [OF assms(1)]
  have i: "i \<in> set (svOrder s)" "rgKey (svRegs s i) = k" using ok(3) [of k i] assms(2) by auto
  have regs: "svOrder (swap_device i d c s) = svOrder s" "svNext (swap_device i d c s) = svNext s"
    "svDevices (swap_device i d c s) = svDevices s"
    "rgKey (svRegs (swap_device i d c s) j) = rgKey (svRegs s j)"
    "rgDev (svRegs (swap_device i d c s) j) = (if j = i then d else rgDev (svRegs s j))" for j
    by (simp_all add: swap_device_def update_reg_def)
  have only: "rgKey (svRegs s j) = k \<longleftrightarrow> j = i" if "j \<in> set (svOrder s)" for j
    using ok(3) [of k j] assms(2) that i(2) by auto
  show "registry_ok (swap_device i d c s)"
    unfolding registry_ok_def regs
  proof (intro conjI allI ballI)
    show "implementsType (fst (rgKey (svRegs s j))) (if j = i then d else rgDev (svRegs s j))"
      if "j \<in> set (svOrder s)" for j using that assms(3) i(2) ok(4) by simp
  qed (use ok in auto)
  show "devices_of (swap_device i d c s) = map (\<lambda>(k', d'). if k' = k then (k', d) else (k', d')) (devices_of s)"
    using only by (simp add: devices_of_def regs)
qed

text \<open>The abstract operations: what a management call may do to the map, and whether it reports an
  error.  A reload depends on the host's reloader.\<close>

datatype 'w reg_op = DoRegister DeviceType int "'w device option" | DoUnregister DeviceType int
  | DoReload DeviceType int | DoSetReloader DeviceType int "'w reloader option"
  | DoSettingsPath DeviceType int string | DoRegisterConfigurable DeviceType int "'w configurable"

fun reg_do :: "'w reg_op \<Rightarrow> ('w server \<times> 'w) command" where
  "reg_do (DoRegister ty n d) = Register ty n d"
| "reg_do (DoUnregister ty n) = Unregister ty n"
| "reg_do (DoReload ty n) = Reload ty n"
| "reg_do (DoSetReloader ty n r) = SetReloader ty n r"
| "reg_do (DoSettingsPath ty n p) = SettingsPath ty n p"
| "reg_do (DoRegisterConfigurable ty n c) = RegisterConfigurable ty n c"

fun reg_spec :: "'w reg_op \<Rightarrow> (regKey \<times> 'w device) list \<Rightarrow> bool \<Rightarrow> (regKey \<times> 'w device) list \<Rightarrow> bool" where
  "reg_spec (DoRegister ty n d) m failed m' \<longleftrightarrow> (case d of
     Some d \<Rightarrow> if implementsType ty d \<and> (ty, n) \<notin> fst ` set m
              then \<not> failed \<and> m' = m @ [((ty, n), d)] else failed \<and> m' = m
   | None \<Rightarrow> failed \<and> m' = m)"
| "reg_spec (DoUnregister ty n) m failed m' \<longleftrightarrow>
     (failed \<longleftrightarrow> (ty, n) \<notin> fst ` set m) \<and> m' = filter (\<lambda>(k, _). k \<noteq> (ty, n)) m"
| "reg_spec (DoReload ty n) m failed m' \<longleftrightarrow> (failed \<and> m' = m) \<or>
     ((ty, n) \<in> fst ` set m \<and> (\<exists>d. implementsType ty d \<and>
        m' = map (\<lambda>(k, d'). if k = (ty, n) then (k, d) else (k, d')) m))"
| "reg_spec (DoSetReloader ty n r) m failed m' \<longleftrightarrow> (failed \<longleftrightarrow> (ty, n) \<notin> fst ` set m) \<and> m' = m"
| "reg_spec (DoSettingsPath ty n p) m failed m' \<longleftrightarrow> (failed \<longleftrightarrow> (ty, n) \<notin> fst ` set m) \<and> m' = m"
| "reg_spec (DoRegisterConfigurable ty n c) m failed m' \<longleftrightarrow> (failed \<longleftrightarrow> (ty, n) \<notin> fst ` set m) \<and> m' = m"

lemma server_steps [act_simps]:
  "ask (server_get f) k (s, w) = k (f s) (s, w)" "ask (server_set g) h (s, w) = h () (g s, w)"
  "ask (on_snd m) j (s, w) = (case m w of (x, w') \<Rightarrow> j x (s, w'))"
  by (simp_all add: ask_def server_get_def server_set_def on_fst_apply on_snd_apply case_prod_beta)

lemma key_listed:
  "registry_ok s \<Longrightarrow> (ty, n) \<in> fst ` set (devices_of s) \<longleftrightarrow> svDevices s (ty, n) \<noteq> None"
  using map_of_devices_of [of s ty n] map_of_eq_None_iff [of "devices_of s" "(ty, n)"]
  by (auto simp: lookup_def lookupRegistered_def)

text \<open>An operation whose last act succeeds and leaves \<open>core\<close> alone.\<close>

lemma quiet_tail:
  assumes "quiet core m" "registry_ok (fst w)"
  shows "registry_ok (fst (snd (m w)))" "devices_of (fst (snd (m w))) = devices_of (fst w)"
  using core_eq [OF quietD [OF assms(1)]] assms(2) by simp_all

definition refined :: "'w reg_op \<Rightarrow> 'w server \<times> 'w \<Rightarrow> bool" where
  "refined op w \<longleftrightarrow> registry_ok (fst (snd (reg_do op w)))
     \<and> reg_spec op (devices_of (fst w)) (fst (reg_do op w) \<noteq> None) (devices_of (fst (snd (reg_do op w))))"

lemma ask_ret_fst: "fst (ask m (\<lambda>_. ret x) w) = x" "snd (ask m (\<lambda>_. ret x) w) = snd (m w)"
  by (simp_all add: ask_apply case_prod_beta)

lemma Register_refined:
  fixes s :: "'w server"
  assumes "registry_ok s"
  shows "refined (DoRegister ty n d) (s, w)"
proof (cases d)
  case None
  then show ?thesis using assms by (simp add: refined_def Register_def)
next
  case (Some dv)
  show ?thesis
  proof (cases "implementsType ty dv \<and> svDevices s (ty, n) = None")
    case False
    then show ?thesis using assms Some
      by (auto simp: refined_def Register_def server_steps key_listed)
  next
    case True
    let ?s = "add_reg (ty, n) dv s"
    define tail :: "('w server \<times> 'w) command" where "tail = (if svRunning s
        then ask (loadSettingsFor (svNext s)) (\<lambda>_. ask (openHardwareFor (svNext s)) (\<lambda>_. pass)) else pass)"
    have q: "quiet core tail" unfolding tail_def by (intro quiet_intros)
    have e: "fst (tail u) = None" for u by (simp add: tail_def ask_apply case_prod_beta)
    have "Register ty n d (s, w) = tail (?s, w)"
      using True Some by (simp add: Register_def server_steps tail_def)
    then show ?thesis
      using quiet_tail [OF q, of "(?s, w)"] add_reg_ok [of s "(ty, n)" dv] assms True e Some key_listed [OF assms]
      by (simp add: refined_def)
  qed
qed

lemma Unregister_refined:
  assumes "registry_ok s"
  shows "refined (DoUnregister ty n) (s, w)"
proof (cases "svDevices s (ty, n)")
  case None
  then have "filter (\<lambda>(k, _). k \<noteq> (ty, n)) (devices_of s) = devices_of s"
    using key_listed [OF assms, of ty n] by (intro filter_True) force
  then show ?thesis using None assms key_listed [OF assms, of ty n]
    by (simp add: refined_def Unregister_def server_steps lookupRegistered_def)
next
  case (Some i)
  let ?s = "drop_reg (ty, n) i s"
  have "Unregister ty n (s, w) = ask (closeHardwareFor i) (\<lambda>_. pass) (?s, w)"
    using Some by (simp add: Unregister_def server_steps lookupRegistered_def)
  then show ?thesis
    using quiet_tail [OF closeHardwareFor_quiet, of "(?s, w)" i] drop_reg_ok [OF assms Some] key_listed [OF assms, of ty n] Some
    by (simp add: refined_def ask_ret_fst)
qed

lemma with_missing: "svDevices s (ty, n) = None \<Longrightarrow> with_registered ty n k (s, w) = (Some (not_registered ty n), (s, w))"
  by (simp add: with_registered_def server_steps lookupRegistered_def)

lemma quiet_op:
  assumes "registry_ok s" "\<And>i. quiet core (k i)" "\<And>i u. fst (k i u) = None"
  shows "registry_ok (fst (snd (with_registered ty n k (s, w))))
    \<and> (fst (with_registered ty n k (s, w)) \<noteq> None \<longleftrightarrow> (ty, n) \<notin> fst ` set (devices_of s))
    \<and> devices_of (fst (snd (with_registered ty n k (s, w)))) = devices_of s"
proof (cases "svDevices s (ty, n)")
  case None
  then show ?thesis using assms(1) key_listed [OF assms(1), of ty n] by (simp add: with_missing)
next
  case (Some i)
  then have "with_registered ty n k (s, w) = k i (s, w)"
    by (simp add: with_registered_def server_steps lookupRegistered_def)
  then show ?thesis
    using quiet_tail [OF assms(2), of "(s, w)" i] assms(1,3) key_listed [OF assms(1), of ty n] Some by simp
qed

lemma setter_refined:
  assumes "registry_ok s"
  shows "refined (DoSetReloader ty n r) (s, w)" "refined (DoSettingsPath ty n p) (s, w)"
    "refined (DoRegisterConfigurable ty n c) (s, w)"
proof -
  have q: "quiet core (ask (server_set (update_reg i (rgReloader_update (\<lambda>_. r)))) (\<lambda>_. pass))"
    "quiet core (ask (server_set (update_reg i (rgSettingsKey_update (\<lambda>_. p)))) (\<lambda>_. pass))"
    "quiet core (ask (server_set (update_reg i (rgCfg_update (\<lambda>_. Some c)))) (\<lambda>_.
       ask (server_get svRunning) (\<lambda>running. if running then ask (loadSettingsFor i) (\<lambda>_. pass) else pass)))" for i
    by (intro quiet_intros; simp)+
  have e: "fst (ask (server_set f) (\<lambda>_. pass) u) = None"
    "fst (ask (server_set f) (\<lambda>_. ask (server_get svRunning) (\<lambda>running.
       if running then ask (loadSettingsFor i) (\<lambda>_. pass) else pass)) u) = None" for f u i
    by (simp_all add: ask_apply case_prod_beta)
  note defs = refined_def reg_do.simps reg_spec.simps SetReloader_def SettingsPath_def
    RegisterConfigurable_def fst_conv
  show "refined (DoSetReloader ty n r) (s, w)" unfolding defs by (rule quiet_op [OF assms q(1) e(1)])
  show "refined (DoSettingsPath ty n p) (s, w)" unfolding defs by (rule quiet_op [OF assms q(2) e(1)])
  show "refined (DoRegisterConfigurable ty n c) (s, w)" unfolding defs by (rule quiet_op [OF assms q(3) e(2)])
qed

lemma Reload_refined:
  fixes s :: "'w server"
  assumes "registry_ok s"
  shows "refined (DoReload ty n) (s, w)"
proof (cases "svDevices s (ty, n)")
  case None
  then show ?thesis using assms by (simp add: refined_def Reload_def with_missing)
next
  case (Some i)
  show ?thesis
  proof (cases "rgReloader (svRegs s i)")
    case None
    then show ?thesis using assms Some
      by (simp add: refined_def Reload_def with_registered_def server_steps lookupRegistered_def)
  next
    case (Some reload)
    obtain made w' where m: "reload w = (made, w')" by force
    have start: "Reload ty n (s, w) = (case made of
         Inl e \<Rightarrow> fail (reload_wrap ty n [] e)
       | Inr (None, _) \<Rightarrow> fail (reload_error ty n ''reloader returned no device'')
       | Inr (Some d, c) \<Rightarrow>
           if \<not> implementsType ty d then fail (reload_error ty n ''device does not implement the interface'')
           else ask (closeHardwareFor i) (\<lambda>_. ask (server_set (swap_device i d c)) (\<lambda>_.
             ask (loadSettingsFor i) (\<lambda>_. ask (openHardwareFor i) (\<lambda>err. case err of
               Some e \<Rightarrow> fail (reload_wrap ty n ''hardware open: '' e)
             | None \<Rightarrow> pass))))) (s, w')"
      using \<open>svDevices s (ty, n) = Some i\<close> Some m
      by (simp add: Reload_def with_registered_def server_steps lookupRegistered_def)
    show ?thesis
    proof (cases "\<exists>d c. made = Inr (Some d, c) \<and> implementsType ty d")
      case False
      then show ?thesis using start assms
        by (cases made) (auto simp: refined_def split: prod.splits option.splits)
    next
      case True
      then obtain d c where d: "made = Inr (Some d, c)" "implementsType ty d" by blast
      define tail :: "('w server \<times> 'w) command" where "tail = ask (loadSettingsFor i) (\<lambda>_. ask (openHardwareFor i) (\<lambda>err. case err of
               Some e \<Rightarrow> fail (reload_wrap ty n ''hardware open: '' e)
             | None \<Rightarrow> pass))"
      have q: "quiet core tail" unfolding tail_def by (intro quiet_intros)
      obtain s1 w1 where c1: "snd (closeHardwareFor i (s, w')) = (s1, w1)" by force
      have s1: "registry_ok s1" "devices_of s1 = devices_of s" "svDevices s1 = svDevices s"
        using quiet_tail [OF closeHardwareFor_quiet, of "(s, w')" i] quietD [OF closeHardwareFor_quiet, of i "(s, w')"]
          assms c1 by (simp_all add: core_def)
      have "Reload ty n (s, w) = tail (swap_device i d c s1, w1)"
        using start d c1 by (simp add: ask_apply [of "closeHardwareFor i"] case_prod_beta server_steps tail_def)
      then show ?thesis
        using quiet_tail [OF q, of "(swap_device i d c s1, w1)"]
          swap_device_ok [OF s1(1), of "(ty, n)" i d c] s1 \<open>svDevices s (ty, n) = Some i\<close> d(2)
          key_listed [OF assms, of ty n]
        by (auto simp: refined_def)
    qed
  qed
qed

text \<open>C10: The registry implements an ordered map from addresses to devices.  From a well-formed registry
  every management call, whatever the device, its hardware, its settings store or the host's reloader do,
  leaves a well-formed registry and changes the map as its specification says: a registration appends a
  device that implements its type to a free address and is refused otherwise, an unregistration removes
  exactly its address, a reload either replaces the device at its address by one of the same type or
  changes nothing, and the rest change nothing.  Looking an address up agrees with the map.\<close>

theorem registry_refines_map:
  assumes "registry_ok (fst w)"
  shows "registry_ok (fst (snd (reg_do op w)))
    \<and> reg_spec op (devices_of (fst w)) (fst (reg_do op w) \<noteq> None) (devices_of (fst (snd (reg_do op w))))
    \<and> (\<forall>ty n. lookup ty n (fst (snd (reg_do op w))) = map_of (devices_of (fst (snd (reg_do op w)))) (ty, n))"
proof -
  obtain s u where w: "w = (s, u)" by force
  have "refined op w"
    using assms Register_refined Unregister_refined Reload_refined setter_refined by (cases op) (simp_all add: w)
  then show ?thesis by (simp add: refined_def map_of_devices_of)
qed

lemma registry_ok_New: "registry_ok (New cfg)" "devices_of (New cfg) = []"
  by (simp_all add: registry_ok_def devices_of_def New_def)

theorem registry_refines_map_witness:
  "\<forall>cfg w. lookup SafetyMonitorType 0 (fst (snd (reg_do (DoRegister SafetyMonitorType 0 (Some overriding_monitor)) (New cfg, w))))
     = Some overriding_monitor"
proof (intro allI)
  fix cfg :: "(base_device \<times> time) server" and w
  have "implementsType SafetyMonitorType overriding_monitor"
    by (simp add: implementsType_def overriding_monitor_def)
  then show "lookup SafetyMonitorType 0 (fst (snd (reg_do (DoRegister SafetyMonitorType 0 (Some overriding_monitor)) (New cfg, w))))
     = Some overriding_monitor"
    using registry_refines_map [of "(New cfg, w)" "DoRegister SafetyMonitorType 0 (Some overriding_monitor)"]
    by (simp add: registry_ok_New del: reg_do.simps)
qed

end
