(* ===== verification/Sim_Camera_Exposure.thy ===== *)
theory Sim_Camera_Exposure
  imports Sim_Camera
begin

text \<open>
  What the simulated camera guarantees: the pixels of a frame, the life of an exposure, and the ranges
  that gated requests keep.
\<close>

section \<open>The pixels of a frame\<close>

text \<open>The reference: byte \<open>j\<close> belongs to pixel \<open>j div 2\<close>, in column \<open>j div 2 mod w\<close>.\<close>

definition gradient_byte :: "int \<Rightarrow> nat \<Rightarrow> byte" where
  "gradient_byte w j = (let v = gradient w ((j div 2) mod nat w) in
     if even j then ucast v else ucast (drop_bit 8 v))"

definition gradient_pixels :: "int \<Rightarrow> int \<Rightarrow> bytes" where
  "gradient_pixels w h = map (gradient_byte w) [0 ..< nat w * nat h * 2]"

lemma PutUint16_spec:
  assumes "2 * i + 2 \<le> length buf"
  shows "\<exists>buf'. PutUint16 (i * 2) v buf = Some buf' \<and> length buf' = length buf
    \<and> (\<forall>j < length buf. buf' ! j =
         (if j div 2 = i then (if even j then ucast v else ucast (drop_bit 8 v)) else buf ! j))"
proof -
  have "j = i * 2 \<and> even j \<or> j = i * 2 + 1 \<and> odd j" if "j div 2 = i" for j
    using that by presburger
  then show ?thesis using assms by (auto simp: PutUint16_def nth_list_update)
qed

lemma image_buffer_eq:
  assumes "0 < w" "0 < h" "w * h * 2 \<le> 2 ^ 48"
  shows "image_buffer w h = Some (gradient_pixels w h)"
proof -
  let ?W = "nat w" and ?H = "nat h"
  let ?n = "?W * ?H * 2"
  let ?f = "\<lambda>(x, y) buf. PutUint16 ((y * nat w + x) * 2) (gradient w x) buf"
  let ?ps = "[(x, y). x \<leftarrow> [0 ..< ?W], y \<leftarrow> [0 ..< ?H]]"
  let ?own = "\<lambda>(x, y) j. j div 2 = y * ?W + x"
  have "in_i64 (w * h * 2)" using assms by (simp add: in_i64_def) (smt (verit) mult_pos_pos)
  moreover have n: "nat (w * h * 2) = ?n" using assms by (simp add: nat_mult_distrib)
  moreover have "0 \<le> w * h * 2" using assms by simp
  ultimately have buf: "make_bytes (wrap64 (w * h * 2)) = Some (replicate ?n 0)"
    using assms(3) by (simp add: make_bytes_def)
  have "\<exists>b. ?f p d = Some b \<and> length b = ?n
      \<and> (\<forall>j < ?n. b ! j = (if ?own p j then gradient_byte w j else d ! j))"
    if p: "p \<in> set ?ps" and d: "length d = ?n" for p d
  proof -
    obtain x y where xy: "p = (x, y)" "x < ?W" "y < ?H" using p by auto
    have "y * ?W + x < ?H * ?W" using grid_pos_less [of x ?W y ?H] xy by (simp add: mult.commute)
    then have "2 * (y * ?W + x) + 2 \<le> length d" using d by (simp add: mult.commute)
    from PutUint16_spec [OF this, of "gradient w x"] show ?thesis
      using xy d by (auto simp: gradient_byte_def Let_def)
  qed
  from run_writes_spec [of ?ps ?n ?f, OF this, of "replicate ?n 0"]
  obtain b where b: "run_writes ?f ?ps (replicate ?n 0) = Some b" "length b = ?n"
    "\<forall>j < ?n. b ! j = (if \<exists>p \<in> set ?ps. ?own p j then gradient_byte w j else replicate ?n 0 ! j)"
    by auto
  have "\<exists>p \<in> set ?ps. ?own p j" if "j < ?n" for j
  proof -
    have "j div 2 < ?H * ?W" using that by (simp add: mult.commute less_mult_imp_div_less)
    then have "j div 2 div ?W < ?H" "j div 2 mod ?W < ?W"
      using assms(1) by (simp_all add: less_mult_imp_div_less)
    then show ?thesis
      by (simp, intro bexI [of _ "j div 2 mod ?W"] bexI [of _ "j div 2 div ?W"]) simp_all
  qed
  then have "b = gradient_pixels w h"
    using b by (intro nth_equalityI) (simp_all add: gradient_pixels_def)
  then show ?thesis using buf b(1) by (simp add: image_buffer_def)
qed

lemma length_gradient_pixels [simp]: "length (gradient_pixels w h) = nat w * nat h * 2"
  by (simp add: gradient_pixels_def)

text \<open>No pixel value wraps at 16 bits: column \<open>x\<close> of \<open>w\<close> holds \<open>x * 65535 div w\<close>.\<close>

lemma gradient_value:
  assumes "int x < w" "w \<le> 2 ^ 32"
  shows "uint (gradient w x) = int x * 65535 div w"
proof -
  have "in_i64 (int x * 65535)" using assms by (simp add: in_i64_def)
  moreover have q: "quot64 (int x * 65535) w = int x * 65535 div w"
    using assms by (cases x) (auto simp: quot64_def sgn_if abs_mult)
  moreover have "int x * 65535 div w < 2 ^ 16"
    using assms zdiv_mono1 [of "int x * 65535" "w * 65535" w] by simp
  moreover have "0 \<le> int x * 65535 div w" using assms by (simp add: pos_imp_zdiv_nonneg_iff)
  ultimately show ?thesis by (simp add: gradient_def unsigned_of_int take_bit_int_eq_self)
qed

section \<open>Ranges\<close>

definition cam_ok :: "time \<Rightarrow> sim_camera \<Rightarrow> bool" where
  "cam_ok now c \<longleftrightarrow> 1 \<le> binX c \<and> binX c \<le> 4 \<and> 1 \<le> binY c \<and> binY c \<le> 4
     \<and> 0 \<le> startX c \<and> startX c < 2 ^ 62 \<and> 0 \<le> startY c \<and> startY c < 2 ^ 62
     \<and> 0 \<le> numX c \<and> numX c < 2 ^ 62 \<and> 0 \<le> numY c \<and> numY c < 2 ^ 62
     \<and> 0 \<le> gain c \<and> gain c \<le> 300 \<and> 0 \<le> offset c \<and> offset c \<le> 100
     \<and> Fin (-27315 / 100) \<le> setpoint c \<and> setpoint c \<le> 30 \<and> startTime c \<le> now
     \<and> (hasExposure c \<longrightarrow> 1 \<le> expW c \<and> expW c \<le> 1936 \<and> 1 \<le> expH c \<and> expH c \<le> 1096
          \<and> startTime c \<le> readyAt c \<and> readyAt c \<le> startTime c + 3600 * 10 ^ 9 \<and> 0 \<le> lastDuration c \<and> lastDuration c \<le> 3600)"

abbreviation cinv :: "cworld \<Rightarrow> bool" where
  "cinv w \<equiv> cam_ok (clock w) (dev w)"

lemma cam_ok_New: "0 \<le> now \<Longrightarrow> cam_ok now NewCamera"
  by (simp add: cam_ok_def NewCamera_def zero_time_def)

lemma cam_ok_later: "cam_ok now c \<Longrightarrow> now \<le> now' \<Longrightarrow> cam_ok now' c"
  by (simp add: cam_ok_def)

lemma SimCamera_sel [simp]:
  "cFlag SimCamera = cam_flag_read" "cInt SimCamera = cam_int_read"
  "cList SimCamera l = ret (Inl ErrNotImplemented)" "cSensorType SimCamera = ret SensorMonochrome"
  "cReadoutModes SimCamera = ret [''Default'']" "cDo SimCamera = cam_do"
  "cImageFrame SimCamera = reading as_is cam_ImageFrame"
  by (simp_all add: SimCamera_def)

lemma reading_as_is [simp]: "reading as_is f w = (f (clock w) (dev w), w)"
  by (simp add: reading_def)

lemma subframe_check_None:
  assumes "subframe_check maxW maxH sx sy nx ny = None" "sx < 2 ^ 62" "nx < 2 ^ 62" "sy < 2 ^ 62" "ny < 2 ^ 62"
  shows "0 \<le> sx \<and> 1 \<le> nx \<and> sx + nx \<le> maxW \<and> 0 \<le> sy \<and> 1 \<le> ny \<and> sy + ny \<le> maxH"
proof -
  have "0 \<le> sx" "1 \<le> nx" "0 \<le> sy" "1 \<le> ny"
    using assms(1) by (auto simp: subframe_check_def split: if_splits)
  moreover from this have "in_i64 (sx + nx)" "in_i64 (sy + ny)"
    using assms(2-5) by (auto simp: in_i64_def)
  ultimately show ?thesis using assms(1) by (auto simp: subframe_check_def split: if_splits)
qed

lemma quot64_le: "0 \<le> a \<Longrightarrow> 1 \<le> b \<Longrightarrow> quot64 a b \<le> a"
  using zdiv_mono2 [of a 1 b] by (cases "a = 0") (simp_all add: quot64_def)

lemma validSubframe_sim:
  "validSubframe SimCamera w =
     ((if binX (dev w) < 1 \<or> binY (dev w) < 1
       then Some (invalidValuef ''BinX/BinY %dx%d is not a valid binning''
              [FmtInt (binX (dev w)), FmtInt (binY (dev w))])
       else subframe_check (quot64 1936 (binX (dev w))) (quot64 1096 (binY (dev w)))
              (startX (dev w)) (startY (dev w)) (numX (dev w)) (numY (dev w))), w)"
  by (simp add: validSubframe_def ask_apply)

lemma validSubframe_size:
  assumes "fst (validSubframe SimCamera w) = None" "cinv w"
  shows "1 \<le> numX (dev w) \<and> startX (dev w) + numX (dev w) \<le> 1936
    \<and> 1 \<le> numY (dev w) \<and> startY (dev w) + numY (dev w) \<le> 1096"
proof -
  let ?c = "dev w"
  have "subframe_check (quot64 1936 (binX ?c)) (quot64 1096 (binY ?c)) (startX ?c) (startY ?c)
      (numX ?c) (numY ?c) = None"
    using assms by (auto simp: validSubframe_sim cam_ok_def split: if_splits)
  moreover have "quot64 1936 (binX ?c) \<le> 1936" "quot64 1096 (binY ?c) \<le> 1096"
    using assms(2) by (auto intro!: quot64_le simp: cam_ok_def)
  ultimately show ?thesis using assms(2)
      subframe_check_None [of _ _ "startX ?c" "startY ?c" "numX ?c" "numY ?c"]
    by (auto simp: cam_ok_def intro: order_trans)
qed

lemma int_of_f64_Fin_nonneg: "0 \<le> x \<Longrightarrow> x < 2 ^ 63 \<Longrightarrow> int_of_f64 (Fin x) = \<lfloor>x\<rfloor>"
  by (simp add: rat_trunc_nonneg in_i64_def floor_less_iff le_floor_iff)

lemma StartExposure_ok:
  assumes "cinv w" "fst (validSubframe SimCamera w) = None" "finite64 d"
  shows "cinv (snd (cam_StartExposure d l w))"
proof -
  obtain x where d: "d = Fin x" using assms(3) by (auto simp: finite64_iff)
  show ?thesis
  proof (cases "x < 1 / 1000 \<or> 3600 < x")
    case True
    then show ?thesis using assms(1) d by (simp add: cam_StartExposure_def)
  next
    case False
    then have "int_of_f64 (d * Fin 1000000000) = \<lfloor>x * 1000000000\<rfloor>"
      using int_of_f64_Fin_nonneg [of "x * 1000000000"] d by simp
    then show ?thesis using False validSubframe_size [OF assms(2,1)] assms(1) d
      by (simp add: cam_StartExposure_def cam_ok_def Let_def)
  qed
qed

lemma Stop_Abort_ok:
  assumes "cam_ok now c"
  shows "cam_ok now (cam_StopExposure now c)" "cam_ok now (cam_AbortExposure now c)"
proof -
  have "0 \<le> secs now (startTime c)" using assms by (simp add: cam_ok_def secs_nonneg)
  moreover have "secs now (startTime c) \<le> 3600" if "now < readyAt c" "hasExposure c"
    using that assms by (simp add: cam_ok_def secs_def time_sub_def)
  ultimately show "cam_ok now (cam_StopExposure now c)"
    using assms by (auto simp: cam_StopExposure_def Let_def cam_ok_def)
  show "cam_ok now (cam_AbortExposure now c)"
    using assms by (auto simp: cam_AbortExposure_def Let_def cam_ok_def)
qed

text \<open>No gate of this camera changes the state.\<close>

lemma keeps_cinv:
  assumes "\<And>w. snd (g w) = w" "\<And>w. cinv w \<Longrightarrow> fst (g w) = None \<Longrightarrow> cinv (snd (k w))"
  shows "keeps cinv (gate g k)"
  unfolding keeps_def
proof (intro allI impI)
  fix w assume "cinv w"
  obtain e where "g w = (e, w)" using assms(1) [of w] by (metis prod.collapse)
  then show "cinv (snd (gate g k w))"
    using assms(2) [OF \<open>cinv w\<close>] \<open>cinv w\<close> by (cases e) (simp_all add: gate_apply)
qed

lemma sim_gates_pure:
  "snd (GateCameraSetBinX SimCamera n w) = w" "snd (GateCameraSetBinY SimCamera n w) = w"
  "snd (GateCameraSetGain SimCamera n w) = w" "snd (GateCameraSetOffset SimCamera n w) = w"
  "snd (GateCameraSetCCDTemperature SimCamera x w) = w" "snd (validSubframe SimCamera w) = w"
  by (simp_all add: GateCameraSetBinX_def GateCameraSetBinY_def GateCameraSetGain_def
      GateCameraSetOffset_def GateCameraGain_def GateCameraOffset_def camCan_def validSubframe_sim
      GateCameraSetCCDTemperature_def gate_apply)

lemma sim_gates_pass:
  "fst (GateCameraSetBinX SimCamera n w) = None \<longleftrightarrow> 1 \<le> n \<and> n \<le> 4"
  "fst (GateCameraSetBinY SimCamera n w) = None \<longleftrightarrow> 1 \<le> n \<and> n \<le> 4"
  "fst (GateCameraSetGain SimCamera n w) = None \<longleftrightarrow> 0 \<le> n \<and> n \<le> 300"
  "fst (GateCameraSetOffset SimCamera n w) = None \<longleftrightarrow> 0 \<le> n \<and> n \<le> 100"
  "GateCameraSubframeOrigin m n = None \<longleftrightarrow> 0 \<le> n" "GateCameraSubframeSize m n = None \<longleftrightarrow> 0 \<le> n"
  by (auto simp: GateCameraSetBinX_def GateCameraSetBinY_def GateCameraSetGain_def
      GateCameraSetOffset_def GateCameraGain_def GateCameraOffset_def camCan_def
      GateCameraSubframeOrigin_def GateCameraSubframeSize_def gate_apply)

lemma cam_guarded: "cam_args_ok k \<Longrightarrow> keeps cinv (gate (camera_gate SimCamera k) (cam_do k))"
proof (induction k)
  case (StartExposure d l)
  have "keeps cinv (gate (validSubframe SimCamera) (cam_StartExposure d l))"
    using StartExposure by (intro keeps_cinv) (simp_all add: sim_gates_pure StartExposure_ok)
  then show ?case by (simp add: gate_assoc keeps_gate)
next
  case (SetSetCCDTemperature x)
  then show ?case
    by (intro keeps_cinv) (auto simp: sim_gates_pure cam_SetSetCCDTemperature_def cam_ok_def finite64_iff)
next
  case StopExposure
  then show ?case by (simp add: GateCameraStopExposure_def camCan_def keeps_updating Stop_Abort_ok)
next
  case AbortExposure
  then show ?case by (simp add: GateCameraAbortExposure_def camCan_def keeps_updating Stop_Abort_ok)
next
  case (SetBinX n)
  then show ?case by (intro keeps_cinv) (simp_all add: sim_gates_pure sim_gates_pass cam_ok_def)
next
  case (SetBinY n)
  then show ?case by (intro keeps_cinv) (simp_all add: sim_gates_pure sim_gates_pass cam_ok_def)
next
  case (SetGain n)
  then show ?case by (intro keeps_cinv) (simp_all add: sim_gates_pure sim_gates_pass cam_ok_def)
next
  case (SetOffset n)
  then show ?case by (intro keeps_cinv) (simp_all add: sim_gates_pure sim_gates_pass cam_ok_def)
qed (intro keeps_cinv; simp add: sim_gates_pass cam_ok_def GateCameraSetReadoutMode_def
      GateCameraSetFastReadout_def GateCameraFastReadout_def camCan_def GateCameraPulseGuide_def
      GateCameraSubExposureDuration_def gate_apply)+

interpretation sim_cam_inv: camera_invariant SimCamera cinv
  by unfold_locales (simp add: cam_guarded)

lemma CCDTemperature_range:
  assumes "cam_ok now c"
  shows "Fin (-27315 / 100) \<le> cam_CCDTemperature now c \<and> cam_CCDTemperature now c \<le> 30"
proof -
  define g where "g = (if coolerOn c then setpoint c else 20)"
  obtain t where t: "g = Fin t" "-27315 / 100 \<le> t" "t \<le> 30"
    using assms by (cases "setpoint c"; cases "coolerOn c") (simp_all add: g_def cam_ok_def)
  define e where "e = (if startTime c = zero_time then 5 else secs now (startTime c)) / 5"
  define f where "f = (if e < 0 then 0 else if e > 1 then 1 else e)"
  define v where "v = 20 + (t - 20) * f"
  have "cam_CCDTemperature now c = Fin v"
    using t(1) by (simp add: cam_CCDTemperature_def Let_def f_def e_def v_def flip: g_def)
  have f: "0 \<le> f" "f \<le> 1" by (simp_all add: f_def)
  have v: "v = (1 - f) * 20 + f * t" by (simp add: v_def algebra_simps)
  have "lo \<le> v \<and> v \<le> hi" if "lo \<le> 20" "lo \<le> t" "20 \<le> hi" "t \<le> hi" for lo hi
  proof -
    have "(1 - f) * lo + f * lo \<le> v \<and> v \<le> (1 - f) * hi + f * hi"
      unfolding v using f that by (intro conjI add_mono mult_left_mono) simp_all
    moreover have "(1 - f) * x + f * x = x" for x by (simp add: algebra_simps)
    ultimately show ?thesis by simp
  qed
  from this [of "-27315 / 100" 30] show ?thesis
    using t \<open>cam_CCDTemperature now c = Fin v\<close> by simp
qed

section \<open>The life of an exposure\<close>

text \<open>A run of commands, each after a pause.\<close>

fun cam_run :: "(int \<times> cam_cmd) list \<Rightarrow> cworld \<Rightarrow> cworld" where
  "cam_run [] w = w"
| "cam_run ((d, k) # tr) w = cam_run tr (snd (cam_do k (sleep d w)))"

fun exposure_cmd :: "cam_cmd \<Rightarrow> bool" where
  "exposure_cmd (StartExposure d l) = True"
| "exposure_cmd StopExposure = True"
| "exposure_cmd AbortExposure = True"
| "exposure_cmd _ = False"

fun starts :: "cam_cmd \<Rightarrow> bool" where
  "starts (StartExposure d l) = True"
| "starts _ = False"

definition exposure :: "sim_camera \<Rightarrow> time \<times> time \<times> f64 \<times> string \<times> bool \<times> bool \<times> int \<times> int" where
  "exposure c = (startTime c, readyAt c, lastDuration c, lastStartTime c, hasExposure c, exposing c,
     expW c, expH c)"

definition total :: "(int \<times> cam_cmd) list \<Rightarrow> int" where
  "total tr = sum_list (map fst tr)"

lemma cam_do_clock [simp]: "clock (snd (cam_do k w)) = clock w"
  by (cases k) (simp_all add: cam_StartExposure_def cam_SetSetCCDTemperature_def Let_def)

lemma cam_run_clock [simp]: "clock (cam_run tr w) = clock w + total tr"
  by (induction tr w rule: cam_run.induct) (simp_all add: total_def)

lemma cam_run_append: "cam_run (xs @ ys) w = cam_run ys (cam_run xs w)"
  by (induction xs w rule: cam_run.induct) simp_all

lemma cam_run_exposure:
  "list_all (\<lambda>(d, k). \<not> exposure_cmd k) tr \<Longrightarrow> exposure (dev (cam_run tr w)) = exposure (dev w)"
proof (induction tr w rule: cam_run.induct)
  case (2 d k tr w)
  have "exposure (dev (snd (cam_do k (sleep d w)))) = exposure (dev w)"
    using 2 by (cases k) (simp_all add: exposure_def cam_SetSetCCDTemperature_def)
  with 2 show ?case by simp
qed simp

text \<open>C29: An accepted \<open>StartExposure\<close> of duration \<open>d\<close> fixes the frame: whatever settings (binning,
  subframe, gain, cooler) are written afterwards, until the duration has elapsed the camera reports
  Exposing, no image, and refuses the image with InvalidOperation; from that instant on it is Idle with
  the image ready and 100 percent, and the image is a frame of the geometry set when the exposure
  started.\<close>

theorem exposure_completes:
  assumes "1 / 1000 \<le> d" "d \<le> 3600" "list_all (\<lambda>(d, k). \<not> exposure_cmd k) tr" "0 \<le> total tr"
    "1 \<le> numX (dev w)" "numX (dev w) \<le> 1936" "1 \<le> numY (dev w)" "numY (dev w) \<le> 1096"
  shows "\<exists>w1. cam_StartExposure (Fin d) light w = (None, w1) \<and>
    (let w2 = cam_run tr w1; now = clock w2; c = dev w2 in
      (if total tr < \<lfloor>d * 10 ^ 9\<rfloor>
       then cam_CameraState now c = CameraExposing \<and> \<not> cam_ImageReady now c
         \<and> cam_ImageFrame now c = Inl ErrInvalidOperation
       else cam_CameraState now c = CameraIdle \<and> cam_ImageReady now c
         \<and> cam_PercentCompleted now c = 100 \<and> cam_LastExposureDuration now c = Inr (Fin d)
         \<and> cam_ImageFrame now c = Inr \<lparr>Rank = 2, Width = numX (dev w), Height = numY (dev w), Planes = 0,
             ElementType = ImgInt32, TransmissionElementType = ImgUInt16,
             Pixels = gradient_pixels (numX (dev w)) (numY (dev w))\<rparr>))"
proof -
  let ?w1 = "snd (cam_StartExposure (Fin d) light w)"
  let ?W = "numX (dev w)" and ?H = "numY (dev w)"
  have n: "int_of_f64 (Fin (d * 1000000000)) = \<lfloor>d * 10 ^ 9\<rfloor>"
    using int_of_f64_Fin_nonneg [of "d * 10 ^ 9"] assms(1,2) by simp
  have start: "cam_StartExposure (Fin d) light w = (None, ?w1)" "clock ?w1 = clock w"
    "exposure (dev ?w1) = (clock w, clock w + \<lfloor>d * 10 ^ 9\<rfloor>, Fin d, format_date (clock w), True, True, ?W, ?H)"
    using assms(1,2) n by (simp_all add: cam_StartExposure_def Let_def exposure_def)
  have "exposure (dev (cam_run tr ?w1)) = exposure (dev ?w1)"
    using assms(3) by (rule cam_run_exposure)
  moreover have "?W * ?H * 2 \<le> 1936 * 1096 * 2"
    using assms(5-8) by (intro mult_right_mono mult_mono) simp_all
  then have "image_buffer ?W ?H = Some (gradient_pixels ?W ?H)"
    using assms(5-8) by (intro image_buffer_eq) simp_all
  ultimately show ?thesis using start assms(1,4)
    by (intro exI [of _ ?w1])
      (auto simp: Let_def exposure_def cam_CameraState_def cam_ImageReady_def cam_ImageFrame_def
        cam_PercentCompleted_def cam_LastExposureDuration_def)
qed

theorem exposure_completes_witness:
  "\<exists>w1. cam_StartExposure (Fin 2) True \<lparr>clock = 5, dev = NewCamera\<rparr> = (None, w1) \<and>
    cam_ImageReady (clock (cam_run [(ms 1500, SetNumX 8), (ms 1500, SetBinX 2)] w1))
      (dev (cam_run [(ms 1500, SetNumX 8), (ms 1500, SetBinX 2)] w1))"
  using exposure_completes [of 2 "[(ms 1500, SetNumX 8), (ms 1500, SetBinX 2)]"
      "\<lparr>clock = 5, dev = NewCamera\<rparr>" True]
  by (simp add: total_def ms_def NewCamera_def Let_def) blast

lemma cam_run_idle:
  "\<not> exposing (dev w) \<Longrightarrow> list_all (\<lambda>(d, k). \<not> starts k) tr \<Longrightarrow>
     exposure (dev (cam_run tr w)) = exposure (dev w)"
proof (induction tr w rule: cam_run.induct)
  case (2 d k tr w)
  let ?w = "snd (cam_do k (sleep d w))"
  have e: "exposure (dev ?w) = exposure (dev w)"
    using 2 by (cases k) (simp_all add: exposure_def cam_SetSetCCDTemperature_def cam_StopExposure_def
        cam_AbortExposure_def Let_def)
  then have "\<not> exposing (dev ?w)" using 2 by (simp add: exposure_def)
  with 2 e show ?case by simp
qed simp

text \<open>C30: Interrupting an exposure in progress.  \<open>StopExposure\<close> keeps the data: the image is ready at
  once and stays so, the recorded duration is the time actually exposed, shorter than requested.
  \<open>AbortExposure\<close> discards it: no image is offered and no last exposure reported, however long the
  client waits and whatever it writes, until a new exposure is started.\<close>

theorem exposure_interrupted:
  assumes "exposing (dev w)" "hasExposure (dev w)" "startTime (dev w) \<le> clock w" "clock w < readyAt (dev w)"
    "in_i64 (readyAt (dev w) - startTime (dev w))"
    "list_all (\<lambda>(d, k). \<not> starts k) tr" "0 \<le> total tr"
  shows "(let w1 = cam_run tr (snd (cam_do StopExposure w)) in
      cam_ImageReady (clock w1) (dev w1) \<and> cam_CameraState (clock w1) (dev w1) = CameraIdle
      \<and> cam_LastExposureDuration (clock w1) (dev w1)
          = Inr (Fin (of_int (clock w - startTime (dev w)) / 10 ^ 9)))
    \<and> (let w1 = cam_run tr (snd (cam_do AbortExposure w)) in
      \<not> cam_ImageReady (clock w1) (dev w1) \<and> cam_CameraState (clock w1) (dev w1) = CameraIdle
      \<and> cam_LastExposureDuration (clock w1) (dev w1) = Inl ErrValueNotSet
      \<and> cam_ImageFrame (clock w1) (dev w1) = Inl ErrInvalidOperation)"
proof -
  let ?s = "snd (cam_do StopExposure w)" and ?a = "snd (cam_do AbortExposure w)"
  have "in_i64 (clock w - startTime (dev w))" using assms(3-5) by (simp add: in_i64_def)
  then have d: "secs (clock w) (startTime (dev w)) = of_int (clock w - startTime (dev w)) / 10 ^ 9"
    by (simp add: secs_exact)
  have "exposure (dev (cam_run tr ?s)) = exposure (dev ?s)" "exposure (dev (cam_run tr ?a)) = exposure (dev ?a)"
    using assms(6) by (intro cam_run_idle; simp add: cam_StopExposure_def cam_AbortExposure_def Let_def)+
  then show ?thesis
    using assms d by (auto simp: Let_def exposure_def cam_ImageReady_def cam_CameraState_def
        cam_LastExposureDuration_def cam_ImageFrame_def cam_StopExposure_def cam_AbortExposure_def)
qed

definition exposing_camera :: cworld where
  "exposing_camera = sleep (ms 1500) (snd (cam_StartExposure 2 True \<lparr>clock = 5, dev = NewCamera\<rparr>))"

theorem exposure_interrupted_witness:
  "(let w1 = cam_run [(ms 700, AbortExposure)] (snd (cam_do StopExposure exposing_camera)) in
      cam_LastExposureDuration (clock w1) (dev w1) = Inr (Fin (3 / 2)))
   \<and> (let w1 = cam_run [(ms 9000, SetNumX 3)] (snd (cam_do AbortExposure exposing_camera)) in
      cam_ImageFrame (clock w1) (dev w1) = Inl ErrInvalidOperation)"
  using exposure_interrupted [of exposing_camera "[(ms 700, AbortExposure)]"]
    exposure_interrupted [of exposing_camera "[(ms 9000, SetNumX 3)]"]
  by (simp add: exposing_camera_def cam_StartExposure_def Let_def ms_def total_def in_i64_def
      rat_trunc_nonneg)

section \<open>What requests can reach\<close>


lemma no_params_tame: "tame_params (parseParams [] b s)"
  by (auto simp: tame_params_def finite_params_def req_defs get_def parseParams_def split: option.splits)


text \<open>C39: The bound on the integers is needed.  With \<open>StartX\<close> and \<open>NumX\<close> both 2^62 the extent wraps to a
  negative number, so \<open>validSubframe\<close> accepts a rectangle far outside the sensor, the exposure starts,
  and when it is complete the request for the image panics.\<close>

definition wide_camera :: cworld where
  "wide_camera = \<lparr>clock = 5, dev = NewCamera\<lparr>startX := 2 ^ 62, numX := 2 ^ 62, numY := 1\<rparr>\<rparr>"

theorem subframe_overflow_panics:
  assumes "1 / 1000 \<le> d" "d \<le> 3600" "\<lfloor>d * 10 ^ 9\<rfloor> \<le> e"
  shows "let w1 = snd (gate (validSubframe SimCamera) (cam_StartExposure (Fin d) light) wide_camera) in
    fst (gate (validSubframe SimCamera) (cam_StartExposure (Fin d) light) wide_camera) = None
    \<and> startX (dev wide_camera) + numX (dev wide_camera) > 1936
    \<and> cam_ImageReady (clock (sleep e w1)) (dev (sleep e w1))
    \<and> cam_ImageFrame (clock (sleep e w1)) (dev (sleep e w1)) = Inl makeslice_panic"
proof -
  have n: "int_of_f64 (Fin (d * 1000000000)) = \<lfloor>d * 10 ^ 9\<rfloor>"
    using int_of_f64_Fin_nonneg [of "d * 10 ^ 9"] assms(1,2) by simp
  have "wrap64 (2 ^ 62 + 2 ^ 62) = - (2 ^ 63)" "wrap64 (2 ^ 62 * 1 * 2) = - (2 ^ 63)"
    by (simp_all add: wrap64_def)
  then have "validSubframe SimCamera wide_camera = (None, wide_camera)"
    "image_buffer (2 ^ 62) 1 = None"
    by (simp_all add: validSubframe_sim wide_camera_def NewCamera_def subframe_check_def
        image_buffer_def make_bytes_def quot64_def wrap64_def)
  then show ?thesis using assms n
    by (simp add: gate_apply cam_StartExposure_def Let_def wide_camera_def cam_ImageReady_def
        cam_ImageFrame_def)
qed

theorem subframe_overflow_panics_witness:
  "let w1 = snd (gate (validSubframe SimCamera) (cam_StartExposure (Fin 1) True) wide_camera) in
    cam_ImageFrame (clock (sleep (10 ^ 9) w1)) (dev (sleep (10 ^ 9) w1)) = Inl makeslice_panic"
  using subframe_overflow_panics [of 1 "10 ^ 9" True] by (simp add: Let_def)

end
