(* ===== verification/Serving.thy ===== *)
theory Serving
  imports Hosted Registry_Spec Sim_Camera_Exposure
begin

text \<open>
  Properties of the whole path of a request: registry, gates, tables, device, and the reply
  (\<open>server/httpserver.go\<close> over the registry, the simulated devices and the image codec).
\<close>

section \<open>Addresses\<close>

lemma digits_from_digits: "digits_from acc s = Some n \<Longrightarrow> c \<in> set s \<Longrightarrow> digit_of c \<noteq> None"
  by (induction acc s rule: digits_from.induct) (auto split: option.splits)

lemma Atoi_no_slash: "Atoi s = Some n \<Longrightarrow> CHR ''/'' \<notin> set s"
proof -
  assume a: "Atoi s = Some n"
  have d: "digit_of CHR ''/'' = None" by code_simp
  obtain sg ds where s: "signed s = (sg, ds)" by force
  then obtain m where "digits ds = Some m" using a by (auto simp: Atoi_def split: option.splits)
  then have "CHR ''/'' \<notin> set ds"
    using digits_from_digits [of 0 ds m "CHR ''/''"] d by (auto simp: digits_def split: if_splits)
  then show ?thesis using s by (cases s) (auto simp: signed_def split: if_splits)
qed

definition device_path :: "string \<Rightarrow> string \<Rightarrow> string \<Rightarrow> string" where
  "device_path seg no member = ''/api/v1/'' @ seg @ ''/'' @ no @ ''/'' @ member"

lemma device_path_parts:
  assumes "CHR ''/'' \<notin> set seg" "Atoi no = Some n" "CHR ''/'' \<notin> set member"
  shows "split_on CHR ''/'' (TrimPrefix (device_path seg no member) ''/api/v1/'') = [seg, no, member]"
  using assms Atoi_no_slash [OF assms(2)]
  by (simp add: device_path_def TrimPrefix_def HasPrefix_def split_on_parts)

lemma next_server_tx_apply: "next_server_tx (s, w) = (svTx s + 1, (s\<lparr>svTx := svTx s + 1\<rparr>, w))"
  by (simp add: next_server_tx_def on_fst_apply next_tx_def)

text \<open>A request to a member of a registered device.\<close>

lemma handleDeviceAPI_device:
  assumes "CHR ''/'' \<notin> set seg" "Atoi no = Some n" "CHR ''/'' \<notin> set member"
    "lookup (device_type seg) n s = Some d" "rqPath r = device_path seg no member"
  defines "p \<equiv> parseParams (rqForm r) (rqMethod r = ''PUT'') (svStrict s)" and "stx \<equiv> svTx s + 1"
  shows "handleDeviceAPI env r (s, w) =
    (if rqMethod r = ''GET''
     then on_snd (handleGet env (rqAccept r) (device_type seg) (to_lower member) d p stx) (s\<lparr>svTx := stx\<rparr>, w)
     else if rqMethod r = ''PUT''
     then on_snd (handlePut (device_type seg) (to_lower member) d p stx) (s\<lparr>svTx := stx\<rparr>, w)
     else (http_error 405 ''method not allowed'', (s\<lparr>svTx := stx\<rparr>, w)))"
  using assms(2,4)
  by (simp add: handleDeviceAPI_def assms(5) device_path_parts [OF assms(1-3)] server_steps p_def stx_def
      ask_apply [of next_server_tx] next_server_tx_apply)

section \<open>Refused requests and reads have no effect\<close>


text \<open>One simulated telescope, registered as number 0.\<close>

lemma one_device:
  "lookup ty n (add_reg k d (New cfg)) = (if (ty, n) = k then Some d else None)"
  by (auto simp: lookup_def lookupRegistered_def add_reg_def New_def)


section \<open>Bad addresses\<close>

text \<open>Requests to nothing.  A device path with the wrong number of parts, a device number that does
  not parse, or an address nothing is registered under, is answered with status 400 and a text that says
  which; no transaction number is used and nothing changes.\<close>

lemma bad_addresses:
  assumes "split_on CHR ''/'' (TrimPrefix (rqPath r) ''/api/v1/'') = parts"
  shows "(length parts \<noteq> 3 \<longrightarrow> handleDeviceAPI env r (s, w) = (PlainStatus 400 (Text ''bad device API path''), (s, w)))
    \<and> (length parts = 3 \<and> Atoi (parts ! 1) = None \<longrightarrow>
        handleDeviceAPI env r (s, w) = (PlainStatus 400 (Text ''bad device number''), (s, w)))
    \<and> (\<forall>n. length parts = 3 \<and> Atoi (parts ! 1) = Some n \<and> lookup (device_type (parts ! 0)) n s = None \<longrightarrow>
        handleDeviceAPI env r (s, w) = (PlainStatus 400 (Text ''no such device''), (s, w)))"
  using assms
  by (auto simp: handleDeviceAPI_def http_error_def server_steps length_Suc_conv numeral_3_eq_3 split: list.split)

lemma bad_addresses_witness:
  "\<forall>env s w. handleDeviceAPI env \<lparr>rqMethod = ''GET'', rqPath = ''/api/v1/camera/zero/name'', rqAccept = [],
      rqForm = []\<rparr> (s, w) = (PlainStatus 400 (Text ''bad device number''), (s, w))"
proof (intro allI)
  fix env :: "'a env" and s w
  let ?r = "\<lparr>rqMethod = ''GET'', rqPath = ''/api/v1/camera/zero/name'', rqAccept = [], rqForm = []\<rparr>"
  have "split_on CHR ''/'' (TrimPrefix (rqPath ?r) ''/api/v1/'') = [''camera'', ''zero'', ''name'']" by code_simp
  from bad_addresses [OF this, of env s w] have "Atoi ''zero'' = None \<Longrightarrow>
      handleDeviceAPI env ?r (s, w) = (PlainStatus 400 (Text ''bad device number''), (s, w))"
    by simp
  moreover have "Atoi ''zero'' = None" by code_simp
  ultimately show "handleDeviceAPI env ?r (s, w) = (PlainStatus 400 (Text ''bad device number''), (s, w))" by blast
qed

section \<open>Downloading an image\<close>

lemma device_type_camera: "device_type ''camera'' = CameraType"
  by (simp add: device_type_def)

lemma getImageBuf_length [simp]: "length (getImageBuf pooled n) = n"
  by (simp add: getImageBuf_def split: option.split)

text \<open>Downloading an image.  Whatever camera is registered, when it is connected and an image is
  ready, a GET of \<open>imagearray\<close> that accepts ImageBytes returns a message a client decodes to exactly the
  frame the driver handed out, for every processor count and goroutine interleaving on both sides, and
  whatever an earlier frame left in the recycled output buffer.\<close>

lemma image_download:
  assumes "lookup CameraType n s = Some d" "asCamera d = Some c" "Atoi no = Some n"
    and "rqMethod r = ''GET''" "rqPath r = device_path ''camera'' no ''imagearray''"
      "Contains (to_lower (rqAccept r)) ImageBytesMIME"
    and "dvConnected d w = (True, w1)" "cFlag c CImageReady w1 = (True, w2)" "cImageFrame c w2 = (Inr f, w3)"
    and "wire_frame f" "\<And>ps. mset (envSched env ps) = mset ps" "\<And>ps. mset (sched ps) = mset ps"
  shows "\<exists>msg. handleDeviceAPI env r (s, w) = (ImageBody msg, (s\<lparr>svTx := svTx s + 1\<rparr>, w3))
    \<and> DecodeImageBytes sched procs msg = Some (Inr (on_wire f))"
proof -
  let ?p = "parseParams (rqForm r) False (svStrict s)"
  let ?msg = "image_message f (clientTransactionID ?p) (svTx s + 1)"
  have l: "to_lower ''imagearray'' = ''imagearray''" by code_simp
  have "EncodeImageBytesInto (envSched env) (envProcs env)
      (getImageBuf (envPooled env) (ImageBytesHeaderLen + length (Pixels f))) f (clientTransactionID ?p) (svTx s + 1)
      = Some ?msg"
    using assms(10,11) by (rule EncodeImageBytesInto_eq) simp
  then have "handleImage env (rqAccept r) d ?p (svTx s + 1) w1 = (ImageBody ?msg, w3)"
    using assms(2,6,8,9) by (simp add: handleImage_def ask_apply image_reply_def sent_def)
  then have "handleGet env (rqAccept r) CameraType ''imagearray'' d ?p (svTx s + 1) w = (ImageBody ?msg, w3)"
    using assms(7) by (simp add: handleGet_def connection_gate_def connectionExemptMembers_def ask_apply dispatchGet_def)
  then have "handleDeviceAPI env r (s, w) = (ImageBody ?msg, (s\<lparr>svTx := svTx s + 1\<rparr>, w3))"
    using handleDeviceAPI_device [of "''camera''" no n "''imagearray''" s d r env w] assms(1,3,4,5)
    by (simp add: device_type_camera l on_snd_apply)
  then show ?thesis using decode_image_message [OF assms(10,12)] by blast
qed

text \<open>The simulated camera, connected, one second into a 2 x 1 exposure of half a second.\<close>

definition exposed_camera :: "base_device \<times> cworld" where
  "exposed_camera = (some_base\<lparr>bdConnected := True\<rparr>, \<lparr>clock = 2 * 10 ^ 9,
     dev = NewCamera\<lparr>hasExposure := True, exposing := True, startTime := 10 ^ 9,
       readyAt := 15 * 10 ^ 8, expW := 2, expH := 1\<rparr>\<rparr>)"

lemma exposed_frame:
  "\<exists>f. cam_ImageFrame (2 * 10 ^ 9) (dev (snd exposed_camera)) = Inr f \<and> wire_frame f \<and> Width f = 2 \<and> Height f = 1"
  by (simp add: exposed_camera_def cam_ImageFrame_def image_buffer_eq wire_frame_def)

lemma image_download_witness:
  "\<forall>cfg pooled. \<exists>msg f. fst (handleDeviceAPI
       \<lparr>envNow = \<lambda>w. clock (snd w), envSched = rev, envProcs = 8, envPooled = pooled,
          envFloat = \<lambda>_ _. [], envRender = \<lambda>_. []\<rparr>
       \<lparr>rqMethod = ''GET'', rqPath = ''/api/v1/camera/0/imagearray'', rqAccept = ''application/imagebytes'', rqForm = []\<rparr>
       (add_reg (CameraType, 0) hostCamera (New cfg), exposed_camera)) = ImageBody msg
     \<and> DecodeImageBytes id 1 msg = Some (Inr f) \<and> Width f = 2 \<and> Height f = 1"
proof (intro allI)
  fix cfg :: "(base_device \<times> cworld) server" and pooled
  let ?env = "\<lparr>envNow = \<lambda>w. clock (snd w), envSched = rev, envProcs = 8, envPooled = pooled,
      envFloat = \<lambda>_ _. [], envRender = \<lambda>_. []\<rparr> :: (base_device \<times> cworld) env"
  let ?r = "\<lparr>rqMethod = ''GET'', rqPath = ''/api/v1/camera/0/imagearray'', rqAccept = ''application/imagebytes'', rqForm = []\<rparr>"
  let ?s = "add_reg (CameraType, 0) hostCamera (New cfg)"
  obtain f where f: "cam_ImageFrame (2 * 10 ^ 9) (dev (snd exposed_camera)) = Inr f" "wire_frame f"
      "Width f = 2" "Height f = 1"
    using exposed_frame by blast
  have "Atoi ''0'' = Some 0" "Contains (to_lower ''application/imagebytes'') ImageBytesMIME" by code_simp+
  moreover have "lookup CameraType 0 ?s = Some hostCamera" by (simp add: one_device)
  moreover have "asCamera hostCamera = Some (lift_camera SimCamera)" by (simp add: hostCamera_def)
  moreover have "dvConnected hostCamera exposed_camera = (True, exposed_camera)"
    by (simp add: hostCamera_def exposed_camera_def on_fst_apply)
  moreover have "cFlag (lift_camera SimCamera) CImageReady exposed_camera = (True, exposed_camera)"
    by (simp add: lift_camera_def SimCamera_def exposed_camera_def on_snd_apply reading_def cam_ImageReady_def)
  moreover have "cImageFrame (lift_camera SimCamera) exposed_camera = (Inr f, exposed_camera)"
    using f(1) by (simp add: lift_camera_def SimCamera_def exposed_camera_def on_snd_apply reading_def)
  ultimately obtain msg where "handleDeviceAPI ?env ?r (?s, exposed_camera)
      = (ImageBody msg, (?s\<lparr>svTx := svTx ?s + 1\<rparr>, exposed_camera))"
    "DecodeImageBytes id 1 msg = Some (Inr (on_wire f))"
    using image_download [of 0 ?s hostCamera "lift_camera SimCamera" "''0''" ?r exposed_camera exposed_camera
        exposed_camera f exposed_camera ?env id 1] f(2) by (auto simp: device_path_def)
  then show "\<exists>msg f. fst (handleDeviceAPI ?env ?r (?s, exposed_camera)) = ImageBody msg
     \<and> DecodeImageBytes id 1 msg = Some (Inr f) \<and> Width f = 2 \<and> Height f = 1"
    using f(3,4) by (intro exI [of _ msg] exI [of _ "on_wire f"]) (simp add: on_wire_def)
qed

section \<open>The list of devices\<close>

definition entry_address :: "any \<Rightarrow> (string \<times> int) option" where
  "entry_address v = (case v of
     VObject fs \<Rightarrow> (case (map_of fs ''DeviceType'', map_of fs ''DeviceNumber'') of
        (Some (VStr t), Some (VInt n)) \<Rightarrow> Some (t, n) | _ \<Rightarrow> None)
   | _ \<Rightarrow> None)"

lemma device_entries_addresses:
  "map entry_address (fst (device_entries rs w)) = map (\<lambda>r. Some (segment (fst (rgKey r)), snd (rgKey r))) rs"
  by (induction rs arbitrary: w)
    (simp_all add: ask_apply case_prod_beta device_entry_def entry_address_def)

lemma configuredDevices_apply:
  "configuredDevices (s, w) = (let (es, w') = device_entries (map (svRegs s) (svOrder s)) w in (VArray es, (s, w')))"
  by (simp add: configuredDevices_def server_steps on_snd_apply ask_apply [of "device_entries _"] case_prod_beta)

text \<open>What is listed is what is served.  The reply of \<open>/management/v1/configureddevices\<close> has one entry
  per registered device, in the order of registration, with its type and number; and a device answers at
  an address exactly when the address is in the list.\<close>

lemma configured_devices_are_served:
  assumes "registry_ok s" "rqMethod r = ''GET''" "rqPath r = ''/management/v1/configureddevices''"
  shows "\<exists>es env. fst (handleManagement r (s, w)) = Json env \<and> Value env = Some (VArray es)
    \<and> map entry_address es = map (\<lambda>((ty, n), _). Some (segment ty, n)) (devices_of s)
    \<and> (\<forall>ty n. lookup ty n s \<noteq> None \<longleftrightarrow> (ty, n) \<in> fst ` set (devices_of s))"
proof -
  let ?es = "fst (device_entries (map (svRegs s) (svOrder s)) w)"
  have l: "lookup ty n s \<noteq> None \<longleftrightarrow> (ty, n) \<in> fst ` set (devices_of s)" for ty n
    using reg.served_iff_listed [OF assms(1), of "(ty, n)"] by force
  have "\<exists>env. fst (handleManagement r (s, w)) = Json env \<and> Value env = Some (VArray ?es)"
    using assms(2,3) by (simp add: handleManagement_def server_steps ask_apply [of next_server_tx]
        next_server_tx_apply ask_apply [of configuredDevices] configuredDevices_apply writeValue_def case_prod_beta)
  moreover have "map entry_address ?es = map (\<lambda>((ty, n), _). Some (segment ty, n)) (devices_of s)"
    by (simp add: device_entries_addresses devices_of_def case_prod_beta)
  ultimately show ?thesis using l by blast
qed

lemma configured_devices_are_served_witness:
  "\<forall>cfg. \<exists>es env. fst (handleManagement
       \<lparr>rqMethod = ''GET'', rqPath = ''/management/v1/configureddevices'', rqAccept = [], rqForm = []\<rparr>
       (add_reg (SafetyMonitorType, 3) overriding_monitor (New cfg), (some_base, 0))) = Json env
     \<and> Value env = Some (VArray es) \<and> map entry_address es = [Some (''safetymonitor'', 3)]"
proof
  fix cfg :: "(base_device \<times> time) server"
  let ?s = "add_reg (SafetyMonitorType, 3) overriding_monitor (New cfg)"
  have new: "svDevices (New cfg) (SafetyMonitorType, 3) = None" by (simp add: New_def)
  have i: "implementsType (fst (SafetyMonitorType, 3)) overriding_monitor"
    by (simp add: overriding_monitor_def implementsType_def)
  note ok = add_reg_ok [OF registry_ok_New(1) new i]
  show "\<exists>es env. fst (handleManagement
       \<lparr>rqMethod = ''GET'', rqPath = ''/management/v1/configureddevices'', rqAccept = [], rqForm = []\<rparr>
       (?s, (some_base, 0))) = Json env
     \<and> Value env = Some (VArray es) \<and> map entry_address es = [Some (''safetymonitor'', 3)]"
    using configured_devices_are_served [OF ok(1), of "\<lparr>rqMethod = ''GET'',
        rqPath = ''/management/v1/configureddevices'', rqAccept = [], rqForm = []\<rparr>" "(some_base, 0)"]
    by (auto simp: ok(2) registry_ok_New(2))
qed

end
