(* ===== verification/Registry_Hardware.thy ===== *)
theory Registry_Hardware
  imports Registry_Spec
begin

text \<open>
  A run of the server (\<open>Run\<close> of \<open>server/server.go\<close>): the hardware of the devices is opened and closed
  around it, and its listeners end up on one port.
\<close>

section \<open>Opening and closing the hardware\<close>

text \<open>Devices whose hardware writes down what is done to it; \<open>ok j\<close> says whether opening device \<open>j\<close>
  succeeds.\<close>

datatype hw_event = Opened nat | Cancelled nat | Closed nat

definition logging_hardware :: "(nat \<Rightarrow> bool) \<Rightarrow> nat \<Rightarrow> hw_event list hardware" where
  "logging_hardware ok j = \<lparr>hwOpen = (\<lambda>w. (if ok j then None else Some ErrNotConnected, w @ [Opened j])),
     hwCancel = (\<lambda>w. ((), w @ [Cancelled j])), hwClose = (\<lambda>w. (None, w @ [Closed j]))\<rparr>"

definition logged :: "(nat \<Rightarrow> bool) \<Rightarrow> hw_event list server \<Rightarrow> bool" where
  "logged ok s \<longleftrightarrow> (\<forall>j \<in> set (svOrder s). asHardware (rgDev (svRegs s j)) = Some (logging_hardware ok j))"

text \<open>The registrations with their hardware open exactly on \<open>A\<close>.\<close>

definition hw_on :: "nat set \<Rightarrow> (nat \<Rightarrow> bool) \<Rightarrow> hw_event list server \<Rightarrow> hw_event list server" where
  "hw_on A ok s = s\<lparr>svRegs := \<lambda>j. (svRegs s j)\<lparr>rgHw := if j \<in> A then Some (logging_hardware ok j) else None\<rparr>\<rparr>"

lemma open_one:
  assumes "asHardware (rgDev (svRegs s j)) = Some (logging_hardware ok j)" "j \<notin> A"
  shows "openHardwareFor j (hw_on A ok s, ev) = (if ok j then None else Some ErrNotConnected,
     (hw_on (if ok j then insert j A else A) ok s, ev @ [Opened j]))"
proof -
  have u: "update_reg j (rgHw_update (\<lambda>_. Some (logging_hardware ok j))) (hw_on A ok s) = hw_on (insert j A) ok s"
    unfolding update_reg_def hw_on_def
    by (rule server.equality) (simp_all add: fun_eq_iff)
  have r: "rgHw (svRegs (hw_on A ok s) j) = None" "rgDev (svRegs (hw_on A ok s) j) = rgDev (svRegs s j)"
    using assms(2) by (simp_all add: hw_on_def)
  have o: "hwOpen (logging_hardware ok j) ev = (if ok j then None else Some ErrNotConnected, ev @ [Opened j])"
    by (simp add: logging_hardware_def)
  show ?thesis
    by (simp add: openHardwareFor_def server_steps r assms(1) gate_apply on_snd_apply o u)
qed

lemma open_each:
  assumes "\<forall>j \<in> set js. asHardware (rgDev (svRegs s j)) = Some (logging_hardware ok j)" "distinct js"
    "set js \<inter> A = {}"
  shows "for_each (\<lambda>i. ask (openHardwareFor i) (\<lambda>_. ret ())) js (hw_on A ok s, ev)
    = ((), (hw_on (A \<union> {j \<in> set js. ok j}) ok s, ev @ map Opened js))"
  using assms
proof (induction js arbitrary: A ev)
  case (Cons j js)
  let ?A = "if ok j then insert j A else A"
  have "for_each (\<lambda>i. ask (openHardwareFor i) (\<lambda>_. ret ())) (j # js) (hw_on A ok s, ev)
      = for_each (\<lambda>i. ask (openHardwareFor i) (\<lambda>_. ret ())) js (hw_on ?A ok s, ev @ [Opened j])"
    using open_one [of s j ok A ev] Cons.prems by (simp add: ask_apply)
  also have "\<dots> = ((), (hw_on (?A \<union> {i \<in> set js. ok i}) ok s, (ev @ [Opened j]) @ map Opened js))"
    using Cons.prems by (intro Cons.IH) auto
  also have "?A \<union> {i \<in> set js. ok i} = A \<union> {i \<in> set (j # js). ok i}" by auto
  finally show ?case by simp
qed simp

definition close_events :: "nat \<Rightarrow> hw_event list" where
  "close_events j = [Cancelled j, Closed j]"

lemma close_one:
  "closeHardwareFor j (hw_on A ok s, ev) =
     ((), (hw_on (A - {j}) ok s, ev @ (if j \<in> A then close_events j else [])))"
proof -
  have u: "update_reg j (rgHw_update (\<lambda>_. None)) (hw_on A ok s) = hw_on (A - {j}) ok s"
    unfolding update_reg_def hw_on_def
    by (rule server.equality) (simp_all add: fun_eq_iff)
  have r: "rgHw (svRegs (hw_on A ok s) j) = (if j \<in> A then Some (logging_hardware ok j) else None)"
    by (simp add: hw_on_def)
  have c: "ask (hwCancel (logging_hardware ok j)) (\<lambda>_. ask (hwClose (logging_hardware ok j)) (\<lambda>_. ret ())) ev
      = ((), ev @ close_events j)"
    by (simp add: ask_apply logging_hardware_def close_events_def)
  show ?thesis
    by (simp add: closeHardwareFor_def server_steps r u on_snd_apply c)
qed

lemma close_each:
  "distinct js \<Longrightarrow> for_each closeHardwareFor js (hw_on A ok s, ev) =
     ((), (hw_on (A - set js) ok s, ev @ concat (map close_events (filter (\<lambda>j. j \<in> A) js))))"
proof (induction js arbitrary: A ev)
  case (Cons j js)
  have "for_each closeHardwareFor (j # js) (hw_on A ok s, ev)
      = for_each closeHardwareFor js (hw_on (A - {j}) ok s, ev @ (if j \<in> A then close_events j else []))"
    by (simp add: ask_apply close_one)
  also have "\<dots> = ((), (hw_on (A - {j} - set js) ok s, (ev @ (if j \<in> A then close_events j else []))
      @ concat (map close_events (filter (\<lambda>i. i \<in> A - {j}) js))))"
    using Cons.prems by (intro Cons.IH) simp
  also have "filter (\<lambda>i. i \<in> A - {j}) js = filter (\<lambda>i. i \<in> A) js"
    using Cons.prems by (intro filter_cong) auto
  also have "A - {j} - set js = A - set (j # js)" by auto
  finally show ?case by simp
qed simp

section \<open>Binding the listeners\<close>

text \<open>Binding a port does nothing to the devices; of the server it changes the recorded port only.\<close>

definition binds_quietly :: "'w net \<Rightarrow> bool" where
  "binds_quietly net \<longleftrightarrow> (\<forall>h p w. snd (net h p w) = w)"

definition but_port :: "'w server \<times> 'w \<Rightarrow> 'w server \<times> 'w" where
  "but_port w = ((fst w)\<lparr>svBoundPort := 0\<rparr>, snd w)"

lemma but_port_eq: "but_port w = but_port (s, v) \<Longrightarrow> \<exists>b. w = (s\<lparr>svBoundPort := b\<rparr>, v)"
  by (cases w; cases "fst w"; cases s) (auto simp: but_port_def)

lemma binds_quiet: "binds_quietly net \<Longrightarrow> quiet id (net h p)"
  by (simp add: binds_quietly_def quiet_def)

lemma try_ports_quiet: "binds_quietly net \<Longrightarrow> quiet id (try_ports net host ps)"
  by (induction ps) (auto simp del: ret_def intro!: quiet_ask quiet_case binds_quiet)

lemma quiet_server_part [quiet_intros]: "quiet id m \<Longrightarrow> quiet but_port (on_snd m)"
  by (simp add: quiet_def but_port_def on_snd_def case_prod_beta)

lemma recordPort_quiet [quiet_intros]: "quiet but_port (recordPort p)"
  by (simp add: quiet_def but_port_def recordPort_def server_set_def on_fst_def case_prod_beta)

lemma listen_quiet:
  assumes "binds_quietly net"
  shows "quiet but_port (listen net host)"
  unfolding listen_def scanListen_def Let_def
  by (intro quiet_intros binds_quiet [OF assms] try_ports_quiet [OF assms])

lemma listen_each_quiet: "binds_quietly net \<Longrightarrow> quiet but_port (listen_each net hs)"
  by (induction hs) (auto intro!: quiet_ask quiet_case listen_quiet recordPort_quiet)

lemma listeners_frame:
  assumes "binds_quietly net"
  shows "\<exists>r b. listeners net (s, w) = (r, (s\<lparr>svBoundPort := b\<rparr>, w))"
proof -
  have "quiet but_port (listeners net)" unfolding listeners_def
    by (intro quiet_intros listen_quiet listen_each_quiet assms)
  from but_port_eq [OF quietD [OF this]] show ?thesis by (metis prod.collapse)
qed


text \<open>Three devices, the second of which cannot be opened.\<close>

definition three_devices :: "hw_event list server \<Rightarrow> (nat \<Rightarrow> hw_event list device) \<Rightarrow> hw_event list server" where
  "three_devices cfg mk = (let s = New cfg in
     s\<lparr>svSettings := None, svOrder := [0, 1, 2], svNext := 3,
       svDevices := (\<lambda>k. if k = (CustomType ''x'', 0) then Some 0 else if k = (CustomType ''x'', 1) then Some 1
                         else if k = (CustomType ''x'', 2) then Some 2 else None),
       svRegs := (\<lambda>j. \<lparr>rgKey = (CustomType ''x'', int j), rgDev = mk j, rgCfg = None, rgHw = None,
                        rgReloader = None, rgSettingsKey = []\<rparr>)\<rparr>)"


section \<open>One port\<close>

text \<open>\<open>net.Listen\<close> as documented: the listener has a port, the one that was asked for unless that was 0.\<close>

definition listens_on :: "'w net \<Rightarrow> bool" where
  "listens_on net \<longleftrightarrow> (\<forall>h p w q. fst (net h p w) = Inr q \<longrightarrow> q \<noteq> 0 \<and> (p \<noteq> 0 \<longrightarrow> q = p))"

lemma try_ports_first:
  assumes "listens_on net" "0 \<notin> set ps" "try_ports net host ps w = (Some q, w')"
  shows "q \<in> set ps"
  using assms(2,3)
proof (induction ps arbitrary: w)
  case (Cons p ps)
  obtain r v where "net host p w = (r, v)" by force
  then show ?case
    using Cons assms(1) [unfolded listens_on_def, rule_format, of host p w q]
    by (cases r) (auto simp: ask_apply)
qed simp

text \<open>The ports a configuration allows.\<close>

definition allowed_port :: "'w server \<Rightarrow> int \<Rightarrow> bool" where
  "allowed_port s p \<longleftrightarrow> (if svAlpacaPort s \<noteq> 0 then p = svAlpacaPort s
     else svPortScanBase s > 0 \<longrightarrow> svPortScanBase s \<le> p \<and> p < svPortScanBase s + scan_limit s)"

lemma listen_port:
  assumes "listens_on net" "svPortScanBase s + scan_limit s < 2 ^ 63"
    and "listen net h (s, w) = (Inr p, (s', w'))"
  shows "s' = s \<and> p \<noteq> 0 \<and> (svBoundPort s \<noteq> 0 \<longrightarrow> p = svBoundPort s) \<and> (svBoundPort s = 0 \<longrightarrow> allowed_port s p)"
proof (cases "svBoundPort s = 0 \<and> svAlpacaPort s = 0 \<and> svPortScanBase s > 0")
  case True
  let ?ps = "[svPortScanBase s .. wrap64 (svPortScanBase s + scan_limit s) - 1]"
  have "scan_limit s > 0" by (simp add: scan_limit_def)
  then have wr: "wrap64 (svPortScanBase s + scan_limit s) = svPortScanBase s + scan_limit s"
    using True assms(2) by (intro wrap64_id) (simp add: in_i64_def)
  obtain r v where r: "try_ports net h ?ps w = (r, v)" by force
  then have "r = Some p" "s' = s"
    using assms(3) True by (auto simp: listen_def scanListen_def server_steps Let_def split: option.splits)
  then have "p \<in> set ?ps" using try_ports_first [OF assms(1) _ r [unfolded \<open>r = Some p\<close>]] True by auto
  then show ?thesis using True wr \<open>s' = s\<close> by (simp add: allowed_port_def)
next
  case False
  then show ?thesis
    using assms(3) assms(1) [unfolded listens_on_def, rule_format, of h _ w p]
    by (auto simp: listen_def server_steps on_snd_apply allowed_port_def split: if_splits)
qed

lemma listen_keeps_server: "fst (snd (listen net h (s, w))) = s"
  by (simp add: listen_def scanListen_def server_steps on_snd_apply Let_def case_prod_beta)

definition recorded :: "int \<Rightarrow> 'w server \<Rightarrow> 'w server" where
  "recorded p s = (if svBoundPort s = 0 then s\<lparr>svBoundPort := p\<rparr> else s)"

lemma recordPort_step: "ask (recordPort p) k (s, w) = k () (recorded p s, w)"
  by (simp add: recordPort_def server_steps recorded_def)

lemma listen_each_Cons:
  assumes "listen net h (s, w) = (r, (s1, w1))"
  shows "listen_each net (h # hs) (s, w) = (case r of
     Inl _ \<Rightarrow> listen_each net hs (s, w1)
   | Inr p \<Rightarrow> (let (ls, u) = listen_each net hs (recorded p s, w1) in ((h, p) # ls, u)))"
  using assms listen_keeps_server [of net h s w]
  by (cases r) (simp_all add: ask_apply [of "listen net h"] recordPort_step ask_apply [of "listen_each net hs"] case_prod_beta)

lemma listen_each_port:
  assumes "listens_on net" "svPortScanBase s + scan_limit s < 2 ^ 63"
    and "listen_each net hs (s, w) = (ls, (s', w'))"
  shows "(svBoundPort s \<noteq> 0 \<or> ls = [] \<longrightarrow> s' = s) \<and> (\<forall>l \<in> set ls. snd l = svBoundPort s')
    \<and> (svBoundPort s = 0 \<and> ls \<noteq> [] \<longrightarrow> allowed_port s (svBoundPort s'))"
  using assms(2,3)
proof (induction hs arbitrary: s w ls)
  case (Cons h hs)
  obtain r s1 w1 where r: "listen net h (s, w) = (r, (s1, w1))" by (metis prod.exhaust)
  show ?case
  proof (cases r)
    case (Inl e)
    then show ?thesis using Cons.prems Cons.IH [of s w1 ls] listen_each_Cons [OF r, of hs] by simp
  next
    case (Inr p)
    then obtain ls' where ls: "ls = (h, p) # ls'" "listen_each net hs (recorded p s, w1) = (ls', (s', w'))"
      using Cons.prems(2) listen_each_Cons [OF r, of hs] by (auto split: prod.splits)
    have p: "p \<noteq> 0" "svBoundPort s \<noteq> 0 \<longrightarrow> p = svBoundPort s" "svBoundPort s = 0 \<longrightarrow> allowed_port s p"
      using listen_port [OF assms(1) Cons.prems(1) r [unfolded Inr]] by blast+
    have "svBoundPort (recorded p s) \<noteq> 0" using p(1) by (simp add: recorded_def)
    moreover have "svPortScanBase (recorded p s) + scan_limit (recorded p s) < 2 ^ 63"
      using Cons.prems(1) by (auto simp: recorded_def scan_limit_def)
    ultimately have "s' = recorded p s" "\<forall>l \<in> set ls'. snd l = svBoundPort s'"
      using Cons.IH [OF _ ls(2)] by blast+
    then show ?thesis using p ls(1) by (auto simp: recorded_def)
  qed
qed simp

text \<open>C24: A server answers on one port.  When \<open>Run\<close> gets its listeners, there is at least one, they all
  have the port that is recorded as the bound one, and it is the configured port or, when the
  configuration leaves the port open and scans, one of the scanned range.\<close>

theorem one_port:
  assumes "listens_on net" "svPortScanBase s + scan_limit s < 2 ^ 63" "svBoundPort s = 0"
    and "listeners net (s, w) = (Inr ls, (s', w'))"
  shows "ls \<noteq> [] \<and> (\<forall>l \<in> set ls. snd l = svBoundPort s') \<and> allowed_port s (svBoundPort s')"
proof (cases "svHosts s = []")
  case True
  obtain r s1 w1 where r: "listen net [] (s, w) = (r, (s1, w1))" by (metis prod.exhaust)
  then obtain p where p: "r = Inr p" "ls = [([], p)]" "s' = recorded p s1"
    using assms(4) True
    by (cases r) (auto simp: listeners_def server_steps ask_apply [of "listen net []"] recordPort_step)
  then show ?thesis using listen_port [OF assms(1,2) r [unfolded p(1)]] assms(3) by (simp add: recorded_def)
next
  case False
  obtain ls0 u where e: "listen_each net (svHosts s) (s, w) = (ls0, u)" by (metis prod.exhaust)
  then have "ls0 = ls" "u = (s', w')" "ls \<noteq> []"
    using assms(4) False
    by (auto simp: listeners_def server_steps ask_apply [of "listen_each net hs" for hs] split: if_splits)
  then show ?thesis using listen_each_port [OF assms(1,2) e [unfolded \<open>u = (s', w')\<close>]] assms(3) by simp
qed

text \<open>Two hosts, the first two ports of the scan taken on the first of them.\<close>

theorem one_port_witness:
  "\<forall>cfg. \<exists>s' w'. listeners (\<lambda>h p. ret (if h = ''a'' \<and> p < 7002 then Inl ErrNotConnected else Inr (if p = 0 then 50000 else p)))
      ((New cfg)\<lparr>svAlpacaPort := 0, svPortScanBase := 7000, svPortScanLimit := 5, svHosts := [''a'', ''b'']\<rparr>, ())
      = (Inr [(''a'', 7002), (''b'', 7002)], (s', w')) \<and> svBoundPort s' = 7002"
proof
  fix cfg :: "unit server"
  let ?s = "(New cfg)\<lparr>svAlpacaPort := 0, svPortScanBase := 7000, svPortScanLimit := 5, svHosts := [''a'', ''b'']\<rparr>"
  let ?net = "\<lambda>h p. ret (if h = ''a'' \<and> p < 7002 then Inl ErrNotConnected else Inr (if p = 0 then 50000 else p)) :: unit \<Rightarrow> (goerror + int) \<times> unit"
  have w: "wrap64 7005 = 7005" by (simp add: in_i64_def)
  have b: "svBoundPort (New cfg) = 0" by (simp add: New_def)
  have r: "[7000 .. 7004] = [7000, 7001, 7002, 7003, 7004 :: int]" by (simp add: upto.simps)
  have "\<exists>s'. listeners ?net (?s, ()) = (Inr [(''a'', 7002), (''b'', 7002)], (s', ()))"
    by (simp add: listeners_def server_steps ask_apply listen_def scanListen_def scan_limit_def w r b
        recordPort_def server_set_def on_fst_apply on_snd_apply server_get_def)
  then obtain s' where s': "listeners ?net (?s, ()) = (Inr [(''a'', 7002), (''b'', 7002)], (s', ()))" by blast
  have "listens_on ?net" by (simp add: listens_on_def)
  then have "svBoundPort s' = 7002"
    using one_port [of ?net ?s "()", OF _ _ _ s'] by (simp add: b scan_limit_def)
  then show "\<exists>s' w'. listeners ?net (?s, ()) = (Inr [(''a'', 7002), (''b'', 7002)], (s', w')) \<and> svBoundPort s' = 7002"
    using s' by blast
qed

end
