(* ===== verification/Form.thy ===== *)
theory Form
  imports Prelude "HOL-Library.List_Lexorder" "HOL-Library.Char_ord"
begin

text \<open>
  Form values as they travel in a query string or in the body of a PUT: \<open>url.Values\<close>, its \<open>Encode\<close> (used by
  \<open>client/client.go\<close>) and the parser behind \<open>ParseForm\<close> (used by \<open>server/transaction.go\<close>).
\<close>

type_synonym url_values = "(string \<times> string list) list"

section \<open>Percent encoding\<close>

definition upper_hex :: "nat \<Rightarrow> char" where
  "upper_hex n = (if n < 10 then char_of (48 + n) else char_of (55 + n))"

definition unhex :: "char \<Rightarrow> nat option" where
  "unhex c = (let n = (of_char c :: nat) in
     if 48 \<le> n \<and> n \<le> 57 then Some (n - 48)
     else if 65 \<le> n \<and> n \<le> 70 then Some (n - 55)
     else if 97 \<le> n \<and> n \<le> 102 then Some (n - 87) else None)"

definition letter_or_digit :: "char \<Rightarrow> bool" where
  "letter_or_digit c = (let n = (of_char c :: nat) in
     48 \<le> n \<and> n \<le> 57 \<or> 65 \<le> n \<and> n \<le> 90 \<or> 97 \<le> n \<and> n \<le> 122)"

definition unreserved :: "char \<Rightarrow> bool" where
  "unreserved c \<longleftrightarrow> letter_or_digit c \<or> c \<in> {CHR ''-'', CHR ''.'', CHR ''_'', CHR ''~''}"

definition percent :: "char \<Rightarrow> string" where
  "percent c = (let n = (of_char c :: nat) in [CHR ''%'', upper_hex (n div 16), upper_hex (n mod 16)])"

text \<open>\<open>url.QueryEscape\<close> and \<open>url.QueryUnescape\<close>.\<close>

definition escape_char :: "char \<Rightarrow> string" where
  "escape_char c = (if unreserved c then [c] else if c = CHR '' '' then ''+'' else percent c)"

definition QueryEscape :: "string \<Rightarrow> string" where
  "QueryEscape s = concat (map escape_char s)"

fun QueryUnescape :: "string \<Rightarrow> string option" where
  "QueryUnescape [] = Some []"
| "QueryUnescape (c # cs) =
     (if c = CHR ''%'' then
        (case cs of
           a # b # rest \<Rightarrow> (case (unhex a, unhex b) of
              (Some x, Some y) \<Rightarrow> map_option ((#) (char_of (16 * x + y))) (QueryUnescape rest)
            | _ \<Rightarrow> None)
         | _ \<Rightarrow> None)
      else map_option ((#) (if c = CHR ''+'' then CHR '' '' else c)) (QueryUnescape cs))"

section \<open>Values\<close>

text \<open>\<open>Values.Set\<close> and \<open>Values.Encode\<close>, which sorts the keys.\<close>

definition set_value :: "string \<Rightarrow> string \<Rightarrow> url_values \<Rightarrow> url_values" where
  "set_value k v vs = (k, [v]) # filter (\<lambda>(k', _). k' \<noteq> k) vs"

definition pairs :: "url_values \<Rightarrow> (string \<times> string) list" where
  "pairs vs = concat (map (\<lambda>(k, xs). map (Pair k) xs) vs)"

definition encode_pair :: "string \<times> string \<Rightarrow> string" where
  "encode_pair kv = QueryEscape (fst kv) @ ''='' @ QueryEscape (snd kv)"

fun join :: "string \<Rightarrow> string list \<Rightarrow> string" where
  "join sep [] = []"
| "join sep [x] = x"
| "join sep (x # y # xs) = x @ sep @ join sep (y # xs)"

definition Encode :: "url_values \<Rightarrow> string" where
  "Encode vs = join ''&'' (map encode_pair (pairs (sort_key fst vs)))"

text \<open>\<open>url.ParseQuery\<close>: a piece that is empty, has a semicolon or does not unescape is left out.\<close>

definition cut :: "char \<Rightarrow> string \<Rightarrow> string \<times> string" where
  "cut x s = (takeWhile (\<lambda>c. c \<noteq> x) s, drop 1 (dropWhile (\<lambda>c. c \<noteq> x) s))"

definition parse_pair :: "string \<Rightarrow> (string \<times> string) option" where
  "parse_pair s =
     (if s = [] \<or> CHR '';'' \<in> set s then None
      else (let (k, v) = cut CHR ''='' s in
        case (QueryUnescape k, QueryUnescape v) of (Some k, Some v) \<Rightarrow> Some (k, v) | _ \<Rightarrow> None))"

fun add_value :: "string \<times> string \<Rightarrow> url_values \<Rightarrow> url_values" where
  "add_value (k, v) [] = [(k, [v])]"
| "add_value (k, v) ((k', xs) # vs) =
     (if k' = k then (k, xs @ [v]) # vs else (k', xs) # add_value (k, v) vs)"

definition ParseQuery :: "string \<Rightarrow> url_values" where
  "ParseQuery q = fold add_value (List.map_filter parse_pair (split_on CHR ''&'' q)) []"

text \<open>\<open>ParseForm\<close>: the values of a PUT body come before those of the query.\<close>

definition ParseForm :: "string \<Rightarrow> string \<Rightarrow> string \<Rightarrow> url_values" where
  "ParseForm request_method query body =
     (if request_method = ''PUT''
      then fold add_value (pairs (ParseQuery body) @ pairs (ParseQuery query)) []
      else ParseQuery query)"

section \<open>What is encoded is what is parsed\<close>

lemma of_char_lt: "(of_char c :: nat) < 256"
proof -
  have "of_char c \<in> range (of_char :: char \<Rightarrow> nat)" by simp
  then show ?thesis by (simp add: range_nat_of_char)
qed

lemma high_digit: "(of_char c :: nat) div 16 < 16"
  by (rule less_mult_imp_div_less) (use of_char_lt [of c] in simp)

lemma unhex_upper: "n < 16 \<Longrightarrow> unhex (upper_hex n) = Some n"
  by (auto simp: unhex_def upper_hex_def of_char_of Let_def)

lemma percent_unescape: "QueryUnescape (percent c @ s) = map_option ((#) c) (QueryUnescape s)"
  by (simp add: percent_def Let_def unhex_upper high_digit)

lemma unreserved_plain: "unreserved c \<Longrightarrow> c \<notin> {CHR ''%'', CHR ''+'', CHR ''&'', CHR ''='', CHR '';''}"
  by (auto simp: unreserved_def letter_or_digit_def Let_def)

lemma escape_char_unescape: "QueryUnescape (escape_char c @ s) = map_option ((#) c) (QueryUnescape s)"
  using unreserved_plain [of c] percent_unescape [of c s] by (auto simp: escape_char_def)

lemma QueryUnescape_Escape: "QueryUnescape (QueryEscape s) = Some s"
  by (induction s) (simp_all add: QueryEscape_def escape_char_unescape)

lemma upper_hex_plain: "n < 16 \<Longrightarrow> unreserved (upper_hex n)"
  by (auto simp: unreserved_def letter_or_digit_def upper_hex_def of_char_of Let_def)

lemma escape_char_plain: "set (escape_char c) \<inter> {CHR ''&'', CHR ''='', CHR '';''} = {}"
proof -
  have "set (percent c) \<inter> {CHR ''&'', CHR ''='', CHR '';''} = {}"
    using unreserved_plain [OF upper_hex_plain [OF high_digit [of c]]]
      unreserved_plain [OF upper_hex_plain, of "(of_char c :: nat) mod 16"] by (auto simp: percent_def Let_def)
  then show ?thesis using unreserved_plain [of c] by (auto simp: escape_char_def)
qed

lemma QueryEscape_plain: "set (QueryEscape s) \<inter> {CHR ''&'', CHR ''='', CHR '';''} = {}"
  using escape_char_plain by (auto simp: QueryEscape_def)

lemma cut_at: "x \<notin> set a \<Longrightarrow> cut x (a @ x # b) = (a, b)"
  by (induction a) (auto simp: cut_def)

lemma parse_encode_pair: "parse_pair (encode_pair kv) = Some kv"
proof -
  have "cut CHR ''='' (encode_pair kv) = (QueryEscape (fst kv), QueryEscape (snd kv))"
    using QueryEscape_plain [of "fst kv"] by (simp add: encode_pair_def cut_at)
  moreover have "CHR '';'' \<notin> set (encode_pair kv)" "encode_pair kv \<noteq> []"
    using QueryEscape_plain [of "fst kv"] QueryEscape_plain [of "snd kv"] by (auto simp: encode_pair_def)
  ultimately show ?thesis by (simp add: parse_pair_def QueryUnescape_Escape)
qed

lemma split_join:
  "ps \<noteq> [] \<Longrightarrow> \<forall>p \<in> set ps. x \<notin> set p \<Longrightarrow> split_on x (join [x] ps) = ps"
  by (induction "[x]" ps rule: join.induct) (simp_all add: split_on_parts)

lemma encode_pair_plain: "CHR ''&'' \<notin> set (encode_pair kv)"
  using QueryEscape_plain [of "fst kv"] QueryEscape_plain [of "snd kv"] by (auto simp: encode_pair_def)

lemma pieces_Encode:
  "List.map_filter parse_pair (split_on CHR ''&'' (join ''&'' (map encode_pair kvs))) = kvs"
proof (cases "kvs = []")
  case True
  then show ?thesis by (simp add: List.map_filter_def parse_pair_def)
next
  case False
  have "List.map_filter parse_pair (map encode_pair kvs) = kvs"
    by (induction kvs) (simp_all add: List.map_filter_simps parse_encode_pair)
  then show ?thesis using False by (simp add: split_join encode_pair_plain)
qed

lemma fold_add_same:
  "k \<notin> fst ` set vs \<Longrightarrow> xs \<noteq> [] \<Longrightarrow>
   fold add_value (map (Pair k) xs) vs = vs @ [(k, xs)]"
proof (induction xs rule: rev_induct)
  case (snoc x xs)
  have other: "add_value (k, x) (vs @ [(k, ys)]) = vs @ [(k, ys @ [x])]" if "k \<notin> fst ` set vs" for ys
    using that by (induction vs) auto
  have new: "add_value (k, x) vs = vs @ [(k, [x])]" if "k \<notin> fst ` set vs"
    using that by (induction vs) auto
  show ?case using snoc other new by (cases "xs = []") simp_all
qed simp

lemma fold_add_pairs:
  "distinct (map fst (us @ vs)) \<Longrightarrow> \<forall>(k, xs) \<in> set vs. xs \<noteq> [] \<Longrightarrow>
   fold add_value (pairs vs) us = us @ vs"
proof (induction vs arbitrary: us)
  case (Cons v vs)
  obtain k xs where v: "v = (k, xs)" by force
  then have "fold add_value (pairs (v # vs)) us = fold add_value (pairs vs) (us @ [(k, xs)])"
    using Cons.prems fold_add_same [of k us xs] by (simp add: pairs_def image_iff)
  also have "\<dots> = (us @ [(k, xs)]) @ vs" using Cons.prems v by (intro Cons.IH) auto
  finally show ?case using v by simp
qed (simp add: pairs_def)

definition form_ok :: "url_values \<Rightarrow> bool" where
  "form_ok vs \<longleftrightarrow> distinct (map fst vs) \<and> (\<forall>(k, xs) \<in> set vs. xs \<noteq> [])"

lemma ParseQuery_Encode:
  assumes "form_ok vs"
  shows "ParseQuery (Encode vs) = sort_key fst vs"
proof -
  have "distinct (map fst (sort_key fst vs))"
    using assms by (simp add: form_ok_def distinct_map)
  moreover have "\<forall>(k, xs) \<in> set (sort_key fst vs). xs \<noteq> []" using assms by (simp add: form_ok_def)
  ultimately show ?thesis
    using fold_add_pairs [of "[]" "sort_key fst vs"] by (simp add: ParseQuery_def Encode_def pieces_Encode)
qed

lemma ParseQuery_empty: "ParseQuery [] = []"
  by (simp add: ParseQuery_def List.map_filter_def parse_pair_def)

lemma form_ok_sorted: "form_ok vs \<Longrightarrow> form_ok (sort_key fst vs)"
  by (simp add: form_ok_def distinct_map)

text \<open>A form goes through a PUT body or a query string unchanged, up to the order of its keys.\<close>

lemma ParseForm_Encode:
  assumes "form_ok vs"
  shows "ParseForm ''PUT'' [] (Encode vs) = sort_key fst vs"
    "m \<noteq> ''PUT'' \<Longrightarrow> ParseForm m (Encode vs) body = sort_key fst vs"
  using form_ok_sorted [OF assms] fold_add_pairs [of "[]" "sort_key fst vs"]
  by (simp_all add: ParseForm_def ParseQuery_Encode [OF assms] ParseQuery_empty pairs_def form_ok_def)

end
