(* ===== verification/JSON.thy ===== *)
theory JSON
  imports Params Form
begin

text \<open>
  The JSON texts of the program, \<open>encoding/json\<close> as the server writes them (compact, HTML characters
  escaped, the keys of a map sorted) and as the client reads them.  A number is its literal, as in a
  \<open>json.RawMessage\<close>.  The library refuses a text nested deeper than 10000 values; the parser here has no
  such limit, and its fuel, twice the length of the text, is enough for any value (\<open>unmarshal_text\<close>).
\<close>

datatype json = JNull | JBool bool | JNum string | JStr string | JArr "json list" | JObj "(string \<times> json) list"

section \<open>UTF-8\<close>

definition byte :: "char \<Rightarrow> nat" where "byte c = of_char c"

definition cont :: "char \<Rightarrow> bool" where "cont c \<longleftrightarrow> 128 \<le> byte c \<and> byte c \<le> 191"

text \<open>The length of the multi-byte encoding a text starts with; 0 if there is none.\<close>

definition two_bytes :: "nat \<Rightarrow> char \<Rightarrow> bool" where
  "two_bytes x b \<longleftrightarrow> 194 \<le> x \<and> x \<le> 223 \<and> cont b"

definition three_bytes :: "nat \<Rightarrow> char \<Rightarrow> char \<Rightarrow> bool" where
  "three_bytes x b c \<longleftrightarrow> cont c \<and> (x = 224 \<and> 160 \<le> byte b \<and> byte b \<le> 191
     \<or> (225 \<le> x \<and> x \<le> 236 \<or> 238 \<le> x \<and> x \<le> 239) \<and> cont b \<or> x = 237 \<and> 128 \<le> byte b \<and> byte b \<le> 159)"

definition four_bytes :: "nat \<Rightarrow> char \<Rightarrow> char \<Rightarrow> char \<Rightarrow> bool" where
  "four_bytes x b c d \<longleftrightarrow> cont c \<and> cont d \<and> (x = 240 \<and> 144 \<le> byte b \<and> byte b \<le> 191
     \<or> 241 \<le> x \<and> x \<le> 243 \<and> cont b \<or> x = 244 \<and> 128 \<le> byte b \<and> byte b \<le> 143)"

fun rune_len :: "string \<Rightarrow> nat" where
  "rune_len (a # b # c # d # s) = (if two_bytes (byte a) b then 2 else if three_bytes (byte a) b c then 3
     else if four_bytes (byte a) b c d then 4 else 0)"
| "rune_len [a, b, c] = (if two_bytes (byte a) b then 2 else if three_bytes (byte a) b c then 3 else 0)"
| "rune_len [a, b] = (if two_bytes (byte a) b then 2 else 0)"
| "rune_len _ = 0"

definition replacement :: string where
  "replacement = map char_of [239 :: nat, 191, 189]"

definition utf8 :: "nat \<Rightarrow> string" where
  "utf8 n = map char_of (if n < 128 then [n] else if n < 2048 then [192 + n div 64, 128 + n mod 64]
     else if n < 65536 then [224 + n div 4096, 128 + n div 64 mod 64, 128 + n mod 64]
     else [240 + n div 262144, 128 + n div 4096 mod 64, 128 + n div 64 mod 64, 128 + n mod 64])"

text \<open>The text with every byte that is not part of a valid encoding replaced.\<close>

function to_valid :: "string \<Rightarrow> string" where
  "to_valid [] = []"
| "to_valid (c # cs) =
     (if byte c < 128 then c # to_valid cs
      else (case rune_len (c # cs) of
        0 \<Rightarrow> replacement @ to_valid cs
      | Suc n \<Rightarrow> c # take n cs @ to_valid (drop n cs)))"
  by pat_completeness auto
termination by (relation "measure length") auto

section \<open>Printing\<close>

definition lower_hex :: "nat \<Rightarrow> char" where
  "lower_hex n = (if n < 10 then char_of (48 + n) else char_of (87 + n))"

definition u_escape :: "nat \<Rightarrow> string" where
  "u_escape n = [CHR 0x5C, CHR ''u'', lower_hex (n div 4096 mod 16), lower_hex (n div 256 mod 16),
     lower_hex (n div 16 mod 16), lower_hex (n mod 16)]"

definition backslash :: char where "backslash = CHR 0x5C"
definition dquote :: char where "dquote = CHR 0x22"

definition ascii_text :: "char \<Rightarrow> string" where
  "ascii_text c = (let n = byte c in
     if n = 34 \<or> n = 92 then [backslash, c]
     else if n = 8 then [backslash, CHR ''b''] else if n = 12 then [backslash, CHR ''f'']
     else if n = 10 then [backslash, CHR ''n''] else if n = 13 then [backslash, CHR ''r'']
     else if n = 9 then [backslash, CHR ''t'']
     else if n < 32 \<or> n = 60 \<or> n = 62 \<or> n = 38 then u_escape n
     else [c])"

text \<open>U+2028 and U+2029 are written as escapes.\<close>

definition rune_text :: "string \<Rightarrow> string" where
  "rune_text r = (if map byte r = [226, 128, 168] then u_escape 8232
     else if map byte r = [226, 128, 169] then u_escape 8233 else r)"

function escape :: "string \<Rightarrow> string" where
  "escape [] = []"
| "escape (c # cs) =
     (if byte c < 128 then ascii_text c @ escape cs
      else (case rune_len (c # cs) of
        0 \<Rightarrow> u_escape 65533 @ escape cs
      | Suc n \<Rightarrow> rune_text (c # take n cs) @ escape (drop n cs)))"
  by pat_completeness auto
termination by (relation "measure length") auto

definition quote :: "string \<Rightarrow> string" where
  "quote s = dquote # escape s @ [dquote]"

fun json_text :: "json \<Rightarrow> string" where
  "json_text JNull = ''null''"
| "json_text (JBool b) = (if b then ''true'' else ''false'')"
| "json_text (JNum lit) = lit"
| "json_text (JStr s) = quote s"
| "json_text (JArr vs) = ''['' @ join '','' (map json_text vs) @ '']''"
| "json_text (JObj fs) = ''{'' @ join '','' (map (\<lambda>(k, v). quote k @ '':'' @ json_text v) fs) @ ''}''"

section \<open>Parsing\<close>

definition is_space :: "char \<Rightarrow> bool" where
  "is_space c \<longleftrightarrow> byte c \<in> {32, 9, 10, 13}"

definition skip_ws :: "string \<Rightarrow> string" where
  "skip_ws = dropWhile is_space"

fun hex4 :: "string \<Rightarrow> (nat \<times> string) option" where
  "hex4 (a # b # c # d # s) = (case (unhex a, unhex b, unhex c, unhex d) of
     (Some w, Some x, Some y, Some z) \<Rightarrow> Some (4096 * w + 256 * x + 16 * y + z, s) | _ \<Rightarrow> None)"
| "hex4 _ = None"

text \<open>The rune of a hexadecimal escape and what is left; an unpaired surrogate is replaced.\<close>

definition u_rune :: "nat \<Rightarrow> string \<Rightarrow> string \<times> string" where
  "u_rune n s =
     (if 55296 \<le> n \<and> n < 57344 then
        (case s of
           b # u # r \<Rightarrow> (if b = backslash \<and> u = CHR ''u'' then
              (case hex4 r of
                 Some (m, r') \<Rightarrow> (if n < 56320 \<and> 56320 \<le> m \<and> m < 57344
                   then (utf8 (65536 + (n - 55296) * 1024 + (m - 56320)), r') else (replacement, s))
               | None \<Rightarrow> (replacement, s)) else (replacement, s))
         | _ \<Rightarrow> (replacement, s))
      else (utf8 n, s))"

definition unescape :: "char \<Rightarrow> nat option" where
  "unescape e = map_of [(CHR ''b'', 8), (CHR ''f'', 12), (CHR ''n'', 10), (CHR ''r'', 13), (CHR ''t'', 9),
     (CHR ''/'', 47), (dquote, 34), (backslash, 92)] e"

text \<open>One unit of a string literal: its bytes and the rest.\<close>

definition string_unit :: "string \<Rightarrow> (string \<times> string) option" where
  "string_unit s = (case s of
     [] \<Rightarrow> None
   | c # cs \<Rightarrow>
       if c = backslash then (case cs of
           [] \<Rightarrow> None
         | e # r \<Rightarrow> if e = CHR ''u'' then (case hex4 r of None \<Rightarrow> None | Some (n, r') \<Rightarrow> Some (u_rune n r'))
             else map_option (\<lambda>n. ([char_of n], r)) (unescape e))
       else if byte c < 32 then None
       else if byte c < 128 then Some ([c], cs)
       else (case rune_len s of 0 \<Rightarrow> Some (replacement, cs) | Suc n \<Rightarrow> Some (c # take n cs, drop n cs)))"

fun parse_string :: "nat \<Rightarrow> string \<Rightarrow> (string \<times> string) option" where
  "parse_string 0 s = None"
| "parse_string (Suc k) s = (case s of
     [] \<Rightarrow> None
   | c # cs \<Rightarrow> if c = dquote then Some ([], cs)
       else (case string_unit s of
         None \<Rightarrow> None
       | Some (u, r) \<Rightarrow> map_option (\<lambda>(t, r'). (u @ t, r')) (parse_string k r)))"

text \<open>The literal of a number.\<close>

definition scan_int :: "string \<Rightarrow> (string \<times> string) option" where
  "scan_int s = (case split_digits s of
     ([], _) \<Rightarrow> None
   | (d # ds, r) \<Rightarrow> if d = CHR ''0'' then Some ([d], ds @ r) else Some (d # ds, r))"

definition scan_fraction :: "string \<Rightarrow> (string \<times> string) option" where
  "scan_fraction s = (case s of
     c # r \<Rightarrow> if c = CHR ''.'' then (case split_digits r of ([], _) \<Rightarrow> None | (ds, r') \<Rightarrow> Some (c # ds, r'))
       else Some ([], s)
   | [] \<Rightarrow> Some ([], []))"

definition scan_sign :: "string \<Rightarrow> string \<times> string" where
  "scan_sign s = (case s of c # r \<Rightarrow> if c = CHR ''+'' \<or> c = CHR ''-'' then ([c], r) else ([], s) | [] \<Rightarrow> ([], []))"

definition scan_exponent :: "string \<Rightarrow> (string \<times> string) option" where
  "scan_exponent s = (case s of
     c # r \<Rightarrow> if c = CHR ''e'' \<or> c = CHR ''E'' then
         (case scan_sign r of (sg, r1) \<Rightarrow>
           (case split_digits r1 of ([], _) \<Rightarrow> None | (ds, r2) \<Rightarrow> Some (c # sg @ ds, r2)))
       else Some ([], s)
   | [] \<Rightarrow> Some ([], []))"

definition parse_number :: "string \<Rightarrow> (string \<times> string) option" where
  "parse_number s =
     (let (m, s1) = (case s of c # r \<Rightarrow> if c = CHR ''-'' then ([c], r) else ([], s) | [] \<Rightarrow> ([], [])) in
      Option.bind (scan_int s1) (\<lambda>(i, s2).
      Option.bind (scan_fraction s2) (\<lambda>(f, s3).
      Option.bind (scan_exponent s3) (\<lambda>(e, s4). Some (m @ i @ f @ e, s4)))))"

definition literal :: "string \<Rightarrow> json \<Rightarrow> string \<Rightarrow> (json \<times> string) option" where
  "literal word v s = (if take (length word) s = word then Some (v, drop (length word) s) else None)"

definition parse_scalar :: "nat \<Rightarrow> string \<Rightarrow> (json \<times> string) option" where
  "parse_scalar k s = (case s of
     [] \<Rightarrow> None
   | c # cs \<Rightarrow>
       if c = dquote then map_option (map_prod JStr id) (parse_string k cs)
       else if c = CHR ''n'' then literal ''null'' JNull s
       else if c = CHR ''t'' then literal ''true'' (JBool True) s
       else if c = CHR ''f'' then literal ''false'' (JBool False) s
       else map_option (map_prod JNum id) (parse_number s))"

fun parse_value :: "nat \<Rightarrow> string \<Rightarrow> (json \<times> string) option"
  and parse_elements :: "nat \<Rightarrow> string \<Rightarrow> (json list \<times> string) option"
  and parse_members :: "nat \<Rightarrow> string \<Rightarrow> ((string \<times> json) list \<times> string) option" where
  "parse_value 0 s = None"
| "parse_value (Suc k) s = (case skip_ws s of
     [] \<Rightarrow> None
   | c # cs \<Rightarrow>
       if c = CHR ''['' then (case skip_ws cs of
           x # r \<Rightarrow> if x = CHR '']'' then Some (JArr [], r)
             else map_option (map_prod JArr id) (parse_elements k cs)
         | [] \<Rightarrow> None)
       else if c = CHR ''{'' then (case skip_ws cs of
           x # r \<Rightarrow> if x = CHR ''}'' then Some (JObj [], r)
             else map_option (map_prod JObj id) (parse_members k cs)
         | [] \<Rightarrow> None)
       else parse_scalar k (c # cs))"
| "parse_elements 0 s = None"
| "parse_elements (Suc k) s = (case parse_value k s of
     None \<Rightarrow> None
   | Some (v, r) \<Rightarrow> (case skip_ws r of
       [] \<Rightarrow> None
     | c # r' \<Rightarrow> if c = CHR '','' then map_option (map_prod ((#) v) id) (parse_elements k r')
         else if c = CHR '']'' then Some ([v], r') else None))"
| "parse_members 0 s = None"
| "parse_members (Suc k) s = (case skip_ws s of
     [] \<Rightarrow> None
   | c # s1 \<Rightarrow> if c \<noteq> dquote then None
       else (case parse_string k s1 of
         None \<Rightarrow> None
       | Some (key, s2) \<Rightarrow> (case skip_ws s2 of
           [] \<Rightarrow> None
         | c' # s3 \<Rightarrow> if c' \<noteq> CHR '':'' then None
             else (case parse_value k s3 of
               None \<Rightarrow> None
             | Some (v, s4) \<Rightarrow> (case skip_ws s4 of
                 [] \<Rightarrow> None
               | c'' # s5 \<Rightarrow> if c'' = CHR '','' then map_option (map_prod ((#) (key, v)) id) (parse_members k s5)
                   else if c'' = CHR ''}'' then Some ([(key, v)], s5) else None)))))"

text \<open>\<open>json.Unmarshal\<close> up to the value it finds; only white space may follow.\<close>

definition unmarshal :: "string \<Rightarrow> json option" where
  "unmarshal s = (case parse_value (2 * length s + 2) s of
     Some (v, r) \<Rightarrow> if skip_ws r = [] then Some v else None
   | None \<Rightarrow> None)"

end
