(* ===== verification/JSON_Spec.thy ===== *)
theory JSON_Spec
  imports JSON
begin

text \<open>
  What is printed parses back: every JSON value, up to the bytes of its strings that are not UTF-8, which
  are replaced (\<open>unmarshal_text\<close>).
\<close>

section \<open>Strings\<close>

lemma byte_lt: "byte c < 256"
  by (simp add: byte_def of_char_lt)

lemma char_of_byte [simp]: "char_of (byte c) = c"
  by (simp add: byte_def)

lemma byte_char_of [simp]: "n < 256 \<Longrightarrow> byte (char_of n) = n"
  by (simp add: byte_def of_char_of)

lemma byte_inject: "byte c = byte d \<longleftrightarrow> c = d"
  by (simp add: byte_def)

lemma unhex_lower: "n < 16 \<Longrightarrow> unhex (lower_hex n) = Some n"
  by (auto simp: unhex_def lower_hex_def of_char_of Let_def)

lemma backslash_byte [simp]: "byte backslash = 92" "byte dquote = 34" "backslash \<noteq> dquote" "dquote \<noteq> backslash"
  "CHR ''u'' \<noteq> backslash" "CHR ''u'' \<noteq> dquote" "backslash \<noteq> CHR ''u''" "dquote \<noteq> CHR ''u''"
  by (simp_all add: backslash_def dquote_def byte_def)

lemma u_escape_eq: "u_escape n = backslash # CHR ''u'' # map lower_hex
    [n div 4096 mod 16, n div 256 mod 16, n div 16 mod 16, n mod 16]"
  by (simp add: u_escape_def backslash_def)

lemma hex_digits: "n < 65536 \<Longrightarrow>
  4096 * (n div 4096 mod 16) + 256 * (n div 256 mod 16) + 16 * (n div 16 mod 16) + n mod 16 = (n :: nat)"
proof -
  assume n: "n < 65536"
  have a: "n = 16 * (n div 16) + n mod 16" by simp
  have b: "n div 16 = 16 * (n div 256) + n div 16 mod 16"
    using div_mult2_eq [of n 16 16] by (simp add: mult_div_mod_eq [symmetric])
  have c: "n div 256 = 16 * (n div 4096) + n div 256 mod 16"
    using div_mult2_eq [of n 256 16] by (simp add: mult_div_mod_eq [symmetric])
  have d: "n div 4096 mod 16 = n div 4096"
    using n by (intro mod_less less_mult_imp_div_less) simp
  show ?thesis using a b c d by linarith
qed

lemma hex4_lower:
  assumes "n < 65536"
  shows "hex4 (map lower_hex [n div 4096 mod 16, n div 256 mod 16, n div 16 mod 16, n mod 16] @ r) = Some (n, r)"
proof -
  have u: "unhex (lower_hex (m mod 16)) = Some (m mod 16)" for m by (rule unhex_lower) simp
  show ?thesis unfolding list.map append_Cons append_Nil hex4.simps u option.case prod.case hex_digits [OF assms]
    by (rule refl)
qed

lemma string_unit_u:
  assumes "n < 65536" "\<not> (55296 \<le> n \<and> n < 57344)"
  shows "string_unit (u_escape n @ r) = Some (utf8 n, r)"
proof -
  have "u_rune n r = (utf8 n, r)" using assms(2) by (auto simp: u_rune_def)
  then show ?thesis
    unfolding u_escape_eq append_Cons by (simp only: string_unit_def list.case hex4_lower [OF assms(1)]) simp
qed

lemma string_unit_ascii:
  assumes "byte c < 128"
  shows "string_unit (ascii_text c @ r) = Some ([c], r)" "\<exists>d ds. ascii_text c = d # ds \<and> d \<noteq> dquote"
proof -
  have u: "utf8 (byte c) = [c]" using assms by (simp add: utf8_def)
  have q: "c = dquote" if "byte c = 34" using that by (metis byte_inject backslash_byte(2))
  have b: "c = backslash" if "byte c = 92" using that by (metis byte_inject backslash_byte(1))
  have v: "char_of n = c" if "byte c = n" for n using that char_of_byte [of c] by simp
  have esc: "unescape dquote = Some 34" "unescape backslash = Some 92"
    by (simp_all add: unescape_def dquote_def backslash_def)
  have e: "unescape CHR ''b'' = Some 8" "unescape CHR ''f'' = Some 12" "unescape CHR ''n'' = Some 10"
      "unescape CHR ''r'' = Some 13" "unescape CHR ''t'' = Some 9"
    by (simp_all add: unescape_def)
  show "string_unit (ascii_text c @ r) = Some ([c], r)"
  proof -
    consider (short) "byte c \<in> {34, 92, 8, 12, 10, 13, 9}"
      | (hex) "byte c \<notin> {34, 92, 8, 12, 10, 13, 9}" "byte c < 32 \<or> byte c \<in> {60, 62, 38}"
      | (plain) "byte c \<notin> {34, 92, 8, 12, 10, 13, 9}" "\<not> (byte c < 32 \<or> byte c \<in> {60, 62, 38})" by blast
    then show ?thesis
    proof cases
      case short
      have unit: "string_unit (backslash # x # r) = Some ([char_of n], r)" if "unescape x = Some n" "x \<noteq> CHR ''u''" for x n
        using that by (simp add: string_unit_def)
      from short show ?thesis
        using q b v unit [OF esc(1)] unit [OF esc(2)] unit [OF e(1)] unit [OF e(2)] unit [OF e(3)] unit [OF e(4)] unit [OF e(5)]
        by (elim insertE) (simp_all add: ascii_text_def Let_def)
    next
      case hex
      then have "ascii_text c = u_escape (byte c)" by (simp add: ascii_text_def Let_def)
      then show ?thesis using string_unit_u [of "byte c" r] assms u by simp
    next
      case plain
      then have "ascii_text c = [c]" "c \<noteq> backslash" by (auto simp: ascii_text_def Let_def)
      then show ?thesis using plain assms by (simp add: string_unit_def)
    qed
  qed
  show "\<exists>d ds. ascii_text c = d # ds \<and> d \<noteq> dquote"
    using q by (auto simp: ascii_text_def Let_def u_escape_eq)
qed

lemma rune_len_prefix:
  assumes "rune_len s = Suc n"
  shows "rune_len (take (Suc n) s @ r) = Suc n" "Suc n \<le> length s"
proof -
  have "rune_len (take (Suc n) s @ r) = Suc n \<and> Suc n \<le> length s"
    using assms
    by (induction s rule: rune_len.induct; cases r rule: rune_len.cases)
      (auto split: if_splits simp: eval_nat_numeral)
  then show "rune_len (take (Suc n) s @ r) = Suc n" "Suc n \<le> length s" by blast+
qed

lemma string_unit_invalid: "string_unit (u_escape 65533 @ r) = Some (replacement, r)"
  by (simp add: string_unit_u utf8_def replacement_def)

lemma string_unit_rune:
  assumes "rune_len (c # cs) = Suc n" "128 \<le> byte c"
  shows "string_unit (rune_text (c # take n cs) @ r) = Some (c # take n cs, r)"
    "\<exists>d ds. rune_text (c # take n cs) = d # ds \<and> d \<noteq> dquote"
proof -
  have len: "rune_len (c # take n cs @ r) = Suc n" "n \<le> length cs"
    using rune_len_prefix(1) [OF assms(1), of r] rune_len_prefix(2) [OF assms(1)] by simp_all
  have ne: "c \<noteq> backslash" "c \<noteq> dquote" using assms(2) by auto
  have chars: "s = map char_of (map byte s)" for s by (simp add: comp_def)
  have raw: "string_unit ((c # take n cs) @ r) = Some (c # take n cs, r)"
    using len ne assms(2) by (simp add: string_unit_def)
  show "string_unit (rune_text (c # take n cs) @ r) = Some (c # take n cs, r)"
  proof (cases "map byte (c # take n cs) = [226, 128, 168]")
    case True
    then have "c # take n cs = utf8 8232"
      using chars [of "c # take n cs"] unfolding True by (simp add: utf8_def)
    then show ?thesis using True by (simp add: rune_text_def string_unit_u)
  next
    case False
    show ?thesis
    proof (cases "map byte (c # take n cs) = [226, 128, 169]")
      case True
      then have "c # take n cs = utf8 8233"
        using chars [of "c # take n cs"] unfolding True by (simp add: utf8_def)
      then show ?thesis using True by (simp add: rune_text_def string_unit_u)
    next
      case n: False
      then have "rune_text (c # take n cs) = c # take n cs" 
        using False n unfolding rune_text_def by (simp only: if_False)
      then show ?thesis using raw by simp
    qed
  qed
  show "\<exists>d ds. rune_text (c # take n cs) = d # ds \<and> d \<noteq> dquote"
    using ne by (auto simp: rune_text_def u_escape_eq)
qed

text \<open>A unit that is not the closing quote.\<close>

lemma parse_string_unit:
  assumes "string_unit (u @ s) = Some (t, s)" "\<exists>d ds. u = d # ds \<and> d \<noteq> dquote"
    and "parse_string k s = Some (t', r)"
  shows "parse_string (Suc k) (u @ s) = Some (t @ t', r)"
  using assms by auto

lemma parse_string_escape:
  "length (escape s) < k \<Longrightarrow> parse_string k (escape s @ dquote # r) = Some (to_valid s, r)"
proof (induction s arbitrary: k rule: escape.induct)
  case 1
  then show ?case by (cases k) simp_all
next
  case (2 c cs)
  obtain k' where k: "k = Suc k'" using 2(4) by (cases k) auto
  have step: "parse_string k (u @ escape s' @ dquote # r) = Some (t @ to_valid s', r)"
    if "string_unit (u @ escape s' @ dquote # r) = Some (t, escape s' @ dquote # r)"
      "\<exists>d ds. u = d # ds \<and> d \<noteq> dquote" "parse_string k' (escape s' @ dquote # r) = Some (to_valid s', r)"
    for u s' t
    unfolding k using that by (rule parse_string_unit)
  show ?case
  proof (cases "byte c < 128")
    case True
    have "length (escape cs) < k'" using 2(4) True string_unit_ascii(2) [OF True] k by auto
    then show ?thesis using True step [OF string_unit_ascii [OF True] 2(1) [OF True]] by simp
  next
    case big: False
    show ?thesis
    proof (cases "rune_len (c # cs)")
      case 0
      have "length (escape cs) < k'" using 2(4) big 0 k by (simp add: u_escape_eq)
      then show ?thesis
        using big 0 step [OF string_unit_invalid _ 2(2) [OF big 0]] by (simp add: u_escape_eq)
    next
      case (Suc n)
      have b: "128 \<le> byte c" using big by simp
      have "length (escape (drop n cs)) < k'" using 2(4) big Suc k string_unit_rune(2) [OF Suc b] by auto
      then show ?thesis using big Suc step [OF string_unit_rune [OF Suc b] 2(3) [OF big Suc]] by simp
    qed
  qed
qed

section \<open>Values\<close>

definition num_end :: "string \<Rightarrow> bool" where
  "num_end r \<longleftrightarrow> (case r of [] \<Rightarrow> True | c # _ \<Rightarrow> digit_of c = None \<and> c \<notin> {CHR ''.'', CHR ''e'', CHR ''E''})"

definition start_char :: "char \<Rightarrow> bool" where
  "start_char c \<longleftrightarrow> \<not> is_space c \<and> c \<notin> {CHR '']'', CHR ''}'', CHR '','', CHR '':''}"

definition num_literal :: "string \<Rightarrow> bool" where
  "num_literal lit \<longleftrightarrow> (\<exists>c cs. lit = c # cs \<and> start_char c
       \<and> c \<notin> {dquote, CHR ''n'', CHR ''t'', CHR ''f'', CHR ''['', CHR ''{''})
     \<and> (\<forall>r. num_end r \<longrightarrow> parse_number (lit @ r) = Some (lit, r))"

fun json_ok :: "json \<Rightarrow> bool" where
  "json_ok (JNum lit) = num_literal lit"
| "json_ok (JArr vs) = list_all json_ok vs"
| "json_ok (JObj fs) = list_all (\<lambda>(k, v). json_ok v) fs"
| "json_ok _ = True"

fun json_valid :: "json \<Rightarrow> json" where
  "json_valid (JStr s) = JStr (to_valid s)"
| "json_valid (JArr vs) = JArr (map json_valid vs)"
| "json_valid (JObj fs) = JObj (map (\<lambda>(k, v). (to_valid k, json_valid v)) fs)"
| "json_valid v = v"

lemma json_text_start:
  assumes "json_ok j"
  shows "\<exists>c cs. json_text j = c # cs \<and> start_char c"
  using assms by (cases j) (auto simp: start_char_def is_space_def byte_def quote_def num_literal_def dquote_def)

lemma skip_start [simp]: "start_char c \<Longrightarrow> skip_ws (c # cs) = c # cs"
  by (simp add: skip_ws_def start_char_def)

lemma skip_delims [simp]:
  "skip_ws (CHR '','' # r) = CHR '','' # r" "skip_ws (CHR '']'' # r) = CHR '']'' # r"
  "skip_ws (CHR ''}'' # r) = CHR ''}'' # r" "skip_ws (CHR '':'' # r) = CHR '':'' # r"
  "skip_ws (dquote # r) = dquote # r" "skip_ws (CHR ''['' # r) = CHR ''['' # r" "skip_ws (CHR ''{'' # r) = CHR ''{'' # r"
  by (simp_all add: skip_ws_def is_space_def byte_def dquote_def)

lemma num_end_delims [simp]: "num_end (CHR '','' # r)" "num_end (CHR '']'' # r)" "num_end (CHR ''}'' # r)" "num_end []"
  by (simp_all add: num_end_def digit_of_def Let_def)

lemma join_Cons: "xs \<noteq> [] \<Longrightarrow> join sep (x # xs) = x @ sep @ join sep xs"
  by (cases xs) simp_all

definition parses :: "json \<Rightarrow> bool" where
  "parses j \<longleftrightarrow> (\<forall>k r. num_end r \<longrightarrow> 2 * length (json_text j) \<le> k \<longrightarrow>
     parse_value k (json_text j @ r) = Some (json_valid j, r))"

lemma parses_elements:
  assumes "vs \<noteq> []" "\<forall>v \<in> set vs. parses v" "2 * length (join '','' (map json_text vs)) < k"
    "list_all json_ok vs"
  shows "parse_elements k (join '','' (map json_text vs) @ CHR '']'' # r) = Some (map json_valid vs, r)"
  using assms
proof (induction vs arbitrary: k)
  case (Cons v vs)
  obtain k' where k: "k = Suc k'" using Cons.prems(3) by (cases k) auto
  have v: "parse_value k' (json_text v @ r') = Some (json_valid v, r')"
    if "num_end r'" "2 * length (json_text v) \<le> k'" for r'
    using Cons.prems(2) that by (simp add: parses_def)
  obtain c cs where "json_text v = c # cs" using json_text_start [of v] Cons.prems(4) by auto
  then have pos: "0 < length (json_text v)" by simp
  show ?case
  proof (cases "vs = []")
    case True
    then show ?thesis using v [of "CHR '']'' # r"] Cons.prems(3) k by simp
  next
    case False
    let ?rest = "join '','' (map json_text vs) @ CHR '']'' # r"
    have l: "2 * length (json_text v) \<le> k'" "2 * length (join '','' (map json_text vs)) < k'"
      using Cons.prems(3) False k pos by (simp_all add: join_Cons)
    have "parse_elements k' ?rest = Some (map json_valid vs, r)"
      using Cons.IH [OF False _ l(2)] Cons.prems by simp
    then show ?thesis using False v [of "CHR '','' # ?rest"] l(1) k by (simp add: join_Cons)
  qed
qed simp

abbreviation member_text :: "string \<times> json \<Rightarrow> string" where
  "member_text \<equiv> \<lambda>(k, v). quote k @ '':'' @ json_text v"

lemma parses_members:
  assumes "fs \<noteq> []" "\<forall>(n, v) \<in> set fs. parses v" "2 * length (join '','' (map member_text fs)) < k"
  shows "parse_members k (join '','' (map member_text fs) @ CHR ''}'' # r)
    = Some (map (\<lambda>(k, v). (to_valid k, json_valid v)) fs, r)"
  using assms
proof (induction fs arbitrary: k)
  case (Cons f fs)
  obtain n v where f: "f = (n, v)" by force
  obtain k' where k: "k = Suc k'" using Cons.prems(3) by (cases k) auto
  have v: "parse_value k' (json_text v @ r') = Some (json_valid v, r')"
    if "num_end r'" "2 * length (json_text v) \<le> k'" for r'
    using Cons.prems(2) that f by (auto simp: parses_def)
  have s: "parse_string k' (escape n @ dquote # r') = Some (to_valid n, r')" if "length (escape n) < k'" for r'
    using parse_string_escape [OF that] .
  show ?case
  proof (cases "fs = []")
    case True
    then show ?thesis using v [of "CHR ''}'' # r"] s Cons.prems(3) k f by (simp add: quote_def)
  next
    case False
    let ?rest = "join '','' (map member_text fs) @ CHR ''}'' # r"
    have l: "2 * length (json_text v) \<le> k'" "2 * length (join '','' (map member_text fs)) < k'"
        "length (escape n) < k'"
      using Cons.prems(3) False k f by (simp_all add: join_Cons quote_def)
    have "parse_members k' ?rest = Some (map (\<lambda>(k, v). (to_valid k, json_valid v)) fs, r)"
      using Cons.IH [OF False _ l(2)] Cons.prems by simp
    then show ?thesis using False v [of "CHR '','' # ?rest"] s l k f by (simp add: join_Cons quote_def)
  qed
qed simp

lemma parses_text: "json_ok j \<Longrightarrow> parses j"
proof (induction j)
  case (JArr vs)
  have vs: "\<forall>v \<in> set vs. parses v" "list_all json_ok vs" using JArr by (auto simp: list_all_iff)
  {
    fix k r assume k: "2 * length (json_text (JArr vs)) \<le> k" and r: "num_end r"
    obtain k' where k': "k = Suc k'" using k by (cases k) auto
    have "parse_value k (json_text (JArr vs) @ r) = Some (json_valid (JArr vs), r)"
    proof (cases vs)
      case Nil
      then show ?thesis using k' by simp
    next
      case (Cons v ws)
      have ne: "vs \<noteq> []" using Cons by simp
      obtain c cs where c: "json_text v = c # cs" "start_char c"
        using json_text_start [of v] vs(2) Cons by auto
      have "\<exists>s. join '','' (map json_text vs) = c # s"
        using c Cons by (cases ws) simp_all
      then obtain s where s: "join '','' (map json_text vs) = c # s" by blast
      have "c \<noteq> CHR '']''" using c(2) by (simp add: start_char_def)
      moreover have "parse_elements k' (join '','' (map json_text vs) @ CHR '']'' # r) = Some (map json_valid vs, r)"
        using k k' by (intro parses_elements [OF ne vs(1) _ vs(2)]) simp
      ultimately show ?thesis using k' s c(2) by simp
    qed
  }
  then show ?case by (simp add: parses_def)
next
  case (JObj fs)
  have fs: "\<forall>(n, v) \<in> set fs. parses v"
    using JObj by (force simp: list_all_iff snds.simps)
  {
    fix k r assume k: "2 * length (json_text (JObj fs)) \<le> k" and r: "num_end r"
    obtain k' where k': "k = Suc k'" using k by (cases k) auto
    have "parse_value k (json_text (JObj fs) @ r) = Some (json_valid (JObj fs), r)"
    proof (cases fs)
      case Nil
      then show ?thesis using k' by simp
    next
      case (Cons f gs)
      have ne: "fs \<noteq> []" using Cons by simp
      have "\<exists>s. join '','' (map member_text fs) = dquote # s"
        using Cons by (cases gs; cases f) (simp_all add: quote_def)
      then obtain s where s: "join '','' (map member_text fs) = dquote # s" by blast
      have "parse_members k' (join '','' (map member_text fs) @ CHR ''}'' # r)
          = Some (map (\<lambda>(k, v). (to_valid k, json_valid v)) fs, r)"
        using k k' by (intro parses_members [OF ne fs]) simp
      moreover have "dquote \<noteq> CHR ''}''" by (simp add: dquote_def)
      ultimately show ?thesis using k' s by simp
    qed
  }
  then show ?case by (simp add: parses_def)
next
  case (JStr s)
  have "parse_value k (json_text (JStr s) @ r) = Some (json_valid (JStr s), r)" if len: "2 * length (json_text (JStr s)) \<le> k" for k r
  proof -
    obtain k' where "k = Suc k'" using len by (cases k) (auto simp: quote_def)
    moreover have "dquote \<noteq> CHR ''[''" "dquote \<noteq> CHR ''{''" by (simp_all add: dquote_def)
    ultimately show ?thesis using len parse_string_escape [of s k' r] by (simp add: quote_def parse_scalar_def)
  qed
  then show ?case by (simp add: parses_def)
next
  case (JNum lit)
  then obtain c cs where c: "lit = c # cs" "start_char c"
      "c \<notin> {dquote, CHR ''n'', CHR ''t'', CHR ''f'', CHR ''['', CHR ''{''}"
    and p: "\<And>r. num_end r \<Longrightarrow> parse_number (lit @ r) = Some (lit, r)"
    by (auto simp: num_literal_def)
  have "parse_value k (lit @ r) = Some (JNum lit, r)" if r: "num_end r" and len: "2 * length lit \<le> k" for k r
  proof -
    obtain k' where "k = Suc k'" using len c(1) by (cases k) auto
    then show ?thesis using c p [OF r] by (simp add: parse_scalar_def)
  qed
  then show ?case by (simp add: parses_def)
next
  case JNull
  have "parse_value k (''null'' @ r) = Some (JNull, r)" if "8 \<le> k" for k r
    using that by (cases k) (simp_all add: parse_scalar_def literal_def skip_ws_def is_space_def byte_def dquote_def)
  then show ?case by (simp add: parses_def)
next
  case (JBool b)
  have "parse_value k ((if b then ''true'' else ''false'') @ r) = Some (JBool b, r)" if "8 \<le> k" for k r
    using that by (cases k) (simp_all add: parse_scalar_def literal_def skip_ws_def is_space_def byte_def dquote_def)
  then show ?case by (auto simp: parses_def)
qed

lemma unmarshal_text:
  assumes "json_ok j" "num_end ws" "skip_ws ws = []"
  shows "unmarshal (json_text j @ ws) = Some (json_valid j)"
proof -
  have "parse_value (2 * length (json_text j @ ws) + 2) (json_text j @ ws) = Some (json_valid j, ws)"
    by (rule parses_text [OF assms(1), unfolded parses_def, rule_format, OF assms(2)]) simp
  then show ?thesis using assms(3) unfolding unmarshal_def by simp
qed

end
