(* ===== verification/Wire.thy ===== *)
theory Wire
  imports Router JSON_Spec Float_Text
begin

text \<open>
  The bytes of a reply: \<open>writeJSON\<close> of \<open>server/transaction.go\<close> (the JSON text of an envelope, of which
  nothing is sent when a value in it has no JSON form), \<open>http.Error\<close>, and the status line and content type
  the handlers set.
\<close>

section \<open>The JSON of a value\<close>

definition json_int :: "int \<Rightarrow> json" where
  "json_int n = JNum (Itoa n)"

definition json_rate :: "AxisRate \<Rightarrow> json option" where
  "json_rate r = (case (json_float (Minimum r), json_float (Maximum r)) of
     (Some a, Some b) \<Rightarrow> Some (JObj [(''Minimum'', JNum a), (''Maximum'', JNum b)]) | _ \<Rightarrow> None)"

text \<open>A \<open>map[string]any\<close> is written with its keys sorted; infinities and NaN make \<open>Marshal\<close> fail.\<close>

fun json_of :: "any \<Rightarrow> json option" where
  "json_of VNil = Some JNull"
| "json_of (VBool b) = Some (JBool b)"
| "json_of (VInt n) = Some (json_int n)"
| "json_of (VFloat x) = map_option JNum (json_float x)"
| "json_of (VStr s) = Some (JStr s)"
| "json_of (VInts ns) = Some (JArr (map json_int ns))"
| "json_of (VStrs ss) = Some (JArr (map JStr ss))"
| "json_of (VRates rs) = map_option JArr (those (map json_rate rs))"
| "json_of (VStates sv) = map_option JArr (those (map (\<lambda>(n, v).
     map_option (\<lambda>j. JObj [(''Name'', JStr n), (''Value'', j)]) (json_of v)) sv))"
| "json_of (VObject fs) = map_option (\<lambda>js. JObj (sort_key fst js))
     (those (map (\<lambda>(n, v). map_option (Pair n) (json_of v)) fs))"
| "json_of (VArray vs) = map_option JArr (those (map json_of vs))"

section \<open>Envelopes\<close>

text \<open>\<open>valueResponse\<close> and \<open>methodResponse\<close>.\<close>

definition envelope_json :: "(message \<Rightarrow> string) \<Rightarrow> envelope \<Rightarrow> json option" where
  "envelope_json render e =
     (let tail = [(''ClientTransactionID'', json_int (uint (ClientTransactionID e))),
         (''ServerTransactionID'', json_int (uint (ServerTransactionID e))),
         (''ErrorNumber'', json_int (ErrorNumber e)), (''ErrorMessage'', JStr (render (ErrorMessage e)))]
      in case Value e of
        None \<Rightarrow> Some (JObj tail)
      | Some v \<Rightarrow> map_option (\<lambda>j. JObj ((''Value'', j) # tail)) (json_of v))"

definition newline :: string where "newline = [CHR 0x0A]"

definition writeJSON :: "(message \<Rightarrow> string) \<Rightarrow> envelope \<Rightarrow> string" where
  "writeJSON render e = (case envelope_json render e of None \<Rightarrow> [] | Some j \<Rightarrow> json_text j @ newline)"

section \<open>Replies\<close>

record reply =
  rpStatus :: nat
  rpType :: string
  rpBody :: string

definition bytes_text :: "8 word list \<Rightarrow> string" where
  "bytes_text bs = map (\<lambda>b. char_of (unat b)) bs"

definition text_bytes :: "string \<Rightarrow> 8 word list" where
  "text_bytes s = map (\<lambda>c. of_nat (byte c)) s"

definition PlainType :: string where "PlainType = ''text/plain; charset=utf-8''"
definition JSONType :: string where "JSONType = ''application/json''"

text \<open>What a response is on the wire; \<open>page\<close> is the text of an HTML page.  A handler that panicked has
  no reply: the client sees the connection end.\<close>

definition reply_of :: "(message \<Rightarrow> string) \<Rightarrow> (nat \<Rightarrow> string) \<Rightarrow> response \<Rightarrow> goerror + reply" where
  "reply_of render page r = (case r of
     Json e \<Rightarrow> Inr \<lparr>rpStatus = 200, rpType = JSONType, rpBody = writeJSON render e\<rparr>
   | PlainStatus n m \<Rightarrow> Inr \<lparr>rpStatus = n, rpType = PlainType,
       rpBody = render m @ (if n = 200 then [] else newline)\<rparr>
   | ImageBody bs \<Rightarrow> Inr \<lparr>rpStatus = 200, rpType = ImageBytesMIME, rpBody = bytes_text bs\<rparr>
   | JsonText t \<Rightarrow> Inr \<lparr>rpStatus = 200, rpType = JSONType, rpBody = t\<rparr>
   | HtmlPage n \<Rightarrow> Inr \<lparr>rpStatus = n, rpType = ''text/html; charset=utf-8'', rpBody = page n\<rparr>
   | Redirect to \<Rightarrow> Inr \<lparr>rpStatus = 302, rpType = ''text/html; charset=utf-8'', rpBody = []\<rparr>
   | Dropped \<Rightarrow> Inl (EOther (Text ''EOF'')))"

lemma length_bytes_text [simp]: "length (bytes_text bs) = length bs"
  by (simp add: bytes_text_def)

lemma text_bytes_text [simp]: "text_bytes (bytes_text bs) = bs"
proof -
  have "unat b < 256" for b :: "8 word" using unsigned_less [of b] by simp
  then show ?thesis by (simp add: text_bytes_def bytes_text_def comp_def)
qed

section \<open>Numbers are JSON literals\<close>

lemma split_digits_num: "digit_string s \<Longrightarrow> num_end r \<Longrightarrow> split_digits (s @ r) = (s, r)"
  by (rule split_digits_append) (auto simp: num_end_def no_digit_def split: list.splits)

text \<open>The three parts of a literal.\<close>

definition int_literal :: "string \<Rightarrow> bool" where
  "int_literal ip \<longleftrightarrow> digit_string ip \<and> ip \<noteq> [] \<and> (hd ip \<noteq> zero_char \<or> ip = [zero_char])"

definition exp_literal :: "string \<Rightarrow> bool" where
  "exp_literal e \<longleftrightarrow> e = [] \<or> (\<exists>c t. e = CHR ''e'' # c # t \<and> c \<in> {CHR ''+'', CHR ''-''} \<and> digit_string t \<and> t \<noteq> [])"

lemma scan_int_literal: "int_literal ip \<Longrightarrow> no_digit r \<Longrightarrow> scan_int (ip @ r) = Some (ip, r)"
  using split_digits_append [of ip r] by (cases ip) (auto simp: int_literal_def scan_int_def)

lemma scan_exp_literal:
  assumes "exp_literal e" "num_end r"
  shows "scan_exponent (e @ r) = Some (e, r)"
proof (cases "e = []")
  case True
  then show ?thesis using assms(2) by (auto simp: scan_exponent_def num_end_def split: list.split)
next
  case False
  then obtain c t where e: "e = CHR ''e'' # c # t" "c \<in> {CHR ''+'', CHR ''-''}" "digit_string t" "t \<noteq> []"
    using assms(1) by (auto simp: exp_literal_def)
  then show ?thesis using split_digits_num [OF e(3) assms(2)]
    by (cases t) (auto simp: scan_exponent_def scan_sign_def)
qed

lemma scan_point:
  assumes "digit_string fp" "exp_literal e" "num_end r"
  shows "scan_fraction (point fp @ e @ r) = Some (point fp, e @ r)"
proof -
  have n: "no_digit (e @ r)" "\<And>s. e @ r \<noteq> CHR ''.'' # s"
    using assms(2,3) by (auto simp: exp_literal_def num_end_def no_digit_def digit_of_def split: list.splits)
  then show ?thesis
    using split_digits_append [OF assms(1) n(1)]
    by (cases fp; cases "e @ r") (auto simp: point_def scan_fraction_def)
qed

lemma num_literal_parts:
  assumes "int_literal ip" "digit_string fp" "exp_literal e"
  shows "num_literal (sign_text neg @ ip @ point fp @ e)"
proof -
  obtain d ds where ip: "ip = d # ds" "digit_of d \<noteq> None" using assms(1) by (cases ip) (auto simp: int_literal_def)
  have d: "d \<noteq> CHR ''-''" using ip(2) digit_not_sign by blast
  have "no_digit (point fp @ e @ r)" if "num_end r" for r
    using assms(3) that by (auto simp: point_def exp_literal_def num_end_def no_digit_def digit_of_def split: list.splits)
  then have "parse_number (sign_text neg @ ip @ point fp @ e @ r) = Some (sign_text neg @ ip @ point fp @ e, r)"
    if "num_end r" for r
    using that scan_int_literal [OF assms(1), of "point fp @ e @ r"] scan_point [OF assms(2,3) that]
      scan_exp_literal [OF assms(3) that] d ip(1)
    by (simp add: parse_number_def sign_text_def)
  moreover have "\<exists>c cs. sign_text neg @ ip @ point fp @ e = c # cs \<and> start_char c
       \<and> c \<notin> {dquote, CHR ''n'', CHR ''t'', CHR ''f'', CHR ''['', CHR ''{''}"
    using ip by (auto simp: sign_text_def start_char_def is_space_def byte_def dquote_def digit_of_def Let_def split: if_splits)
  ultimately show ?thesis by (simp add: num_literal_def)
qed

lemma digit_0: "digit 0 = zero_char"
  by code_simp

lemma hd_show_nat: "n \<noteq> 0 \<Longrightarrow> hd (show_nat n) \<noteq> zero_char"
proof (induction n rule: show_nat.induct)
  case (1 n)
  show ?case
  proof (cases "n < 10")
    case True
    have "digit n \<noteq> digit 0"
    proof
      assume "digit n = digit 0"
      then have "digit_of (digit n) = digit_of (digit 0)" by simp
      then show False using True 1(2) by (simp only: digit_of_digit) simp
    qed
    then show ?thesis using True by (simp add: show_nat.simps [of n] digit_0)
  next
    case False
    then show ?thesis using 1 by (subst show_nat.simps) (simp add: hd_append)
  qed
qed

lemma int_literal_show: "int_literal (show_nat n)"
proof (cases "n = 0")
  case True
  then show ?thesis by (simp add: int_literal_def show_nat.simps [of 0] digit_0)
next
  case False
  then show ?thesis using hd_show_nat [OF False] by (simp add: int_literal_def)
qed

lemma num_literal_Itoa: "num_literal (Itoa n)"
proof -
  have "Itoa n = sign_text (n < 0) @ show_nat (nat \<bar>n\<bar>) @ point [] @ []"
    by (simp add: Itoa_def sign_text_def point_def)
  then show ?thesis using num_literal_parts [OF int_literal_show, of "[]" "[]"]
    by (simp add: exp_literal_def del: append_Nil2)
qed

text \<open>A format whose texts are number literals.\<close>

definition writes_literals :: "(string \<Rightarrow> int \<Rightarrow> string) \<Rightarrow> bool" where
  "writes_literals fmt \<longleftrightarrow> (\<forall>ds dp. digit_string ds \<longrightarrow> ds \<noteq> [] \<longrightarrow> hd ds \<noteq> zero_char \<longrightarrow>
     (\<exists>ip fp e. fmt ds dp = ip @ point fp @ e \<and> int_literal ip \<and> digit_string fp \<and> exp_literal e))"

lemma writes_literals_fmtF: "writes_literals fmtF"
  unfolding writes_literals_def
proof (intro allI impI)
  fix ds :: string and dp :: int
  assume ds: "digit_string ds" "ds \<noteq> []" "hd ds \<noteq> zero_char"
  have "int_literal (int_part ds dp)"
    using ds fmtF_digits [OF ds(1,2), of dp] by (cases ds) (auto simp: int_literal_def int_part_def hd_append)
  then show "\<exists>ip fp e. fmtF ds dp = ip @ point fp @ e \<and> int_literal ip \<and> digit_string fp \<and> exp_literal e"
    using fmtF_digits [OF ds(1,2), of dp]
    by (intro exI [of _ "int_part ds dp"] exI [of _ "frac_part ds dp"] exI [of _ "[]"])
      (simp add: fmtF_eq exp_literal_def)
qed

lemma exp_digits_string: "digit_string (exp_digits n)" "exp_digits n \<noteq> []"
  by (simp_all add: exp_digits_def)

lemma writes_literals_fmtE: "fmt \<in> {fmtE, fmtE_json} \<Longrightarrow> writes_literals fmt"
  unfolding writes_literals_def
proof (intro allI impI)
  fix ds :: string and dp :: int
  assume fmt: "fmt \<in> {fmtE, fmtE_json}" and ds: "digit_string ds" "ds \<noteq> []" "hd ds \<noteq> zero_char"
  have p: "(if length ds \<le> 1 then [] else CHR ''.'' # drop 1 ds) = point (drop 1 ds)"
    using ds(2) by (cases ds) (auto simp: point_def)
  let ?sign = "if dp - 1 < 0 then CHR ''-'' else CHR ''+''"
  obtain t where t: "fmt ds dp = take 1 ds @ point (drop 1 ds) @ CHR ''e'' # ?sign # t" "digit_string t" "t \<noteq> []"
  proof (cases "fmt = fmtE_json \<and> -9 \<le> dp - 1 \<and> dp - 1 < 0")
    case True
    then have f: "fmt = fmtE_json" by simp
    have "fmt ds dp = take 1 ds @ point (drop 1 ds) @ CHR ''e'' # CHR ''-'' # show_nat (nat \<bar>dp - 1\<bar>)"
      unfolding f fmtE_json_def p using True by simp
    then show ?thesis using that [of "show_nat (nat \<bar>dp - 1\<bar>)"] True by simp
  next
    case False
    then have "fmt ds dp = fmtE ds dp" using fmt by (auto simp: fmtE_json_def)
    then show ?thesis using that exp_digits_string unfolding fmtE_def p by blast
  qed
  have "int_literal (take 1 ds)" using ds by (cases ds) (auto simp: int_literal_def)
  moreover have "exp_literal (CHR ''e'' # ?sign # t)" using t(2,3) by (auto simp: exp_literal_def)
  ultimately show "\<exists>ip fp e. fmt ds dp = ip @ point fp @ e \<and> int_literal ip \<and> digit_string fp \<and> exp_literal e"
    using t(1) digit_string_take_drop(2) [OF ds(1)] by blast
qed

lemma num_literal_float:
  assumes "in_f64 x"
  shows "\<exists>t. json_float (Fin x) = Some t \<and> num_literal t \<and> ParseFloat t = Some (Fin x)"
proof -
  define fmt where "fmt = (if x \<noteq> 0 \<and> (\<bar>x\<bar> < 1 / 10 ^ 6 \<or> \<bar>x\<bar> \<ge> 10 ^ 21) then fmtE_json else fmtF)"
  have "writes_literals fmt" using writes_literals_fmtF writes_literals_fmtE by (simp add: fmt_def)
  then have "num_literal (with_sign fmt x)"
  proof (cases "x = 0")
    case True
    have "int_literal [zero_char]" by (simp add: int_literal_def)
    then show ?thesis using True num_literal_parts [of "[zero_char]" "[]" "[]" False]
      by (simp add: with_sign_def sign_text_def point_def exp_literal_def)
  next
    case False
    have x: "0 < \<bar>x\<bar>" "finite_decimal \<bar>x\<bar>"
      using assms False by (auto simp: in_f64_def finite_decimal_def abs_if intro: exI [of _ k for k])
    obtain ds dp where d: "decimal \<bar>x\<bar> = (ds, dp)" by force
    note v = decimal_value [OF x d]
    have t: "with_sign fmt x = sign_text (x < 0) @ fmt ds dp" using False d by (simp add: with_sign_def sign_text_def)
    show ?thesis using \<open>writes_literals fmt\<close> v(2-4) num_literal_parts unfolding writes_literals_def t by metis
  qed
  moreover have "json_float (Fin x) = Some (with_sign fmt x)" by (simp add: fmt_def)
  ultimately show ?thesis using ParseFloat_FormatFloat(3) [OF assms] by simp
qed

section \<open>What a client reads in a reply\<close>

text \<open>Values that have a JSON form: every number in them is finite.\<close>

fun sendable :: "any \<Rightarrow> bool" where
  "sendable (VFloat x) = (\<exists>r. x = Fin r \<and> in_f64 r)"
| "sendable (VRates rs) = list_all (\<lambda>r. \<exists>a b. Minimum r = Fin a \<and> in_f64 a \<and> Maximum r = Fin b \<and> in_f64 b) rs"
| "sendable (VStates sv) = list_all (\<lambda>(n, v). sendable v) sv"
| "sendable (VObject fs) = list_all (\<lambda>(n, v). sendable v) fs"
| "sendable (VArray vs) = list_all sendable vs"
| "sendable _ = True"

lemma those_ok: "\<forall>x \<in> set xs. \<exists>y. f x = Some y \<and> P y \<Longrightarrow> \<exists>ys. those (map f xs) = Some ys \<and> list_all P ys"
  by (induction xs) auto

lemma json_rate_ok:
  "Minimum r = Fin a \<Longrightarrow> in_f64 a \<Longrightarrow> Maximum r = Fin b \<Longrightarrow> in_f64 b \<Longrightarrow> \<exists>j. json_rate r = Some j \<and> json_ok j"
  using num_literal_float [of a] num_literal_float [of b] by (auto simp: json_rate_def)

lemma json_of_ok: "sendable v \<Longrightarrow> \<exists>j. json_of v = Some j \<and> json_ok j"
proof (induction v)
  case (VFloat x)
  then show ?case using num_literal_float by fastforce
next
  case (VRates rs)
  then show ?case using those_ok [of rs json_rate json_ok] json_rate_ok by (fastforce simp: list_all_iff)
next
  case (VStates sv)
  then show ?case
    using those_ok [of sv "\<lambda>(n, v). map_option (\<lambda>j. JObj [(''Name'', JStr n), (''Value'', j)]) (json_of v)" json_ok]
    by (fastforce simp: list_all_iff snds.simps)
next
  case (VObject fs)
  have "\<exists>ys. those (map (\<lambda>(n, v). map_option (Pair n) (json_of v)) fs) = Some ys \<and> list_all (\<lambda>(n, j). json_ok j) ys"
    using VObject by (intro those_ok) (fastforce simp: list_all_iff snds.simps)
  then show ?case by (auto simp: list_all_iff)
next
  case (VArray vs)
  then show ?case using those_ok [of vs json_of json_ok] by (fastforce simp: list_all_iff)
qed (auto simp: json_int_def num_literal_Itoa list_all_iff)

end
