(* ===== verification/Address.thy ===== *)
theory Address
  imports Params Form
begin

text \<open>
  The addresses of \<open>client/client.go\<close>: the base URL a client is built with, and the authority made of a
  \<open>host:port\<close>, with the parts of Go's \<open>strings\<close> and \<open>net\<close> they use.
\<close>

section \<open>Strings\<close>

text \<open>\<open>strings.TrimSpace\<close>: the encodings of the runes of \<open>unicode.IsSpace\<close>.\<close>

definition spaces :: "string list" where
  "spaces = map (map char_of) ([[9 :: nat], [10], [11], [12], [13], [32], [194, 133], [194, 160], [225, 154, 128]]
     @ map (\<lambda>n. [226, 128, n]) ([128 ..< 139] @ [168, 169, 175]) @ [[226, 129, 159], [227, 128, 128]])"

definition starts_with :: "string \<Rightarrow> string \<Rightarrow> bool" where
  "starts_with s p \<longleftrightarrow> p \<noteq> [] \<and> take (length p) s = p"

text \<open>Drops every leading piece of \<open>ps\<close>.\<close>

function trim_left :: "string list \<Rightarrow> string \<Rightarrow> string" where
  "trim_left ps [] = []"
| "trim_left ps (c # cs) = (case filter (starts_with (c # cs)) ps of
     [] \<Rightarrow> c # cs
   | p # _ \<Rightarrow> trim_left ps (drop (length p - 1) cs))"
  by pat_completeness auto
termination by (relation "measure (length \<circ> snd)") auto

definition trim_right :: "string list \<Rightarrow> string \<Rightarrow> string" where
  "trim_right ps s = rev (trim_left (map rev ps) (rev s))"

definition TrimSpace :: "string \<Rightarrow> string" where
  "TrimSpace s = trim_right spaces (trim_left spaces s)"

text \<open>Characters that no space starts or ends with.\<close>

definition visible :: "char \<Rightarrow> bool" where
  "visible c \<longleftrightarrow> (of_char c :: nat) \<in> {33 ..< 128}"

lemma spaces_invisible: "list_all (\<lambda>p. p = [] \<or> \<not> visible (hd p) \<and> \<not> visible (hd (rev p))) spaces"
  by (simp add: spaces_def visible_def upt_rec)

lemma trim_left_visible:
  assumes "visible c"
  shows "trim_left spaces (c # cs) = c # cs" "trim_left (map rev spaces) (c # cs) = c # cs"
proof -
  have "\<not> starts_with (c # cs) p \<and> \<not> starts_with (c # cs) (rev p)" if "p \<in> set spaces" for p
  proof -
    have "p = [] \<or> \<not> visible (hd p) \<and> \<not> visible (hd (rev p))" using spaces_invisible that by (simp add: list_all_iff)
    then show ?thesis using assms by (cases p; cases "rev p") (auto simp: starts_with_def)
  qed
  then have "filter (starts_with (c # cs)) spaces = []" "filter (starts_with (c # cs)) (map rev spaces) = []"
    by (auto simp: filter_empty_conv)
  then show "trim_left spaces (c # cs) = c # cs" "trim_left (map rev spaces) (c # cs) = c # cs" by simp_all
qed

text \<open>A text that starts and ends with a visible character is not trimmed.\<close>

lemma TrimSpace_visible:
  assumes "visible (hd s)" "visible (last s)" "s \<noteq> []"
  shows "TrimSpace s = s"
proof -
  have l: "trim_left spaces s = s" using assms(1,3) by (cases s) (simp_all add: trim_left_visible del: trim_left.simps)
  obtain c cs where r: "rev s = c # cs" using assms(3) by (cases "rev s") auto
  then have "c = last s" using assms(3) by (metis hd_rev list.sel(1))
  then have "trim_left (map rev spaces) (rev s) = rev s" using assms(2) by (simp add: r trim_left_visible del: trim_left.simps)
  then show ?thesis by (simp add: TrimSpace_def trim_right_def l)
qed

definition TrimRightSlash :: "string \<Rightarrow> string" where
  "TrimRightSlash s = rev (dropWhile (\<lambda>c. c = CHR ''/'') (rev s))"

fun has_scheme :: "string \<Rightarrow> bool" where
  "has_scheme [] = False"
| "has_scheme (c # cs) = (take 3 (c # cs) = ''://'' \<or> has_scheme cs)"

section \<open>Host and port\<close>

text \<open>\<open>net.SplitHostPort\<close>; the texts of its errors are left out, the program looks at none of them.\<close>

definition cut_last :: "char \<Rightarrow> string \<Rightarrow> (string \<times> string) option" where
  "cut_last x s = (if x \<in> set s
     then Some (rev (drop 1 (dropWhile (\<lambda>c. c \<noteq> x) (rev s))), rev (takeWhile (\<lambda>c. c \<noteq> x) (rev s)))
     else None)"

definition bracket_free :: "string \<Rightarrow> bool" where
  "bracket_free s \<longleftrightarrow> CHR ''['' \<notin> set s \<and> CHR '']'' \<notin> set s"

definition SplitHostPort :: "string \<Rightarrow> (string \<times> string) option" where
  "SplitHostPort s = (case cut_last CHR '':'' s of
     None \<Rightarrow> None
   | Some (front, port) \<Rightarrow>
       (case s of
          [] \<Rightarrow> None
        | c # cs \<Rightarrow>
            if c = CHR ''['' then
              (let host = takeWhile (\<lambda>x. x \<noteq> CHR '']'') cs in
               if front = CHR ''['' # host @ '']'' \<and> CHR ''['' \<notin> set host \<and> bracket_free port
               then Some (host, port) else None)
            else if CHR '':'' \<in> set front \<or> \<not> bracket_free front \<or> \<not> bracket_free port then None
            else Some (front, port)))"

definition JoinHostPort :: "string \<Rightarrow> string \<Rightarrow> string" where
  "JoinHostPort host port =
     (if CHR '':'' \<in> set host then ''['' @ host @ '']:'' @ port else host @ '':'' @ port)"

section \<open>Base URLs\<close>

definition escapeZoneID :: "string \<Rightarrow> string" where
  "escapeZoneID zone = concat (map (\<lambda>c. if unreserved c then [c] else percent c) zone)"

definition urlAuthority :: "string \<Rightarrow> string" where
  "urlAuthority addr = (case SplitHostPort addr of
     None \<Rightarrow> addr
   | Some (host, port) \<Rightarrow>
       let host = (if CHR ''%'' \<in> set host
           then takeWhile (\<lambda>c. c \<noteq> CHR ''%'') host @ ''%25''
             @ escapeZoneID (drop 1 (dropWhile (\<lambda>c. c \<noteq> CHR ''%'') host))
           else host)
       in JoinHostPort host port)"

definition normalizeBaseURL :: "string \<Rightarrow> string" where
  "normalizeBaseURL address =
     (let a = TrimSpace address;
          a = (if has_scheme a then a else ''http://'' @ urlAuthority a)
      in TrimRightSlash a)"

text \<open>Percent-decoding of a path or a host; unlike in a query a plus sign stands for itself.\<close>

fun PathUnescape :: "string \<Rightarrow> string option" where
  "PathUnescape [] = Some []"
| "PathUnescape (c # cs) =
     (if c = CHR ''%'' then
        (case cs of
           a # b # rest \<Rightarrow> (case (unhex a, unhex b) of
              (Some x, Some y) \<Rightarrow> map_option ((#) (char_of (16 * x + y))) (PathUnescape rest)
            | _ \<Rightarrow> None)
         | _ \<Rightarrow> None)
      else map_option ((#) c) (PathUnescape cs))"

section \<open>Properties\<close>

lemma PathUnescape_percent: "PathUnescape s = Some t \<Longrightarrow> PathUnescape (percent c @ s) = Some (c # t)"
proof -
  have "(of_char c :: nat) mod 16 < 16" by simp
  then show "PathUnescape s = Some t \<Longrightarrow> PathUnescape (percent c @ s) = Some (c # t)"
    using high_digit [of c] by (simp add: percent_def Let_def unhex_upper mult_div_mod_eq)
qed

lemma PathUnescape_char: "c \<noteq> CHR ''%'' \<Longrightarrow> PathUnescape s = Some t \<Longrightarrow> PathUnescape (c # s) = Some (c # t)"
  by simp

lemma unreserved_not_percent: "unreserved c \<Longrightarrow> c \<noteq> CHR ''%''"
  by (auto simp: unreserved_def letter_or_digit_def Let_def)

lemma PathUnescape_escapeZoneID: "PathUnescape (escapeZoneID zone) = Some zone"
proof (induction zone)
  case (Cons c zone)
  have e: "escapeZoneID (c # zone) = (if unreserved c then [c] else percent c) @ escapeZoneID zone"
    by (simp add: escapeZoneID_def)
  show ?case
  proof (cases "unreserved c")
    case True
    then show ?thesis unfolding e
      using PathUnescape_char [OF unreserved_not_percent [OF True] Cons.IH] by (simp only: if_True append_Cons append_Nil)
  next
    case False
    then show ?thesis unfolding e using PathUnescape_percent [OF Cons.IH, of c] by (simp only: if_False)
  qed
qed (simp add: escapeZoneID_def)

lemma PathUnescape_plain: "CHR ''%'' \<notin> set s \<Longrightarrow> PathUnescape r = Some t \<Longrightarrow> PathUnescape (s @ r) = Some (s @ t)"
proof (induction s)
  case (Cons c s)
  then have "PathUnescape (c # s @ r) = Some (c # s @ t)" by (intro PathUnescape_char) auto
  then show ?case by (simp only: append_Cons)
qed simp

text \<open>The authority made of an address names the same host: decoding it gives the host of the address,
  zone included, and the port is unchanged.\<close>

lemma percent25: "percent CHR ''%'' = ''%25''"
  by code_simp

lemma cut_host:
  assumes "CHR ''%'' \<in> set host"
  shows "host = takeWhile (\<lambda>c. c \<noteq> CHR ''%'') host @ CHR ''%'' # drop 1 (dropWhile (\<lambda>c. c \<noteq> CHR ''%'') host)"
  using assms by (induction host) auto

lemma urlAuthority_decodes:
  assumes "SplitHostPort addr = Some (host, port)"
  shows "\<exists>h. urlAuthority addr = JoinHostPort h port \<and> PathUnescape h = Some host"
proof (cases "CHR ''%'' \<in> set host")
  case True
  define front zone where "front = takeWhile (\<lambda>c. c \<noteq> CHR ''%'') host"
    and "zone = drop 1 (dropWhile (\<lambda>c. c \<noteq> CHR ''%'') host)"
  have host: "host = front @ CHR ''%'' # zone" using cut_host [OF True] by (simp add: front_def zone_def)
  have p: "CHR ''%'' \<notin> set front" by (metis set_takeWhileD front_def)
  have z: "PathUnescape (''%25'' @ escapeZoneID zone) = Some (CHR ''%'' # zone)"
    using PathUnescape_percent [OF PathUnescape_escapeZoneID [of zone], of "CHR ''%''"]
    by (simp add: percent25 del: PathUnescape.simps)
  have "urlAuthority addr = JoinHostPort (front @ ''%25'' @ escapeZoneID zone) port"
    using True by (simp add: urlAuthority_def assms front_def zone_def)
  then show ?thesis using PathUnescape_plain [OF p z] host by auto
next
  case False
  then show ?thesis using PathUnescape_plain [of host "[]" "[]"] by (auto simp: urlAuthority_def assms)
qed

end
