(* ===== verification/Client.thy ===== *)
theory Client
  imports Wire Address
begin

text \<open>
  The client of one device, \<open>client/client.go\<close>: building a request, sending it, reading the reply.

  The world of an operation is the client (whose transaction counter every request advances) with the world
  of the transport.  The transport \<open>send\<close> stands for \<open>http.NewRequest\<close>, the \<open>http.Client\<close> and its time
  limits: it hands back a whole reply or the library's error.  A getter that fails has no value here; in the
  code it also hands back what it decoded so far.  Texts of errors the program does not look at are left out.
\<close>

section \<open>Clients\<close>

record client =
  clBaseURL :: string
  clType :: DeviceType
  clNumber :: int
  clID :: "32 word"
  clTx :: "32 word"
  clNoStream :: bool

text \<open>\<open>NewX(address, number, WithClientID(id))\<close>.\<close>

definition newDevice :: "string \<Rightarrow> DeviceType \<Rightarrow> int \<Rightarrow> 32 word \<Rightarrow> client" where
  "newDevice address ty number cid = \<lparr>clBaseURL = normalizeBaseURL address, clType = ty, clNumber = number,
     clID = cid, clTx = 0, clNoStream = False\<rparr>"

text \<open>The default client ID, made of a random number.\<close>

definition default_id :: "32 word \<Rightarrow> 32 word" where
  "default_id random = random mod 65535 + 1"

text \<open>What can go wrong; \<open>DeviceError\<close> is an \<open>*alpaca.AlpacaError\<close>.\<close>

datatype failure = Transport goerror | RequestError nat string | DeviceError int string
  | BadReply | NoValue string | BadValue | TooLarge nat | BadImage goerror | BadType string | Panicked
  | Unstreamable | Truncated | SinkError goerror

record http_request =
  hqMethod :: string
  hqURL :: string
  hqType :: string
  hqAccept :: string
  hqBody :: string

type_synonym 'w send = "http_request \<Rightarrow> ('w, goerror + reply) act"
type_synonym ('w, 'a) cact = "(client \<times> 'w, failure + 'a) act"

definition and_then :: "failure + 'a \<Rightarrow> ('a \<Rightarrow> failure + 'b) \<Rightarrow> failure + 'b" where
  "and_then r k = (case r of Inl e \<Rightarrow> Inl e | Inr x \<Rightarrow> k x)"

definition attempt :: "('w, 'a) cact \<Rightarrow> ('a \<Rightarrow> failure + 'b) \<Rightarrow> ('w, 'b) cact" where
  "attempt m k = ask m (\<lambda>r. ret (and_then r k))"

section \<open>Requests\<close>

definition FormType :: string where "FormType = ''application/x-www-form-urlencoded''"

definition endpoint :: "client \<Rightarrow> string \<Rightarrow> string" where
  "endpoint c member = clBaseURL c @ ''/api/v1/'' @ segment (clType c) @ ''/'' @ Itoa (clNumber c) @ ''/''
     @ to_lower member"

definition stamped_params :: "client \<Rightarrow> url_values \<Rightarrow> url_values" where
  "stamped_params c params =
     set_value ''ClientTransactionID'' (Itoa (uint (clTx c + 1)))
       (set_value ''ClientID'' (Itoa (uint (clID c))) params)"

definition prepare :: "string \<Rightarrow> string \<Rightarrow> url_values \<Rightarrow> client \<Rightarrow> http_request \<times> client" where
  "prepare verb member params c =
     (let form = Encode (stamped_params c params); c' = c\<lparr>clTx := clTx c + 1\<rparr> in
      if verb = ''GET''
      then (\<lparr>hqMethod = verb, hqURL = endpoint c member @ ''?'' @ form, hqType = [], hqAccept = [], hqBody = []\<rparr>, c')
      else (\<lparr>hqMethod = verb, hqURL = endpoint c member, hqType = FormType, hqAccept = [], hqBody = form\<rparr>, c'))"

text \<open>\<open>prepare\<close> and \<open>Do\<close>, asking for \<open>accept\<close>.\<close>

definition request_reply :: "'w send \<Rightarrow> string \<Rightarrow> string \<Rightarrow> string \<Rightarrow> url_values \<Rightarrow> ('w, reply) cact" where
  "request_reply send accept verb member params = ask (on_fst (prepare verb member params)) (\<lambda>req.
     ask (on_snd (send (req\<lparr>hqAccept := accept\<rparr>))) (\<lambda>r. ret (map_sum Transport id r)))"

section \<open>Reading replies\<close>

definition maxEnvelopeBytes :: nat where "maxEnvelopeBytes = 8388608"
definition maxImageBytes :: nat where "maxImageBytes = 2147483648"

definition readCapped :: "nat \<Rightarrow> string \<Rightarrow> failure + string" where
  "readCapped limit body = (if length body > limit then Inl (TooLarge limit) else Inr body)"

text \<open>The reply of status 200; any other is the error \<open>RequestError\<close>.\<close>

definition read_reply :: "nat \<Rightarrow> reply \<Rightarrow> failure + reply" where
  "read_reply limit r = (case readCapped limit (rpBody r) of
     Inl e \<Rightarrow> Inl e
   | Inr body \<Rightarrow> if rpStatus r \<noteq> 200 then Inl (RequestError (rpStatus r) (TrimSpace body)) else Inr r)"

text \<open>How \<open>encoding/json\<close> decodes into the types of the program: \<open>null\<close> leaves the zero value.\<close>

fun decode_bool :: "json \<Rightarrow> bool option" where
  "decode_bool (JBool b) = Some b" | "decode_bool JNull = Some False" | "decode_bool _ = None"

fun decode_int :: "json \<Rightarrow> int option" where
  "decode_int (JNum t) = Atoi t" | "decode_int JNull = Some 0" | "decode_int _ = None"

fun decode_float :: "json \<Rightarrow> f64 option" where
  "decode_float (JNum t) = ParseFloat t" | "decode_float JNull = Some 0" | "decode_float _ = None"

fun decode_string :: "json \<Rightarrow> string option" where
  "decode_string (JStr s) = Some s" | "decode_string JNull = Some []" | "decode_string _ = None"

fun decode_list :: "(json \<Rightarrow> 'a option) \<Rightarrow> json \<Rightarrow> 'a list option" where
  "decode_list d (JArr vs) = those (map d vs)" | "decode_list d JNull = Some []" | "decode_list d _ = None"

fun decode_uint32 :: "json \<Rightarrow> 32 word option" where
  "decode_uint32 (JNum t) = ParseUint32 t" | "decode_uint32 JNull = Some 0" | "decode_uint32 _ = None"

text \<open>Object keys name struct fields regardless of case; two letters outside ASCII fold into it.\<close>

definition long_s :: string where "long_s = map char_of [197 :: nat, 191]"
definition kelvin :: string where "kelvin = map char_of [226 :: nat, 132, 170]"

function fold_name :: "string \<Rightarrow> string" where
  "fold_name [] = []"
| "fold_name (c # cs) =
     (if take 2 (c # cs) = long_s then CHR ''s'' # fold_name (drop 1 cs)
      else if take 3 (c # cs) = kelvin then CHR ''k'' # fold_name (drop 2 cs)
      else ascii_lower c # fold_name cs)"
  by pat_completeness auto
termination by (relation "measure length") auto

text \<open>A field that is \<open>null\<close> keeps what it had.\<close>

definition set_field :: "(json \<Rightarrow> 'a option) \<Rightarrow> ('a \<Rightarrow> 'r \<Rightarrow> 'r) \<Rightarrow> json \<Rightarrow> 'r \<Rightarrow> 'r option" where
  "set_field d update j r = (if j = JNull then Some r else map_option (\<lambda>x. update x r) (d j))"

fun fold_members :: "(string \<Rightarrow> json \<Rightarrow> 'r \<Rightarrow> 'r option) \<Rightarrow> (string \<times> json) list \<Rightarrow> 'r \<Rightarrow> 'r option" where
  "fold_members f [] r = Some r"
| "fold_members f ((k, j) # fs) r = Option.bind (f (fold_name k) j r) (fold_members f fs)"

text \<open>A struct: an object, or \<open>null\<close>, which leaves the zero value.\<close>

fun decode_struct :: "(string \<Rightarrow> json \<Rightarrow> 'r \<Rightarrow> 'r option) \<Rightarrow> 'r \<Rightarrow> json \<Rightarrow> 'r option" where
  "decode_struct f zero (JObj fs) = fold_members f fs zero"
| "decode_struct f zero JNull = Some zero"
| "decode_struct f zero _ = None"

section \<open>Envelopes\<close>

text \<open>\<open>evValue\<close> is the raw \<open>Value\<close>; \<open>evType\<close> and \<open>evRank\<close> are read of an image only.\<close>

record received =
  evValue :: "json option"
  evClientTx :: "32 word"
  evServerTx :: "32 word"
  evNumber :: int
  evMessage :: string
  evType :: int
  evRank :: int

definition no_envelope :: received where
  "no_envelope = \<lparr>evValue = None, evClientTx = 0, evServerTx = 0, evNumber = 0, evMessage = [], evType = 0, evRank = 0\<rparr>"

definition envelope_field :: "bool \<Rightarrow> string \<Rightarrow> json \<Rightarrow> received \<Rightarrow> received option" where
  "envelope_field ranked k j r =
     (if k = ''value'' then Some (r\<lparr>evValue := Some j\<rparr>)
      else if k = ''clienttransactionid'' then set_field decode_uint32 (\<lambda>x. evClientTx_update (\<lambda>_. x)) j r
      else if k = ''servertransactionid'' then set_field decode_uint32 (\<lambda>x. evServerTx_update (\<lambda>_. x)) j r
      else if k = ''errornumber'' then set_field decode_int (\<lambda>x. evNumber_update (\<lambda>_. x)) j r
      else if k = ''errormessage'' then set_field decode_string (\<lambda>x. evMessage_update (\<lambda>_. x)) j r
      else if ranked \<and> k = ''type'' then set_field decode_int (\<lambda>x. evType_update (\<lambda>_. x)) j r
      else if ranked \<and> k = ''rank'' then set_field decode_int (\<lambda>x. evRank_update (\<lambda>_. x)) j r
      else Some r)"

definition decode_envelope :: "bool \<Rightarrow> string \<Rightarrow> received option" where
  "decode_envelope ranked body =
     Option.bind (unmarshal body) (decode_struct (envelope_field ranked) no_envelope)"

definition checked_envelope :: "reply \<Rightarrow> failure + received" where
  "checked_envelope r = (case decode_envelope False (rpBody r) of
     None \<Rightarrow> Inl BadReply
   | Some env \<Rightarrow> if evNumber env \<noteq> 0 then Inl (DeviceError (evNumber env) (evMessage env)) else Inr env)"

text \<open>A missing or \<open>null\<close> value is an error, never a zero value.\<close>

definition decode_value :: "string \<Rightarrow> (json \<Rightarrow> 'a option) \<Rightarrow> received \<Rightarrow> failure + 'a" where
  "decode_value member d env = (case evValue env of
     None \<Rightarrow> Inl (NoValue member)
   | Some j \<Rightarrow> if j = JNull then Inl (NoValue member)
       else (case d j of None \<Rightarrow> Inl BadValue | Some x \<Rightarrow> Inr x))"

section \<open>Calls\<close>

text \<open>\<open>call\<close> with a value to decode, and without one.\<close>

definition call_value :: "'w send \<Rightarrow> string \<Rightarrow> string \<Rightarrow> url_values \<Rightarrow> (json \<Rightarrow> 'a option) \<Rightarrow> ('w, 'a) cact" where
  "call_value send verb member params d = attempt (request_reply send [] verb member params) (\<lambda>r.
     and_then (and_then (read_reply maxEnvelopeBytes r) checked_envelope) (decode_value member d))"

definition call_unit :: "'w send \<Rightarrow> string \<Rightarrow> string \<Rightarrow> url_values \<Rightarrow> ('w, unit) cact" where
  "call_unit send verb member params = attempt (request_reply send [] verb member params) (\<lambda>r.
     and_then (and_then (read_reply maxEnvelopeBytes r) checked_envelope) (\<lambda>_. Inr ()))"

definition getBool :: "'w send \<Rightarrow> string \<Rightarrow> ('w, bool) cact" where
  "getBool send member = call_value send ''GET'' member [] decode_bool"

definition getInt :: "'w send \<Rightarrow> string \<Rightarrow> ('w, int) cact" where
  "getInt send member = call_value send ''GET'' member [] decode_int"

definition getFloat :: "'w send \<Rightarrow> string \<Rightarrow> ('w, f64) cact" where
  "getFloat send member = call_value send ''GET'' member [] decode_float"

definition getString :: "'w send \<Rightarrow> string \<Rightarrow> ('w, string) cact" where
  "getString send member = call_value send ''GET'' member [] decode_string"

definition getStringList :: "'w send \<Rightarrow> string \<Rightarrow> ('w, string list) cact" where
  "getStringList send member = call_value send ''GET'' member [] (decode_list decode_string)"

definition getInto :: "'w send \<Rightarrow> string \<Rightarrow> url_values \<Rightarrow> (json \<Rightarrow> 'a option) \<Rightarrow> ('w, 'a) cact" where
  "getInto send member params d = call_value send ''GET'' member params d"

definition put :: "'w send \<Rightarrow> string \<Rightarrow> url_values \<Rightarrow> ('w, unit) cact" where
  "put send member params = call_unit send ''PUT'' member params"

definition boolParam :: "bool \<Rightarrow> string" where
  "boolParam v = (if v then ''True'' else ''False'')"

definition intParam :: "int \<Rightarrow> string" where "intParam n = Itoa n"
definition floatParam :: "f64 \<Rightarrow> string" where "floatParam f = FormatFloat_g f"

section \<open>Structured values\<close>

text \<open>\<open>any\<close>: numbers become floating-point, and the last of equal keys wins.\<close>

fun last_wins :: "(string \<times> 'a) list \<Rightarrow> (string \<times> 'a) list" where
  "last_wins [] = []"
| "last_wins ((k, v) # fs) = (if k \<in> fst ` set fs then last_wins fs else (k, v) # last_wins fs)"

fun decode_any :: "json \<Rightarrow> any option" where
  "decode_any JNull = Some VNil"
| "decode_any (JBool b) = Some (VBool b)"
| "decode_any (JNum t) = map_option VFloat (ParseFloat t)"
| "decode_any (JStr s) = Some (VStr s)"
| "decode_any (JArr vs) = map_option VArray (those (map decode_any vs))"
| "decode_any (JObj fs) = map_option (VObject \<circ> last_wins)
     (those (map (\<lambda>(k, j). map_option (Pair k) (decode_any j)) fs))"

definition rate_field :: "string \<Rightarrow> json \<Rightarrow> AxisRate \<Rightarrow> AxisRate option" where
  "rate_field k j r =
     (if k = ''minimum'' then set_field decode_float (\<lambda>x. Minimum_update (\<lambda>_. x)) j r
      else if k = ''maximum'' then set_field decode_float (\<lambda>x. Maximum_update (\<lambda>_. x)) j r
      else Some r)"

definition decode_rate :: "json \<Rightarrow> AxisRate option" where
  "decode_rate = decode_struct rate_field \<lparr>Minimum = 0, Maximum = 0\<rparr>"

text \<open>\<open>alpaca.StateValue\<close>, a name and a value of any type.\<close>

definition state_field :: "string \<Rightarrow> json \<Rightarrow> string \<times> any \<Rightarrow> (string \<times> any) option" where
  "state_field k j sv =
     (if k = ''name'' then set_field decode_string (\<lambda>x sv. (x, snd sv)) j sv
      else if k = ''value'' then map_option (\<lambda>v. (fst sv, v)) (decode_any j)
      else Some sv)"

definition decode_state :: "json \<Rightarrow> (string \<times> any) option" where
  "decode_state = decode_struct state_field ([], VNil)"

end
