(* ===== verification/Client_Members.thy ===== *)
theory Client_Members
  imports Client
begin

text \<open>
  The typed clients, \<open>client/device.go\<close> and one file per device type: every method with the member it
  names, the parameters it sends and the type it decodes.  A method that returns an enumeration converts
  the integer it read, which is the same integer here.
\<close>

section \<open>Operations\<close>

datatype param_type = PBool | PInt | PFloat | PString

datatype result_type = RNone | RBool | RInt | RFloat | RString | RInts | RStrings | RRates | RStates

record operation =
  opName :: string
  opVerb :: string
  opMember :: string
  opParams :: "(string \<times> param_type) list"
  opResult :: result_type

definition param_getter :: "string \<Rightarrow> string \<Rightarrow> (string \<times> param_type) list \<Rightarrow> result_type \<Rightarrow> operation" where
  "param_getter name member ps res = \<lparr>opName = name, opVerb = ''GET'', opMember = member, opParams = ps, opResult = res\<rparr>"

definition putter :: "string \<Rightarrow> string \<Rightarrow> (string \<times> param_type) list \<Rightarrow> result_type \<Rightarrow> operation" where
  "putter name member ps res = \<lparr>opName = name, opVerb = ''PUT'', opMember = member, opParams = ps, opResult = res\<rparr>"

definition getter :: "string \<Rightarrow> string \<Rightarrow> result_type \<Rightarrow> operation" where
  "getter name member res = param_getter name member [] res"

definition setter :: "string \<Rightarrow> string \<Rightarrow> (string \<times> param_type) list \<Rightarrow> operation" where
  "setter name member ps = putter name member ps RNone"

text \<open>Arguments and results are values of \<open>any\<close>.\<close>

fun param_text :: "any \<Rightarrow> string" where
  "param_text (VBool b) = boolParam b"
| "param_text (VInt n) = intParam n"
| "param_text (VFloat x) = floatParam x"
| "param_text (VStr s) = s"
| "param_text _ = []"

definition op_params :: "operation \<Rightarrow> any list \<Rightarrow> url_values" where
  "op_params op args = map (\<lambda>((name, _), v). (name, [param_text v])) (zip (opParams op) args)"

fun decode_as :: "result_type \<Rightarrow> json \<Rightarrow> any option" where
  "decode_as RBool j = map_option VBool (decode_bool j)"
| "decode_as RInt j = map_option VInt (decode_int j)"
| "decode_as RFloat j = map_option VFloat (decode_float j)"
| "decode_as RString j = map_option VStr (decode_string j)"
| "decode_as RInts j = map_option VInts (decode_list decode_int j)"
| "decode_as RStrings j = map_option VStrs (decode_list decode_string j)"
| "decode_as RRates j = map_option VRates (decode_list decode_rate j)"
| "decode_as RStates j = map_option VStates (decode_list decode_state j)"
| "decode_as RNone j = None"

definition invoke :: "'w send \<Rightarrow> operation \<Rightarrow> any list \<Rightarrow> ('w, any) cact" where
  "invoke send op args =
     (if opResult op = RNone then attempt (call_unit send (opVerb op) (opMember op) (op_params op args)) (\<lambda>_. Inr VNil)
      else call_value send (opVerb op) (opMember op) (op_params op args) (decode_as (opResult op)))"

section \<open>Tables\<close>

definition device_operations :: "operation list" where
  "device_operations = [
    getter ''Connected'' ''connected'' RBool,
    setter ''SetConnected'' ''connected'' [(''Connected'', PBool)], setter ''Connect'' ''connect'' [],
    setter ''Disconnect'' ''disconnect'' [], getter ''Connecting'' ''connecting'' RBool,
    getter ''Name'' ''name'' RString, getter ''Description'' ''description'' RString,
    getter ''DriverInfo'' ''driverinfo'' RString, getter ''DriverVersion'' ''driverversion'' RString,
    getter ''InterfaceVersion'' ''interfaceversion'' RInt,
    getter ''SupportedActions'' ''supportedactions'' RStrings,
    putter ''Action'' ''action'' [(''Action'', PString), (''Parameters'', PString)] RString,
    putter ''CommandString'' ''commandstring'' [(''Command'', PString), (''Raw'', PBool)] RString,
    putter ''CommandBool'' ''commandbool'' [(''Command'', PString), (''Raw'', PBool)] RBool,
    setter ''CommandBlind'' ''commandblind'' [(''Command'', PString), (''Raw'', PBool)],
    getter ''DeviceState'' ''devicestate'' RStates]"

definition camera_operations :: "operation list" where
  "camera_operations = [
    getter ''CameraXSize'' ''cameraxsize'' RInt, getter ''CameraYSize'' ''cameraysize'' RInt,
    getter ''PixelSizeX'' ''pixelsizex'' RFloat, getter ''PixelSizeY'' ''pixelsizey'' RFloat,
    getter ''MaxADU'' ''maxadu'' RInt, getter ''ElectronsPerADU'' ''electronsperadu'' RFloat,
    getter ''FullWellCapacity'' ''fullwellcapacity'' RFloat,
    getter ''SensorName'' ''sensorname'' RString, getter ''BayerOffsetX'' ''bayeroffsetx'' RInt,
    getter ''BayerOffsetY'' ''bayeroffsety'' RInt, getter ''SensorType'' ''sensortype'' RInt,
    getter ''BinX'' ''binx'' RInt, getter ''BinY'' ''biny'' RInt,
    setter ''SetBinX'' ''binx'' [(''BinX'', PInt)], setter ''SetBinY'' ''biny'' [(''BinY'', PInt)],
    getter ''MaxBinX'' ''maxbinx'' RInt, getter ''MaxBinY'' ''maxbiny'' RInt,
    getter ''CanAsymmetricBin'' ''canasymmetricbin'' RBool, getter ''StartX'' ''startx'' RInt,
    getter ''StartY'' ''starty'' RInt, setter ''SetStartX'' ''startx'' [(''StartX'', PInt)],
    setter ''SetStartY'' ''starty'' [(''StartY'', PInt)], getter ''NumX'' ''numx'' RInt,
    getter ''NumY'' ''numy'' RInt, setter ''SetNumX'' ''numx'' [(''NumX'', PInt)],
    setter ''SetNumY'' ''numy'' [(''NumY'', PInt)],
    setter ''StartExposure'' ''startexposure'' [(''Duration'', PFloat), (''Light'', PBool)],
    setter ''StopExposure'' ''stopexposure'' [], setter ''AbortExposure'' ''abortexposure'' [],
    getter ''CanStopExposure'' ''canstopexposure'' RBool,
    getter ''CanAbortExposure'' ''canabortexposure'' RBool, getter ''ImageReady'' ''imageready'' RBool,
    getter ''PercentCompleted'' ''percentcompleted'' RInt, getter ''ExposureMin'' ''exposuremin'' RFloat,
    getter ''ExposureMax'' ''exposuremax'' RFloat,
    getter ''ExposureResolution'' ''exposureresolution'' RFloat,
    getter ''LastExposureDuration'' ''lastexposureduration'' RFloat,
    getter ''LastExposureStartTime'' ''lastexposurestarttime'' RString,
    getter ''HasShutter'' ''hasshutter'' RBool, getter ''CameraState'' ''camerastate'' RInt,
    getter ''SubExposureDuration'' ''subexposureduration'' RFloat,
    setter ''SetSubExposureDuration'' ''subexposureduration'' [(''SubExposureDuration'', PFloat)],
    getter ''Gain'' ''gain'' RInt, setter ''SetGain'' ''gain'' [(''Gain'', PInt)],
    getter ''GainMin'' ''gainmin'' RInt, getter ''GainMax'' ''gainmax'' RInt,
    getter ''Gains'' ''gains'' RStrings, getter ''Offset'' ''offset'' RInt,
    setter ''SetOffset'' ''offset'' [(''Offset'', PInt)], getter ''OffsetMin'' ''offsetmin'' RInt,
    getter ''OffsetMax'' ''offsetmax'' RInt, getter ''Offsets'' ''offsets'' RStrings,
    getter ''ReadoutMode'' ''readoutmode'' RInt,
    setter ''SetReadoutMode'' ''readoutmode'' [(''ReadoutMode'', PInt)],
    getter ''ReadoutModes'' ''readoutmodes'' RStrings, getter ''FastReadout'' ''fastreadout'' RBool,
    setter ''SetFastReadout'' ''fastreadout'' [(''FastReadout'', PBool)],
    getter ''CanFastReadout'' ''canfastreadout'' RBool,
    getter ''CCDTemperature'' ''ccdtemperature'' RFloat,
    getter ''HeatSinkTemperature'' ''heatsinktemperature'' RFloat,
    getter ''CoolerOn'' ''cooleron'' RBool, setter ''SetCoolerOn'' ''cooleron'' [(''CoolerOn'', PBool)],
    getter ''CoolerPower'' ''coolerpower'' RFloat,
    getter ''CanGetCoolerPower'' ''cangetcoolerpower'' RBool,
    getter ''CanSetCCDTemperature'' ''cansetccdtemperature'' RBool,
    getter ''SetCCDTemperature'' ''setccdtemperature'' RFloat,
    setter ''SetSetCCDTemperature'' ''setccdtemperature'' [(''SetCCDTemperature'', PFloat)],
    getter ''CanPulseGuide'' ''canpulseguide'' RBool, getter ''IsPulseGuiding'' ''ispulseguiding'' RBool,
    setter ''PulseGuide'' ''pulseguide'' [(''Direction'', PInt), (''Duration'', PInt)]]"

definition covercalibrator_operations :: "operation list" where
  "covercalibrator_operations = [
    getter ''Brightness'' ''brightness'' RInt, getter ''MaxBrightness'' ''maxbrightness'' RInt,
    getter ''CalibratorChanging'' ''calibratorchanging'' RBool,
    getter ''CoverMoving'' ''covermoving'' RBool, getter ''CalibratorState'' ''calibratorstate'' RInt,
    getter ''CoverState'' ''coverstate'' RInt, setter ''CalibratorOff'' ''calibratoroff'' [],
    setter ''CalibratorOn'' ''calibratoron'' [(''Brightness'', PInt)],
    setter ''CloseCover'' ''closecover'' [], setter ''HaltCover'' ''haltcover'' [],
    setter ''OpenCover'' ''opencover'' []]"

definition dome_operations :: "operation list" where
  "dome_operations = [
    getter ''Altitude'' ''altitude'' RFloat, getter ''Azimuth'' ''azimuth'' RFloat,
    getter ''AtHome'' ''athome'' RBool, getter ''AtPark'' ''atpark'' RBool,
    getter ''CanFindHome'' ''canfindhome'' RBool, getter ''CanPark'' ''canpark'' RBool,
    getter ''CanSetAltitude'' ''cansetaltitude'' RBool, getter ''CanSetAzimuth'' ''cansetazimuth'' RBool,
    getter ''CanSetPark'' ''cansetpark'' RBool, getter ''CanSetShutter'' ''cansetshutter'' RBool,
    getter ''CanSlave'' ''canslave'' RBool, getter ''CanSyncAzimuth'' ''cansyncazimuth'' RBool,
    getter ''Slaved'' ''slaved'' RBool, getter ''Slewing'' ''slewing'' RBool,
    getter ''ShutterStatus'' ''shutterstatus'' RInt,
    setter ''SetSlaved'' ''slaved'' [(''Slaved'', PBool)], setter ''AbortSlew'' ''abortslew'' [],
    setter ''CloseShutter'' ''closeshutter'' [], setter ''FindHome'' ''findhome'' [],
    setter ''OpenShutter'' ''openshutter'' [], setter ''Park'' ''park'' [],
    setter ''SetPark'' ''setpark'' [],
    setter ''SlewToAltitude'' ''slewtoaltitude'' [(''Altitude'', PFloat)],
    setter ''SlewToAzimuth'' ''slewtoazimuth'' [(''Azimuth'', PFloat)],
    setter ''SyncToAzimuth'' ''synctoazimuth'' [(''Azimuth'', PFloat)]]"

definition filterwheel_operations :: "operation list" where
  "filterwheel_operations = [
    getter ''FocusOffsets'' ''focusoffsets'' RInts, getter ''Names'' ''names'' RStrings,
    getter ''Position'' ''position'' RInt, setter ''SetPosition'' ''position'' [(''Position'', PInt)]]"

definition focuser_operations :: "operation list" where
  "focuser_operations = [
    getter ''Absolute'' ''absolute'' RBool, getter ''IsMoving'' ''ismoving'' RBool,
    getter ''MaxIncrement'' ''maxincrement'' RInt, getter ''MaxStep'' ''maxstep'' RInt,
    getter ''Position'' ''position'' RInt, getter ''StepSize'' ''stepsize'' RFloat,
    getter ''TempComp'' ''tempcomp'' RBool, getter ''TempCompAvailable'' ''tempcompavailable'' RBool,
    getter ''Temperature'' ''temperature'' RFloat,
    setter ''SetTempComp'' ''tempcomp'' [(''TempComp'', PBool)], setter ''Halt'' ''halt'' [],
    setter ''Move'' ''move'' [(''Position'', PInt)]]"

definition observingconditions_operations :: "operation list" where
  "observingconditions_operations = [
    getter ''AveragePeriod'' ''averageperiod'' RFloat,
    setter ''SetAveragePeriod'' ''averageperiod'' [(''AveragePeriod'', PFloat)],
    getter ''CloudCover'' ''cloudcover'' RFloat, getter ''DewPoint'' ''dewpoint'' RFloat,
    getter ''Humidity'' ''humidity'' RFloat, getter ''Pressure'' ''pressure'' RFloat,
    getter ''RainRate'' ''rainrate'' RFloat, getter ''SkyBrightness'' ''skybrightness'' RFloat,
    getter ''SkyQuality'' ''skyquality'' RFloat, getter ''SkyTemperature'' ''skytemperature'' RFloat,
    getter ''StarFWHM'' ''starfwhm'' RFloat, getter ''Temperature'' ''temperature'' RFloat,
    getter ''WindDirection'' ''winddirection'' RFloat, getter ''WindGust'' ''windgust'' RFloat,
    getter ''WindSpeed'' ''windspeed'' RFloat,
    param_getter ''SensorDescription'' ''sensordescription'' [(''SensorName'', PString)] RString,
    param_getter ''TimeSinceLastUpdate'' ''timesincelastupdate'' [(''SensorName'', PString)] RFloat,
    setter ''Refresh'' ''refresh'' []]"

definition rotator_operations :: "operation list" where
  "rotator_operations = [
    getter ''CanReverse'' ''canreverse'' RBool, getter ''IsMoving'' ''ismoving'' RBool,
    getter ''MechanicalPosition'' ''mechanicalposition'' RFloat, getter ''Position'' ''position'' RFloat,
    getter ''Reverse'' ''reverse'' RBool, getter ''StepSize'' ''stepsize'' RFloat,
    getter ''TargetPosition'' ''targetposition'' RFloat,
    setter ''SetReverse'' ''reverse'' [(''Reverse'', PBool)], setter ''Halt'' ''halt'' [],
    setter ''Move'' ''move'' [(''Position'', PFloat)],
    setter ''MoveAbsolute'' ''moveabsolute'' [(''Position'', PFloat)],
    setter ''MoveMechanical'' ''movemechanical'' [(''Position'', PFloat)],
    setter ''Sync'' ''sync'' [(''Position'', PFloat)]]"

definition safetymonitor_operations :: "operation list" where
  "safetymonitor_operations = [
    getter ''IsSafe'' ''issafe'' RBool]"

definition switch_operations :: "operation list" where
  "switch_operations = [
    getter ''MaxSwitch'' ''maxswitch'' RInt,
    param_getter ''CanWrite'' ''canwrite'' [(''Id'', PInt)] RBool,
    param_getter ''GetSwitch'' ''getswitch'' [(''Id'', PInt)] RBool,
    param_getter ''CanAsync'' ''canasync'' [(''Id'', PInt)] RBool,
    param_getter ''StateChangeComplete'' ''statechangecomplete'' [(''Id'', PInt)] RBool,
    param_getter ''GetSwitchValue'' ''getswitchvalue'' [(''Id'', PInt)] RFloat,
    param_getter ''MaxSwitchValue'' ''maxswitchvalue'' [(''Id'', PInt)] RFloat,
    param_getter ''MinSwitchValue'' ''minswitchvalue'' [(''Id'', PInt)] RFloat,
    param_getter ''SwitchStep'' ''switchstep'' [(''Id'', PInt)] RFloat,
    param_getter ''GetSwitchName'' ''getswitchname'' [(''Id'', PInt)] RString,
    param_getter ''GetSwitchDescription'' ''getswitchdescription'' [(''Id'', PInt)] RString,
    setter ''SetSwitch'' ''setswitch'' [(''Id'', PInt), (''State'', PBool)],
    setter ''SetSwitchName'' ''setswitchname'' [(''Id'', PInt), (''Name'', PString)],
    setter ''SetSwitchValue'' ''setswitchvalue'' [(''Id'', PInt), (''Value'', PFloat)],
    setter ''SetAsync'' ''setasync'' [(''Id'', PInt), (''State'', PBool)],
    setter ''SetAsyncValue'' ''setasyncvalue'' [(''Id'', PInt), (''Value'', PFloat)],
    setter ''CancelAsync'' ''cancelasync'' [(''Id'', PInt)]]"

definition telescope_operations :: "operation list" where
  "telescope_operations = [
    getter ''Altitude'' ''altitude'' RFloat, getter ''ApertureArea'' ''aperturearea'' RFloat,
    getter ''ApertureDiameter'' ''aperturediameter'' RFloat, getter ''AtHome'' ''athome'' RBool,
    getter ''AtPark'' ''atpark'' RBool, getter ''Azimuth'' ''azimuth'' RFloat,
    getter ''CanFindHome'' ''canfindhome'' RBool, getter ''CanPark'' ''canpark'' RBool,
    getter ''CanPulseGuide'' ''canpulseguide'' RBool,
    getter ''CanSetDeclinationRate'' ''cansetdeclinationrate'' RBool,
    getter ''CanSetGuideRates'' ''cansetguiderates'' RBool, getter ''CanSetPark'' ''cansetpark'' RBool,
    getter ''CanSetPierSide'' ''cansetpierside'' RBool,
    getter ''CanSetRightAscensionRate'' ''cansetrightascensionrate'' RBool,
    getter ''CanSetTracking'' ''cansettracking'' RBool, getter ''CanSlew'' ''canslew'' RBool,
    getter ''CanSlewAltAz'' ''canslewaltaz'' RBool,
    getter ''CanSlewAltAzAsync'' ''canslewaltazasync'' RBool,
    getter ''CanSlewAsync'' ''canslewasync'' RBool, getter ''CanSync'' ''cansync'' RBool,
    getter ''CanSyncAltAz'' ''cansyncaltaz'' RBool, getter ''CanUnpark'' ''canunpark'' RBool,
    getter ''Declination'' ''declination'' RFloat, getter ''FocalLength'' ''focallength'' RFloat,
    getter ''IsPulseGuiding'' ''ispulseguiding'' RBool,
    getter ''RightAscension'' ''rightascension'' RFloat, getter ''SiderealTime'' ''siderealtime'' RFloat,
    getter ''Slewing'' ''slewing'' RBool, getter ''DeclinationRate'' ''declinationrate'' RFloat,
    setter ''SetDeclinationRate'' ''declinationrate'' [(''DeclinationRate'', PFloat)],
    getter ''DoesRefraction'' ''doesrefraction'' RBool,
    setter ''SetDoesRefraction'' ''doesrefraction'' [(''DoesRefraction'', PBool)],
    getter ''GuideRateDeclination'' ''guideratedeclination'' RFloat,
    setter ''SetGuideRateDeclination'' ''guideratedeclination'' [(''GuideRateDeclination'', PFloat)],
    getter ''GuideRateRightAscension'' ''guideraterightascension'' RFloat,
    setter ''SetGuideRateRightAscension'' ''guideraterightascension'' [(''GuideRateRightAscension'', PFloat)],
    getter ''RightAscensionRate'' ''rightascensionrate'' RFloat,
    setter ''SetRightAscensionRate'' ''rightascensionrate'' [(''RightAscensionRate'', PFloat)],
    getter ''SiteElevation'' ''siteelevation'' RFloat,
    setter ''SetSiteElevation'' ''siteelevation'' [(''SiteElevation'', PFloat)],
    getter ''SiteLatitude'' ''sitelatitude'' RFloat,
    setter ''SetSiteLatitude'' ''sitelatitude'' [(''SiteLatitude'', PFloat)],
    getter ''SiteLongitude'' ''sitelongitude'' RFloat,
    setter ''SetSiteLongitude'' ''sitelongitude'' [(''SiteLongitude'', PFloat)],
    getter ''SlewSettleTime'' ''slewsettletime'' RInt,
    setter ''SetSlewSettleTime'' ''slewsettletime'' [(''SlewSettleTime'', PInt)],
    getter ''TargetDeclination'' ''targetdeclination'' RFloat,
    setter ''SetTargetDeclination'' ''targetdeclination'' [(''TargetDeclination'', PFloat)],
    getter ''TargetRightAscension'' ''targetrightascension'' RFloat,
    setter ''SetTargetRightAscension'' ''targetrightascension'' [(''TargetRightAscension'', PFloat)],
    getter ''Tracking'' ''tracking'' RBool, setter ''SetTracking'' ''tracking'' [(''Tracking'', PBool)],
    getter ''UTCDate'' ''utcdate'' RString, setter ''SetUTCDate'' ''utcdate'' [(''UTCDate'', PString)],
    getter ''AlignmentMode'' ''alignmentmode'' RInt,
    getter ''EquatorialSystem'' ''equatorialsystem'' RInt, getter ''SideOfPier'' ''sideofpier'' RInt,
    setter ''SetSideOfPier'' ''sideofpier'' [(''SideOfPier'', PInt)],
    getter ''TrackingRate'' ''trackingrate'' RInt,
    setter ''SetTrackingRate'' ''trackingrate'' [(''TrackingRate'', PInt)],
    getter ''TrackingRates'' ''trackingrates'' RInts,
    param_getter ''AxisRates'' ''axisrates'' [(''Axis'', PInt)] RRates,
    param_getter ''CanMoveAxis'' ''canmoveaxis'' [(''Axis'', PInt)] RBool,
    param_getter ''DestinationSideOfPier'' ''destinationsideofpier''
      [(''RightAscension'', PFloat), (''Declination'', PFloat)] RInt,
    setter ''AbortSlew'' ''abortslew'' [], setter ''FindHome'' ''findhome'' [],
    setter ''Park'' ''park'' [], setter ''SetPark'' ''setpark'' [],
    setter ''SlewToTarget'' ''slewtotarget'' [], setter ''SlewToTargetAsync'' ''slewtotargetasync'' [],
    setter ''SyncToTarget'' ''synctotarget'' [], setter ''Unpark'' ''unpark'' [],
    setter ''MoveAxis'' ''moveaxis'' [(''Axis'', PInt), (''Rate'', PFloat)],
    setter ''PulseGuide'' ''pulseguide'' [(''Direction'', PInt), (''Duration'', PInt)],
    setter ''SlewToAltAz'' ''slewtoaltaz'' [(''Azimuth'', PFloat), (''Altitude'', PFloat)],
    setter ''SlewToAltAzAsync'' ''slewtoaltazasync'' [(''Azimuth'', PFloat), (''Altitude'', PFloat)],
    setter ''SyncToAltAz'' ''synctoaltaz'' [(''Azimuth'', PFloat), (''Altitude'', PFloat)],
    setter ''SlewToCoordinates'' ''slewtocoordinates''
      [(''RightAscension'', PFloat), (''Declination'', PFloat)],
    setter ''SlewToCoordinatesAsync'' ''slewtocoordinatesasync''
      [(''RightAscension'', PFloat), (''Declination'', PFloat)],
    setter ''SyncToCoordinates'' ''synctocoordinates''
      [(''RightAscension'', PFloat), (''Declination'', PFloat)]]"

fun type_operations :: "DeviceType \<Rightarrow> operation list" where
  "type_operations CameraType = camera_operations"
| "type_operations CoverCalibratorType = covercalibrator_operations"
| "type_operations DomeType = dome_operations"
| "type_operations FilterWheelType = filterwheel_operations"
| "type_operations FocuserType = focuser_operations"
| "type_operations ObservingConditionsType = observingconditions_operations"
| "type_operations RotatorType = rotator_operations"
| "type_operations SafetyMonitorType = safetymonitor_operations"
| "type_operations SwitchType = switch_operations"
| "type_operations TelescopeType = telescope_operations"
| "type_operations (CustomType _) = []"

definition client_operations :: "DeviceType \<Rightarrow> operation list" where
  "client_operations ty = device_operations @ type_operations ty"

lemmas operations_defs = device_operations_def camera_operations_def covercalibrator_operations_def
  dome_operations_def filterwheel_operations_def focuser_operations_def observingconditions_operations_def
  rotator_operations_def safetymonitor_operations_def switch_operations_def telescope_operations_def

lemmas op_defs = getter_def param_getter_def setter_def putter_def

end
