(* ===== verification/Client_Replies.thy ===== *)
theory Client_Replies
  imports Client_Members
begin

text \<open>
  What a client makes of the replies of the server: the envelope it decodes is the one that was sent, and a
  value comes back as it was.
\<close>

section \<open>Numbers and names\<close>

lemma digits_show: "digits (show_nat n) = Some n"
  by (simp add: digits_def digits_from_show)

lemma Atoi_Itoa:
  assumes "in_i64 n"
  shows "Atoi (Itoa n) = Some n"
proof (cases "n < 0")
  case True
  then show ?thesis using assms by (simp add: Itoa_def Atoi_def signed_def digits_show)
next
  case False
  obtain c cs where c: "show_nat (nat n) = c # cs" by (metis list.exhaust show_nat_nonempty)
  have "digit_string (show_nat (nat n))" by simp
  then have "digit_of c \<noteq> None" using c by (simp add: digit_string_def)
  then have "c \<notin> {CHR ''+'', CHR ''-''}" using digit_not_sign by auto
  then have "signed (show_nat (nat n)) = (1, show_nat (nat n))" using c by (simp add: signed_def)
  then show ?thesis using False assms by (simp add: Itoa_def Atoi_def digits_show)
qed

lemma ParseUint32_Itoa: "ParseUint32 (Itoa (uint w)) = Some w"
proof -
  have "uint w < 2 ^ 32" using uint_bounded [of w] by simp
  then have "nat (uint w) < 2 ^ 32" by (subst nat_less_iff) simp_all
  then show ?thesis
    by (simp add: ParseUint32_def Itoa_def digits_show not_less)
qed

lemma to_valid_ascii: "list_all (\<lambda>c. byte c < 128) s \<Longrightarrow> to_valid s = s"
  by (induction s) simp_all

lemma fold_name_ascii: "list_all (\<lambda>c. byte c < 128) s \<Longrightarrow> fold_name s = to_lower s"
proof (induction s)
  case (Cons c s)
  have "take 2 (c # s) \<noteq> long_s" "take 3 (c # s) \<noteq> kelvin"
    using Cons.prems by (auto simp: long_s_def kelvin_def numeral_2_eq_2 numeral_3_eq_3)
  then show ?case using Cons by (simp add: to_lower_def)
qed (simp add: to_lower_def)

lemma envelope_names:
  "fold_name ''Value'' = ''value''" "fold_name ''ClientTransactionID'' = ''clienttransactionid''"
  "fold_name ''ServerTransactionID'' = ''servertransactionid''" "fold_name ''ErrorNumber'' = ''errornumber''"
  "fold_name ''ErrorMessage'' = ''errormessage''" "fold_name ''Name'' = ''name''"
  "fold_name ''Minimum'' = ''minimum''" "fold_name ''Maximum'' = ''maximum''"
  "fold_name ''Type'' = ''type''" "fold_name ''Rank'' = ''rank''"
  by (subst fold_name_ascii, simp add: byte_def, simp add: lower_literal)+

lemma valid_names:
  "to_valid ''Value'' = ''Value''" "to_valid ''ClientTransactionID'' = ''ClientTransactionID''"
  "to_valid ''ServerTransactionID'' = ''ServerTransactionID''" "to_valid ''ErrorNumber'' = ''ErrorNumber''"
  "to_valid ''ErrorMessage'' = ''ErrorMessage''" "to_valid ''Name'' = ''Name''"
  "to_valid ''Minimum'' = ''Minimum''" "to_valid ''Maximum'' = ''Maximum''"
  "to_valid ''Type'' = ''Type''" "to_valid ''Rank'' = ''Rank''"
  by (rule to_valid_ascii, simp add: byte_def)+

declare to_valid.simps [simp del] fold_name.simps [simp del]

section \<open>Envelopes\<close>

text \<open>The value as it arrives.\<close>

definition arriving :: "any \<Rightarrow> json" where
  "arriving v = json_valid (the (json_of v))"

definition arrived :: "(message \<Rightarrow> string) \<Rightarrow> envelope \<Rightarrow> received" where
  "arrived render e = no_envelope\<lparr>evValue := map_option arriving (Value e),
     evClientTx := ClientTransactionID e, evServerTx := ServerTransactionID e,
     evNumber := ErrorNumber e, evMessage := to_valid (render (ErrorMessage e))\<rparr>"

definition sendable_envelope :: "envelope \<Rightarrow> bool" where
  "sendable_envelope e \<longleftrightarrow> in_i64 (ErrorNumber e) \<and> (\<forall>v. Value e = Some v \<longrightarrow> sendable v)"

lemma num_end_newline: "num_end newline" "skip_ws newline = []"
  by (simp_all add: newline_def num_end_def digit_of_def Let_def skip_ws_def is_space_def byte_def)

lemma envelope_fields:
  "envelope_field ranked ''value'' j r = Some (r\<lparr>evValue := Some j\<rparr>)"
  "envelope_field ranked ''clienttransactionid'' (json_int (uint a)) r = Some (r\<lparr>evClientTx := a\<rparr>)"
  "envelope_field ranked ''servertransactionid'' (json_int (uint a)) r = Some (r\<lparr>evServerTx := a\<rparr>)"
  "in_i64 n \<Longrightarrow> envelope_field ranked ''errornumber'' (json_int n) r = Some (r\<lparr>evNumber := n\<rparr>)"
  "envelope_field ranked ''errormessage'' (JStr m) r = Some (r\<lparr>evMessage := m\<rparr>)"
  by (simp_all add: envelope_field_def set_field_def json_int_def ParseUint32_Itoa Atoi_Itoa)

lemma json_int_ok: "json_ok (json_int n)" "json_valid (json_int n) = json_int n"
  by (simp_all add: json_int_def num_literal_Itoa)

lemma envelope_json_ok:
  assumes "sendable_envelope e"
  obtains j where "envelope_json render e = Some j" "json_ok j"
    "decode_struct (envelope_field ranked) no_envelope (json_valid j) = Some (arrived render e)"
proof -
  define tail where "tail = [(''ClientTransactionID'', json_int (uint (ClientTransactionID e))),
         (''ServerTransactionID'', json_int (uint (ServerTransactionID e))),
         (''ErrorNumber'', json_int (ErrorNumber e)), (''ErrorMessage'', JStr (render (ErrorMessage e)))]"
  define valid where "valid = map (\<lambda>(k, v). (to_valid k, json_valid v))"
  have tail_ok: "list_all (\<lambda>(k, v). json_ok v) tail" by (simp add: tail_def json_int_ok)
  have n: "in_i64 (ErrorNumber e)" using assms by (simp add: sendable_envelope_def)
  have fields: "fold_members (envelope_field ranked) (valid tail) r = Some (r\<lparr>evClientTx := ClientTransactionID e,
      evServerTx := ServerTransactionID e, evNumber := ErrorNumber e,
      evMessage := to_valid (render (ErrorMessage e))\<rparr>)" for r
    by (simp add: tail_def valid_def valid_names envelope_names envelope_fields json_int_ok n)
  show ?thesis
  proof (cases "Value e")
    case None
    then have "envelope_json render e = Some (JObj tail)" by (simp add: envelope_json_def tail_def)
    then show ?thesis
      by (rule that) (simp_all add: tail_ok fields [unfolded valid_def] arrived_def None no_envelope_def)
  next
    case (Some v)
    then have "sendable v" using assms by (simp add: sendable_envelope_def)
    then obtain j where j: "json_of v = Some j" "json_ok j" using json_of_ok by blast
    have "envelope_json render e = Some (JObj ((''Value'', j) # tail))"
      by (simp add: envelope_json_def tail_def Some j(1))
    then show ?thesis
      by (rule that) (simp_all add: tail_ok j fields [unfolded valid_def] arrived_def Some no_envelope_def
        valid_names envelope_names envelope_fields arriving_def)
  qed
qed

lemma decode_writeJSON:
  assumes "sendable_envelope e"
  shows "decode_envelope ranked (writeJSON render e) = Some (arrived render e)"
proof -
  obtain j where j: "envelope_json render e = Some j" "json_ok j"
    "decode_struct (envelope_field ranked) no_envelope (json_valid j) = Some (arrived render e)"
    using envelope_json_ok [OF assms] by blast
  then show ?thesis
    using unmarshal_text [OF j(2) num_end_newline] by (simp add: decode_envelope_def writeJSON_def)
qed


section \<open>Values\<close>

text \<open>The values of a type that survive the wire: numbers in range and finite, text that is UTF-8.\<close>

definition finite_rate :: "AxisRate \<Rightarrow> bool" where
  "finite_rate r \<longleftrightarrow> (\<exists>a b. r = \<lparr>Minimum = Fin a, Maximum = Fin b\<rparr> \<and> in_f64 a \<and> in_f64 b)"

fun portable :: "result_type \<Rightarrow> any \<Rightarrow> bool" where
  "portable t (VBool b) = (t = RBool)"
| "portable t (VInt n) = (t = RInt \<and> in_i64 n)"
| "portable t (VFloat x) = (t = RFloat \<and> (\<exists>r. x = Fin r \<and> in_f64 r))"
| "portable t (VStr s) = (t = RString \<and> to_valid s = s)"
| "portable t (VInts ns) = (t = RInts \<and> list_all in_i64 ns)"
| "portable t (VStrs ss) = (t = RStrings \<and> list_all (\<lambda>s. to_valid s = s) ss)"
| "portable t (VRates rs) = (t = RRates \<and> list_all finite_rate rs)"
| "portable t v = False"

lemma those_map_id: "(\<And>x. x \<in> set xs \<Longrightarrow> f x = Some (g x)) \<Longrightarrow> those (map f xs) = Some (map g xs)"
  by (induction xs) auto

lemma arriving_float:
  assumes "in_f64 r"
  obtains t where "json_float (Fin r) = Some t" "num_literal t" "ParseFloat t = Some (Fin r)"
  using num_literal_float [OF assms] by blast

lemma rate_decodes:
  assumes "finite_rate r"
  obtains j where "json_rate r = Some j" "json_ok j" "decode_rate (json_valid j) = Some r"
proof -
  obtain a b where r: "r = \<lparr>Minimum = Fin a, Maximum = Fin b\<rparr>" "in_f64 a" "in_f64 b"
    using assms by (auto simp: finite_rate_def)
  obtain s where s: "json_float (Fin a) = Some s" "num_literal s" "ParseFloat s = Some (Fin a)"
    using arriving_float [OF r(2)] .
  obtain t where t: "json_float (Fin b) = Some t" "num_literal t" "ParseFloat t = Some (Fin b)"
    using arriving_float [OF r(3)] .
  show thesis
    by (rule that [of "JObj [(''Minimum'', JNum s), (''Maximum'', JNum t)]"])
      (simp_all add: json_rate_def r(1) s t valid_names envelope_names decode_rate_def rate_field_def set_field_def
        del: json_float.simps)
qed

lemma rates_decode:
  "list_all finite_rate rs \<Longrightarrow> \<exists>js. those (map json_rate rs) = Some js \<and> list_all json_ok js
     \<and> those (map (decode_rate \<circ> json_valid) js) = Some rs"
proof (induction rs)
  case (Cons r rs)
  obtain j where "json_rate r = Some j" "json_ok j" "decode_rate (json_valid j) = Some r"
    using rate_decodes Cons.prems by auto
  then show ?case using Cons by auto
qed simp

lemma portable_decodes:
  assumes "portable t v"
  shows "sendable v" "arriving v \<noteq> JNull" "decode_as t (arriving v) = Some v"
proof -
  have "sendable v \<and> arriving v \<noteq> JNull \<and> decode_as t (arriving v) = Some v"
    using assms
  proof (cases v)
    case (VFloat x)
    then obtain r where r: "x = Fin r" "in_f64 r" "t = RFloat" using assms by auto
    obtain s where "json_float (Fin r) = Some s" "num_literal s" "ParseFloat s = Some (Fin r)"
      using arriving_float [OF r(2)] .
    then show ?thesis using VFloat r by (simp add: arriving_def del: json_float.simps)
  next
    case (VInts ns)
    then have "those (map (decode_int \<circ> (json_valid \<circ> json_int)) ns) = Some (map (\<lambda>n. n) ns)"
      using assms by (intro those_map_id) (auto simp: json_int_ok json_int_def Atoi_Itoa list_all_iff)
    then show ?thesis using VInts assms by (simp add: arriving_def comp_assoc)
  next
    case (VStrs ss)
    then have "those (map (decode_string \<circ> (json_valid \<circ> JStr)) ss) = Some (map (\<lambda>n. n) ss)"
      using assms by (intro those_map_id) (auto simp: list_all_iff)
    then show ?thesis using VStrs assms by (simp add: arriving_def comp_assoc)
  next
    case (VRates rs)
    then show ?thesis using rates_decode [of rs] assms
      by (auto simp: arriving_def list_all_iff finite_rate_def)
  qed (use assms in \<open>simp_all add: arriving_def json_int_ok\<close>, simp_all add: json_int_def Atoi_Itoa)
  then show "sendable v" "arriving v \<noteq> JNull" "decode_as t (arriving v) = Some v" by simp_all
qed

section \<open>Replies\<close>

text \<open>What an operation makes of a reply.\<close>

definition reads_reply :: "operation \<Rightarrow> reply \<Rightarrow> failure + any" where
  "reads_reply op r = and_then (and_then (read_reply maxEnvelopeBytes r) checked_envelope)
     (if opResult op = RNone then \<lambda>_. Inr VNil else decode_value (opMember op) (decode_as (opResult op)))"

lemma and_then_assoc: "and_then (and_then r f) g = and_then r (\<lambda>x. and_then (f x) g)"
  by (simp add: and_then_def split: sum.split)

lemma invoke_eq:
  "invoke send op args = attempt (request_reply send [] (opVerb op) (opMember op) (op_params op args)) (reads_reply op)"
  by (auto simp: invoke_def call_unit_def call_value_def attempt_def ask_def reads_reply_def and_then_def fun_eq_iff
      split: prod.split sum.split)

definition small_envelope :: "(message \<Rightarrow> string) \<Rightarrow> envelope \<Rightarrow> bool" where
  "small_envelope render e \<longleftrightarrow> length (writeJSON render e) \<le> maxEnvelopeBytes"

text \<open>What the server's answer means to the client: the device's error, or its value.\<close>

definition outcome :: "(message \<Rightarrow> string) \<Rightarrow> operation \<Rightarrow> envelope \<Rightarrow> failure + any" where
  "outcome render op e =
     (if ErrorNumber e \<noteq> 0 then Inl (DeviceError (ErrorNumber e) (to_valid (render (ErrorMessage e))))
      else if opResult op = RNone then Inr VNil
      else (case Value e of None \<Rightarrow> Inl (NoValue (opMember op)) | Some v \<Rightarrow> Inr v))"

lemma reads_envelope:
  assumes "in_i64 (ErrorNumber e)" "\<And>v. Value e = Some v \<Longrightarrow> sendable v" "small_envelope render e"
    and "\<And>v. Value e = Some v \<Longrightarrow> ErrorNumber e = 0 \<Longrightarrow> opResult op \<noteq> RNone \<Longrightarrow> portable (opResult op) v"
  shows "reads_reply op \<lparr>rpStatus = 200, rpType = ty, rpBody = writeJSON render e\<rparr> = outcome render op e"
proof -
  have d: "decode_envelope False (writeJSON render e) = Some (arrived render e)"
    using assms(1,2) by (intro decode_writeJSON) (simp add: sendable_envelope_def)
  show ?thesis
    using assms(3,4) portable_decodes
    by (auto simp: reads_reply_def read_reply_def readCapped_def small_envelope_def and_then_def checked_envelope_def d
        outcome_def decode_value_def arrived_def no_envelope_def split: option.split)
qed

end
