(* ===== verification/Remote.thy ===== *)
theory Remote
  imports Client_Replies Serving
begin

text \<open>
  A client of the package \<open>client\<close> talking to a server of the package \<open>server\<close>: the server is the transport.
  What lies between the two, the connection and the HTTP framing, delivers every request and every reply
  whole (Go's \<open>net/http\<close> on both ends).
\<close>

section \<open>The server as a transport\<close>

text \<open>The path and the query of a URL; a path that does not unescape is refused.\<close>

fun drop_scheme :: "string \<Rightarrow> string option" where
  "drop_scheme [] = None"
| "drop_scheme (c # cs) = (if take 3 (c # cs) = ''://'' then Some (drop 2 cs) else drop_scheme cs)"

definition request_target :: "string \<Rightarrow> (string \<times> string) option" where
  "request_target url = (case drop_scheme url of
     None \<Rightarrow> None
   | Some s \<Rightarrow> (case cut CHR ''?'' (dropWhile (\<lambda>c. c \<noteq> CHR ''/'' \<and> c \<noteq> CHR ''?'') s) of
       (path, query) \<Rightarrow> map_option (\<lambda>p. (p, query)) (PathUnescape path)))"

text \<open>The form of a body is read when its content type says so.\<close>

definition received_request :: "http_request \<Rightarrow> request option" where
  "received_request hq = map_option (\<lambda>(path, query).
     \<lparr>rqMethod = hqMethod hq, rqPath = path, rqAccept = hqAccept hq,
      rqForm = ParseForm (hqMethod hq) query (if hqType hq = FormType then hqBody hq else [])\<rparr>)
     (request_target (hqURL hq))"

definition serve :: "'w env \<Rightarrow> (nat \<Rightarrow> string) \<Rightarrow> (request \<Rightarrow> ('w, response) sact) \<Rightarrow> (request \<Rightarrow> ('w, response) sact)
    \<Rightarrow> ('w server \<times> 'w) send" where
  "serve env page handleSetup handleDiscoveryReply hq = (case received_request hq of
     None \<Rightarrow> ret (Inl (EOther (Text ''parse'')))
   | Some r \<Rightarrow> ask (route env handleSetup handleDiscoveryReply r) (\<lambda>resp. ret (reply_of (envRender env) page resp)))"

section \<open>A request arrives\<close>

definition plain :: "string \<Rightarrow> bool" where
  "plain s \<longleftrightarrow> CHR ''/'' \<notin> set s \<and> CHR ''?'' \<notin> set s \<and> CHR ''%'' \<notin> set s"

lemma plain_digits: "plain (show_nat n)"
proof -
  have "digit_string (show_nat n)" by simp
  then have "digit_of c \<noteq> None" if "c \<in> set (show_nat n)" for c using that by (auto simp: digit_string_def)
  moreover have "digit_of CHR ''/'' = None" "digit_of CHR ''?'' = None" "digit_of CHR ''%'' = None" by code_simp+
  ultimately show ?thesis unfolding plain_def by metis
qed

lemma plain_Itoa: "plain (Itoa n)"
  using plain_digits by (auto simp: Itoa_def plain_def)

lemma plain_segment: "(\<forall>s. ty \<noteq> CustomType s) \<Longrightarrow> plain (segment ty)" "(\<forall>s. ty \<noteq> CustomType s) \<Longrightarrow> device_type (segment ty) = ty"
  by (cases ty; simp add: plain_def device_type_def)+

lemma request_target_device:
  assumes "plain host" "plain seg" "plain no" "plain m"
  shows "request_target (''http://'' @ host @ device_path seg no m @ ''?'' @ q) = Some (device_path seg no m, q)"
    "request_target (''http://'' @ host @ device_path seg no m) = Some (device_path seg no m, [])"
proof -
  let ?p = "device_path seg no m"
  have c: "CHR ''?'' \<notin> set ?p" "CHR ''%'' \<notin> set ?p" "\<exists>s. ?p = CHR ''/'' # s"
    using assms by (auto simp: device_path_def plain_def)
  have h: "dropWhile (\<lambda>c. c \<noteq> CHR ''/'' \<and> c \<noteq> CHR ''?'') (host @ ?p @ r) = ?p @ r" for r
    using assms(1) c(3) by (subst dropWhile_append2) (auto simp: plain_def)
  have u: "PathUnescape ?p = Some ?p" using PathUnescape_plain [OF c(2), of "[]" "[]"] by simp
  have n: "\<forall>x \<in> set ?p. x \<noteq> CHR ''?''" using c(1) by blast
  have d: "dropWhile (\<lambda>c. c \<noteq> CHR ''?'') ?p = []" "takeWhile (\<lambda>c. c \<noteq> CHR ''?'') ?p = ?p"
    unfolding dropWhile_eq_Nil_conv takeWhile_eq_all_conv using n by blast+
  have "cut CHR ''?'' (?p @ ''?'' @ q) = (?p, q)" "cut CHR ''?'' ?p = (?p, [])"
    using n by (simp_all add: cut_def takeWhile_append dropWhile_append d)
  then show "request_target (''http://'' @ host @ ?p @ ''?'' @ q) = Some (?p, q)"
    "request_target (''http://'' @ host @ ?p) = Some (?p, [])"
    using h [of "''?'' @ q"] h [of "[]"] u by (simp_all add: request_target_def)
qed

text \<open>A client that addresses the server and one of its devices.\<close>

definition addresses :: "client \<Rightarrow> string \<Rightarrow> bool" where
  "addresses c host \<longleftrightarrow> clBaseURL c = ''http://'' @ host \<and> plain host \<and> (\<forall>s. clType c \<noteq> CustomType s)
     \<and> in_i64 (clNumber c)"

lemma endpoint_path:
  "addresses c host \<Longrightarrow> endpoint c m = ''http://'' @ host @ device_path (segment (clType c)) (Itoa (clNumber c)) (to_lower m)"
  by (simp add: addresses_def endpoint_def device_path_def)

lemma set_value_form_ok: "form_ok vs \<Longrightarrow> form_ok (set_value k v vs)"
  by (auto simp: form_ok_def set_value_def distinct_map_filter)

text \<open>The request the server sees.\<close>

definition seen_request :: "string \<Rightarrow> string \<Rightarrow> string \<Rightarrow> url_values \<Rightarrow> client \<Rightarrow> request" where
  "seen_request accept verb m params c = \<lparr>rqMethod = verb,
     rqPath = device_path (segment (clType c)) (Itoa (clNumber c)) (to_lower m), rqAccept = accept,
     rqForm = sort_key fst (stamped_params c params)\<rparr>"

lemma request_arrives:
  assumes "addresses c host" "plain (to_lower m)" "form_ok params" "verb \<in> {''GET'', ''PUT''}"
  shows "received_request ((fst (prepare verb m params c))\<lparr>hqAccept := accept\<rparr>) = Some (seen_request accept verb m params c)"
    "snd (prepare verb m params c) = c\<lparr>clTx := clTx c + 1\<rparr>"
proof -
  have f: "form_ok (stamped_params c params)" using assms(3) by (simp add: stamped_params_def set_value_form_ok)
  have p: "plain host" "plain (segment (clType c))" using assms(1) plain_segment by (auto simp: addresses_def)
  note t = request_target_device [OF p plain_Itoa [of "clNumber c"] assms(2), simplified]
  show "received_request ((fst (prepare verb m params c))\<lparr>hqAccept := accept\<rparr>) = Some (seen_request accept verb m params c)"
    using assms(4) ParseForm_Encode [OF f]
    by (auto simp: prepare_def received_request_def endpoint_path [OF assms(1)] t seen_request_def Let_def FormType_def)
  show "snd (prepare verb m params c) = c\<lparr>clTx := clTx c + 1\<rparr>" by (simp add: prepare_def Let_def)
qed


section \<open>The parameters arrive\<close>

lemma fold_put_vals:
  "fst (fold put_param form (vs, lo)) k =
     (case [v. (k', v # _) \<leftarrow> rev form, k' = k] of [] \<Rightarrow> vs k | v # _ \<Rightarrow> Some v)"
proof (induction form rule: rev_induct)
  case (snoc kv form)
  obtain k' v where kv: "kv = (k', v)" by force
  obtain vs' lo' where f: "fold put_param form (vs, lo) = (vs', lo')" by force
  have "put_param (k', v) (vs', lo') = (case v of [] \<Rightarrow> (vs', lo') | x # _ \<Rightarrow> (vs'(k' \<mapsto> x), lo'(to_lower k' \<mapsto> x)))"
    by (simp add: put_param_def)
  then show ?case using snoc.IH f by (cases v) (auto simp: kv)
qed simp

lemma exact_entries:
  assumes "distinct (map fst form)" "(k, v # vs) \<in> set form"
  shows "[v. (k', v # _) \<leftarrow> rev form, k' = k] = [v]"
  using assms
proof (induction form)
  case (Cons kv form)
  obtain k' v' where kv: "kv = (k', v')" by force
  have none: "[v. (k', v # _) \<leftarrow> rev form, k' = k] = []" if "k \<notin> fst ` set form"
    using that by (force split: list.splits)
  show ?case
  proof (cases "(k, v # vs) = kv")
    case True
    then show ?thesis using none Cons.prems(1) by (auto simp: kv)
  next
    case False
    then have m: "(k, v # vs) \<in> set form" using Cons.prems(2) by simp
    then have "k' \<noteq> k" using Cons.prems(1) kv by force
    moreover have "[v. (k', v # _) \<leftarrow> rev form, k' = k] = [v]" using Cons.IH [OF _ m] Cons.prems(1) by simp
    ultimately show ?thesis by (auto simp: kv split: list.split)
  qed
qed simp

text \<open>A parameter whose name no other shares, in any case, is read in both matching modes.\<close>

lemma get_parsed:
  assumes "distinct (map (to_lower \<circ> fst) form)" "(k, v # vs) \<in> set form"
  shows "get (parseParams form is_put st) k = Some v" "lower (parseParams form is_put st) (to_lower k) = Some v"
proof -
  let ?p = "parseParams form is_put st"
  have dl: "distinct (map (\<lambda>(k, _). to_lower k) form)" using assms(1) by (simp add: comp_def case_prod_unfold)
  show l: "lower ?p (to_lower k) = Some v"
    by (simp add: lower_parseParams lower_entries_distinct [OF dl assms(2)])
  have "distinct (map fst form)" using assms(1) unfolding map_map [symmetric] by (rule distinct_map [THEN iffD1, THEN conjunct1])
  from exact_entries [OF this assms(2)] have "fst (fold put_param form (Map.empty, Map.empty)) k = Some v"
    by (simp add: fold_put_vals)
  then have "vals ?p k = Some v" by (simp add: parseParams_def case_prod_unfold Let_def)
  then show "get ?p k = Some v" using l unfolding get_def by (simp del: strict_parseParams)
qed

lemma distinct_map_sorted: "distinct (map f (sort_key g xs)) \<longleftrightarrow> distinct (map f xs)"
  using mset_eq_imp_distinct_iff [of "map f (sort_key g xs)" "map f xs"] by simp

text \<open>Operations whose parameters have names of their own.\<close>

definition op_ok :: "operation \<Rightarrow> bool" where
  "op_ok op \<longleftrightarrow> distinct (map (to_lower \<circ> fst) (opParams op) @ [''clientid'', ''clienttransactionid''])
     \<and> plain (to_lower (opMember op)) \<and> opVerb op \<in> {''GET'', ''PUT''}"

fun arg_ok :: "param_type \<Rightarrow> any \<Rightarrow> bool" where
  "arg_ok PBool (VBool b) = True"
| "arg_ok PInt (VInt n) = in_i64 n"
| "arg_ok PFloat (VFloat x) = (case x of Fin r \<Rightarrow> in_f64 r | _ \<Rightarrow> True)"
| "arg_ok PString (VStr s) = True"
| "arg_ok _ _ = False"

definition args_fit :: "operation \<Rightarrow> any list \<Rightarrow> bool" where
  "args_fit op args \<longleftrightarrow> list_all2 (\<lambda>(name, t) v. arg_ok t v) (opParams op) args"

text \<open>What the server reads for an argument.\<close>

fun arg_read :: "params \<Rightarrow> string \<Rightarrow> any \<Rightarrow> bool" where
  "arg_read p name (VBool b) = (reqBool p name = Inr b)"
| "arg_read p name (VInt n) = (reqInt p name = Inr n)"
| "arg_read p name (VFloat x) = (reqFloat p name = Inr x)"
| "arg_read p name (VStr s) = (get p name = Some s)"
| "arg_read p name _ = False"

definition carries :: "params \<Rightarrow> operation \<Rightarrow> any list \<Rightarrow> bool" where
  "carries p op args \<longleftrightarrow> list_all2 (\<lambda>(name, t) v. arg_read p name v) (opParams op) args"

lemma ParseFloat_special:
  "ParseFloat ''+Inf'' = Some PInf" "ParseFloat ''-Inf'' = Some NInf" "ParseFloat ''NaN'' = Some NaN"
proof -
  have "to_lower ''+Inf'' = ''+inf''" "to_lower ''-Inf'' = ''-inf''" "to_lower ''NaN'' = ''nan''" by code_simp+
  then show "ParseFloat ''+Inf'' = Some PInf" "ParseFloat ''-Inf'' = Some NInf" "ParseFloat ''NaN'' = Some NaN"
    by (simp_all add: ParseFloat_def)
qed

lemma arg_text_read:
  assumes "arg_ok t v" "get p name = Some (param_text v)"
  shows "arg_read p name v"
proof (cases "(t, v)" rule: arg_ok.cases)
  case (1 b)
  have "parseBool ''True'' = Some True" "parseBool ''False'' = Some False" by code_simp+
  then have "parseBool (boolParam b) = Some b" by (simp add: boolParam_def)
  then show ?thesis using assms 1 by (simp add: req_defs)
next
  case (2 n)
  then show ?thesis using assms by (simp add: req_defs intParam_def Atoi_Itoa)
next
  case (3 x)
  have "ParseFloat (FormatFloat_g x) = Some x"
    using assms(1) 3 ParseFloat_FormatFloat(2) ParseFloat_special by (cases x) simp_all
  then show ?thesis using assms 3 by (simp add: req_defs floatParam_def)
qed (use assms in simp_all)


lemma op_params_names: "length args = length (opParams op) \<Longrightarrow> map fst (op_params op args) = map fst (opParams op)"
  unfolding op_params_def by (rule nth_equalityI) (auto simp: case_prod_unfold)

lemma args_length: "args_fit op args \<Longrightarrow> length args = length (opParams op)"
  by (simp add: args_fit_def list_all2_lengthD)

lemma stamped_distinct:
  assumes "op_ok op" "args_fit op args"
  shows "distinct (map (to_lower \<circ> fst) (stamped_params c (op_params op args)))" "form_ok (op_params op args)"
    "set (op_params op args) \<subseteq> set (stamped_params c (op_params op args))"
proof -
  let ?ps = "op_params op args"
  have n: "map fst ?ps = map fst (opParams op)" using op_params_names args_length assms(2) by blast
  have d: "distinct (map (to_lower \<circ> fst) ?ps)"
    and c: "''clientid'' \<notin> (to_lower \<circ> fst) ` set ?ps" "''clienttransactionid'' \<notin> (to_lower \<circ> fst) ` set ?ps"
    using assms(1) unfolding op_ok_def image_comp [symmetric] set_map [symmetric] map_map [symmetric] n by auto
  have l: "to_lower ''ClientID'' = ''clientid''" "to_lower ''ClientTransactionID'' = ''clienttransactionid''"
    by (simp_all add: lower_literal)
  have x: "fst kv \<noteq> ''ClientID''" "fst kv \<noteq> ''ClientTransactionID''" if "kv \<in> set ?ps" for kv
    using c l that by (metis comp_apply image_eqI)+
  then have s: "stamped_params c ?ps = (''ClientTransactionID'', [Itoa (uint (clTx c + 1))])
      # (''ClientID'', [Itoa (uint (clID c))]) # ?ps"
    unfolding stamped_params_def set_value_def by (simp add: filter_id_conv case_prod_unfold)
  show "distinct (map (to_lower \<circ> fst) (stamped_params c ?ps))" using d c by (auto simp: s l)
  show "set ?ps \<subseteq> set (stamped_params c ?ps)" by (auto simp: s)
  have "distinct (map fst ?ps)" using d unfolding map_map [symmetric] by (rule distinct_map [THEN iffD1, THEN conjunct1])
  then show "form_ok ?ps" by (auto simp: form_ok_def op_params_def)
qed

lemma stamped_ids:
  "(''ClientTransactionID'', [Itoa (uint (clTx c + 1))]) \<in> set (stamped_params c ps)"
  "(''ClientID'', [Itoa (uint (clID c))]) \<in> set (stamped_params c ps)"
  by (simp_all add: stamped_params_def set_value_def)

text \<open>The parameters of a call, as the server's handlers read them.\<close>

definition call_params :: "client \<Rightarrow> operation \<Rightarrow> any list \<Rightarrow> bool \<Rightarrow> params" where
  "call_params c op args st =
     parseParams (sort_key fst (stamped_params c (op_params op args))) (opVerb op = ''PUT'') st"

lemma call_params_carry:
  assumes "op_ok op" "args_fit op args"
  shows "carries (call_params c op args st) op args"
    "clientTransactionID (call_params c op args st) = clTx c + 1" "clientID (call_params c op args st) = clID c"
proof -
  let ?form = "sort_key fst (stamped_params c (op_params op args))"
  have d: "distinct (map (to_lower \<circ> fst) ?form)" using stamped_distinct(1) [OF assms] by (simp only: distinct_map_sorted)
  have "arg_read (call_params c op args st) (fst (opParams op ! i)) (args ! i)" if i: "i < length args" for i
  proof (rule arg_text_read)
    show "arg_ok (snd (opParams op ! i)) (args ! i)"
      using assms(2) i by (auto simp: args_fit_def list_all2_conv_all_nth case_prod_unfold)
    have "(fst (opParams op ! i), [param_text (args ! i)]) \<in> set (op_params op args)"
      using i args_length [OF assms(2)] by (force simp: op_params_def set_conv_nth case_prod_unfold)
    then have "(fst (opParams op ! i), [param_text (args ! i)]) \<in> set ?form"
      using stamped_distinct(3) [OF assms] by auto
    then show "get (call_params c op args st) (fst (opParams op ! i)) = Some (param_text (args ! i))"
      unfolding call_params_def by (rule get_parsed(1) [OF d])
  qed
  then show "carries (call_params c op args st) op args"
    using args_length [OF assms(2)] by (auto simp: carries_def list_all2_conv_all_nth case_prod_unfold)
  have l: "to_lower ''ClientID'' = ''clientid''" "to_lower ''ClientTransactionID'' = ''clienttransactionid''"
    by (simp_all add: lower_literal)
  have "lower (call_params c op args st) ''clienttransactionid'' = Some (Itoa (uint (clTx c + 1)))"
    using get_parsed(2) [OF d, of "''ClientTransactionID''" _ "[]", unfolded l set_sort, OF stamped_ids(1)]
    by (simp only: call_params_def)
  then show "clientTransactionID (call_params c op args st) = clTx c + 1"
    by (simp add: call_params_def parseParams_def case_prod_unfold Let_def uint_param_def ParseUint32_Itoa)
  have "lower (call_params c op args st) ''clientid'' = Some (Itoa (uint (clID c)))"
    using get_parsed(2) [OF d, of "''ClientID''" _ "[]", unfolded l set_sort, OF stamped_ids(2)]
    by (simp only: call_params_def)
  then show "clientID (call_params c op args st) = clID c"
    by (simp add: call_params_def parseParams_def case_prod_unfold Let_def uint_param_def ParseUint32_Itoa)
qed


section \<open>A call through the server\<close>

text \<open>Members are written in characters above the capitals, the slash, the question mark and the percent sign.\<close>

fun low_char :: "char \<Rightarrow> bool" where
  "low_char (Char b0 b1 b2 b3 b4 b5 b6 b7) = (b5 \<and> b6 \<and> \<not> b7)"

lemma low_char: "low_char c \<Longrightarrow> ascii_lower c = c \<and> c \<noteq> CHR ''/'' \<and> c \<noteq> CHR ''?'' \<and> c \<noteq> CHR ''%''"
  by (cases c) (auto simp: ascii_lower_def of_char_Char Let_def)

lemma low_text:
  assumes "list_all low_char s"
  shows "to_lower s = s" "plain s"
  using assms low_char by (auto simp: to_lower_def plain_def list_all_iff map_idI)

definition well_named :: "operation list \<Rightarrow> bool" where
  "well_named ops \<longleftrightarrow> list_all (\<lambda>op. list_all low_char (opMember op)
     \<and> distinct (map (to_lower \<circ> fst) (opParams op) @ [''clientid'', ''clienttransactionid''])
     \<and> opVerb op \<in> {''GET'', ''PUT''}) ops"

lemma device_named: "well_named device_operations"
  by (simp add: well_named_def device_operations_def op_defs lower_literal)
lemma camera_named: "well_named camera_operations"
  by (simp add: well_named_def camera_operations_def op_defs lower_literal)
lemma covercalibrator_named: "well_named covercalibrator_operations"
  by (simp add: well_named_def covercalibrator_operations_def op_defs lower_literal)
lemma dome_named: "well_named dome_operations"
  by (simp add: well_named_def dome_operations_def op_defs lower_literal)
lemma filterwheel_named: "well_named filterwheel_operations"
  by (simp add: well_named_def filterwheel_operations_def op_defs lower_literal)
lemma focuser_named: "well_named focuser_operations"
  by (simp add: well_named_def focuser_operations_def op_defs lower_literal)
lemma observingconditions_named: "well_named observingconditions_operations"
  by (simp add: well_named_def observingconditions_operations_def op_defs lower_literal)
lemma rotator_named: "well_named rotator_operations"
  by (simp add: well_named_def rotator_operations_def op_defs lower_literal)
lemma safetymonitor_named: "well_named safetymonitor_operations"
  by (simp add: well_named_def safetymonitor_operations_def op_defs lower_literal)
lemma switch_named: "well_named switch_operations"
  by (simp add: well_named_def switch_operations_def op_defs lower_literal)
lemma telescope_named: "well_named telescope_operations"
  by (simp add: well_named_def telescope_operations_def op_defs lower_literal)

lemma well_named_append: "well_named (a @ b) \<longleftrightarrow> well_named a \<and> well_named b"
  by (simp add: well_named_def)

lemma all_operations_ok: "well_named (client_operations ty)"
  by (cases ty) (simp_all add: client_operations_def well_named_append device_named camera_named covercalibrator_named
    dome_named filterwheel_named focuser_named observingconditions_named rotator_named safetymonitor_named switch_named
    telescope_named)

lemma client_operation_ok:
  assumes "op \<in> set (client_operations ty)"
  shows "op_ok op" "to_lower (opMember op) = opMember op"
  using assms all_operations_ok [of ty] low_text by (auto simp: well_named_def list_all_iff op_ok_def)

lemma route_device:
  "rqPath r = device_path seg no m \<Longrightarrow> route env setup relay r = handleDeviceAPI env r"
  by (simp add: route_def device_path_def HasPrefix_def)

text \<open>The handler an operation reaches.\<close>

definition handled :: "'w env \<Rightarrow> client \<Rightarrow> operation \<Rightarrow> 'w device \<Rightarrow> params \<Rightarrow> 32 word \<Rightarrow> ('w, response) act" where
  "handled env c op d p stx =
     (if opVerb op = ''GET'' then handleGet env [] (clType c) (opMember op) d p stx
      else handlePut (clType c) (opMember op) d p stx)"

lemma invoke_served:
  assumes "op_ok op" "to_lower (opMember op) = opMember op" "args_fit op args" "addresses c host"
    "lookup (clType c) (clNumber c) s = Some d"
    "handled env c op d (call_params c op args (svStrict s)) (svTx s + 1) w = (resp, w')"
  shows "invoke (serve env page setup relay) op args (c, (s, w)) =
    (and_then (map_sum Transport id (reply_of (envRender env) page resp)) (reads_reply op),
     (c\<lparr>clTx := clTx c + 1\<rparr>, (s\<lparr>svTx := svTx s + 1\<rparr>, w')))"
proof -
  let ?ps = "op_params op args"
  let ?req = "(fst (prepare (opVerb op) (opMember op) ?ps c))\<lparr>hqAccept := []\<rparr>"
  let ?r = "seen_request [] (opVerb op) (opMember op) ?ps c"
  have v: "opVerb op \<in> {''GET'', ''PUT''}" "plain (to_lower (opMember op))" using assms(1) by (simp_all add: op_ok_def)
  note arr = request_arrives [OF assms(4) v(2) stamped_distinct(2) [OF assms(1,3)] v(1)]
  have ty: "plain (segment (clType c))" "device_type (segment (clType c)) = clType c" "in_i64 (clNumber c)"
    using assms(4) plain_segment by (auto simp: addresses_def)
  have path: "rqPath ?r = device_path (segment (clType c)) (Itoa (clNumber c)) (opMember op)"
    by (simp add: seen_request_def assms(2))
  have n: "CHR ''/'' \<notin> set (segment (clType c))" "CHR ''/'' \<notin> set (opMember op)"
    using ty(1) v(2) by (simp_all add: plain_def assms(2))
  have p: "parseParams (rqForm ?r) (rqMethod ?r = ''PUT'') (svStrict s) = call_params c op args (svStrict s)"
    by (simp add: seen_request_def call_params_def)
  have h: "handleDeviceAPI env ?r (s, w) = (resp, (s\<lparr>svTx := svTx s + 1\<rparr>, w'))"
    using handleDeviceAPI_device [OF n(1) Atoi_Itoa [OF ty(3)] n(2) _ path, of s d env w] v(1) assms(2,5,6) ty(2) p
    by (auto simp: handled_def seen_request_def on_snd_apply)
  have s: "serve env page setup relay ?req (s, w) = (reply_of (envRender env) page resp, (s\<lparr>svTx := svTx s + 1\<rparr>, w'))"
    by (simp add: serve_def arr(1) ask_apply route_device [OF path] h)
  show ?thesis
    using s arr(2) by (cases "prepare (opVerb op) (opMember op) ?ps c")
      (simp add: invoke_eq request_reply_def attempt_def ask_apply on_fst_apply on_snd_apply)
qed

text \<open>The answer a client makes of a response, and the responses it can read: in range, finite, valid
  UTF-8 and within the limit on the size of an envelope.\<close>

definition deliverable :: "(message \<Rightarrow> string) \<Rightarrow> operation \<Rightarrow> response \<Rightarrow> bool" where
  "deliverable render op resp \<longleftrightarrow> (case resp of
     Json e \<Rightarrow> in_i64 (ErrorNumber e) \<and> (\<forall>v. Value e = Some v \<longrightarrow> sendable v) \<and> small_envelope render e
       \<and> (\<forall>v. Value e = Some v \<and> ErrorNumber e = 0 \<and> opResult op \<noteq> RNone \<longrightarrow> portable (opResult op) v)
   | PlainStatus n m \<Rightarrow> n \<noteq> 200 \<and> length (render m) < maxEnvelopeBytes
   | _ \<Rightarrow> False)"

definition answer :: "(message \<Rightarrow> string) \<Rightarrow> operation \<Rightarrow> response \<Rightarrow> failure + any" where
  "answer render op resp = (case resp of
     Json e \<Rightarrow> outcome render op e
   | PlainStatus n m \<Rightarrow> Inl (RequestError n (TrimSpace (render m @ newline)))
   | _ \<Rightarrow> Inl BadReply)"

lemma reads_answer:
  assumes "deliverable render op resp"
  shows "and_then (map_sum Transport id (reply_of render page resp)) (reads_reply op) = answer render op resp"
proof (cases resp)
  case (Json e)
  then show ?thesis using assms reads_envelope [of e render op]
    by (simp add: deliverable_def reply_of_def answer_def and_then_def)
next
  case (PlainStatus n m)
  then show ?thesis using assms
    by (simp add: deliverable_def reply_of_def answer_def and_then_def reads_reply_def read_reply_def readCapped_def
        newline_def Suc_le_eq)
qed (use assms in \<open>simp_all add: deliverable_def\<close>)

end
