(* ===== verification/Client_Types.thy ===== *)
theory Client_Types
  imports Client_Members
begin

text \<open>
  The typed clients against the member tables of the server: every method of a client names a member the
  server has, with the same verb, and decodes the type the server sends.
\<close>

section \<open>Types of values\<close>

fun state_shape :: "any \<Rightarrow> bool" where
  "state_shape (VObject [(n, VStr _), (m, _)]) = (n = ''Name'' \<and> m = ''Value'')"
| "state_shape _ = False"

fun of_type :: "result_type \<Rightarrow> any \<Rightarrow> bool" where
  "of_type t (VBool b) = (t = RBool)"
| "of_type t (VInt n) = (t = RInt)"
| "of_type t (VFloat x) = (t = RFloat)"
| "of_type t (VStr s) = (t = RString)"
| "of_type t (VInts ns) = (t = RInts)"
| "of_type t (VStrs ss) = (t = RStrings)"
| "of_type t (VRates rs) = (t = RRates)"
| "of_type t (VArray vs) = (t = RStates \<and> list_all state_shape vs)"
| "of_type t v = False"

definition typed :: "result_type \<Rightarrow> 'w read \<Rightarrow> bool" where
  "typed t r \<longleftrightarrow> (\<forall>w v. fst (r w) = Inr v \<longrightarrow> of_type t v)"

named_theorems typed_intros

lemma typed_val [typed_intros]: "(\<And>x. of_type t (f x)) \<Longrightarrow> typed t (val f m)"
  by (simp add: typed_def val_apply split: prod.split)

lemma typed_vale [typed_intros]: "(\<And>x. of_type t (f x)) \<Longrightarrow> typed t (vale f m)"
  by (auto simp: typed_def vale_apply split: prod.splits) (metis map_sum.simps old.sum.exhaust sum.inject(2) Inl_Inr_False)

lemma typed_gateV [typed_intros]: "typed t r \<Longrightarrow> typed t (gateV g r)"
  by (auto simp: typed_def gateV_apply split: prod.splits option.splits)

lemma typed_needV [typed_intros]: "(\<And>x. typed t (k x)) \<Longrightarrow> typed t (needV r k)"
  by (auto simp: typed_def needV_apply split: sum.splits)

lemma typed_ask [typed_intros]: "(\<And>x. typed t (k x)) \<Longrightarrow> typed t (ask m k)"
  by (auto simp: typed_def ask_apply split: prod.splits)

lemma typed_ret [typed_intros]: "of_type t v \<Longrightarrow> typed t (ret (Inr v))" "typed t (ret (Inl e))"
  by (auto simp: typed_def)

lemma typed_prod [typed_intros]: "(\<And>a b. typed t (f a b)) \<Longrightarrow> typed t (case x of (a, b) \<Rightarrow> f a b)"
  by (cases x) simp

section \<open>The tables\<close>

text \<open>The reads a GET, and a PUT with a result, are served by.\<close>

definition served_get :: "('w \<Rightarrow> time) \<Rightarrow> DeviceType \<Rightarrow> string \<Rightarrow> 'w device \<Rightarrow> params \<Rightarrow> 'w read option" where
  "served_get now ty member d p =
     (if member = ''devicestate'' then Some (vale stateValueArray (deviceStateValues now ty d))
      else (case deviceGet member d of Some r \<Rightarrow> Some r | None \<Rightarrow> typeGet ty member d p))"

definition serves :: "('w \<Rightarrow> time) \<Rightarrow> DeviceType \<Rightarrow> 'w device \<Rightarrow> params \<Rightarrow> operation \<Rightarrow> bool" where
  "serves now ty d p op \<longleftrightarrow>
     (if opVerb op = ''GET''
      then (case served_get now ty (opMember op) d p of None \<Rightarrow> False | Some r \<Rightarrow> typed (opResult op) r)
      else if opResult op = RNone
      then devicePutValue (opMember op) d p = None \<and> (devicePut (opMember op) d p \<noteq> None \<or> typePut ty (opMember op) d p \<noteq> None)
      else (case devicePutValue (opMember op) d p of None \<Rightarrow> False | Some r \<Rightarrow> typed (opResult op) r))"

lemma deviceGet_None: "member \<notin> set connectionExemptMembers \<Longrightarrow> deviceGet member d = None"
  by (auto simp: deviceGet_def connectionExemptMembers_def)

lemma typed_states: "typed RStates (vale stateValueArray m)"
  by (intro typed_intros) (simp add: stateValueArray_def list_all_iff case_prod_unfold)

lemma typed_connecting: "typed RBool (connecting_member d)"
  unfolding connecting_member_def by (auto intro!: typed_intros split: option.split)

text \<open>The methods every client has.\<close>

lemma device_operations_served: "list_all (serves now ty d p) device_operations"
  by (simp add: device_operations_def op_defs serves_def served_get_def deviceGet_def devicePut_def devicePutValue_def
      typed_states typed_connecting typed_val typed_vale)


text \<open>A method of a device type, in terms of the tables of the type.\<close>

definition type_serves :: "('w read option) \<Rightarrow> ('w command option) \<Rightarrow> operation \<Rightarrow> bool" where
  "type_serves g c op \<longleftrightarrow>
     (if opVerb op = ''GET'' then (case g of None \<Rightarrow> False | Some r \<Rightarrow> typed (opResult op) r)
      else opResult op = RNone \<and> c \<noteq> None)"

lemma type_serves_getter [simp]:
  "type_serves g c (getter n m t) = (case g of None \<Rightarrow> False | Some r \<Rightarrow> typed t r)"
  "type_serves g c (param_getter n m ps t) = (case g of None \<Rightarrow> False | Some r \<Rightarrow> typed t r)"
  "type_serves g c (setter n m ps) = (c \<noteq> None)"
  by (simp_all add: type_serves_def op_defs cong: option.case_cong)

lemma op_member_simps [simp]:
  "opMember (getter n m t) = m" "opMember (param_getter n m ps t) = m" "opMember (setter n m ps) = m"
  by (simp_all add: op_defs)

abbreviation table_serves ::
  "(string \<Rightarrow> 'w read option) \<Rightarrow> (string \<Rightarrow> 'w command option) \<Rightarrow> operation list \<Rightarrow> bool" where
  "table_serves g c ops \<equiv> list_all (\<lambda>op. type_serves (g (opMember op)) (c (opMember op)) op) ops"

lemmas typed_rules = typed_val typed_vale typed_gateV typed_needV typed_ask typed_ret typed_prod

lemma safetymonitor_served: "table_serves (\<lambda>m. safetyMonitorGet m sm p) (\<lambda>m. None) safetymonitor_operations"
  by (simp add: safetymonitor_operations_def safetyMonitorGet_def typed_rules)

lemma filterwheel_served:
  "table_serves (\<lambda>m. filterWheelGet m fw p) (\<lambda>m. filterWheelPut m fw p) filterwheel_operations"
  by (simp add: filterwheel_operations_def filterWheelGet_def filterWheelPut_def typed_rules)

lemma focuser_served: "table_serves (\<lambda>m. focuserGet m f p) (\<lambda>m. focuserPut m f p) focuser_operations"
  by (simp add: focuser_operations_def focuserGet_def focuserPut_def typed_rules)

lemma rotator_served: "table_serves (\<lambda>m. rotatorGet m r p) (\<lambda>m. rotatorPut m r p) rotator_operations"
  by (simp add: rotator_operations_def rotatorGet_def rotatorPut_def typed_rules)

lemma dome_served: "table_serves (\<lambda>m. domeGet m x p) (\<lambda>m. domePut m x p) dome_operations"
  by (simp add: dome_operations_def domeGet_def domePut_def typed_rules)

lemma covercalibrator_served:
  "table_serves (\<lambda>m. coverCalibratorGet m cc p) (\<lambda>m. coverCalibratorPut m cc p) covercalibrator_operations"
  by (simp add: covercalibrator_operations_def coverCalibratorGet_def coverCalibratorPut_def typed_rules)

lemma observingconditions_served:
  "table_serves (\<lambda>m. observingConditionsGet m oc p) (\<lambda>m. observingConditionsPut m oc p) observingconditions_operations"
  by (simp add: observingconditions_operations_def observingConditionsGet_def observingConditionsPut_def oc_sensors_def
      typed_rules)

lemma switch_served: "table_serves (\<lambda>m. switchGet m sw p) (\<lambda>m. switchPut m sw p) switch_operations"
  by (simp add: switch_operations_def switchGet_def switchPut_def idMembers_def switch_members_def typed_rules)

lemma typed_offset_rate: "typed RFloat (offset_rate t r)"
  unfolding offset_rate_def by (intro typed_ask) (simp add: typed_rules)

lemma typed_imageready: "typed RBool (camera_imageready c)"
  by (simp add: camera_imageready_def typed_rules split: option.split)

text \<open>For a large table: its names and the types of its entries decide.\<close>

definition agrees :: "operation list \<Rightarrow> string list \<Rightarrow> result_type list \<Rightarrow> string list \<Rightarrow> bool" where
  "agrees ops names ts puts \<longleftrightarrow> list_all (\<lambda>op.
     if opVerb op = ''GET'' then map_of (zip names ts) (opMember op) = Some (opResult op)
     else opResult op = RNone \<and> opMember op \<in> set puts) ops"

lemma lookup_typed:
  "list_all2 typed ts (map snd tab) \<Longrightarrow> map_of (zip (map fst tab) ts) m = Some t
   \<Longrightarrow> \<exists>r. map_of tab m = Some r \<and> typed t r"
proof (induction tab arbitrary: ts)
  case (Cons kr tab)
  then obtain u us where "ts = u # us" by (cases ts) auto
  then show ?case using Cons by (cases kr) (auto split: if_splits)
qed simp

lemma table_agrees:
  assumes "agrees ops (map fst tab) ts (map fst put_tab)" "list_all2 typed ts (map snd tab)"
  shows "table_serves (map_of tab) (map_of put_tab) ops"
  unfolding list_all_iff
proof
  fix op assume op: "op \<in> set ops"
  have p: "map_of put_tab m \<noteq> None" if "m \<in> set (map fst put_tab)" for m
    using that by (auto simp: map_of_eq_None_iff)
  show "type_serves (map_of tab (opMember op)) (map_of put_tab (opMember op)) op"
    using assms(1) op lookup_typed [OF assms(2)] p
    by (fastforce simp: agrees_def list_all_iff type_serves_def split: if_splits)
qed

definition camera_types :: "result_type list" where
  "camera_types = replicate 10 RBool @ replicate 13 RInt @ replicate 12 RFloat
     @ [RInt, RInt, RBool, RInt, RInt, RInt, RStrings, RInt, RInt, RInt, RStrings, RBool, RFloat]
     @ [RString, RInt, RInt, RString, RStrings]"

lemma camera_types_ok: "list_all2 typed camera_types
    (map snd (camera_flags c @ camera_numbers c @ camera_gated c @ camera_others c))"
  by (simp add: camera_types_def camera_flags_def camera_numbers_def camera_gated_def camera_others_def
      numeral_eq_Suc typed_rules typed_imageready)

definition telescope_types :: "result_type list" where
  "telescope_types = replicate 22 RBool @ replicate 5 RInt @ replicate 15 RFloat
     @ [RFloat, RFloat, RInts, RString, RRates, RBool, RInt]"

lemma telescope_types_ok: "list_all2 typed telescope_types
    (map snd (telescope_flags t @ telescope_numbers t @ telescope_others t p))"
  by (simp add: telescope_types_def telescope_flags_def telescope_numbers_def telescope_others_def
      numeral_eq_Suc typed_rules typed_offset_rate)


lemma camera_agrees:
  "agrees camera_operations (map fst (camera_flags c @ camera_numbers c @ camera_gated c @ camera_others c))
     camera_types (map fst (camera_setters c p @ camera_methods c p))"
  unfolding camera_flags_def camera_numbers_def camera_gated_def camera_others_def camera_setters_def camera_methods_def
  apply (simp only: list.map prod.case fst_conv append.simps)
  apply code_simp
  done

lemma telescope_agrees:
  "agrees telescope_operations (map fst (telescope_flags t @ telescope_numbers t @ telescope_others t p))
     telescope_types (map fst (telescope_setters t p @ telescope_methods t p))"
  unfolding telescope_flags_def telescope_numbers_def telescope_others_def telescope_setters_def telescope_methods_def
  apply (simp only: list.map prod.case fst_conv append.simps)
  apply code_simp
  done

lemma camera_served: "table_serves (\<lambda>m. cameraGet m c p) (\<lambda>m. cameraPut m c p) camera_operations"
  unfolding cameraGet_def cameraPut_def by (rule table_agrees [OF camera_agrees camera_types_ok])

lemma telescope_served: "table_serves (\<lambda>m. telescopeGet m t p) (\<lambda>m. telescopePut m t p) telescope_operations"
  unfolding telescopeGet_def telescopePut_def by (rule table_agrees [OF telescope_agrees telescope_types_ok])

section \<open>Every method of a client\<close>

lemma type_operations_served:
  "implementsType ty d \<Longrightarrow> table_serves (\<lambda>m. typeGet ty m d p) (\<lambda>m. typePut ty m d p) (type_operations ty)"
  using camera_served covercalibrator_served dome_served filterwheel_served focuser_served
    observingconditions_served rotator_served safetymonitor_served switch_served telescope_served
  by (cases ty) (auto simp: implementsType_def typeGet_def typePut_def)

definition own_member :: "string \<Rightarrow> bool" where
  "own_member m \<longleftrightarrow> m \<notin> set (connectionExemptMembers @ [''devicestate'', ''action'', ''commandstring'', ''commandbool'',
     ''commandblind'', ''imagearray'', ''imagearrayvariant''])"

lemma own_member:
  assumes "own_member m"
  shows "deviceGet m d = None" "devicePut m d p = None" "devicePutValue m d p = None" "m \<noteq> ''devicestate''"
  using assms
  by (auto simp: own_member_def connectionExemptMembers_def deviceGet_def devicePut_def devicePutValue_def)

lemma own_members: "list_all (\<lambda>op. own_member (opMember op)) (type_operations ty)"
  by (cases ty; simp only: type_operations.simps; code_simp)

text \<open>C7: The client speaks the server's types.  Every method of the typed clients, the common ones and
  those of each device type, names a member that the server has under the same verb for a device that
  implements the type; whenever that member answers with a value, it is of the type the method decodes,
  and exactly the PUT members that return something are decoded.\<close>

theorem client_methods_are_served:
  assumes "op \<in> set (client_operations ty)" "implementsType ty d"
  shows "serves now ty d p op"
proof (cases "op \<in> set device_operations")
  case True
  then show ?thesis using device_operations_served [of now ty d p] by (simp add: list_all_iff)
next
  case False
  then have op: "op \<in> set (type_operations ty)" using assms(1) by (simp add: client_operations_def)
  then have "own_member (opMember op)" using own_members [of ty] by (simp add: list_all_iff)
  note own = own_member [OF this]
  have "type_serves (typeGet ty (opMember op) d p) (typePut ty (opMember op) d p) op"
    using type_operations_served [OF assms(2)] op by (simp add: list_all_iff)
  then show ?thesis by (auto simp: own serves_def served_get_def type_serves_def)
qed

theorem client_methods_are_served_witness:
  "\<forall>p. serves (\<lambda>w. 0) SafetyMonitorType (BaseDevice\<lparr>asSafetyMonitor := Some BaseSafetyMonitor\<rparr>) p
     (getter ''IsSafe'' ''issafe'' RBool)"
  by (rule allI, rule client_methods_are_served)
    (simp_all add: client_operations_def safetymonitor_operations_def implementsType_def)

end
