(* ===== verification/Remote_Spec.thy ===== *)
theory Remote_Spec
  imports Remote Client_Types
begin

text \<open>
  Calls through a server: a method of a typed client reaches the driver with its arguments and hands back
  the driver's value or its error.
\<close>

section \<open>From the driver to the caller\<close>

lemma no_image_method:
  assumes "op \<in> set (client_operations ty)"
  shows "opMember op \<notin> {''imagearray'', ''imagearrayvariant''}"
proof -
  have "list_all (\<lambda>op. opMember op \<notin> {''imagearray'', ''imagearrayvariant''}) device_operations" by code_simp
  then show ?thesis
    using assms own_members [of ty] by (auto simp: client_operations_def list_all_iff own_member_def)
qed

lemma served_get_apply:
  assumes "served_get (envNow env) ty m d p = Some r" "r w = (v, w')" "m \<notin> {''imagearray'', ''imagearrayvariant''}"
  shows "dispatchGet env accept ty m d p stx w = (writeValue v (clientTransactionID p) stx, w')"
  using assms
  by (auto simp: served_get_def dispatchGet_def ask_apply vale_apply Let_def split: if_splits option.splits prod.splits)

text \<open>What a caller gets for the driver's error, and for its value.\<close>

definition failure_of :: "(message \<Rightarrow> string) \<Rightarrow> goerror \<Rightarrow> failure" where
  "failure_of render e = (case as_bad_request e of
     Some m \<Rightarrow> RequestError 400 (TrimSpace (render m @ newline))
   | None \<Rightarrow> DeviceError (fst (ErrorNumberFor (Some e))) (to_valid (render (snd (ErrorNumberFor (Some e))))))"

definition error_fits :: "(message \<Rightarrow> string) \<Rightarrow> 32 word \<Rightarrow> 32 word \<Rightarrow> goerror \<Rightarrow> bool" where
  "error_fits render ctx stx e \<longleftrightarrow> (case as_bad_request e of
     Some m \<Rightarrow> length (render m) < maxEnvelopeBytes
   | None \<Rightarrow> (let (n, m) = ErrorNumberFor (Some e) in n \<noteq> 0 \<and> in_i64 n \<and> small_envelope render
       \<lparr>Value = None, ClientTransactionID = ctx, ServerTransactionID = stx, ErrorNumber = n, ErrorMessage = m\<rparr>))"

definition value_fits :: "(message \<Rightarrow> string) \<Rightarrow> 32 word \<Rightarrow> 32 word \<Rightarrow> any option \<Rightarrow> bool" where
  "value_fits render ctx stx v \<longleftrightarrow> small_envelope render
     \<lparr>Value = v, ClientTransactionID = ctx, ServerTransactionID = stx, ErrorNumber = 0, ErrorMessage = Text []\<rparr>"

lemma answer_error:
  assumes "error_fits render ctx stx e"
  shows "deliverable render op (writeValue (Inl e) ctx stx)" "answer render op (writeValue (Inl e) ctx stx) = Inl (failure_of render e)"
    "deliverable render op (writeMethod (Some e) ctx stx)" "answer render op (writeMethod (Some e) ctx stx) = Inl (failure_of render e)"
  using assms
  by (auto simp: error_fits_def writeValue_def writeMethod_def deliverable_def answer_def outcome_def failure_of_def Let_def
      split: option.splits prod.splits)

lemma answer_value:
  assumes "portable (opResult op) v" "value_fits render ctx stx (Some v)"
  shows "deliverable render op (writeValue (Inr v) ctx stx)" "answer render op (writeValue (Inr v) ctx stx) = Inr v"
proof -
  have "opResult op \<noteq> RNone" using assms(1) by (cases v) auto
  then show "deliverable render op (writeValue (Inr v) ctx stx)" "answer render op (writeValue (Inr v) ctx stx) = Inr v"
    using assms portable_decodes(1) [OF assms(1)]
    by (auto simp: writeValue_def deliverable_def answer_def outcome_def value_fits_def in_i64_def)
qed

lemma answer_done:
  assumes "opResult op = RNone" "value_fits render ctx stx None"
  shows "deliverable render op (writeMethod None ctx stx)" "answer render op (writeMethod None ctx stx) = Inr VNil"
  using assms
  by (auto simp: writeMethod_def ErrorNumberFor_def deliverable_def answer_def outcome_def value_fits_def in_i64_def)

text \<open>The result of a call, in terms of what the driver did.\<close>

definition call_result :: "(message \<Rightarrow> string) \<Rightarrow> goerror + any \<Rightarrow> failure + any" where
  "call_result render r = map_sum (failure_of render) id r"

definition reply_fits :: "(message \<Rightarrow> string) \<Rightarrow> operation \<Rightarrow> 32 word \<Rightarrow> 32 word \<Rightarrow> goerror + any \<Rightarrow> bool" where
  "reply_fits render op ctx stx r \<longleftrightarrow> (case r of
     Inl e \<Rightarrow> error_fits render ctx stx e
   | Inr v \<Rightarrow> portable (opResult op) v \<and> value_fits render ctx stx (Some v))"

lemma answer_reply:
  "reply_fits render op ctx stx r \<Longrightarrow> deliverable render op (writeValue r ctx stx)"
  "reply_fits render op ctx stx r \<Longrightarrow> answer render op (writeValue r ctx stx) = call_result render r"
  using answer_error answer_value by (auto simp: reply_fits_def call_result_def split: sum.splits)


section \<open>Calls\<close>

lemma invoke_delivered:
  assumes "op \<in> set (client_operations (clType c))" "args_fit op args" "addresses c host"
    "lookup (clType c) (clNumber c) s = Some d"
    "handled env c op d (call_params c op args (svStrict s)) (svTx s + 1) w = (resp, w')"
    "deliverable (envRender env) op resp"
  shows "invoke (serve env page setup relay) op args (c, (s, w)) =
    (answer (envRender env) op resp, (c\<lparr>clTx := clTx c + 1\<rparr>, (s\<lparr>svTx := svTx s + 1\<rparr>, w')))"
  using invoke_served [OF client_operation_ok [OF assms(1)] assms(2-5)] reads_answer [OF assms(6)] by simp

lemma delivered_params:
  assumes "op \<in> set (client_operations ty)" "args_fit op args"
  shows "carries (call_params c op args st) op args" "clientTransactionID (call_params c op args st) = clTx c + 1"
  using call_params_carry [OF client_operation_ok(1) [OF assms(1)] assms(2)] by simp_all

text \<open>C5: Reading a property over the network is reading it from the driver.  A GET method of a typed client,
  sent to a server that has the device, runs the driver's member once, with parameters that carry the
  arguments of the call exactly, and returns the driver's value unchanged, or the driver's error with its
  number and message (a missing or malformed parameter as HTTP 400); the transaction counters of both
  sides advance by one and nothing else of the server changes.\<close>

theorem remote_read:
  assumes "op \<in> set (client_operations (clType c))" "opVerb op = ''GET''" "args_fit op args" "addresses c host"
    and "lookup (clType c) (clNumber c) s = Some d" "connection_gate (opMember op) d w = (True, w1)"
    and "served_get (envNow env) (clType c) (opMember op) d (call_params c op args (svStrict s)) = Some r" "r w1 = (v, w2)"
    and "reply_fits (envRender env) op (clTx c + 1) (svTx s + 1) v"
  shows "invoke (serve env page setup relay) op args (c, (s, w)) =
      (call_result (envRender env) v, (c\<lparr>clTx := clTx c + 1\<rparr>, (s\<lparr>svTx := svTx s + 1\<rparr>, w2)))
    \<and> carries (call_params c op args (svStrict s)) op args"
proof -
  note p = delivered_params [OF assms(1,3), of c "svStrict s"]
  have h: "handled env c op d (call_params c op args (svStrict s)) (svTx s + 1) w = (writeValue v (clTx c + 1) (svTx s + 1), w2)"
    using served_get_apply [of env "clType c" "opMember op" d "call_params c op args (svStrict s)" r w1 v w2] p(2)
      no_image_method [OF assms(1)] assms(2,6-8)
    by (simp add: handled_def handleGet_def ask_apply)
  show ?thesis
    using invoke_delivered [OF assms(1,3-5) h] answer_reply [OF assms(9)] p(1) by simp
qed

text \<open>The command a PUT without result is served by.\<close>

definition served_put :: "DeviceType \<Rightarrow> string \<Rightarrow> 'w device \<Rightarrow> params \<Rightarrow> 'w command option" where
  "served_put ty member d p = (case devicePutValue member d p of Some _ \<Rightarrow> None | None \<Rightarrow>
     (case devicePut member d p of Some a \<Rightarrow> Some a | None \<Rightarrow> typePut ty member d p))"

definition command_fits :: "(message \<Rightarrow> string) \<Rightarrow> 32 word \<Rightarrow> 32 word \<Rightarrow> goerror option \<Rightarrow> bool" where
  "command_fits render ctx stx e = (case e of Some e \<Rightarrow> error_fits render ctx stx e | None \<Rightarrow> value_fits render ctx stx None)"

text \<open>C6: A command over the network is the driver's command.  A PUT method without result runs the
  member's handler once, with parameters that carry the arguments exactly, when the device is connected
  and not busy; the caller gets no error exactly when the handler reports none, and otherwise that error
  with its number and message.\<close>

theorem remote_command:
  assumes "op \<in> set (client_operations (clType c))" "opVerb op = ''PUT''" "opResult op = RNone" "args_fit op args"
    and "addresses c host" "lookup (clType c) (clNumber c) s = Some d"
    and "connection_gate (opMember op) d w = (True, w1)" "busy_gate (opMember op) d w1 = (False, w2)"
    and "served_put (clType c) (opMember op) d (call_params c op args (svStrict s)) = Some a" "a w2 = (e, w3)"
    and "command_fits (envRender env) (clTx c + 1) (svTx s + 1) e"
  shows "invoke (serve env page setup relay) op args (c, (s, w)) =
      (case e of None \<Rightarrow> Inr VNil | Some e \<Rightarrow> Inl (failure_of (envRender env) e),
       (c\<lparr>clTx := clTx c + 1\<rparr>, (s\<lparr>svTx := svTx s + 1\<rparr>, w3)))
    \<and> carries (call_params c op args (svStrict s)) op args"
proof -
  note p = delivered_params [OF assms(1,4), of c "svStrict s"]
  have d: "dispatchPut (clType c) (opMember op) d (call_params c op args (svStrict s)) (svTx s + 1) w2
      = (writeMethod e (clTx c + 1) (svTx s + 1), w3)"
    using assms(9,10) p(2) by (auto simp: served_put_def dispatchPut_def ask_apply Let_def split: option.splits)
  have h: "handled env c op d (call_params c op args (svStrict s)) (svTx s + 1) w = (writeMethod e (clTx c + 1) (svTx s + 1), w3)"
    using assms(2,7,8) d by (simp add: handled_def handlePut_def ask_apply)
  have "deliverable (envRender env) op (writeMethod e (clTx c + 1) (svTx s + 1))
    \<and> answer (envRender env) op (writeMethod e (clTx c + 1) (svTx s + 1)) =
      (case e of None \<Rightarrow> Inr VNil | Some e \<Rightarrow> Inl (failure_of (envRender env) e))"
    using assms(11) answer_done [OF assms(3)] answer_error by (auto simp: command_fits_def split: option.splits)
  then show ?thesis using invoke_delivered [OF assms(1,4-6) h] p(1) by simp
qed

section \<open>Instances\<close>

definition quiet_env :: "'w env" where
  "quiet_env = \<lparr>envNow = \<lambda>_. 0, envSched = id, envProcs = 1, envPooled = None, envFloat = \<lambda>_ _. [], envRender = \<lambda>_. []\<rparr>"

definition safe_device :: "(base_device \<times> nat) device" where
  "safe_device = BaseDevice\<lparr>asSafetyMonitor := Some \<lparr>smIsSafe = ret True\<rparr>\<rparr>"

definition nan_device :: "(base_device \<times> nat) device" where
  "nan_device = BaseDevice\<lparr>asFocuser := Some ((BaseFocuser 4)\<lparr>fFloat := \<lambda>_. ret (Inr NaN)\<rparr>)\<rparr>"

lemma newDevice_localhost: "newDevice ''localhost:11111'' ty n i = \<lparr>clBaseURL = ''http://localhost:11111'', clType = ty,
   clNumber = n, clID = i, clTx = 0, clNoStream = False\<rparr>"
proof -
  have "TrimSpace ''localhost:11111'' = ''localhost:11111''"
    by (rule TrimSpace_visible) (simp_all add: visible_def)
  then have "normalizeBaseURL ''localhost:11111'' = ''http://localhost:11111''"
    by (simp add: normalizeBaseURL_def urlAuthority_def TrimRightSlash_def SplitHostPort_def cut_last_def
        bracket_free_def JoinHostPort_def)
  then show ?thesis by (simp add: newDevice_def)
qed

lemma small_true: "small_envelope (\<lambda>_. []) \<lparr>Value = Some (VBool True), ClientTransactionID = 1, ServerTransactionID = 1,
   ErrorNumber = 0, ErrorMessage = Text []\<rparr>"
proof -
  have "length (writeJSON (\<lambda>_. []) \<lparr>Value = Some (VBool True), ClientTransactionID = 1, ServerTransactionID = 1,
   ErrorNumber = 0, ErrorMessage = Text []\<rparr>) < 200"
    by (simp add: writeJSON_def envelope_json_def json_int_def Itoa_def show_nat.simps [of 0] show_nat.simps [of "Suc 0"]
      show_nat.simps [of 1] quote_def newline_def byte_def ascii_text_def Let_def)
  then show ?thesis by (simp add: small_envelope_def maxEnvelopeBytes_def)
qed

definition one_server :: "DeviceType \<Rightarrow> 'w device \<Rightarrow> 'w server \<Rightarrow> 'w server" where
  "one_server ty d cfg = add_reg (ty, 0) d (New cfg)"

lemma one_server [simp]: "lookup ty 0 (one_server ty d cfg) = Some d" "svTx (one_server ty d cfg) = 0"
  by (simp_all add: one_server_def one_device) (simp add: add_reg_def New_def)

lemma addresses_localhost:
  "addresses (newDevice ''localhost:11111'' SafetyMonitorType 0 i) ''localhost:11111''"
  "addresses (newDevice ''localhost:11111'' FocuserType 0 i) ''localhost:11111''"
  by (simp_all add: addresses_def newDevice_localhost plain_def in_i64_def)

text \<open>C8: A number without a JSON form is lost.  When a driver answers a float property with NaN or an infinity,
  the server sends status 200 with an empty body, since the encoder's error is dropped, and the client
  reports a malformed reply: neither the value nor a device error reaches the caller.\<close>

theorem remote_nan:
  assumes "op \<in> set (client_operations (clType c))" "opVerb op = ''GET''" "args_fit op args" "addresses c host"
    and "lookup (clType c) (clNumber c) s = Some d" "connection_gate (opMember op) d w = (True, w1)"
    and "served_get (envNow env) (clType c) (opMember op) d (call_params c op args (svStrict s)) = Some r"
    and "r w1 = (Inr (VFloat x), w2)" "\<not> finite64 x"
  shows "invoke (serve env page pages relay) op args (c, (s, w)) =
      (Inl BadReply, (c\<lparr>clTx := clTx c + 1\<rparr>, (s\<lparr>svTx := svTx s + 1\<rparr>, w2)))"
proof -
  let ?e = "\<lparr>Value = Some (VFloat x), ClientTransactionID = clTx c + 1, ServerTransactionID = svTx s + 1,
    ErrorNumber = 0, ErrorMessage = Text []\<rparr>"
  have "json_of (VFloat x) = None" using assms(9) by (cases x) simp_all
  then have j: "writeJSON (envRender env) ?e = []" by (simp add: writeJSON_def envelope_json_def Let_def)
  have "unmarshal [] = None" by (simp add: unmarshal_def numeral_2_eq_2 skip_ws_def)
  then have b: "decode_envelope False [] = None" by (simp add: decode_envelope_def)
  have h: "handled env c op d (call_params c op args (svStrict s)) (svTx s + 1) w = (Json ?e, w2)"
    using served_get_apply [of env "clType c" "opMember op" d "call_params c op args (svStrict s)" r w1 _ w2]
      delivered_params(2) [OF assms(1,3)] no_image_method [OF assms(1)] assms(2,6-8)
    by (simp add: handled_def handleGet_def ask_apply writeValue_def)
  have "and_then (map_sum Transport id (reply_of (envRender env) page (Json ?e))) (reads_reply op) = Inl BadReply"
    by (simp add: reply_of_def j reads_reply_def read_reply_def readCapped_def and_then_def checked_envelope_def b)
  then show ?thesis using invoke_served [OF client_operation_ok [OF assms(1)] assms(3-5) h] by simp
qed

theorem remote_nan_witness:
  "\<forall>cfg page pages relay n. fst (invoke (serve quiet_env page pages relay) (getter ''Temperature'' ''temperature'' RFloat) []
      (newDevice ''localhost:11111'' FocuserType 0 7, (one_server FocuserType nan_device cfg, (some_base\<lparr>bdConnected := True\<rparr>, n))))
    = Inl BadReply"
proof (intro allI)
  fix cfg page pages relay and n :: nat
  let ?c = "newDevice ''localhost:11111'' FocuserType 0 7" and ?op = "getter ''Temperature'' ''temperature'' RFloat"
  let ?w = "(some_base\<lparr>bdConnected := True\<rparr>, n)"
  have g: "served_get (envNow quiet_env) (clType ?c) (opMember ?op) nan_device p = Some (vale VFloat (ret (Inr NaN)))" for p
    by (simp add: served_get_def op_defs deviceGet_def newDevice_localhost typeGet_def nan_device_def focuserGet_def)
  have cg: "connection_gate (opMember ?op) nan_device ?w = (True, ?w)"
    by (simp add: connection_gate_def op_defs connectionExemptMembers_def nan_device_def on_fst_apply)
  have op: "?op \<in> set (client_operations (clType ?c))" "opVerb ?op = ''GET''" "args_fit ?op []"
    by (simp_all add: newDevice_localhost client_operations_def focuser_operations_def op_defs args_fit_def)
  have l: "lookup (clType ?c) (clNumber ?c) (one_server FocuserType nan_device cfg) = Some nan_device"
    by (simp add: newDevice_localhost)
  have v: "vale VFloat (ret (Inr NaN)) ?w = (Inr (VFloat NaN), ?w)" by (simp add: vale_apply)
  show "fst (invoke (serve quiet_env page pages relay) ?op [] (?c, (one_server FocuserType nan_device cfg, ?w))) = Inl BadReply"
    using remote_nan [OF op addresses_localhost(2) l cg g v, of page pages relay] by simp
qed

theorem remote_read_witness:
  "\<forall>cfg page hs relay w n. fst (invoke (serve quiet_env page hs relay) (getter ''IsSafe'' ''issafe'' RBool) []
      (newDevice ''localhost:11111'' SafetyMonitorType 0 7,
       (one_server SafetyMonitorType safe_device cfg, (some_base\<lparr>bdConnected := True\<rparr>, n)))) = Inr (VBool True)"
proof (intro allI)
  fix cfg page hs relay and n :: nat
  let ?c = "newDevice ''localhost:11111'' SafetyMonitorType 0 7" and ?op = "getter ''IsSafe'' ''issafe'' RBool"
  let ?w = "(some_base\<lparr>bdConnected := True\<rparr>, n)"
  have g: "served_get (envNow quiet_env) (clType ?c) (opMember ?op) safe_device p = Some (val VBool (ret True))" for p
    by (simp add: served_get_def op_defs deviceGet_def newDevice_localhost typeGet_def safe_device_def safetyMonitorGet_def)
  have cg: "connection_gate (opMember ?op) safe_device ?w = (True, ?w)"
    by (simp add: connection_gate_def op_defs connectionExemptMembers_def safe_device_def on_fst_apply)
  have fits: "reply_fits (envRender quiet_env) ?op (clTx ?c + 1) (svTx (one_server SafetyMonitorType safe_device cfg) + 1) (Inr (VBool True))"
    using small_true by (simp add: reply_fits_def op_defs value_fits_def quiet_env_def newDevice_localhost)
  have op: "?op \<in> set (client_operations (clType ?c))" "opVerb ?op = ''GET''" "args_fit ?op []"
    by (simp_all add: newDevice_localhost client_operations_def safetymonitor_operations_def op_defs args_fit_def)
  have l: "lookup (clType ?c) (clNumber ?c) (one_server SafetyMonitorType safe_device cfg) = Some safe_device"
    by (simp add: newDevice_localhost)
  have v: "val VBool (ret True) ?w = (Inr (VBool True), ?w)" by (simp add: val_apply)
  show "fst (invoke (serve quiet_env page hs relay) ?op [] (?c, (one_server SafetyMonitorType safe_device cfg, ?w))) = Inr (VBool True)"
    using remote_read [OF op addresses_localhost(1) l cg g v fits, of page hs relay] by (simp add: call_result_def)
qed

lemma small_done: "small_envelope (\<lambda>_. []) \<lparr>Value = None, ClientTransactionID = 1, ServerTransactionID = 1,
   ErrorNumber = 0, ErrorMessage = Text []\<rparr>"
proof -
  have "length (writeJSON (\<lambda>_. []) \<lparr>Value = None, ClientTransactionID = 1, ServerTransactionID = 1,
   ErrorNumber = 0, ErrorMessage = Text []\<rparr>) < 200"
    by (simp add: writeJSON_def envelope_json_def json_int_def Itoa_def show_nat.simps [of 0] show_nat.simps [of "Suc 0"]
      show_nat.simps [of 1] quote_def newline_def byte_def ascii_text_def Let_def)
  then show ?thesis by (simp add: small_envelope_def maxEnvelopeBytes_def)
qed

text \<open>A focuser at rest is sent to position 25000 by a client.\<close>

definition resting :: "base_device \<times> fworld" where
  "resting = (some_base\<lparr>bdConnected := True\<rparr>, \<lparr>clock = 0, dev = NewFocuser\<rparr>)"

definition move_op :: operation where "move_op = setter ''Move'' ''move'' [(''Position'', PInt)]"

theorem remote_command_witness:
  "\<forall>cfg page hs relay. focTarget (dev (snd (snd (snd (snd (invoke (serve quiet_env page hs relay) move_op [VInt 25000]
      (newDevice ''localhost:11111'' FocuserType 0 7, (one_server FocuserType hostFocuser cfg, resting)))))))) = 25000"
proof (intro allI)
  fix cfg page hs relay
  let ?c = "newDevice ''localhost:11111'' FocuserType 0 7" and ?s = "one_server FocuserType hostFocuser cfg"
  let ?f = "lift_focuser SimFocuser"
  let ?p = "call_params ?c move_op [VInt 25000] (svStrict ?s)"
  have op: "move_op \<in> set (client_operations (clType ?c))" "opVerb move_op = ''PUT''" "opResult move_op = RNone"
    "args_fit move_op [VInt 25000]"
    by (simp_all add: newDevice_localhost client_operations_def focuser_operations_def move_op_def op_defs args_fit_def in_i64_def)
  have p: "reqInt ?p ''Position'' = Inr 25000"
    using delivered_params(1) [OF op(1,4), of ?c "svStrict ?s"] by (simp add: carries_def move_op_def op_defs)
  have t: "clType ?c = FocuserType" "opMember move_op = ''move''" by (simp_all add: newDevice_localhost move_op_def op_defs)
  have "served_put FocuserType ''move'' hostFocuser q = Some (gate (GateFocuserMove ?f) (fDo ?f (FMove 25000)))"
    if "reqInt q ''Position'' = Inr 25000" for q
    using that by (simp add: served_put_def devicePutValue_def devicePut_def typePut_def hostFocuser_def focuserPut_def)
  from this [OF p] have a: "served_put (clType ?c) (opMember move_op) hostFocuser ?p
      = Some (gate (GateFocuserMove ?f) (fDo ?f (FMove 25000)))" unfolding t .
  obtain e w3 where r: "gate (GateFocuserMove ?f) (fDo ?f (FMove 25000)) resting = (e, w3)" by (rule prod.exhaust)
  have e: "e = None" "focTarget (dev (snd w3)) = 25000"
    using r by (auto simp: gate_apply GateFocuserMove_def ask_apply lift_focuser_def SimFocuser_def on_snd_apply reading_def
        resting_def NewFocuser_def updating_def foc_Move_def foc_currentLocked_def)
  have cg: "connection_gate (opMember move_op) hostFocuser resting = (True, resting)"
    by (simp add: connection_gate_def move_op_def op_defs connectionExemptMembers_def hostFocuser_def on_fst_apply resting_def)
  have bg: "busy_gate (opMember move_op) hostFocuser resting = (False, resting)"
    by (simp add: busy_gate_def move_op_def op_defs hostFocuser_def)
  have l: "lookup (clType ?c) (clNumber ?c) ?s = Some hostFocuser" by (simp add: newDevice_localhost)
  have fits: "command_fits (envRender quiet_env) (clTx ?c + 1) (svTx ?s + 1) e"
    using small_done by (simp add: command_fits_def e value_fits_def quiet_env_def newDevice_localhost)
  show "focTarget (dev (snd (snd (snd (snd (invoke (serve quiet_env page hs relay) move_op [VInt 25000] (?c, (?s, resting)))))))) = 25000"
    using remote_command [OF op addresses_localhost(2) l cg bg a r fits, of page hs relay] e by simp
qed

end
