(* ===== verification/Client_Image.thy ===== *)
theory Client_Image
  imports Client_Replies Image_JSON "HOL-Library.Log_Nat"
begin

text \<open>
  Downloading an image, \<open>getImageBytesCtx\<close> of \<open>client/client.go\<close>, with the JSON fallback of
  \<open>client/imagearray.go\<close>.

  Conversions of a \<open>float64\<close> to \<open>int16\<close> and \<open>int32\<close> out of range are implementation-defined in Go; here they
  are what amd64 produces.
\<close>

section \<open>The JSON array\<close>

text \<open>\<open>sniffRank\<close> counts the brackets a JSON text starts with.\<close>

fun open_brackets :: "json \<Rightarrow> nat" where
  "open_brackets (JArr []) = 1"
| "open_brackets (JArr (v # _)) = Suc (open_brackets v)"
| "open_brackets _ = 0"

definition sniffRank :: "json \<Rightarrow> int" where
  "sniffRank value = min 3 (int (open_brackets value))"

text \<open>Little-endian bytes, and the element of a type that stands for a number.\<close>

fun le_bytes_of :: "nat \<Rightarrow> nat \<Rightarrow> bytes" where
  "le_bytes_of 0 n = []"
| "le_bytes_of (Suc k) n = of_nat n # le_bytes_of k (n div 256)"

fun int32_of_f64 :: "f64 \<Rightarrow> int" where
  "int32_of_f64 (Fin x) = (let n = rat_trunc x in if - (2 ^ 31) \<le> n \<and> n < 2 ^ 31 then n else - (2 ^ 31))"
| "int32_of_f64 _ = - (2 ^ 31)"

text \<open>\<open>math.Float64bits\<close>: sign, biased exponent and mantissa, the mantissa rounded to even.\<close>

definition exponent2 :: "rat \<Rightarrow> int" where
  "exponent2 a = (let (n, d) = quotient_of a; e = int (floorlog 2 (nat n)) - int (floorlog 2 (nat d)) in
     if 2 powi e \<le> a then e else e - 1)"

definition round_even :: "rat \<Rightarrow> int" where
  "round_even x = (let n = \<lfloor>x\<rfloor>; f = x - of_int n in
     if f < 1 / 2 \<or> f = 1 / 2 \<and> even n then n else n + 1)"

fun Float64bits :: "f64 \<Rightarrow> 64 word" where
  "Float64bits (Fin x) =
     (if x = 0 then 0
      else let e = max (exponent2 \<bar>x\<bar>) (- 1022) in
        word_of_int ((if x < 0 then 2 ^ 63 else 0) + (e + 1022) * 2 ^ 52 + round_even (\<bar>x\<bar> / 2 powi (e - 52))))"
| "Float64bits PInf = 0x7FF0000000000000"
| "Float64bits NInf = 0xFFF0000000000000"
| "Float64bits NaN = 0x7FF8000000000001"

definition element_bytes :: "ImageElementType \<Rightarrow> f64 \<Rightarrow> bytes" where
  "element_bytes t v =
     (if t = ImgInt16 then le_bytes_of 2 (unat (word_of_int (int32_of_f64 v) :: 16 word))
      else if t = ImgDouble then le_bytes_of 8 (unat (Float64bits v))
      else le_bytes_of 4 (unat (word_of_int (int32_of_f64 v) :: 32 word)))"

definition array_type :: "int \<Rightarrow> ImageElementType \<times> nat" where
  "array_type jsonType =
     (if jsonType = 1 then (ImgInt16, 2) else if jsonType = 3 then (ImgDouble, 8) else (ImgInt32, 4))"

text \<open>Writing element \<open>k\<close> of a buffer, and a run of such writes.\<close>

definition put_element :: "nat \<Rightarrow> nat \<Rightarrow> bytes \<Rightarrow> bytes \<Rightarrow> bytes" where
  "put_element es k bs pix = take (k * es) pix @ bs @ drop (k * es + es) pix"

definition put_elements :: "nat \<Rightarrow> (f64 \<Rightarrow> bytes) \<Rightarrow> (nat \<times> f64) list \<Rightarrow> bytes \<Rightarrow> bytes" where
  "put_elements es enc ws pix = fold (\<lambda>(k, v). put_element es k (enc v)) ws pix"

text \<open>The writes of the loops over columns, rows and planes.\<close>

definition plane_writes :: "nat \<Rightarrow> f64 list list \<Rightarrow> (nat \<times> f64) list" where
  "plane_writes width v = concat (map (\<lambda>(x, col). map (\<lambda>(y, val). (y * width + x, val)) (enumerate 0 col)) (enumerate 0 v))"

definition planes_writes :: "nat \<Rightarrow> nat \<Rightarrow> f64 list list list \<Rightarrow> (nat \<times> f64) list" where
  "planes_writes height planes v = concat (map (\<lambda>(x, col). concat (map (\<lambda>(y, stack).
     map (\<lambda>(p, val). ((x * height + y) * planes + p, val)) (enumerate 0 stack)) (enumerate 0 col))) (enumerate 0 v))"

definition array_error :: "string \<Rightarrow> failure + ImageFrame" where
  "array_error text = Inl (BadImage (EOther (Text text)))"

definition decode_plane :: "json \<Rightarrow> ImageElementType \<Rightarrow> nat \<Rightarrow> failure + ImageFrame" where
  "decode_plane value elemType es =
     (case decode_list (decode_list decode_float) value of
        None \<Rightarrow> array_error ''rank-2 decode''
      | Some [] \<Rightarrow> array_error ''empty dimensions''
      | Some (c # cs) \<Rightarrow>
          let v = c # cs; width = length v; height = length c in
          if height = 0 then array_error ''empty dimensions''
          else if \<exists>col \<in> set v. length col \<noteq> height then array_error ''ragged''
          else Inr \<lparr>Rank = 2, Width = int width, Height = int height, Planes = 0, ElementType = elemType,
            TransmissionElementType = elemType,
            Pixels = put_elements es (element_bytes elemType) (plane_writes width v)
              (replicate (width * height * es) 0)\<rparr>)"

definition decode_planes :: "json \<Rightarrow> ImageElementType \<Rightarrow> nat \<Rightarrow> failure + ImageFrame" where
  "decode_planes value elemType es =
     (case decode_list (decode_list (decode_list decode_float)) value of
        None \<Rightarrow> array_error ''rank-3 decode''
      | Some [] \<Rightarrow> array_error ''empty dimensions''
      | Some ([] # cs) \<Rightarrow> array_error ''empty dimensions''
      | Some ((stack # stacks) # cs) \<Rightarrow>
          let v = (stack # stacks) # cs; width = length v; height = length (stack # stacks); planes = length stack in
          if planes = 0 then array_error ''empty dimensions''
          else if \<exists>col \<in> set v. length col \<noteq> height \<or> (\<exists>stack \<in> set col. length stack \<noteq> planes) then array_error ''ragged''
          else Inr \<lparr>Rank = 3, Width = int width, Height = int height, Planes = int planes, ElementType = elemType,
            TransmissionElementType = elemType,
            Pixels = put_elements es (element_bytes elemType) (planes_writes height planes v)
              (replicate (width * height * planes * es) 0)\<rparr>)"

definition decodeImageArrayJSON :: "json \<Rightarrow> int \<Rightarrow> int \<Rightarrow> failure + ImageFrame" where
  "decodeImageArrayJSON value jsonType rank =
     (let rank = (if rank = 0 then sniffRank value else rank); (elemType, es) = array_type jsonType in
      if rank = 2 then decode_plane value elemType es
      else if rank = 3 then decode_planes value elemType es
      else array_error ''unsupported rank'')"

section \<open>The download\<close>

text \<open>Whatever is neither ImageBytes nor an envelope with an error or an array is reported by its content
  type.  \<open>Panicked\<close> is a panic of the decoder.\<close>

definition read_json_image :: "reply \<Rightarrow> failure + ImageFrame" where
  "read_json_image r = (case decode_envelope True (rpBody r) of
     None \<Rightarrow> Inl (BadType (rpType r))
   | Some env \<Rightarrow>
       if evNumber env \<noteq> 0 then Inl (DeviceError (evNumber env) (evMessage env))
       else (case evValue env of
           Some (JArr vs) \<Rightarrow> decodeImageArrayJSON (JArr vs) (evType env) (evRank env)
         | _ \<Rightarrow> Inl (BadType (rpType r))))"

definition read_image :: "((nat \<times> nat) list \<Rightarrow> (nat \<times> nat) list) \<Rightarrow> nat \<Rightarrow> reply \<Rightarrow> failure + ImageFrame" where
  "read_image sched procs r = and_then (read_reply maxImageBytes r) (\<lambda>r.
     if Contains (rpType r) ImageBytesMIME
     then (case DecodeImageBytes sched procs (text_bytes (rpBody r)) of
         None \<Rightarrow> Inl Panicked
       | Some (Inl e) \<Rightarrow> Inl (BadImage e)
       | Some (Inr f) \<Rightarrow> Inr f)
     else read_json_image r)"

definition getImageBytes :: "((nat \<times> nat) list \<Rightarrow> (nat \<times> nat) list) \<Rightarrow> nat \<Rightarrow> 'w send \<Rightarrow> string
    \<Rightarrow> ('w, ImageFrame) cact" where
  "getImageBytes sched procs send member =
     attempt (request_reply send ImageBytesMIME ''GET'' member []) (read_image sched procs)"

definition ImageArray :: "((nat \<times> nat) list \<Rightarrow> (nat \<times> nat) list) \<Rightarrow> nat \<Rightarrow> 'w send
    \<Rightarrow> ('w, ImageFrame) cact" where
  "ImageArray sched procs send = getImageBytes sched procs send ''imagearray''"

end
