(* ===== verification/Client_Stream.thy ===== *)
theory Client_Stream
  imports Client_Image "HOL-Library.Sublist"
begin

text \<open>
  Streaming an image into a sink, \<open>client/imagestream.go\<close>.

  A sink is a record of actions on a state of its own.  How the body of the reply arrives, in which pieces
  and whether the connection breaks, is the parameter \<open>cuts\<close>: for a buffer of the given size, the pieces
  that \<open>Read\<close> hands over and the error it ends with, \<open>None\<close> for the end of the body.
\<close>

section \<open>Sinks\<close>

text \<open>\<open>skChunk\<close> is the optional \<open>ChunkSizer\<close>.\<close>

record 'k sink =
  skHeader :: "ImageBytesHeader \<Rightarrow> ('k, goerror option) act"
  skWrite :: "bytes \<Rightarrow> ('k, int \<times> goerror option) act"
  skClose :: "('k, goerror option) act"
  skChunk :: "('k, int) act option"

type_synonym arrival = "nat \<Rightarrow> bytes \<Rightarrow> bytes list \<times> goerror option"

definition streamScratch :: nat where "streamScratch = 262144"

definition chunk_size :: "'k sink \<Rightarrow> ('k, nat) act" where
  "chunk_size sink = (case skChunk sink of
     None \<Rightarrow> ret streamScratch
   | Some asked \<Rightarrow> ask asked (\<lambda>n. ret (if n > 0 then nat n else streamScratch)))"

text \<open>\<open>io.CopyBuffer\<close>: every piece is written whole, or the copy ends.\<close>

definition write_error :: "bytes \<Rightarrow> int \<times> goerror option \<Rightarrow> goerror option" where
  "write_error p r = (case r of (nw, ew) \<Rightarrow>
     if nw < 0 \<or> int (length p) < nw
     then Some (case ew of None \<Rightarrow> EOther (Text ''invalid write result'') | Some e \<Rightarrow> e)
     else if ew \<noteq> None then ew
     else if nw \<noteq> int (length p) then Some (EOther (Text ''short write'')) else None)"

fun copy_pieces :: "'k sink \<Rightarrow> bytes list \<Rightarrow> goerror option \<Rightarrow> ('k, goerror option) act" where
  "copy_pieces sink [] er = ret er"
| "copy_pieces sink (p # ps) er = ask (skWrite sink p) (\<lambda>r. case write_error p r of
     Some e \<Rightarrow> ret (Some e)
   | None \<Rightarrow> copy_pieces sink ps er)"

section \<open>The transfer\<close>

text \<open>The deferred \<open>Close\<close>: its error counts when the transfer had none.\<close>

definition transfer :: "arrival \<Rightarrow> 'k sink \<Rightarrow> bytes \<Rightarrow> ('k, failure + unit) act" where
  "transfer cuts sink body = ask (chunk_size sink) (\<lambda>chunk.
     ask (case cuts chunk body of (ps, er) \<Rightarrow> copy_pieces sink ps er) (\<lambda>err.
     ask (skClose sink) (\<lambda>cerr.
       ret (case err of
           Some e \<Rightarrow> Inl (SinkError e)
         | None \<Rightarrow> (case cerr of Some e \<Rightarrow> Inl (SinkError e) | None \<Rightarrow> Inr ())))))"

definition deliver :: "arrival \<Rightarrow> 'k sink \<Rightarrow> ImageBytesHeader \<Rightarrow> bytes \<Rightarrow> ('k, failure + unit) act" where
  "deliver cuts sink hdr body = ask (skHeader sink hdr) (\<lambda>e. case e of
     Some e \<Rightarrow> ask (skClose sink) (\<lambda>_. ret (Inl (SinkError e)))
   | None \<Rightarrow> transfer cuts sink body)"

text \<open>The body of an ImageBytes reply: the header, the bytes between it and the pixels, the pixels.\<close>

definition receive_image :: "arrival \<Rightarrow> 'k sink \<Rightarrow> bytes \<Rightarrow> ('k, failure + unit) act" where
  "receive_image cuts sink body =
     (if length body < ImageBytesHeaderLen then ret (Inl Truncated)
      else (case ParseImageBytesHeader (take ImageBytesHeaderLen body) of
         Inl e \<Rightarrow> ret (Inl (BadImage e))
       | Inr hdr \<Rightarrow>
           let rest = drop ImageBytesHeaderLen body; skip = hDataStart hdr - int ImageBytesHeaderLen in
           if hErrorNumber hdr \<noteq> 0
           then ret (Inl (BadImage (EAlpaca \<lparr>Number = hErrorNumber hdr, Message = Text (string_of_bytes (take 65536 rest))\<rparr>)))
           else if skip > int (length rest) then ret (Inl Truncated)
           else deliver cuts sink hdr (drop (nat skip) rest)))"

definition streamRefusedJSON :: "string \<Rightarrow> failure" where
  "streamRefusedJSON body = (case decode_envelope False (take 1048576 body) of
     Some env \<Rightarrow> if evNumber env \<noteq> 0 then DeviceError (evNumber env) (evMessage env) else Unstreamable
   | None \<Rightarrow> Unstreamable)"

text \<open>What is done with a reply, and whether it shows that the server cannot stream.\<close>

definition cannot_stream :: "reply \<Rightarrow> bool" where
  "cannot_stream r \<longleftrightarrow> rpStatus r = 200 \<and> \<not> Contains (rpType r) ImageBytesMIME \<and> streamRefusedJSON (rpBody r) = Unstreamable"

definition receive :: "arrival \<Rightarrow> 'k sink \<Rightarrow> reply \<Rightarrow> ('k, failure + unit) act" where
  "receive cuts sink r =
     (if rpStatus r \<noteq> 200 then ret (Inl (RequestError (rpStatus r) (TrimSpace (take 65536 (rpBody r)))))
      else if \<not> Contains (rpType r) ImageBytesMIME then ret (Inl (streamRefusedJSON (rpBody r)))
      else receive_image cuts sink (text_bytes (rpBody r)))"

definition remember_refusal :: "reply \<Rightarrow> (client \<times> 'w, unit) act" where
  "remember_refusal r = on_fst (\<lambda>c. ((), if cannot_stream r then c\<lparr>clNoStream := True\<rparr> else c))"

text \<open>The world of the operation has the client and the transport, and the sink.\<close>

definition getImageStream :: "arrival \<Rightarrow> 'w send \<Rightarrow> 'k sink \<Rightarrow> string \<Rightarrow> ((client \<times> 'w) \<times> 'k, failure + unit) act" where
  "getImageStream cuts send sink member =
     ask (on_fst (on_fst (\<lambda>c. (clNoStream c, c)))) (\<lambda>stop.
       if stop then ret (Inl Unstreamable)
       else ask (on_fst (request_reply send ImageBytesMIME ''GET'' member [])) (\<lambda>r. case r of
           Inl e \<Rightarrow> ret (Inl e)
         | Inr rep \<Rightarrow> ask (on_fst (remember_refusal rep)) (\<lambda>_. on_snd (receive cuts sink rep))))"

definition ImageArrayInto :: "arrival \<Rightarrow> 'w send \<Rightarrow> 'k sink \<Rightarrow> ((client \<times> 'w) \<times> 'k, failure + unit) act" where
  "ImageArrayInto cuts send sink = getImageStream cuts send sink ''imagearray''"

section \<open>The calls a sink sees\<close>

datatype sink_call = HeaderCall ImageBytesHeader | WriteCall bytes | CloseCall

text \<open>A sink with a record of the calls made on it.\<close>

definition noting :: "sink_call \<Rightarrow> ('k, 'a) act \<Rightarrow> ('k \<times> sink_call list, 'a) act" where
  "noting e m = (\<lambda>(k, seen). case m k of (x, k') \<Rightarrow> (x, (k', seen @ [e])))"

definition logged :: "'k sink \<Rightarrow> ('k \<times> sink_call list) sink" where
  "logged sink = \<lparr>skHeader = \<lambda>h. noting (HeaderCall h) (skHeader sink h), skWrite = \<lambda>p. noting (WriteCall p) (skWrite sink p),
     skClose = noting CloseCall (skClose sink), skChunk = map_option on_fst (skChunk sink)\<rparr>"

lemma logged_simps [simp]:
  "skHeader (logged sink) h (k, seen) = (case skHeader sink h k of (x, k') \<Rightarrow> (x, (k', seen @ [HeaderCall h])))"
  "skWrite (logged sink) p (k, seen) = (case skWrite sink p k of (r, k') \<Rightarrow> (r, (k', seen @ [WriteCall p])))"
  "skClose (logged sink) (k, seen) = (case skClose sink k of (x, k') \<Rightarrow> (x, (k', seen @ [CloseCall])))"
  by (simp_all add: logged_def noting_def)

lemma chunk_size_logged: "\<exists>n k'. chunk_size (logged sink) (k, seen) = (n, (k', seen)) \<and> 0 < n"
  by (auto simp: chunk_size_def logged_def ask_apply on_fst_apply streamScratch_def split: option.split prod.split)

lemma copy_pieces_logged:
  assumes "copy_pieces (logged sink) ps er (k, seen) = (e, (k', seen'))"
  shows "\<exists>ws. seen' = seen @ map WriteCall ws \<and> prefix ws ps \<and> (e = None \<longrightarrow> ws = ps \<and> er = None)"
  using assms
proof (induction ps arbitrary: k seen)
  case (Cons p ps)
  obtain r k1 where w: "skWrite sink p k = (r, k1)" by (rule prod.exhaust)
  show ?case
  proof (cases "write_error p r")
    case None
    then have "copy_pieces (logged sink) ps er (k1, seen @ [WriteCall p]) = (e, (k', seen'))"
      using Cons.prems w by (simp add: ask_apply)
    from Cons.IH [OF this] obtain ws where "seen' = (seen @ [WriteCall p]) @ map WriteCall ws" "prefix ws ps"
        "e = None \<longrightarrow> ws = ps \<and> er = None" by blast
    then show ?thesis by (intro exI [of _ "p # ws"]) simp
  next
    case (Some x)
    then show ?thesis using Cons.prems w by (intro exI [of _ "[p]"]) (auto simp: ask_apply)
  qed
qed (auto simp: ask_apply)

text \<open>The pieces are the body, or what came of it before the connection broke.\<close>

definition faithful :: "arrival \<Rightarrow> bool" where
  "faithful cuts \<longleftrightarrow> (\<forall>n bs. 0 < n \<longrightarrow> prefix (concat (fst (cuts n bs))) bs
     \<and> (snd (cuts n bs) = None \<longrightarrow> concat (fst (cuts n bs)) = bs))"

lemma prefix_concat: "prefix xs ys \<Longrightarrow> prefix (concat xs) (concat ys)"
  by (auto simp: prefix_def)

lemma transfer_logged:
  assumes "faithful cuts" "transfer cuts (logged sink) body (k, seen) = (r, (k', seen'))"
  shows "\<exists>ws. seen' = seen @ map WriteCall ws @ [CloseCall] \<and> prefix (concat ws) body \<and> (r = Inr () \<longrightarrow> concat ws = body)"
proof -
  obtain n k1 where c: "chunk_size (logged sink) (k, seen) = (n, (k1, seen))" "0 < n" using chunk_size_logged [of sink k seen] by auto
  obtain ps er where a: "cuts n body = (ps, er)" by (rule prod.exhaust)
  obtain e k2 seen2 where w: "copy_pieces (logged sink) ps er (k1, seen) = (e, (k2, seen2))" by (metis prod.exhaust)
  obtain ce k3 where cl: "skClose sink k2 = (ce, k3)" by (rule prod.exhaust)
  obtain ws where ws: "seen2 = seen @ map WriteCall ws" "prefix ws ps" "e = None \<longrightarrow> ws = ps \<and> er = None"
    using copy_pieces_logged [OF w] by blast
  have p: "prefix (concat ps) body" "er = None \<longrightarrow> concat ps = body"
    using assms(1) c(2) a unfolding faithful_def by (metis fst_conv snd_conv)+
  have "seen' = seen2 @ [CloseCall]" "r = Inr () \<longrightarrow> e = None"
    using assms(2) c(1) a w cl by (auto simp: transfer_def ask_apply split: option.splits)
  then show ?thesis using ws p prefix_concat [OF ws(2)] by (intro exI [of _ ws]) (auto dest: prefix_order.trans)
qed

text \<open>Where the pixels of a reply are.\<close>

definition pixel_part :: "ImageBytesHeader \<Rightarrow> bytes \<Rightarrow> bytes" where
  "pixel_part h body = drop (max ImageBytesHeaderLen (nat (hDataStart h))) body"

definition sink_calls :: "bytes \<Rightarrow> sink_call list \<Rightarrow> bool \<Rightarrow> bool" where
  "sink_calls body seen ok \<longleftrightarrow> (\<exists>h ws. seen = HeaderCall h # map WriteCall ws @ [CloseCall]
     \<and> ParseImageBytesHeader (take ImageBytesHeaderLen body) = Inr h \<and> hErrorNumber h = 0
     \<and> prefix (concat ws) (pixel_part h body) \<and> (ok \<longrightarrow> concat ws = pixel_part h body))"

lemma receive_image_logged:
  assumes "faithful cuts" "receive_image cuts (logged sink) body (k, []) = (r, (k', seen))"
  shows "seen = [] \<and> r \<noteq> Inr () \<or> sink_calls body seen (r = Inr ())"
proof (cases "seen = [] \<and> r \<noteq> Inr ()")
  case False
  have long: "\<not> length body < ImageBytesHeaderLen"
    using assms(2) False by (auto simp: receive_image_def)
  then obtain h where h: "ParseImageBytesHeader (take ImageBytesHeaderLen body) = Inr h"
    by (simp add: ParseImageBytesHeader_def)
  let ?rest = "drop ImageBytesHeaderLen body" and ?skip = "hDataStart h - int ImageBytesHeaderLen"
  have ok: "hErrorNumber h = 0" "\<not> ?skip > int (length ?rest)"
    using assms(2) False long h by (auto simp: receive_image_def Let_def split: if_splits)
  then have d: "deliver cuts (logged sink) h (drop (nat ?skip) ?rest) (k, []) = (r, (k', seen))"
    using assms(2) long h by (simp add: receive_image_def Let_def)
  have px: "drop (nat ?skip) ?rest = pixel_part h body"
  proof -
    have "ImageBytesHeaderLen + nat ?skip = max ImageBytesHeaderLen (nat (hDataStart h))" by linarith
    then show ?thesis by (simp add: pixel_part_def add.commute)
  qed
  obtain e k1 where hd: "skHeader sink h k = (e, k1)" by (rule prod.exhaust)
  show ?thesis
  proof (cases e)
    case None
    then have "transfer cuts (logged sink) (pixel_part h body) (k1, [HeaderCall h]) = (r, (k', seen))"
      using d hd px by (simp add: deliver_def ask_apply)
    from transfer_logged [OF assms(1) this] show ?thesis using h ok(1) by (auto simp: sink_calls_def)
  next
    case (Some x)
    then have "seen = [HeaderCall h, CloseCall]" "r = Inl (SinkError x)"
      using d hd by (auto simp: deliver_def ask_apply split: prod.splits)
    then show ?thesis using h ok(1) by (auto simp: sink_calls_def intro!: exI [of _ h] exI [of _ "[]"])
  qed
qed blast

text \<open>C12: The contract of a sink.  Whatever the transport answers, whatever the sink itself returns and however
  the body arrives or breaks off, streaming an image either makes no call on the sink and fails, or it
  calls \<open>Header\<close> once, with the header of the reply and before any pixel, then \<open>Write\<close> with consecutive
  pieces of the pixels, and \<open>Close\<close> exactly once, last; and it reports success only if every byte of the
  pixels was written.\<close>

theorem sink_contract:
  assumes "faithful cuts" "getImageStream cuts send (logged sink) m ((c, w), (k, [])) = (r, (cw, (k', seen)))"
  shows "seen = [] \<and> r \<noteq> Inr ()
    \<or> (\<exists>reply. fst (request_reply send ImageBytesMIME ''GET'' m [] (c, w)) = Inr reply
        \<and> sink_calls (text_bytes (rpBody reply)) seen (r = Inr ()))"
proof -
  obtain x cw1 where q: "request_reply send ImageBytesMIME ''GET'' m [] (c, w) = (x, cw1)" by (rule prod.exhaust)
  show ?thesis
  proof (cases "clNoStream c \<or> (\<exists>e. x = Inl e)")
    case True
    then have "seen = [] \<and> r \<noteq> Inr ()"
      using assms(2) q by (cases x) (auto simp: getImageStream_def ask_apply on_fst_apply split: if_splits)
    then show ?thesis by blast
  next
    case False
    then obtain reply where x: "x = Inr reply" by (cases x) auto
    have "receive cuts (logged sink) reply (k, []) = (r, (k', seen))"
      using assms(2) q False x by (cases "receive cuts (logged sink) reply (k, [])")
        (auto simp: getImageStream_def ask_apply on_fst_apply on_snd_apply split: prod.splits)
    then have "seen = [] \<and> r \<noteq> Inr () \<or> sink_calls (text_bytes (rpBody reply)) seen (r = Inr ())"
      using receive_image_logged [OF assms(1), of sink "text_bytes (rpBody reply)" k r k' seen]
      by (auto simp: receive_def split: if_splits)
    then show ?thesis using q x by auto
  qed
qed

text \<open>A sink that fails on its second piece, fed by a transport that cuts a body of two pixels in two.\<close>

definition halves :: arrival where
  "halves n bs = (let k = min n (length bs div 2) in ([take k bs, drop k bs], None))"

definition failing_sink :: "nat sink" where
  "failing_sink = \<lparr>skHeader = \<lambda>_. ret None,
     skWrite = \<lambda>p n. ((int (length p), if n = 0 then None else Some (EOther (Text ''disk full''))), n + 1),
     skClose = ret None, skChunk = None\<rparr>"

definition two_pixels :: ImageFrame where
  "two_pixels = \<lparr>Rank = 2, Width = 2, Height = 1, Planes = 0, ElementType = ImgInt16,
     TransmissionElementType = ImgInt16, Pixels = [1, 2, 3, 4]\<rparr>"

definition two_pixels_send :: "unit send" where
  "two_pixels_send q = ret (Inr \<lparr>rpStatus = 200, rpType = ImageBytesMIME, rpBody = bytes_text (image_message two_pixels 1 1)\<rparr>)"

lemma faithful_halves: "faithful halves"
  by (simp add: faithful_def halves_def Let_def)

lemma image_message_parsed:
  assumes "wire_frame f"
  obtains h where "ParseImageBytesHeader (take ImageBytesHeaderLen (image_message f c s)) = Inr h" "hErrorNumber h = 0"
    "hDataStart h = 44" "hRank h = Rank f" "hWidth h = Width f" "hHeight h = Height f" "hPlanes h = Planes f"
    "Transmit h = transmit_type (TransmissionElementType f) (ElementType f)"
proof -
  have "EncodeImageBytes id 1 f c s = Some (image_message f c s)" using EncodeImageBytes_eq [OF assms] by simp
  from parse_header_encode [OF assms _ this] show thesis using that by auto
qed

lemma receive_message:
  assumes "wire_frame f" "ParseImageBytesHeader (take ImageBytesHeaderLen (image_message f c s)) = Inr h" "hErrorNumber h = 0"
    "hDataStart h = 44"
  shows "receive_image cuts sink (image_message f c s) = deliver cuts sink h (wire_pixels f)"
  using length_image_message [OF assms(1), of c s] assms(2-4)
  by (simp add: receive_image_def Let_def ImageBytesHeaderLen_def image_message_pixels)

theorem sink_contract_witness:
  "\<forall>c. \<exists>r cw n h p q. getImageStream halves two_pixels_send (logged failing_sink) ''imagearray''
      ((newDevice c CameraType 0 7, ()), (0, [])) = (r, (cw, (n, [HeaderCall h, WriteCall p, WriteCall q, CloseCall])))
    \<and> r \<noteq> Inr () \<and> prefix (p @ q) (pixel_part h (image_message two_pixels 1 1))"
proof
  fix c
  let ?msg = "image_message two_pixels 1 1"
  have wf: "wire_frame two_pixels" by (simp add: wire_frame_def two_pixels_def)
  obtain h where h: "ParseImageBytesHeader (take ImageBytesHeaderLen ?msg) = Inr h" "hErrorNumber h = 0" "hDataStart h = 44"
    using image_message_parsed [OF wf] by metis
  have len: "length (wire_pixels two_pixels) = 4" using length_wire_pixels [OF wf] by (simp add: two_pixels_def)
  let ?p = "take 2 (wire_pixels two_pixels)" and ?q = "drop 2 (wire_pixels two_pixels)"
  have d: "deliver halves (logged failing_sink) h (wire_pixels two_pixels) (0, []) =
      (Inl (SinkError (EOther (Text ''disk full''))), (2, [HeaderCall h, WriteCall ?p, WriteCall ?q, CloseCall]))"
    by (simp add: deliver_def transfer_def ask_apply chunk_size_def halves_def len streamScratch_def Let_def write_error_def
        logged_def noting_def failing_sink_def)
  have c: "Contains ImageBytesMIME ImageBytesMIME" by code_simp
  have ns: "\<not> clNoStream (newDevice c CameraType 0 7)" by (simp add: newDevice_def)
  obtain x y z where r: "request_reply two_pixels_send ImageBytesMIME ''GET'' ''imagearray'' [] (newDevice c CameraType 0 7, ())
      = (Inr \<lparr>rpStatus = 200, rpType = ImageBytesMIME, rpBody = bytes_text ?msg\<rparr>, (x, y))"
    by (auto simp: request_reply_def two_pixels_send_def ask_apply on_fst_apply on_snd_apply split: prod.split)
  obtain cw where g: "getImageStream halves two_pixels_send (logged failing_sink) ''imagearray''
      ((newDevice c CameraType 0 7, ()), (0, [])) =
      (Inl (SinkError (EOther (Text ''disk full''))), (cw, (2, [HeaderCall h, WriteCall ?p, WriteCall ?q, CloseCall])))"
    by (simp add: getImageStream_def ask_apply on_fst_apply on_snd_apply r ns receive_def c receive_message [OF wf h] d
      remember_refusal_def)
  from sink_contract [OF faithful_halves this]
  show "\<exists>r cw n h p q. getImageStream halves two_pixels_send (logged failing_sink) ''imagearray''
      ((newDevice c CameraType 0 7, ()), (0, [])) = (r, (cw, (n, [HeaderCall h, WriteCall p, WriteCall q, CloseCall])))
    \<and> r \<noteq> Inr () \<and> prefix (p @ q) (pixel_part h ?msg)"
    using g r by (cases cw) (auto simp: sink_calls_def)
qed

section \<open>Sinks that take everything\<close>

definition accepts :: "'k sink \<Rightarrow> bool" where
  "accepts sink \<longleftrightarrow> (\<forall>h k. fst (skHeader sink h k) = None) \<and> (\<forall>p k. fst (skWrite sink p k) = (int (length p), None))
     \<and> (\<forall>k. fst (skClose sink k) = None)"

lemma copy_pieces_accepts: "accepts sink \<Longrightarrow> fst (copy_pieces sink ps er k) = er"
  by (induction ps arbitrary: k) (simp_all add: accepts_def ask_apply write_error_def case_prod_beta)

lemma accepts_logged: "accepts sink \<Longrightarrow> accepts (logged sink)"
  by (auto simp: accepts_def case_prod_beta)

text \<open>Such a sink gets the pixels of an image whole when the connection holds.\<close>

lemma receive_message_accepts:
  assumes "accepts sink" "faithful cuts" "\<And>n bs. snd (cuts n bs) = None" "wire_frame f"
    and "ParseImageBytesHeader (take ImageBytesHeaderLen (image_message f c s)) = Inr h" "hErrorNumber h = 0" "hDataStart h = 44"
  shows "\<exists>ws k'. receive_image cuts (logged sink) (image_message f c s) (k, []) =
      (Inr (), (k', HeaderCall h # map WriteCall ws @ [CloseCall])) \<and> concat ws = wire_pixels f"
proof -
  have acc: "fst (skHeader (logged sink) h st) = None" "fst (skClose (logged sink) st) = None" for st
    using accepts_logged [OF assms(1)] unfolding accepts_def by blast+
  have t: "fst (transfer cuts (logged sink) body st) = Inr ()" for body st
    using copy_pieces_accepts [OF accepts_logged [OF assms(1)]] assms(3) acc(2)
    by (simp add: transfer_def ask_apply case_prod_beta)
  obtain k1 where hd: "skHeader sink h k = (None, k1)" using assms(1) unfolding accepts_def by (metis prod.collapse)
  obtain k' seen where tr: "transfer cuts (logged sink) (wire_pixels f) (k1, [HeaderCall h]) = (Inr (), (k', seen))"
    using t [of "wire_pixels f" "(k1, [HeaderCall h])"]
    by (cases "transfer cuts (logged sink) (wire_pixels f) (k1, [HeaderCall h])") auto
  from transfer_logged [OF assms(2) this] obtain ws where "seen = [HeaderCall h] @ map WriteCall ws @ [CloseCall]"
      "concat ws = wire_pixels f" by blast
  then show ?thesis
    using tr hd by (intro exI [of _ ws] exI [of _ k'])
      (simp add: receive_message [OF assms(4-7)] deliver_def ask_apply)
qed

end
