(* ===== verification/Remote_Image.thy ===== *)
theory Remote_Image
  imports Remote_Spec Client_Stream
begin

text \<open>
  Downloading and streaming an image through a server: what \<open>Camera.ImageArray\<close> returns is the frame of
  the driver, what \<open>Camera.ImageArrayInto\<close> writes are its pixels.
\<close>

section \<open>ImageBytes\<close>

lemma request_served:
  assumes "addresses c host" "plain (to_lower m)" "to_lower m = m" "lookup (clType c) (clNumber c) s = Some d"
    and "handleGet env accept (clType c) m d (parseParams (sort_key fst (stamped_params c [])) False (svStrict s)) (svTx s + 1) w
      = (resp, w')"
  shows "request_reply (serve env page pages relay) accept ''GET'' m [] (c, (s, w)) =
    (map_sum Transport id (reply_of (envRender env) page resp), (c\<lparr>clTx := clTx c + 1\<rparr>, (s\<lparr>svTx := svTx s + 1\<rparr>, w')))"
proof -
  let ?req = "(fst (prepare ''GET'' m [] c))\<lparr>hqAccept := accept\<rparr>"
  let ?r = "seen_request accept ''GET'' m [] c"
  have f: "form_ok []" by (simp add: form_ok_def)
  have v: "''GET'' \<in> {''GET'', ''PUT''}" by simp
  note arr = request_arrives [OF assms(1,2) f v]
  have ty: "plain (segment (clType c))" "device_type (segment (clType c)) = clType c" "in_i64 (clNumber c)"
    using assms(1) plain_segment by (auto simp: addresses_def)
  have path: "rqPath ?r = device_path (segment (clType c)) (Itoa (clNumber c)) m"
    by (simp add: seen_request_def assms(3))
  have n: "CHR ''/'' \<notin> set (segment (clType c))" "CHR ''/'' \<notin> set m"
    using ty(1) assms(2) by (simp_all add: plain_def assms(3))
  have h: "handleDeviceAPI env ?r (s, w) = (resp, (s\<lparr>svTx := svTx s + 1\<rparr>, w'))"
    using handleDeviceAPI_device [OF n(1) Atoi_Itoa [OF ty(3)] n(2) _ path, of s d env w] assms(3-5) ty(2)
    by (simp add: seen_request_def on_snd_apply)
  have s: "serve env page pages relay ?req (s, w) = (reply_of (envRender env) page resp, (s\<lparr>svTx := svTx s + 1\<rparr>, w'))"
    by (simp add: serve_def arr(1) ask_apply route_device [OF path] h)
  show ?thesis
    using s arr(2) by (cases "prepare ''GET'' m [] c")
      (simp add: request_reply_def ask_apply on_fst_apply on_snd_apply)
qed

text \<open>The driver's answer to a request for the image, and what a client gets for it.\<close>

definition image_answer :: "'w camera \<Rightarrow> bool \<Rightarrow> ('w, goerror + ImageFrame) act" where
  "image_answer cam ready = (if ready then cImageFrame cam else ret (Inl no_image))"

definition image_outcome :: "(message \<Rightarrow> string) \<Rightarrow> goerror + ImageFrame \<Rightarrow> failure + ImageFrame" where
  "image_outcome render r = (case r of
     Inl e \<Rightarrow> (case ErrorNumberFor (Some e) of (n, m) \<Rightarrow> Inl (BadImage (EAlpaca \<lparr>Number = n, Message = Text (render m)\<rparr>)))
   | Inr f \<Rightarrow> Inr (on_wire f))"

definition image_fits :: "(message \<Rightarrow> string) \<Rightarrow> goerror + ImageFrame \<Rightarrow> bool" where
  "image_fits render r \<longleftrightarrow> (case r of
     Inl e \<Rightarrow> (case ErrorNumberFor (Some e) of (n, m) \<Rightarrow>
       n \<noteq> 0 \<and> - (2 ^ 31) \<le> n \<and> n < 2 ^ 31 \<and> ImageBytesHeaderLen + length (render m) \<le> maxImageBytes)
   | Inr f \<Rightarrow> wire_frame f \<and> ImageBytesHeaderLen + length (Pixels f) \<le> maxImageBytes)"

lemma image_reply_read:
  assumes "image_fits (envRender env) r" "\<And>ps. mset (envSched env ps) = mset ps" "\<And>ps. mset (sched ps) = mset ps"
  shows "and_then (map_sum Transport id (reply_of (envRender env) page (image_reply env True r ctx stx))) (read_image sched procs)
    = image_outcome (envRender env) r"
proof -
  have c: "Contains ImageBytesMIME ImageBytesMIME" by code_simp
  have read: "and_then (map_sum Transport id (reply_of (envRender env) page (ImageBody msg))) (read_image sched procs) =
      (case DecodeImageBytes sched procs msg of None \<Rightarrow> Inl Panicked | Some (Inl e) \<Rightarrow> Inl (BadImage e) | Some (Inr f) \<Rightarrow> Inr f)"
    if "length msg \<le> maxImageBytes" for msg
    using that by (simp add: reply_of_def read_image_def read_reply_def readCapped_def and_then_def c)
  show ?thesis
  proof (cases r)
    case (Inl e)
    obtain n m where e: "ErrorNumberFor (Some e) = (n, m)" by (rule prod.exhaust)
    have n: "n \<noteq> 0" "- (2 ^ 31) \<le> n" "n < 2 ^ 31" "ImageBytesHeaderLen + length (envRender env m) \<le> maxImageBytes"
      using assms(1) Inl e by (simp_all add: image_fits_def)
    obtain msg where "EncodeImageBytesError n (envRender env m) ctx stx = Some msg"
        "length msg = ImageBytesHeaderLen + length (envRender env m)"
        "DecodeImageBytes sched procs msg = Some (Inl (EAlpaca \<lparr>Number = n, Message = Text (envRender env m)\<rparr>))"
      using error_envelope [OF n(1-3), of "envRender env m" ctx stx] by blast
    then show ?thesis using n(4) by (simp add: Inl image_reply_def e sent_def read image_outcome_def)
  next
    case (Inr f)
    have f: "wire_frame f" "ImageBytesHeaderLen + length (Pixels f) \<le> maxImageBytes"
      using assms(1) Inr by (simp_all add: image_fits_def)
    let ?msg = "image_message f ctx stx"
    have "EncodeImageBytesInto (envSched env) (envProcs env)
        (getImageBuf (envPooled env) (ImageBytesHeaderLen + length (Pixels f))) f ctx stx = Some ?msg"
      using f(1) assms(2) by (rule EncodeImageBytesInto_eq) simp
    then show ?thesis
      using decode_image_message [OF f(1) assms(3)] f length_image_message [OF f(1), of ctx stx]
      by (simp add: Inr image_reply_def sent_def read image_outcome_def)
  qed
qed

lemma image_served:
  assumes "addresses c host" "clType c = CameraType" "lookup CameraType (clNumber c) s = Some d" "asCamera d = Some cam"
    and "dvConnected d w = (True, w1)" "cFlag cam CImageReady w1 = (ready, w2)" "image_answer cam ready w2 = (r, w3)"
  shows "\<exists>ctx stx. request_reply (serve env page pages relay) ImageBytesMIME ''GET'' ''imagearray'' [] (c, (s, w)) =
    (map_sum Transport id (reply_of (envRender env) page (image_reply env True r ctx stx)),
     (c\<lparr>clTx := clTx c + 1\<rparr>, (s\<lparr>svTx := svTx s + 1\<rparr>, w3)))"
proof -
  let ?p = "parseParams (sort_key fst (stamped_params c [])) False (svStrict s)"
  have m: "to_lower ''imagearray'' = ''imagearray''" "plain ''imagearray''" by (simp_all add: lower_literal plain_def)
  have a: "Contains (to_lower ImageBytesMIME) ImageBytesMIME" by code_simp
  have "handleImage env ImageBytesMIME d ?p (svTx s + 1) w1 =
      (image_reply env True r (clientTransactionID ?p) (svTx s + 1), w3)"
    using assms(4,6,7) by (cases ready) (simp_all add: handleImage_def ask_apply a image_answer_def)
  then have h: "handleGet env ImageBytesMIME (clType c) ''imagearray'' d ?p (svTx s + 1) w =
      (image_reply env True r (clientTransactionID ?p) (svTx s + 1), w3)"
    using assms(2,5) by (simp add: handleGet_def connection_gate_def connectionExemptMembers_def ask_apply dispatchGet_def)
  show ?thesis
    using request_served [OF assms(1) _ m(1) _ h, of page pages relay] assms(2,3) m by auto
qed

text \<open>C9: Downloading an image over the network is asking the driver for it.  \<open>ImageArray\<close> of a client, sent to a
  server that has the camera, asks the driver once and returns its frame with the same dimensions, element
  type and pixels in the same order, whatever the interleaving of the transposing goroutines on both sides;
  when there is no image yet, or the driver fails, the caller gets an error with the driver's number and
  message.\<close>

theorem remote_image:
  assumes "addresses c host" "clType c = CameraType" "lookup CameraType (clNumber c) s = Some d" "asCamera d = Some cam"
    and "dvConnected d w = (True, w1)" "cFlag cam CImageReady w1 = (ready, w2)" "image_answer cam ready w2 = (r, w3)"
    and "image_fits (envRender env) r" "\<And>ps. mset (envSched env ps) = mset ps" "\<And>ps. mset (sched ps) = mset ps"
  shows "ImageArray sched procs (serve env page pages relay) (c, (s, w)) =
    (image_outcome (envRender env) r, (c\<lparr>clTx := clTx c + 1\<rparr>, (s\<lparr>svTx := svTx s + 1\<rparr>, w3)))"
proof -
  obtain ctx stx where "request_reply (serve env page pages relay) ImageBytesMIME ''GET'' ''imagearray'' [] (c, (s, w)) =
    (map_sum Transport id (reply_of (envRender env) page (image_reply env True r ctx stx)),
     (c\<lparr>clTx := clTx c + 1\<rparr>, (s\<lparr>svTx := svTx s + 1\<rparr>, w3)))"
    using image_served [OF assms(1-7)] by blast
  then show ?thesis
    using image_reply_read [OF assms(8-10)]
    by (simp add: ImageArray_def getImageBytes_def attempt_def ask_apply)
qed

text \<open>The simulated camera after an exposure of one row of two pixels.\<close>

lemma exposed_fits:
  "\<exists>f. cam_ImageFrame (2 * 10 ^ 9) (dev (snd exposed_camera)) = Inr f \<and> wire_frame f \<and> length (Pixels f) < 100
    \<and> Width f = 2 \<and> Height f = 1"
  by (simp add: exposed_camera_def cam_ImageFrame_def image_buffer_eq wire_frame_def)

lemma camera_at_localhost:
  "addresses (newDevice ''localhost:11111'' CameraType 0 7) ''localhost:11111''" "clNumber (newDevice ''localhost:11111'' CameraType 0 7) = 0"
  "clType (newDevice ''localhost:11111'' CameraType 0 7) = CameraType"
  by (simp_all add: addresses_def newDevice_localhost plain_def in_i64_def)

lemma exposed_steps:
  "asCamera hostCamera = Some (lift_camera SimCamera)"
  "dvConnected hostCamera exposed_camera = (True, exposed_camera)"
  "cFlag (lift_camera SimCamera) CImageReady exposed_camera = (True, exposed_camera)"
  "cam_ImageFrame (2 * 10 ^ 9) (dev (snd exposed_camera)) = Inr f \<Longrightarrow>
     cImageFrame (lift_camera SimCamera) exposed_camera = (Inr f, exposed_camera)"
  by (simp_all add: hostCamera_def exposed_camera_def on_fst_apply lift_camera_def SimCamera_def on_snd_apply reading_def
      cam_ImageReady_def)

theorem remote_image_witness:
  "\<forall>cfg page pages relay. \<exists>f. fst (ImageArray rev 8 (serve quiet_env page pages relay)
      (newDevice ''localhost:11111'' CameraType 0 7, (one_server CameraType hostCamera cfg, exposed_camera))) = Inr f
    \<and> Width f = 2 \<and> Height f = 1"
proof (intro allI)
  fix cfg page pages relay
  let ?c = "newDevice ''localhost:11111'' CameraType 0 7" and ?s = "one_server CameraType hostCamera cfg"
  obtain f where f: "cam_ImageFrame (2 * 10 ^ 9) (dev (snd exposed_camera)) = Inr f" "wire_frame f" "length (Pixels f) < 100"
      "Width f = 2" "Height f = 1"
    using exposed_fits by blast
  have fr: "image_answer (lift_camera SimCamera) True exposed_camera = (Inr f, exposed_camera)"
    using exposed_steps(4) [OF f(1)] by (simp add: image_answer_def)
  have fits: "image_fits (envRender quiet_env) (Inr f)"
    using f(2,3) by (simp add: image_fits_def maxImageBytes_def ImageBytesHeaderLen_def)
  have sched: "mset (envSched quiet_env ps) = mset ps" "mset (rev ps) = mset ps" for ps by (simp_all add: quiet_env_def)
  have l: "lookup CameraType (clNumber ?c) ?s = Some hostCamera" by (simp add: camera_at_localhost)
  have "fst (ImageArray rev 8 (serve quiet_env page pages relay) (?c, (?s, exposed_camera))) = Inr (on_wire f)"
    using remote_image [OF camera_at_localhost(1,3) l exposed_steps(1-3) fr fits sched, of 8 page pages relay]
    by (simp add: image_outcome_def)
  then show "\<exists>f. fst (ImageArray rev 8 (serve quiet_env page pages relay) (?c, (?s, exposed_camera))) = Inr f
      \<and> Width f = 2 \<and> Height f = 1"
    using f(4,5) by (simp add: on_wire_def)
qed

section \<open>Streaming\<close>

lemma message_reply:
  assumes "wire_frame f" "\<And>ps. mset (envSched env ps) = mset ps"
  shows "image_reply env True (Inr f) ctx stx = ImageBody (image_message f ctx stx)"
proof -
  have "EncodeImageBytesInto (envSched env) (envProcs env)
      (getImageBuf (envPooled env) (ImageBytesHeaderLen + length (Pixels f))) f ctx stx = Some (image_message f ctx stx)"
    using assms by (rule EncodeImageBytesInto_eq) simp
  then show ?thesis by (simp add: image_reply_def sent_def)
qed

text \<open>Streaming an image over the network.  When the connection holds and the sink takes what it is given,
  \<open>ImageArrayInto\<close> succeeds; the sink is told the dimensions and the element type of the driver's frame,
  and the pieces it is then given are, one after another, the pixels of that frame column by column,
  however the network cuts them; \<open>Close\<close> is called once, at the end.\<close>

lemma remote_stream:
  assumes "addresses c host" "clType c = CameraType" "lookup CameraType (clNumber c) s = Some d" "asCamera d = Some cam"
    and "dvConnected d w = (True, w1)" "cFlag cam CImageReady w1 = (True, w2)" "cImageFrame cam w2 = (Inr f, w3)"
    and "\<not> clNoStream c" "wire_frame f" "\<And>ps. mset (envSched env ps) = mset ps"
    and "accepts sink" "faithful cuts" "\<And>n bs. snd (cuts n bs) = None"
  shows "\<exists>h ws k'. ImageArrayInto cuts (serve env page pages relay) (logged sink) ((c, (s, w)), (k, [])) =
      (Inr (), ((c\<lparr>clTx := clTx c + 1\<rparr>, (s\<lparr>svTx := svTx s + 1\<rparr>, w3)),
        (k', HeaderCall h # map WriteCall ws @ [CloseCall])))
    \<and> concat ws = wire_pixels f \<and> hRank h = Rank f \<and> hWidth h = Width f \<and> hHeight h = Height f \<and> hPlanes h = Planes f
    \<and> Transmit h = transmit_type (TransmissionElementType f) (ElementType f)"
proof -
  have a: "image_answer cam True w2 = (Inr f, w3)" using assms(7) by (simp add: image_answer_def)
  obtain ctx stx where q: "request_reply (serve env page pages relay) ImageBytesMIME ''GET'' ''imagearray'' [] (c, (s, w)) =
    (Inr \<lparr>rpStatus = 200, rpType = ImageBytesMIME, rpBody = bytes_text (image_message f ctx stx)\<rparr>,
     (c\<lparr>clTx := clTx c + 1\<rparr>, (s\<lparr>svTx := svTx s + 1\<rparr>, w3)))"
    using image_served [OF assms(1-6) a, of env page pages relay]
    by (auto simp: message_reply [OF assms(9,10)] reply_of_def)
  obtain h where h: "ParseImageBytesHeader (take ImageBytesHeaderLen (image_message f ctx stx)) = Inr h" "hErrorNumber h = 0"
    "hDataStart h = 44" "hRank h = Rank f" "hWidth h = Width f" "hHeight h = Height f" "hPlanes h = Planes f"
    "Transmit h = transmit_type (TransmissionElementType f) (ElementType f)"
    using image_message_parsed [OF assms(9)] .
  obtain ws k' where r: "receive_image cuts (logged sink) (image_message f ctx stx) (k, []) =
      (Inr (), (k', HeaderCall h # map WriteCall ws @ [CloseCall]))" "concat ws = wire_pixels f"
    using receive_message_accepts [OF assms(11-13,9) h(1-3)] by blast
  have t: "Contains ImageBytesMIME ImageBytesMIME" by code_simp
  have "ImageArrayInto cuts (serve env page pages relay) (logged sink) ((c, (s, w)), (k, [])) =
      (Inr (), ((c\<lparr>clTx := clTx c + 1\<rparr>, (s\<lparr>svTx := svTx s + 1\<rparr>, w3)),
        (k', HeaderCall h # map WriteCall ws @ [CloseCall])))"
    using assms(8) r(1)
    by (simp add: ImageArrayInto_def getImageStream_def ask_apply on_fst_apply on_snd_apply q remember_refusal_def cannot_stream_def
        receive_def t)
  then show ?thesis using r(2) h by blast
qed

text \<open>A sink that keeps what it is given.\<close>

definition collector :: "bytes sink" where
  "collector = \<lparr>skHeader = \<lambda>_. ret None, skWrite = \<lambda>p bs. ((int (length p), None), bs @ p), skClose = ret None, skChunk = None\<rparr>"

lemma remote_stream_witness:
  "\<forall>cfg page pages relay. \<exists>h ws cw k. ImageArrayInto halves (serve quiet_env page pages relay) (logged collector)
      ((newDevice ''localhost:11111'' CameraType 0 7, (one_server CameraType hostCamera cfg, exposed_camera)), ([], []))
      = (Inr (), (cw, (k, HeaderCall h # map WriteCall ws @ [CloseCall]))) \<and> hWidth h = 2 \<and> hHeight h = 1"
proof (intro allI)
  fix cfg page pages relay
  let ?c = "newDevice ''localhost:11111'' CameraType 0 7" and ?s = "one_server CameraType hostCamera cfg"
  obtain f where f: "cam_ImageFrame (2 * 10 ^ 9) (dev (snd exposed_camera)) = Inr f" "wire_frame f" "Width f = 2" "Height f = 1"
    using exposed_fits by blast
  have sched: "mset (envSched quiet_env ps) = mset ps" for ps by (simp add: quiet_env_def)
  have l: "lookup CameraType (clNumber ?c) ?s = Some hostCamera" by (simp add: camera_at_localhost)
  have ns: "\<not> clNoStream ?c" by (simp add: newDevice_def)
  have acc: "accepts collector" by (simp add: accepts_def collector_def)
  have whole: "snd (halves n bs) = None" for n bs by (simp add: halves_def Let_def)
  show "\<exists>h ws cw k. ImageArrayInto halves (serve quiet_env page pages relay) (logged collector) ((?c, (?s, exposed_camera)), ([], []))
      = (Inr (), (cw, (k, HeaderCall h # map WriteCall ws @ [CloseCall]))) \<and> hWidth h = 2 \<and> hHeight h = 1"
    using remote_stream [OF camera_at_localhost(1,3) l exposed_steps(1-3) exposed_steps(4) [OF f(1)] ns f(2) sched acc
        faithful_halves whole, of page pages relay "[]"] f(3,4) by metis
qed

end
