(* ===== verification/Image_Fallback.thy ===== *)
theory Image_Fallback
  imports Client_Image
begin

text \<open>
  The JSON transport of an image, from the text the server streams to the frame the client builds of it.
\<close>

section \<open>Writing every element\<close>

lemma blocks:
  assumes "\<forall>b \<in> set bs. length b = es"
  shows "take (j * es) (concat bs) = concat (take j bs)" "drop (j * es) (concat bs) = concat (drop j bs)"
proof -
  have "take (j * es) (concat bs) = concat (take j bs) \<and> drop (j * es) (concat bs) = concat (drop j bs)"
    using assms
  proof (induction j arbitrary: bs)
    case (Suc j)
    then show ?case by (cases bs) auto
  qed simp
  then show "take (j * es) (concat bs) = concat (take j bs)" "drop (j * es) (concat bs) = concat (drop j bs)" by simp_all
qed

lemma put_element_concat:
  assumes "\<forall>b \<in> set bs. length b = es" "k < length bs"
  shows "put_element es k e (concat bs) = concat (bs[k := e])"
proof -
  note t = blocks [OF assms(1)]
  have "drop (k * es + es) (concat bs) = concat (drop (Suc k) bs)" using t(2) [of "Suc k"] by (simp add: add.commute)
  then show ?thesis using assms(2) t(1) [of k] by (simp add: put_element_def upd_conv_take_nth_drop)
qed

lemma put_elements_concat:
  assumes "\<forall>b \<in> set bs. length b = es" "\<And>v. length (enc v) = es" "\<forall>k \<in> set ks. k < length bs"
  shows "put_elements es enc (map (\<lambda>k. (k, g k)) ks) (concat bs) = concat (fold (\<lambda>k bs. bs[k := enc (g k)]) ks bs)"
  using assms(1,3)
proof (induction ks arbitrary: bs)
  case (Cons k ks)
  have "\<forall>b \<in> set (bs[k := enc (g k)]). length b = es"
    using Cons.prems(1) assms(2) set_update_subset_insert by fastforce
  then show ?case
    using Cons.IH [of "bs[k := enc (g k)]"] Cons.prems
    by (simp add: put_elements_def put_element_concat)
qed (simp add: put_elements_def)

lemma fold_updates:
  "length (fold (\<lambda>k bs. bs[k := f k]) ks bs) = length bs"
  "j < length bs \<Longrightarrow> fold (\<lambda>k bs. bs[k := f k]) ks bs ! j = (if j \<in> set ks then f j else bs ! j)"
  by (induction ks arbitrary: bs) (auto simp: nth_list_update)

lemma put_elements_all:
  assumes "\<And>v. length (enc v) = es" "set ks = {0 ..< n}"
  shows "put_elements es enc (map (\<lambda>k. (k, g k)) ks) (replicate (n * es) 0) = concat (map (\<lambda>k. enc (g k)) [0 ..< n])"
proof -
  have r: "replicate (n * es) 0 = concat (replicate n (replicate es (0 :: 8 word)))"
    by (induction n) (simp_all add: replicate_add)
  have "put_elements es enc (map (\<lambda>k. (k, g k)) ks) (replicate (n * es) 0) =
      concat (fold (\<lambda>k bs. bs[k := enc (g k)]) ks (replicate n (replicate es 0)))"
    unfolding r by (rule put_elements_concat) (auto simp: assms)
  also have "fold (\<lambda>k bs. bs[k := enc (g k)]) ks (replicate n (replicate es 0)) = map (\<lambda>k. enc (g k)) [0 ..< n]"
    by (rule nth_equalityI) (simp_all add: fold_updates assms(2))
  finally show ?thesis .
qed

lemma enumerate_map: "enumerate 0 (map f [0 ..< n]) = map (\<lambda>i. (i, f i)) [0 ..< n]"
  by (rule nth_equalityI) (simp_all add: nth_enumerate_eq)

definition plane_order :: "nat \<Rightarrow> nat \<Rightarrow> nat list" where
  "plane_order w h = concat (map (\<lambda>x. map (\<lambda>y. y * w + x) [0 ..< h]) [0 ..< w])"

definition planes_order :: "nat \<Rightarrow> nat \<Rightarrow> nat \<Rightarrow> nat list" where
  "planes_order w h n = concat (map (\<lambda>x. concat (map (\<lambda>y. map (\<lambda>p. (x * h + y) * n + p) [0 ..< n]) [0 ..< h])) [0 ..< w])"

lemma set_order:
  "set (plane_order w h) = {y * w + x | x y. x < w \<and> y < h}"
  "set (planes_order w h n) = {(x * h + y) * n + p | x y p. x < w \<and> y < h \<and> p < n}"
  unfolding plane_order_def planes_order_def set_concat set_map set_upt image_image
  by (simp only: set_eq_iff UN_iff image_iff Bex_def atLeastLessThan_iff mem_Collect_eq le0 simp_thms, blast)+

lemma set_plane_order: "set (plane_order w h) = {0 ..< w * h}"
proof (intro equalityI subsetI)
  fix k assume "k \<in> {0 ..< w * h}"
  then have k: "k < w * h" by simp
  then have "0 < w" by (cases w) auto
  then have "k mod w < w" "k div w < h" "k = k div w * w + k mod w"
    using k by (auto simp: less_mult_imp_div_less mult.commute)
  then show "k \<in> set (plane_order w h)" unfolding set_order by blast
next
  fix k assume "k \<in> set (plane_order w h)"
  then obtain x y where "x < w" "y < h" "k = y * w + x" unfolding set_order by blast
  then show "k \<in> {0 ..< w * h}" using grid_pos_less [of x w y h] by (simp add: mult.commute)
qed

lemma set_planes_order: "set (planes_order w h n) = {0 ..< w * h * n}"
proof (intro equalityI subsetI)
  fix k assume "k \<in> {0 ..< w * h * n}"
  then have k: "k < w * h * n" by simp
  then have pos: "0 < n" "0 < h" by (auto intro!: gr0I)
  have a: "k div n < w * h" using k by (simp add: less_mult_imp_div_less)
  then have "k div n div h < w" by (simp add: less_mult_imp_div_less)
  moreover have "k = (k div n div h * h + k div n mod h) * n + k mod n" by simp
  moreover have "k mod n < n" "k div n mod h < h" using pos by simp_all
  ultimately show "k \<in> set (planes_order w h n)" unfolding set_order by blast
next
  fix k assume "k \<in> set (planes_order w h n)"
  then obtain x y p where k: "x < w" "y < h" "p < n" "k = (x * h + y) * n + p" unfolding set_order by blast
  have "x * h + y < w * h" using grid_pos_less [of y h x w] k(1,2) by (simp add: mult.commute)
  then show "k \<in> {0 ..< w * h * n}" using grid_pos_less [of p n "x * h + y" "w * h"] k(3,4) by (simp add: mult.commute)
qed

lemma plane_writes_map:
  "plane_writes w (map (\<lambda>x. map (\<lambda>y. g (y * w + x)) [0 ..< h]) [0 ..< w]) = map (\<lambda>k. (k, g k)) (plane_order w h)"
  by (simp add: plane_writes_def plane_order_def enumerate_map map_concat comp_def)

lemma planes_writes_map:
  "planes_writes h n (map (\<lambda>x. map (\<lambda>y. map (\<lambda>p. g ((x * h + y) * n + p)) [0 ..< n]) [0 ..< h]) [0 ..< w])
    = map (\<lambda>k. (k, g k)) (planes_order w h n)"
  by (simp add: planes_writes_def planes_order_def enumerate_map map_concat comp_def)

section \<open>Numbers\<close>

lemma ParseFloat_Itoa:
  assumes "\<bar>n\<bar> < 2 ^ 63"
  shows "ParseFloat (Itoa n) = Some (Fin (of_int n))"
proof -
  let ?m = "nat \<bar>n\<bar>" and ?neg = "n < 0"
  have t: "Itoa n = sign_text ?neg @ show_nat ?m" by (simp add: Itoa_def sign_text_def)
  obtain c cs where c: "show_nat ?m = c # cs" by (metis list.exhaust show_nat_nonempty)
  have ds: "digit_string (show_nat ?m)" "show_nat ?m \<noteq> []" by simp_all
  then have dc: "digit_of c \<noteq> None" using c by (simp add: digit_string_def)
  have low: "to_lower (Itoa n) \<notin> {''inf'', ''infinity'', ''+inf'', ''+infinity'', ''-inf'', ''-infinity'', ''nan''}"
    using dc to_lower_digit [OF dc, of cs]
    by (auto simp: t c sign_text_def digit_of_def Let_def to_lower_def split: if_splits)
  have "signed (Itoa n) = (sign_of ?neg, show_nat ?m)" using signed_text [OF ds, of ?neg "[]"] by (simp add: t)
  then have "read_decimal (Itoa n) = Some (scale10 (sign_of ?neg * int ?m) 0)"
    by (simp add: read_decimal_def read_exponent_def digits_show)
  moreover have "sign_of ?neg * int ?m = n" by (simp add: sign_of_def)
  ultimately have "read_decimal (Itoa n) = Some (of_int n)" by (simp only: scale10_def) simp
  moreover have "\<bar>of_int n :: rat\<bar> < 2 ^ 1024 - 2 ^ 970"
  proof -
    have "\<bar>of_int n :: rat\<bar> = of_int \<bar>n\<bar>" by simp
    also have "\<dots> < of_int (2 ^ 63)" using assms by (simp only: of_int_less_iff)
    also have "\<dots> < (2 ^ 1024 - 2 ^ 970 :: rat)" by simp
    finally show ?thesis .
  qed
  ultimately show ?thesis using low by (simp add: ParseFloat_def Let_def)
qed

text \<open>The pixels of the integer types that fit 32 bits.\<close>

definition pixel_int :: "ImageElementType \<Rightarrow> nat \<Rightarrow> int" where
  "pixel_int t n =
     (if t = ImgInt16 then sint (of_nat n :: 16 word)
      else if t = ImgInt32 then sint (of_nat n :: 32 word) else int n)"

definition int_pixels :: "ImageElementType set" where
  "int_pixels = {ImgInt16, ImgByte, ImgUInt16, ImgInt32}"

definition pixel_value :: "ImageElementType \<Rightarrow> bytes \<Rightarrow> nat \<Rightarrow> int" where
  "pixel_value t pix k = pixel_int t (le_nat (element (ElementSize t) pix k))"

lemma le_nat_less: "le_nat bs < 256 ^ length bs"
proof (induction bs)
  case (Cons b bs)
  have "unat b < 256" using unsigned_less [of b] by simp
  then show ?case using Cons by simp
qed simp

lemma pixel_text_int: "t \<in> int_pixels \<Longrightarrow> pixel_text sf t n = Itoa (pixel_int t n)"
  by (auto simp: int_pixels_def pixel_text_def pixel_int_def img_defs)

lemma pixel_value_range:
  assumes "t \<in> int_pixels"
  shows "- (2 ^ 31) \<le> pixel_value t pix k" "pixel_value t pix k < 2 ^ 31"
    "t \<in> {ImgInt16, ImgByte} \<Longrightarrow> - (2 ^ 15) \<le> pixel_value t pix k \<and> pixel_value t pix k < 2 ^ 15"
proof -
  have b: "le_nat (element (ElementSize t) pix k) < 256 ^ length (element (ElementSize t) pix k)" by (rule le_nat_less)
  also have "\<dots> \<le> 256 ^ ElementSize t" by (intro power_increasing) (simp_all add: element_def)
  finally have b: "le_nat (element (ElementSize t) pix k) < 256 ^ ElementSize t" .
  note s16 = sint_ge [of "of_nat (le_nat (element (ElementSize t) pix k)) :: 16 word"] sint_lt [of "of_nat (le_nat (element (ElementSize t) pix k)) :: 16 word"]
  note s32 = sint_ge [of "of_nat (le_nat (element (ElementSize t) pix k)) :: 32 word"] sint_lt [of "of_nat (le_nat (element (ElementSize t) pix k)) :: 32 word"]
  show "- (2 ^ 31) \<le> pixel_value t pix k" "pixel_value t pix k < 2 ^ 31"
    "t \<in> {ImgInt16, ImgByte} \<Longrightarrow> - (2 ^ 15) \<le> pixel_value t pix k \<and> pixel_value t pix k < 2 ^ 15"
    using assms b s16 s32 by (auto simp: int_pixels_def pixel_value_def pixel_int_def ElementSize_def img_defs)
qed

text \<open>What the client writes for a number reads back as that number.\<close>

lemma le_nat_bytes: "n < 256 ^ k \<Longrightarrow> le_nat (le_bytes_of k n) = n"
proof (induction k arbitrary: n)
  case (Suc k)
  have "unat (of_nat n :: 8 word) = n mod 256" by (simp add: unat_of_nat)
  moreover have "n div 256 < 256 ^ k" using Suc.prems by (simp add: less_mult_imp_div_less mult.commute)
  ultimately show ?case using Suc.IH by simp
qed simp

lemma length_le_bytes_of [simp]: "length (le_bytes_of k n) = k"
  by (induction k arbitrary: n) simp_all

definition array_pixel :: "ImageElementType \<Rightarrow> ImageElementType \<Rightarrow> bool" where
  "array_pixel e t \<longleftrightarrow> t \<in> int_pixels \<and> (e = ImgInt16 \<and> t \<in> {ImgInt16, ImgByte} \<or> e = ImgInt32)"

lemma element_bytes_value:
  assumes "array_pixel e t"
  shows "pixel_int e (le_nat (element_bytes e (Fin (of_int (pixel_value t pix k))))) = pixel_value t pix k"
proof -
  let ?v = "pixel_value t pix k"
  have r: "- (2 ^ 31) \<le> ?v" "?v < 2 ^ 31" using pixel_value_range assms by (auto simp: array_pixel_def)
  have tr: "rat_trunc (of_int ?v) = ?v" by (simp add: rat_trunc_def)
  have i: "int32_of_f64 (Fin (of_int ?v)) = ?v" using r by (simp add: tr)
  show ?thesis
  proof (cases "e = ImgInt16")
    case True
    then have r: "- (2 ^ 15) \<le> ?v" "?v < 2 ^ 15" using pixel_value_range(3) assms by (auto simp: array_pixel_def img_defs)
    have "unat (word_of_int ?v :: 16 word) < 256 ^ 2" using unsigned_less [of "word_of_int ?v :: 16 word"] by simp
    then show ?thesis using True r i
      by (simp add: element_bytes_def le_nat_bytes pixel_int_def signed_of_int signed_take_bit_int_eq_self)
  next
    case False
    then have e: "e = ImgInt32" using assms by (simp add: array_pixel_def)
    have "unat (word_of_int ?v :: 32 word) < 256 ^ 4" using unsigned_less [of "word_of_int ?v :: 32 word"] by simp
    then show ?thesis using e r i
      by (simp add: element_bytes_def le_nat_bytes pixel_int_def signed_of_int signed_take_bit_int_eq_self img_defs)
  qed
qed

section \<open>The text is that of a JSON value\<close>

definition plane_json :: "nat \<Rightarrow> nat \<Rightarrow> (nat \<Rightarrow> int) \<Rightarrow> json list" where
  "plane_json w h g = map (\<lambda>x. JArr (map (\<lambda>y. json_int (g (y * w + x))) [0 ..< h])) [0 ..< w]"

definition planes_json :: "nat \<Rightarrow> nat \<Rightarrow> nat \<Rightarrow> (nat \<Rightarrow> int) \<Rightarrow> json list" where
  "planes_json w h n g = map (\<lambda>x. JArr (map (\<lambda>y. JArr (map (\<lambda>p. json_int (g ((x * h + y) * n + p))) [0 ..< n])) [0 ..< h])) [0 ..< w]"

definition image_array :: "ImageFrame \<Rightarrow> ImageElementType \<Rightarrow> json list" where
  "image_array f t = (let w = nat (Width f); h = nat (Height f); g = pixel_value t (Pixels f) in
     if Rank f = 2 then plane_json w h g else planes_json w h (nat (Planes f)) g)"

definition image_json :: "ImageFrame \<Rightarrow> ImageElementType \<Rightarrow> 32 word \<Rightarrow> 32 word \<Rightarrow> json" where
  "image_json f t ctx stx = JObj [(''Type'', json_int (jsonImageType (ElementType f))), (''Rank'', json_int (Rank f)),
     (''Value'', JArr (image_array f t)), (''ClientTransactionID'', json_int (uint ctx)),
     (''ServerTransactionID'', json_int (uint stx)), (''ErrorNumber'', json_int 0), (''ErrorMessage'', JStr [])]"

lemma commas_join: "commas xs = join '','' xs"
  by (induction xs rule: commas.induct) simp_all

lemma image_array_text:
  assumes "frame_ok f t" "wire_frame f" "t = transmit_type (TransmissionElementType f) (ElementType f)" "t \<in> int_pixels"
    and "in_i64 (Width f * Height f * frame_planes f * int (ElementSize t))"
  shows "value_text sf f t (nat (frame_planes f)) = Some (join '','' (map json_text (image_array f t)))"
proof (cases "Rank f = 2")
  case True
  let ?w = "nat (Width f)" and ?h = "nat (Height f)"
  note sz = frame_size [OF assms(1,5)]
  have pl: "frame_planes f = 1" using True by (simp add: frame_planes_def)
  have len: "length (Pixels f) = ?h * ?w * ElementSize t" using sz(1) pl by simp
  have "transposes (Rank f) (Width f) (Height f) (ElementSize t) (length (Pixels f))"
    using assms(1) True pl by (auto simp: transposes_def frame_ok_def Let_def)
  then have wp: "wire_pixels f = transpose_ref ?h ?w (ElementSize t) (Pixels f)" by (simp add: wire_pixels_def assms(3) Let_def)
  have e: "element (ElementSize t) (wire_pixels f) (x * ?h + y) = element (ElementSize t) (Pixels f) (y * ?w + x)"
    if "x < ?w" "y < ?h" for x y
    unfolding wp by (rule element_transposed [OF that len sz(2)])
  have grid: "map (\<lambda>x. json_list (map (\<lambda>y. pixel_text sf t (le_nat (element (ElementSize t) (wire_pixels f) (x * ?h + y))))
      [0 ..< ?h])) [0 ..< ?w]
    = map (\<lambda>x. json_list (map (\<lambda>y. Itoa (pixel_value t (Pixels f) (y * ?w + x))) [0 ..< ?h])) [0 ..< ?w]"
    by (intro map_cong arg_cong [where f = json_list] refl) (simp add: e pixel_text_int [OF assms(4)] pixel_value_def)
  have "value_text sf f t 1 = Some (commas (map (\<lambda>x. json_list (map (\<lambda>y. Itoa (pixel_value t (Pixels f) (y * ?w + x)))
      [0 ..< ?h])) [0 ..< ?w]))"
    using value_text_plane [OF assms(1,2) True assms(3), of sf] by (simp only: grid)
  then show ?thesis
    using True by (simp add: pl image_array_def plane_json_def Let_def commas_join json_list_def json_int_def comp_def)
next
  case False
  have r: "Rank f = 3" using frame_size(6) [OF assms(1,5)] False by simp
  then have pl: "frame_planes f = Planes f" by (simp add: frame_planes_def)
  show ?thesis
    using value_text_planes [OF assms(1) assms(5) [unfolded pl] r, of sf] False
    by (simp add: pl image_array_def planes_json_def Let_def commas_join json_list_def json_int_def comp_def pixel_value_def
        pixel_text_int [OF assms(4)])
qed

lemma Itoa_zero: "Itoa 0 = ''0''"
  by (simp add: Itoa_def show_nat.simps [of 0] digit_def char_of_def bit_iff_odd)

lemma image_json_text:
  "json_text (image_json f t ctx stx) = image_prefix f @ join '','' (map json_text (image_array f t)) @ image_suffix ctx stx"
  by (simp add: image_json_def image_prefix_def image_suffix_def json_int_def Itoa_zero quote_def byte_def
      ascii_text_def Let_def dquote_def)

text \<open>What the client reads.\<close>

lemma ranked_fields:
  "in_i64 n \<Longrightarrow> envelope_field True ''type'' (json_int n) r = Some (r\<lparr>evType := n\<rparr>)"
  "in_i64 n \<Longrightarrow> envelope_field True ''rank'' (json_int n) r = Some (r\<lparr>evRank := n\<rparr>)"
  by (simp_all add: envelope_field_def set_field_def json_int_def Atoi_Itoa)

lemma image_array_ok: "list_all json_ok (image_array f t)" "map json_valid (image_array f t) = image_array f t"
  by (simp_all add: image_array_def plane_json_def planes_json_def Let_def list_all_iff json_int_ok)

lemma image_json_decodes:
  assumes "in_i64 (Rank f)"
  shows "decode_envelope True (json_text (image_json f t ctx stx)) = Some (no_envelope\<lparr>evValue := Some (JArr (image_array f t)),
     evClientTx := ctx, evServerTx := stx, evType := jsonImageType (ElementType f), evRank := Rank f\<rparr>)"
proof -
  have ok: "json_ok (image_json f t ctx stx)" by (simp add: image_json_def json_int_ok image_array_ok)
  have i: "in_i64 (jsonImageType (ElementType f))" "in_i64 0" by (simp_all add: jsonImageType_def in_i64_def)
  have "unmarshal (json_text (image_json f t ctx stx)) = Some (json_valid (image_json f t ctx stx))"
    using unmarshal_text [OF ok, of "[]"] by (simp add: skip_ws_def)
  then show ?thesis using assms i
    by (simp add: decode_envelope_def image_json_def json_int_ok image_array_ok valid_names envelope_names envelope_fields
        ranked_fields no_envelope_def to_valid.simps(1))
qed

lemma decode_grid:
  assumes "\<And>k. \<bar>g k\<bar> < 2 ^ 63"
  shows "decode_list (decode_list decode_float) (JArr (plane_json w h g)) =
      Some (map (\<lambda>x. map (\<lambda>y. Fin (of_int (g (y * w + x)))) [0 ..< h]) [0 ..< w])"
    "decode_list (decode_list (decode_list decode_float)) (JArr (planes_json w h n g)) =
      Some (map (\<lambda>x. map (\<lambda>y. map (\<lambda>p. Fin (of_int (g ((x * h + y) * n + p)))) [0 ..< n]) [0 ..< h]) [0 ..< w])"
proof -
  have m: "those (map (f \<circ> a) ks) = Some (map b ks)" if "\<And>k. f (a k) = Some (b k)" for f a b and ks :: "nat list"
    using that by (induction ks) simp_all
  have n: "decode_float (json_int (g k)) = Some (Fin (of_int (g k)))" for k
    using ParseFloat_Itoa [OF assms] by (simp add: json_int_def)
  have l: "decode_list decode_float (JArr (map (\<lambda>y. json_int (g (i y))) [0 ..< h])) = Some (map (\<lambda>y. Fin (of_int (g (i y)))) [0 ..< h])"
    for i h using m [of decode_float, OF n] by (simp add: comp_def)
  show "decode_list (decode_list decode_float) (JArr (plane_json w h g)) =
      Some (map (\<lambda>x. map (\<lambda>y. Fin (of_int (g (y * w + x)))) [0 ..< h]) [0 ..< w])"
    using m [of "decode_list decode_float", OF l] by (simp add: plane_json_def comp_def)
  have l2: "decode_list (decode_list decode_float) (JArr (map (\<lambda>y. JArr (map (\<lambda>p. json_int (g (i y p))) [0 ..< n])) [0 ..< h]))
      = Some (map (\<lambda>y. map (\<lambda>p. Fin (of_int (g (i y p)))) [0 ..< n]) [0 ..< h])" for i
    using m [of "decode_list decode_float", OF l] by (simp add: comp_def)
  show "decode_list (decode_list (decode_list decode_float)) (JArr (planes_json w h n g)) =
      Some (map (\<lambda>x. map (\<lambda>y. map (\<lambda>p. Fin (of_int (g ((x * h + y) * n + p)))) [0 ..< n]) [0 ..< h]) [0 ..< w])"
    using m [of "decode_list (decode_list decode_float)", OF l2] by (simp add: planes_json_def comp_def)
qed

section \<open>The frame the client builds\<close>

lemma element_concat:
  assumes "\<And>k. length (b k) = es" "k < n"
  shows "element es (concat (map b [0 ..< n])) k = b k"
proof -
  have "\<forall>x \<in> set (map b [0 ..< n]). length x = es" using assms(1) by auto
  note bl = blocks [OF this]
  have "drop k (map b [0 ..< n]) = b k # drop (Suc k) (map b [0 ..< n])" using assms(2) by (simp add: Cons_nth_drop_Suc [symmetric])
  then show ?thesis using bl(2) [of k] assms(1) by (simp add: element_def)
qed

definition built :: "ImageElementType \<Rightarrow> nat \<Rightarrow> (nat \<Rightarrow> int) \<Rightarrow> bytes" where
  "built e n g = concat (map (\<lambda>k. element_bytes e (Fin (of_int (g k)))) [0 ..< n])"

lemma built_pixels:
  assumes "array_pixel e t"
  shows "length (built e n (pixel_value t pix)) = n * ElementSize e"
    "k < n \<Longrightarrow> pixel_value e (built e n (pixel_value t pix)) k = pixel_value t pix k"
proof -
  have len: "length (element_bytes e v) = ElementSize e" for v
    using assms by (auto simp: element_bytes_def array_pixel_def ElementSize_def img_defs)
  show "length (built e n (pixel_value t pix)) = n * ElementSize e"
    by (induction n) (simp_all add: built_def len)
  show "pixel_value e (built e n (pixel_value t pix)) k = pixel_value t pix k" if "k < n"
  proof -
    have "element (ElementSize e) (built e n (pixel_value t pix)) k = element_bytes e (Fin (of_int (pixel_value t pix k)))"
      unfolding built_def by (rule element_concat [OF len that])
    then show ?thesis unfolding pixel_value_def [of e] by (simp only: element_bytes_value [OF assms])
  qed
qed

lemma decode_plane_built:
  assumes "\<And>k. \<bar>g k\<bar> < 2 ^ 63" "0 < w" "0 < h" "e \<in> {ImgInt16, ImgInt32}" "es = ElementSize e"
  shows "decode_plane (JArr (plane_json w h g)) e es = Inr \<lparr>Rank = 2, Width = int w, Height = int h, Planes = 0, ElementType = e,
     TransmissionElementType = e, Pixels = built e (w * h) g\<rparr>"
proof -
  let ?F = "\<lambda>k. Fin (of_int (g k))"
  let ?v = "map (\<lambda>x. map (\<lambda>y. ?F (y * w + x)) [0 ..< h]) [0 ..< w]"
  obtain c cs where v: "?v = c # cs" using assms(2) by (cases ?v) auto
  have r: "length col = h" if "col \<in> set (c # cs)" for col using that unfolding v [symmetric] by auto
  then have c: "length c = h" by simp
  have len: "length (element_bytes e x) = es" for x
    using assms(4,5) by (auto simp: element_bytes_def ElementSize_def img_defs)
  have p: "put_elements es (element_bytes e) (plane_writes w (c # cs)) (replicate (w * h * es) 0) = built e (w * h) g"
    unfolding v [symmetric] plane_writes_map [where g = ?F] built_def
    by (rule put_elements_all [OF len set_plane_order])
  have "length (c # cs) = w" unfolding v [symmetric] by simp
  then show ?thesis
    using r p c assms(3) by (simp add: decode_plane_def decode_grid(1) [OF assms(1)] v Let_def del: decode_list.simps)
qed

lemma decode_planes_built:
  assumes "\<And>k. \<bar>g k\<bar> < 2 ^ 63" "0 < w" "0 < h" "0 < n" "e \<in> {ImgInt16, ImgInt32}" "es = ElementSize e"
  shows "decode_planes (JArr (planes_json w h n g)) e es = Inr \<lparr>Rank = 3, Width = int w, Height = int h, Planes = int n,
     ElementType = e, TransmissionElementType = e, Pixels = built e (w * h * n) g\<rparr>"
proof -
  let ?F = "\<lambda>k. Fin (of_int (g k))"
  let ?v = "map (\<lambda>x. map (\<lambda>y. map (\<lambda>p. ?F ((x * h + y) * n + p)) [0 ..< n]) [0 ..< h]) [0 ..< w]"
  obtain col cols where v: "?v = col # cols" using assms(2) by (cases ?v) auto
  have r: "length c = h \<and> (\<forall>s \<in> set c. length s = n)" if "c \<in> set (col # cols)" for c
    using that unfolding v [symmetric] by auto
  then obtain s ss where c: "col = s # ss" using assms(3) by (cases col) auto
  have len: "length (element_bytes e x) = es" for x
    using assms(5,6) by (auto simp: element_bytes_def ElementSize_def img_defs)
  have p: "put_elements es (element_bytes e) (planes_writes h n (col # cols)) (replicate (w * h * n * es) 0) = built e (w * h * n) g"
    unfolding v [symmetric] planes_writes_map [where g = ?F] built_def
    by (rule put_elements_all [OF len set_planes_order])
  have "length (col # cols) = w" unfolding v [symmetric] by simp
  moreover have "length col = h" "length s = n" using r [of col] c by auto
  moreover have "\<not> (\<exists>c \<in> set (col # cols). length c \<noteq> h \<or> (\<exists>s \<in> set c. length s \<noteq> n))" using r by blast
  ultimately show ?thesis
    using p assms(4) unfolding c
    by (simp add: decode_planes_def decode_grid(2) [OF assms(1)] v c Let_def del: decode_list.simps)
qed

lemma image_array_decodes:
  assumes "frame_ok f t" "in_i64 (Width f * Height f * frame_planes f * int (ElementSize t))"
    and "array_pixel e t" "array_type ty = (e, es)"
  shows "decodeImageArrayJSON (JArr (image_array f t)) ty (Rank f) = Inr \<lparr>Rank = Rank f, Width = Width f, Height = Height f,
     Planes = (if Rank f = 2 then 0 else Planes f), ElementType = e, TransmissionElementType = e,
     Pixels = built e (nat (Width f) * nat (Height f) * nat (frame_planes f)) (pixel_value t (Pixels f))\<rparr>"
proof -
  note sz = frame_size [OF assms(1,2)]
  have e: "e \<in> {ImgInt16, ImgInt32}" "es = ElementSize e"
    using assms(3,4) by (auto simp: array_pixel_def array_type_def ElementSize_def img_defs split: if_splits)
  have small: "\<bar>pixel_value t (Pixels f) k\<bar> < 2 ^ 63" for k
    using pixel_value_range(1,2) [of t "Pixels f" k] assms(3) by (simp add: array_pixel_def abs_less_iff)
  show ?thesis
  proof (cases "Rank f = 2")
    case True
    then show ?thesis
      using decode_plane_built [OF small _ _ e, of "nat (Width f)" "nat (Height f)"] sz(3,4)
      by (simp add: decodeImageArrayJSON_def assms(4) image_array_def frame_planes_def Let_def)
  next
    case False
    then have "Rank f = 3" using sz(6) by simp
    then show ?thesis
      using decode_planes_built [OF small _ _ _ e, of "nat (Width f)" "nat (Height f)" "nat (Planes f)"] sz(3-5)
      by (simp add: decodeImageArrayJSON_def assms(4) image_array_def frame_planes_def Let_def)
  qed
qed

text \<open>C13: The JSON fallback carries the image.  A server may ignore the request for ImageBytes and answer with the
  JSON array.  For every well-formed frame of 16 or 32-bit integers or bytes, the client reads the text that
  the server's loops write for it as a frame of the same shape, in the same layout, in which every pixel has
  the number it had in the driver's frame.\<close>

theorem json_fallback:
  assumes "wire_frame f" "frame_ok f t" "t = transmit_type (TransmissionElementType f) (ElementType f)"
    and "in_i64 (Width f * Height f * frame_planes f * int (ElementSize t))"
    and "array_pixel e t" "array_type (jsonImageType (ElementType f)) = (e, es)"
    and "writeImageArrayJSON sf f ctx stx = JsonText body" "length body \<le> maxImageBytes"
  shows "\<exists>pix. read_image sched procs \<lparr>rpStatus = 200, rpType = JSONType, rpBody = body\<rparr> =
      Inr \<lparr>Rank = Rank f, Width = Width f, Height = Height f, Planes = (if Rank f = 2 then 0 else Planes f),
        ElementType = e, TransmissionElementType = e, Pixels = pix\<rparr>
    \<and> length pix = nat (Width f) * nat (Height f) * nat (frame_planes f) * ElementSize e
    \<and> (\<forall>k < nat (Width f) * nat (Height f) * nat (frame_planes f). pixel_value e pix k = pixel_value t (Pixels f) k)"
proof -
  have t: "t \<in> int_pixels" using assms(5) by (simp add: array_pixel_def)
  have body: "body = json_text (image_json f t ctx stx)"
    using assms(2,7) image_array_text [OF assms(2,1,3) t assms(4), of sf]
    by (simp add: writeImageArrayJSON_def assms(3) [symmetric] image_json_text)
  have r: "in_i64 (Rank f)" using frame_size(6) [OF assms(2,4)] by (auto simp: in_i64_def)
  have c: "\<not> Contains JSONType ImageBytesMIME" by code_simp
  have "read_image sched procs \<lparr>rpStatus = 200, rpType = JSONType, rpBody = body\<rparr> =
      decodeImageArrayJSON (JArr (image_array f t)) (jsonImageType (ElementType f)) (Rank f)"
    using assms(8) c
    by (simp add: read_image_def and_then_def read_reply_def readCapped_def read_json_image_def body image_json_decodes [OF r]
        no_envelope_def)
  then show ?thesis
    using image_array_decodes [OF assms(2,4,5,6)] built_pixels [OF assms(5), where pix = "Pixels f"]
    by simp
qed

lemma small_body: "case writeImageArrayJSON (\<lambda>_ _. []) small_frame 7 9 of JsonText b \<Rightarrow> length b < 300 | _ \<Rightarrow> False"
  by code_simp

theorem json_fallback_witness:
  "\<exists>body pix. writeImageArrayJSON (\<lambda>_ _. []) small_frame 7 9 = JsonText body
    \<and> read_image id 1 \<lparr>rpStatus = 200, rpType = JSONType, rpBody = body\<rparr> =
      Inr \<lparr>Rank = 2, Width = 3, Height = 2, Planes = 0, ElementType = ImgInt32, TransmissionElementType = ImgInt32, Pixels = pix\<rparr>
    \<and> length pix = 24 \<and> pixel_value ImgInt32 pix 4 = 5"
proof -
  obtain body where body: "writeImageArrayJSON (\<lambda>_ _. []) small_frame 7 9 = JsonText body" "length body \<le> maxImageBytes"
    using small_body by (auto simp: maxImageBytes_def split: response.splits)
  have wf: "wire_frame small_frame" by (simp add: wire_frame_def small_frame_def)
  have t: "ImgByte = transmit_type (TransmissionElementType small_frame) (ElementType small_frame)"
    by (simp add: small_frame_def transmit_type_def img_defs)
  have ok: "frame_ok small_frame ImgByte" "in_i64 (Width small_frame * Height small_frame * frame_planes small_frame * int (ElementSize ImgByte))"
    by (simp_all add: frame_ok_def small_frame_def ElementSize_def img_defs frame_planes_def in_i64_def wrap64_def Let_def)
  have a: "array_pixel ImgInt32 ImgByte" "array_type (jsonImageType (ElementType small_frame)) = (ImgInt32, 4)"
    by (simp_all add: array_pixel_def int_pixels_def array_type_def jsonImageType_def small_frame_def img_defs)
  have v: "pixel_value ImgByte (Pixels small_frame) 4 = 5" "ElementSize ImgInt32 = 4"
    by (simp_all add: pixel_value_def pixel_int_def element_def small_frame_def ElementSize_def img_defs)
  show ?thesis
    using json_fallback [OF wf ok(1) t ok(2) a body, of id 1] body(1) v
    by (force simp: small_frame_def frame_planes_def)
qed

end
