(* ===== verification/Inet.thy ===== *)
theory Inet
  imports Address JSON
begin

text \<open>
  Internet addresses as the package \<open>net\<close> of Go has them.  An \<open>ip\<close> is the 16-byte form of a \<open>net.IP\<close>, in which
  an IPv4 address is the IPv6 address that stands for it: two of them are equal when \<open>IP.Equal\<close> says so.
\<close>

type_synonym ip = "8 word list"

definition v4_prefix :: ip where "v4_prefix = [0, 0, 0, 0, 0, 0, 0, 0, 0, 0, 0xFF, 0xFF]"

definition To4 :: "ip \<Rightarrow> 8 word list option" where
  "To4 a = (if take 12 a = v4_prefix then Some (drop 12 a) else None)"

definition of_v4 :: "8 word list \<Rightarrow> ip" where "of_v4 bs = v4_prefix @ bs"

definition IPv4bcast :: ip where "IPv4bcast = of_v4 [255, 255, 255, 255]"

definition IsUnspecified :: "ip \<Rightarrow> bool" where
  "IsUnspecified a \<longleftrightarrow> a = of_v4 [0, 0, 0, 0] \<or> list_all (\<lambda>b. b = 0) a"

definition IsLoopback :: "ip \<Rightarrow> bool" where
  "IsLoopback a = (case To4 a of Some bs \<Rightarrow> hd bs = 127 | None \<Rightarrow> a = replicate 15 0 @ [1])"

definition IsMulticast :: "ip \<Rightarrow> bool" where
  "IsMulticast a = (case To4 a of Some bs \<Rightarrow> unat (hd bs) div 16 = 14 | None \<Rightarrow> hd a = 255)"

section \<open>Texts\<close>

text \<open>\<open>parseIPv4Fields\<close>: four decimal numbers up to 255 without leading zeros.\<close>

definition parse_octet :: "string \<Rightarrow> 8 word option" where
  "parse_octet s = (if length s > 1 \<and> hd s = CHR ''0'' then None
     else (case digits s of None \<Rightarrow> None | Some n \<Rightarrow> if n \<le> 255 then Some (of_nat n) else None))"

definition parse_v4 :: "string \<Rightarrow> 8 word list option" where
  "parse_v4 s = (case split_on CHR ''.'' s of
     [a, b, c, d] \<Rightarrow> those (map parse_octet [a, b, c, d])
   | _ \<Rightarrow> None)"

text \<open>The hexadecimal digits of a group of up to four, and the number they stand for.\<close>

definition hex_value :: "string \<Rightarrow> nat" where
  "hex_value s = fold (\<lambda>c n. 16 * n + the (unhex c)) s 0"

definition group_bytes :: "nat \<Rightarrow> 8 word list" where
  "group_bytes n = [of_nat (n div 256), of_nat n]"

text \<open>The loop of \<open>parseIPv6\<close> with the bytes so far and the place of the ellipsis.\<close>

fun parse_groups :: "nat \<Rightarrow> 8 word list \<Rightarrow> nat option \<Rightarrow> string \<Rightarrow> (8 word list \<times> nat option) option" where
  "parse_groups 0 done gap s = (if s = [] then Some (done, gap) else None)"
| "parse_groups (Suc k) done gap s =
     (let g = takeWhile (\<lambda>c. unhex c \<noteq> None) s; rest = drop (length g) s in
      if g = [] \<or> length g > 4 then None
      else if rest \<noteq> [] \<and> hd rest = CHR ''.''
      then (if gap = None \<and> length done \<noteq> 12 \<or> length done > 12 then None
        else map_option (\<lambda>bs. (done @ bs, gap)) (parse_v4 s))
      else let done = done @ group_bytes (hex_value g) in
        (case rest of
           [] \<Rightarrow> Some (done, gap)
         | [c] \<Rightarrow> None
         | c # d # s' \<Rightarrow>
             if c \<noteq> CHR '':'' then None
             else if d \<noteq> CHR '':'' then parse_groups k done gap (d # s')
             else if gap \<noteq> None then None
             else if s' = [] then Some (done, Some (length done))
             else parse_groups k done (Some (length done)) s'))"

definition expand_gap :: "8 word list \<times> nat option \<Rightarrow> ip option" where
  "expand_gap r = (case r of
     (bs, None) \<Rightarrow> if length bs = 16 then Some bs else None
   | (bs, Some i) \<Rightarrow> if length bs < 16 then Some (take i bs @ replicate (16 - length bs) 0 @ drop i bs) else None)"

definition parse_v6 :: "string \<Rightarrow> ip option" where
  "parse_v6 s =
     (if take 2 s = ''::''
      then (if length s = 2 then Some (replicate 16 0)
        else Option.bind (parse_groups 8 [] (Some 0) (drop 2 s)) expand_gap)
      else Option.bind (parse_groups 8 [] None s) expand_gap)"

text \<open>An address with a zone is refused.\<close>

definition ParseIP :: "string \<Rightarrow> ip option" where
  "ParseIP s = (case filter (\<lambda>c. c \<in> {CHR ''.'', CHR '':'', CHR ''%''}) s of
     c # _ \<Rightarrow>
       (if c = CHR ''.'' then map_option of_v4 (parse_v4 s)
        else if c = CHR '':'' \<and> CHR ''%'' \<notin> set s then parse_v6 s else None)
   | [] \<Rightarrow> None)"

definition v4_text :: "8 word list \<Rightarrow> string" where
  "v4_text bs = join ''.'' (map (\<lambda>b. show_nat (unat b)) bs)"

fun groups_of :: "8 word list \<Rightarrow> nat list" where
  "groups_of (a # b # bs) = (256 * unat a + unat b) # groups_of bs"
| "groups_of _ = []"

definition hex_text :: "nat \<Rightarrow> string" where
  "hex_text n = map lower_hex
     (if n < 16 then [n] else if n < 256 then [n div 16, n mod 16]
      else if n < 4096 then [n div 256, n div 16 mod 16, n mod 16]
      else [n div 4096, n div 256 mod 16, n div 16 mod 16, n mod 16])"

text \<open>The first longest run of at least two groups that are zero.\<close>

definition zero_run :: "nat list \<Rightarrow> nat \<Rightarrow> nat" where
  "zero_run gs i = length (takeWhile (\<lambda>g. g = 0) (drop i gs))"

definition longest_run :: "nat list \<Rightarrow> (nat \<times> nat) option" where
  "longest_run gs = fold (\<lambda>i best. let l = zero_run gs i in
     if l \<ge> 2 \<and> (case best of None \<Rightarrow> True | Some (_, m) \<Rightarrow> l > m) then Some (i, l) else best) [0 ..< length gs] None"

definition v6_text :: "ip \<Rightarrow> string" where
  "v6_text a = (let gs = groups_of a; show_groups = (\<lambda>gs. join '':'' (map hex_text gs)) in
     case longest_run gs of
       None \<Rightarrow> show_groups gs
     | Some (i, l) \<Rightarrow> show_groups (take i gs) @ ''::'' @ show_groups (drop (i + l) gs))"

definition ip_text :: "ip \<Rightarrow> string" where
  "ip_text a = (case To4 a of Some bs \<Rightarrow> v4_text bs | None \<Rightarrow> v6_text a)"

end
