(* ===== verification/Discovery.thy ===== *)
theory Discovery
  imports Router Client Inet
begin

text \<open>
  Discovery on the side of a server: \<open>server/discovery.go\<close> and \<open>server/discovery_relay.go\<close>.

  Sockets are arguments: a responder is what it answers to a datagram, and a sent datagram is a call of the
  parameter \<open>udp\<close>, whose result is the error of the socket.  The clock is read once per request.
\<close>

section \<open>Configuration\<close>

datatype DiscoveryMode = DiscoveryRegister | DiscoveryDirect | DiscoveryOff

record discovery_config =
  dcMode :: DiscoveryMode
  dcServerAddr :: string
  dcInstance :: string

definition advertisedPort :: "'w server \<Rightarrow> int" where
  "advertisedPort s = (if svBoundPort s \<noteq> 0 then svBoundPort s else svAlpacaPort s)"

definition reachableAddress :: "'w server \<Rightarrow> string" where
  "reachableAddress s = (case svHosts s of
     [host] \<Rightarrow> (case ParseIP host of
         None \<Rightarrow> []
       | Some a \<Rightarrow> if IsUnspecified a then [] else ip_text a)
   | _ \<Rightarrow> [])"

section \<open>Probes\<close>

definition discoveryProbe :: string where "discoveryProbe = ''alpacadiscovery''"

definition directResponse :: "int \<Rightarrow> string" where
  "directResponse port = json_text (JObj [(''AlpacaPort'', json_int port)])"

text \<open>\<open>strings.ToLower\<close>, as far as a prefix of letters can tell: two letters outside ASCII have their lower
  case in it.\<close>

definition dotted_I :: string where "dotted_I = map char_of [196 :: nat, 176]"

function lower_text :: "string \<Rightarrow> string" where
  "lower_text [] = []"
| "lower_text (c # cs) =
     (if take 2 (c # cs) = dotted_I then CHR ''i'' # lower_text (drop 1 cs)
      else if take 3 (c # cs) = kelvin then CHR ''k'' # lower_text (drop 2 cs)
      else ascii_lower c # lower_text cs)"
  by pat_completeness auto
termination by (relation "measure length") auto

text \<open>\<open>serveDiscovery\<close>: what is sent back to the source of a datagram; the buffer has 1024 bytes.\<close>

definition serveDiscovery :: "int \<Rightarrow> string \<Rightarrow> string option" where
  "serveDiscovery port pkt =
     (if HasPrefix (lower_text (take 1024 pkt)) discoveryProbe then Some (directResponse port) else None)"

section \<open>Heartbeats\<close>

record heartbeat =
  hbPort :: int
  hbUniqueID :: string
  hbType :: string
  hbName :: string
  hbInstance :: string
  hbAddress :: string

definition omit_empty :: "string \<Rightarrow> string \<Rightarrow> (string \<times> json) list" where
  "omit_empty name v = (if v = [] then [] else [(name, JStr v)])"

definition heartbeat_json :: "heartbeat \<Rightarrow> json" where
  "heartbeat_json h = JObj ([(''AlpacaPort'', json_int (hbPort h)), (''UniqueID'', JStr (hbUniqueID h)),
     (''DeviceType'', JStr (hbType h)), (''DeviceName'', JStr (hbName h))]
     @ omit_empty ''Instance'' (hbInstance h) @ omit_empty ''Address'' (hbAddress h))"

fun heartbeats :: "discovery_config \<Rightarrow> int \<Rightarrow> string \<Rightarrow> 'w registered list \<Rightarrow> ('w, heartbeat list) act" where
  "heartbeats dc port addr [] = ret []"
| "heartbeats dc port addr (r # rs) = ask (dvText (rgDev r) UniqueID) (\<lambda>uid. ask (dvText (rgDev r) DevName) (\<lambda>name.
     ask (heartbeats dc port addr rs) (\<lambda>hs. ret (\<lparr>hbPort = port, hbUniqueID = uid, hbType = segment (fst (rgKey r)),
       hbName = name, hbInstance = dcInstance dc, hbAddress = addr\<rparr> # hs))))"

text \<open>The datagrams of one round, in registration order.\<close>

definition sendHeartbeats :: "discovery_config \<Rightarrow> ('w, string list) sact" where
  "sendHeartbeats dc = ask (server_get id) (\<lambda>s.
     on_snd (ask (heartbeats dc (advertisedPort s) (reachableAddress s) (map (svRegs s) (svOrder s)))
       (\<lambda>hs. ret (map (json_text \<circ> heartbeat_json) hs))))"

section \<open>The rate of relayed replies\<close>

text \<open>A bucket of tokens; \<open>None\<close> is the zero time.\<close>

record rateGate =
  tbTokens :: rat
  tbLast :: "time option"

definition relayBurst :: rat where "relayBurst = 20"
definition relayRate :: rat where "relayRate = 5"

definition rate_take :: "time \<Rightarrow> rateGate \<Rightarrow> bool \<times> rateGate" where
  "rate_take now g =
     (let tokens = (case tbLast g of
          None \<Rightarrow> relayBurst
        | Some t \<Rightarrow> min relayBurst (tbTokens g + secs now t * relayRate))
      in if tokens < 1 then (False, \<lparr>tbTokens = tokens, tbLast = Some now\<rparr>)
         else (True, \<lparr>tbTokens = tokens - 1, tbLast = Some now\<rparr>))"

section \<open>The relay endpoint\<close>

definition isUnicastTarget :: "ip \<Rightarrow> bool" where
  "isUnicastTarget a \<longleftrightarrow> \<not> (IsUnspecified a \<or> IsMulticast a \<or> a = IPv4bcast)"

definition relayCallerAllowed :: "ip option \<Rightarrow> string \<Rightarrow> bool" where
  "relayCallerAllowed peer remote = (case peer of
     None \<Rightarrow> False
   | Some peer \<Rightarrow> (case SplitHostPort remote of
       None \<Rightarrow> False
     | Some (host, _) \<Rightarrow> (case ParseIP host of
         None \<Rightarrow> False
       | Some caller \<Rightarrow> IsLoopback peer \<and> IsLoopback caller \<or> caller = peer)))"

text \<open>\<open>json.Decoder\<close>: the first value of the body.\<close>

definition decode_first :: "string \<Rightarrow> json option" where
  "decode_first s = map_option fst (parse_value (2 * length s + 2) s)"

record ReplyTarget =
  rtIP :: string
  rtPort :: int

definition target_field :: "string \<Rightarrow> json \<Rightarrow> ReplyTarget \<Rightarrow> ReplyTarget option" where
  "target_field k j r =
     (if k = ''ip'' then set_field decode_string (\<lambda>x. rtIP_update (\<lambda>_. x)) j r
      else if k = ''port'' then set_field decode_int (\<lambda>x. rtPort_update (\<lambda>_. x)) j r else Some r)"

definition decode_target :: "string \<Rightarrow> ReplyTarget option" where
  "decode_target body = Option.bind (decode_first (take 1024 body)) (decode_struct target_field \<lparr>rtIP = [], rtPort = 0\<rparr>)"

record relay_request =
  rrMethod :: string
  rrRemote :: string
  rrBody :: string

record relay =
  rlConfig :: discovery_config
  rlPort :: int
  rlPeer :: "ip option"
  rlGate :: rateGate

datatype relay_reply = NoContent | Refusal nat string

type_synonym 'w udp = "ip \<Rightarrow> int \<Rightarrow> string \<Rightarrow> ('w, goerror option) act"

definition relay_target :: "'w udp \<Rightarrow> int \<Rightarrow> string \<Rightarrow> ('w, relay_reply) act" where
  "relay_target udp port body = (case decode_target body of
     None \<Rightarrow> ret (Refusal 400 ''body must be JSON'')
   | Some t \<Rightarrow> (case ParseIP (rtIP t) of
       None \<Rightarrow> ret (Refusal 400 ''target must be a unicast IP and a port in 1..65535'')
     | Some a \<Rightarrow>
         if \<not> isUnicastTarget a \<or> rtPort t < 1 \<or> rtPort t > 65535
         then ret (Refusal 400 ''target must be a unicast IP and a port in 1..65535'')
         else ask (udp a (rtPort t) (directResponse port)) (\<lambda>e. ret (case e of
             Some _ \<Rightarrow> Refusal 502 ''send failed'' | None \<Rightarrow> NoContent))))"

definition handleDiscoveryReply :: "'w udp \<Rightarrow> time \<Rightarrow> relay_request \<Rightarrow> (relay \<times> 'w, relay_reply) act" where
  "handleDiscoveryReply udp now r = ask (on_fst (field id)) (\<lambda>s.
     if dcMode (rlConfig s) \<noteq> DiscoveryRegister then ret (Refusal 404 ''404 page not found'')
     else if rrMethod r \<noteq> ''POST'' then ret (Refusal 405 ''method not allowed'')
     else if \<not> relayCallerAllowed (rlPeer s) (rrRemote r)
     then ret (Refusal 403 ''discovery reply requests are accepted from the registered discovery server only'')
     else ask (on_fst (\<lambda>s. let (ok, g) = rate_take now (rlGate s) in (ok, s\<lparr>rlGate := g\<rparr>))) (\<lambda>ok.
       if \<not> ok then ret (Refusal 429 ''too many discovery reply requests'')
       else on_snd (relay_target udp (rlPort s) (rrBody r))))"

end
