(* ===== verification/Discovery_Spec.thy ===== *)
theory Discovery_Spec
  imports Discovery Client_Replies
begin

text \<open>
  The relay endpoint cannot be used to flood a network: what it sends, to whom, and how often.
\<close>

declare to_valid.simps [simp del] fold_name.simps [simp del]

section \<open>The bucket\<close>

text \<open>An upper bound on the requests admitted up to \<open>t\<close>, none of them before \<open>t0\<close>.\<close>

definition budget :: "rateGate \<Rightarrow> time \<Rightarrow> time \<Rightarrow> rat" where
  "budget g t0 t = (case tbLast g of
     None \<Rightarrow> relayBurst + relayRate * of_int (t - t0) / 1000000000
   | Some u \<Rightarrow> tbTokens g + relayRate * of_int (t - u) / 1000000000)"

definition gate_ok :: "rateGate \<Rightarrow> time \<Rightarrow> bool" where
  "gate_ok g t0 \<longleftrightarrow> (case tbLast g of None \<Rightarrow> True | Some u \<Rightarrow> 0 \<le> tbTokens g \<and> u \<le> t0)"

lemma secs_at_most: "secs t u \<le> of_int (t - u) / 1000000000" if "u \<le> t"
proof -
  have "time_sub t u \<le> t - u" using that by (simp add: time_sub_def)
  then have "(of_int (time_sub t u) :: rat) \<le> of_int (t - u)" by (simp only: of_int_le_iff)
  then show ?thesis unfolding secs_def by (rule divide_right_mono) simp
qed

lemma rate_take_step:
  assumes "gate_ok g t0" "t0 \<le> t" "rate_take t g = (ok, g')"
  shows "gate_ok g' t" "of_nat (if ok then 1 else 0) + budget g' t T \<le> budget g t0 T"
proof -
  define tokens where "tokens = (case tbLast g of None \<Rightarrow> relayBurst
      | Some t' \<Rightarrow> min relayBurst (tbTokens g + secs t t' * relayRate))"
  have r: "ok = (\<not> tokens < 1)" "g' = \<lparr>tbTokens = (if ok then tokens - 1 else tokens), tbLast = Some t\<rparr>"
    using assms(3) by (auto simp: rate_take_def tokens_def Let_def split: if_splits option.splits)
  have pos: "0 \<le> tokens"
    using assms(1,2) secs_nonneg [of _ t]
    by (auto simp: tokens_def gate_ok_def relayBurst_def relayRate_def split: option.splits)
  then show "gate_ok g' t" by (auto simp: gate_ok_def r)
  have "tokens + relayRate * of_int (T - t) / 1000000000 \<le> budget g t0 T"
  proof (cases "tbLast g")
    case None
    have "of_int (T - t) \<le> (of_int (T - t0) :: rat)" using assms(2) by simp
    then show ?thesis using None by (simp add: tokens_def budget_def relayRate_def)
  next
    case (Some u)
    then have "secs t u \<le> of_int (t - u) / 1000000000" using assms(1,2) by (intro secs_at_most) (simp add: gate_ok_def)
    moreover have "tokens \<le> tbTokens g + secs t u * relayRate" using Some by (simp add: tokens_def)
    ultimately have "tokens \<le> tbTokens g + 5 * (of_int (t - u) / 1000000000)" unfolding relayRate_def by linarith
    then show ?thesis using Some by (simp add: budget_def relayRate_def field_simps)
  qed
  then show "of_nat (if ok then 1 else 0) + budget g' t T \<le> budget g t0 T"
    by (simp add: budget_def r)
qed

section \<open>Runs of the endpoint\<close>

fun relay_run :: "'w udp \<Rightarrow> (time \<times> relay_request) list \<Rightarrow> (relay \<times> 'w, unit) act" where
  "relay_run udp [] = ret ()"
| "relay_run udp ((t, r) # rs) = ask (handleDiscoveryReply udp t r) (\<lambda>_. relay_run udp rs)"

text \<open>A socket with a record of the datagrams sent.\<close>

type_synonym 'w recorded_world = "'w \<times> (ip \<times> int \<times> string) list"

definition recording :: "'w udp \<Rightarrow> 'w recorded_world udp" where
  "recording udp a p m = (\<lambda>(w, ds0). case udp a p m w of (e, w') \<Rightarrow> (e, (w', ds0 @ [(a, p, m)])))"

definition reply_sent :: "int \<Rightarrow> ip \<times> int \<times> string \<Rightarrow> bool" where
  "reply_sent port d \<longleftrightarrow> (case d of (a, p, m) \<Rightarrow> isUnicastTarget a \<and> 1 \<le> p \<and> p \<le> 65535 \<and> m = directResponse port)"

definition admitted :: "relay \<Rightarrow> relay_request \<Rightarrow> bool" where
  "admitted s r \<longleftrightarrow> dcMode (rlConfig s) = DiscoveryRegister \<and> rrMethod r = ''POST'' \<and> relayCallerAllowed (rlPeer s) (rrRemote r)"

lemma relay_target_sends:
  "relay_target (recording udp) port body (w, ds0) = (x, (w', ds')) \<Longrightarrow>
    \<exists>ds. ds' = ds0 @ ds \<and> length ds \<le> 1 \<and> list_all (reply_sent port) ds"
  by (auto simp: relay_target_def ask_apply recording_def reply_sent_def split: option.splits if_splits prod.splits)

lemma handle_step:
  assumes "handleDiscoveryReply (recording udp) t r (s, (w, ds0)) = (x, (s', (w', ds')))"
    and "gate_ok (rlGate s) t0" "t0 \<le> t"
  shows "\<exists>ds g. s' = s\<lparr>rlGate := g\<rparr> \<and> ds' = ds0 @ ds \<and> list_all (reply_sent (rlPort s)) ds \<and> gate_ok g t
    \<and> length ds \<le> (if admitted s r then 1 else 0) \<and> of_nat (length ds) + budget g t T \<le> budget (rlGate s) t0 T"
proof (cases "admitted s r")
  case False
  then have "s' = s" "ds' = ds0"
    using assms(1) by (auto simp: handleDiscoveryReply_def ask_apply on_fst_apply field_def admitted_def split: if_splits)
  moreover have "gate_ok (rlGate s) t" "budget (rlGate s) t T \<le> budget (rlGate s) t0 T"
    using assms(2,3) by (auto simp: gate_ok_def budget_def relayRate_def split: option.splits)
  ultimately show ?thesis by (intro exI [of _ "[]"] exI [of _ "rlGate s"]) simp
next
  case True
  obtain ok g where g: "rate_take t (rlGate s) = (ok, g)" by (rule prod.exhaust)
  note st = rate_take_step(1) [OF assms(2,3) g] rate_take_step(2) [OF assms(2,3) g, of T]
  show ?thesis
  proof (cases ok)
    case False
    then have "s' = s\<lparr>rlGate := g\<rparr>" "ds' = ds0"
      using assms(1) True g by (auto simp: handleDiscoveryReply_def ask_apply on_fst_apply field_def admitted_def)
    then show ?thesis using st False by (intro exI [of _ "[]"] exI [of _ g]) simp
  next
    case ok: True
    then have s: "s' = s\<lparr>rlGate := g\<rparr>"
      and t: "relay_target (recording udp) (rlPort s) (rrBody r) (w, ds0) = (x, (w', ds'))"
      using assms(1) True g
      by (cases "relay_target (recording udp) (rlPort s) (rrBody r) (w, ds0)";
        auto simp: handleDiscoveryReply_def ask_apply on_fst_apply on_snd_apply field_def admitted_def split: prod.splits)+
    obtain ds where ds: "ds' = ds0 @ ds" "length ds \<le> 1" "list_all (reply_sent (rlPort s)) ds"
      using relay_target_sends [OF t] by blast
    have "of_nat (length ds) \<le> (1 :: rat)" using ds(2) by simp
    then show ?thesis using st ds s ok True by (intro exI [of _ ds] exI [of _ g]) auto
  qed
qed

lemma relay_run_step:
  assumes "relay_run (recording udp) rs (s, (w, ds0)) = (x, (s', (w', ds')))" "gate_ok (rlGate s) t0"
    "sorted (t0 # map fst rs)" "\<forall>t \<in> set (map fst rs). t \<le> T" "t0 \<le> T"
  shows "\<exists>ds. ds' = ds0 @ ds \<and> list_all (reply_sent (rlPort s)) ds \<and> length ds \<le> length (filter (admitted s \<circ> snd) rs)
    \<and> of_nat (length ds) \<le> budget (rlGate s) t0 T"
  using assms
proof (induction rs arbitrary: s w ds0 t0)
  case Nil
  then have "0 \<le> budget (rlGate s) t0 T"
    by (auto simp: budget_def gate_ok_def relayBurst_def relayRate_def split: option.splits)
  then show ?case using Nil by simp
next
  case (Cons tr rs)
  obtain t r where tr: "tr = (t, r)" by (rule prod.exhaust)
  obtain y s1 w1 ds1 where h: "handleDiscoveryReply (recording udp) t r (s, (w, ds0)) = (y, (s1, (w1, ds1)))"
    by (metis prod.exhaust)
  have run: "relay_run (recording udp) rs (s1, (w1, ds1)) = (x, (s', (w', ds')))"
    using Cons.prems(1) h by (simp add: tr ask_apply)
  have t: "t0 \<le> t" "t \<le> T" using Cons.prems(3,4) by (auto simp: tr)
  obtain ds g where st: "s1 = s\<lparr>rlGate := g\<rparr>" "ds1 = ds0 @ ds" "list_all (reply_sent (rlPort s)) ds" "gate_ok g t"
      "length ds \<le> (if admitted s r then 1 else 0)" "of_nat (length ds) + budget g t T \<le> budget (rlGate s) t0 T"
    using handle_step [OF h Cons.prems(2) t(1)] by blast
  have "gate_ok (rlGate s1) t" "sorted (t # map fst rs)" "\<forall>t \<in> set (map fst rs). t \<le> T"
    using st(1,4) Cons.prems(3,4) by (auto simp: tr)
  from Cons.IH [OF run this t(2)] obtain ds2 where "ds' = ds1 @ ds2" "list_all (reply_sent (rlPort s1)) ds2"
      "length ds2 \<le> length (filter (admitted s1 \<circ> snd) rs)" "of_nat (length ds2) \<le> budget (rlGate s1) t T" by blast
  moreover have "admitted s1 = admitted s" by (simp add: st(1) admitted_def fun_eq_iff)
  ultimately show ?case using st by (intro exI [of _ "ds @ ds2"]) (auto simp: tr comp_def)
qed

text \<open>C14: The relay cannot flood a network.  Whatever requests arrive, from anyone and with any bodies, the server
  sends at most 20 replies plus 5 for every second that passes; every one answers a POST of the discovery
  server it registered with, goes to a unicast address and a valid port, and is the standard reply with
  the server's own port.  A server that is not in Register mode, or has registered nowhere, sends none.\<close>

theorem relay_bounded:
  assumes "relay_run (recording udp) rs (s, (w, [])) = (x, (s', (w', ds)))"
    and "sorted (map fst rs)" "rs \<noteq> []" "tbLast (rlGate s) = None"
  shows "of_nat (length ds) \<le> 20 + 5 * of_int (fst (last rs) - fst (hd rs)) / (1000000000 :: rat)
    \<and> length ds \<le> length (filter (admitted s \<circ> snd) rs) \<and> list_all (reply_sent (rlPort s)) ds"
proof -
  let ?t0 = "fst (hd rs)" and ?T = "fst (last rs)"
  have g: "gate_ok (rlGate s) ?t0" by (simp add: gate_ok_def assms(4))
  have srt: "sorted (?t0 # map fst rs)" using assms(2,3) by (cases rs) auto
  have lst: "map fst rs = map fst (butlast rs) @ [?T]" using assms(3) by (metis append_butlast_last_id list.simps(8,9) map_append)
  then have "sorted (map fst (butlast rs) @ [?T])" using assms(2) by simp
  then have T: "\<forall>t \<in> set (map fst rs). t \<le> ?T" by (subst lst) (auto simp: sorted_append)
  moreover have "?t0 \<le> ?T" using T assms(3) by (simp add: hd_in_set)
  ultimately show ?thesis
    using relay_run_step [OF assms(1) g srt] by (auto simp: budget_def assms(4) relayBurst_def relayRate_def)
qed

section \<open>Addresses\<close>

lemma digit_chars: "c \<in> set (show_nat n) \<Longrightarrow> c \<notin> {CHR ''.'', CHR '':'', CHR ''%''}"
proof -
  assume c: "c \<in> set (show_nat n)"
  have "digit_string (show_nat n)" by simp
  then have "digit_of c \<noteq> None" using c by (auto simp: digit_string_def)
  then show ?thesis by (auto simp: digit_of_def Let_def split: if_splits)
qed

lemma parse_octet_show: "parse_octet (show_nat (unat (b :: 8 word))) = Some b"
proof -
  have "unat b < 256" using unsigned_less [of b] by simp
  then have n: "unat b \<le> 255" by simp
  have "\<not> (length (show_nat (unat b)) > 1 \<and> hd (show_nat (unat b)) = CHR ''0'')"
    using int_literal_show [of "unat b"] by (auto simp: int_literal_def)
  then show ?thesis using n unfolding parse_octet_def by (simp add: digits_show)
qed

lemma v4_text_parts:
  "v4_text [a, b, c, d] = show_nat (unat a) @ CHR ''.'' # show_nat (unat b) @ CHR ''.'' # show_nat (unat c) @ CHR ''.'' # show_nat (unat d)"
  by (simp add: v4_text_def)

lemma parse_v4_text: "parse_v4 (v4_text [a, b, c, d]) = Some [a, b, c, d]"
proof -
  have n: "CHR ''.'' \<notin> set (show_nat n)" for n using digit_chars [of "CHR ''.''" n] by auto
  have "split_on CHR ''.'' (v4_text [a, b, c, d]) = [show_nat (unat a), show_nat (unat b), show_nat (unat c), show_nat (unat d)]"
    unfolding v4_text_parts by (simp only: split_on_append [OF n] split_on_no [OF n])
  then show ?thesis by (simp add: parse_v4_def parse_octet_show)
qed

text \<open>The text of an IPv4 address reads back as that address.\<close>

lemma ParseIP_v4:
  assumes "length bs = 4"
  shows "ParseIP (ip_text (of_v4 bs)) = Some (of_v4 bs)"
proof -
  obtain a b c d where bs: "bs = [a, b, c, d]" using assms by (auto simp: numeral_eq_Suc length_Suc_conv)
  have f: "filter (\<lambda>c. c \<in> {CHR ''.'', CHR '':'', CHR ''%''}) (show_nat n) = []" for n
    using digit_chars by (auto simp: filter_empty_conv)
  have "To4 (of_v4 bs) = Some bs" by (simp add: To4_def of_v4_def v4_prefix_def)
  then have t: "ip_text (of_v4 bs) = v4_text [a, b, c, d]" by (simp add: ip_text_def bs)
  have "\<exists>r. filter (\<lambda>c. c \<in> {CHR ''.'', CHR '':'', CHR ''%''}) (v4_text [a, b, c, d]) = CHR ''.'' # r"
    unfolding v4_text_parts filter_append f by simp
  then show ?thesis unfolding t ParseIP_def by (auto simp: parse_v4_text bs)
qed

section \<open>Instances\<close>

definition registered_relay :: relay where
  "registered_relay = \<lparr>rlConfig = \<lparr>dcMode = DiscoveryRegister, dcServerAddr = ''10.0.0.1:32227'', dcInstance = []\<rparr>,
     rlPort = 11111, rlPeer = Some (of_v4 [10, 0, 0, 1]), rlGate = \<lparr>tbTokens = 0, tbLast = None\<rparr>\<rparr>"

definition relay_post :: relay_request where
  "relay_post = \<lparr>rrMethod = ''POST'', rrRemote = ''10.0.0.1:5000'',
     rrBody = json_text (JObj [(''ip'', JStr ''10.0.0.7''), (''port'', JNum ''4000'')])\<rparr>"

lemma decode_first_text: "json_ok j \<Longrightarrow> decode_first (json_text j) = Some (json_valid j)"
  using parses_text [of j] unfolding parses_def decode_first_def
  by (metis (no_types, lifting) append_Nil2 num_end_delims(4) le_add1 option.simps(9) fst_conv)

lemma target_names:
  "to_valid ''ip'' = ''ip''" "to_valid ''port'' = ''port''" "fold_name ''ip'' = ''ip''" "fold_name ''port'' = ''port''"
  by (rule to_valid_ascii, simp add: byte_def)+ (subst fold_name_ascii, simp add: byte_def, simp add: lower_literal)+

lemma decode_target_json:
  assumes "to_valid a = a" "in_i64 port" "length (json_text (JObj [(''ip'', JStr a), (''port'', json_int port)])) \<le> 1024"
  shows "decode_target (json_text (JObj [(''ip'', JStr a), (''port'', json_int port)])) = Some \<lparr>rtIP = a, rtPort = port\<rparr>"
proof -
  let ?j = "JObj [(''ip'', JStr a), (''port'', json_int port)]"
  have "decode_first (json_text ?j) = Some (json_valid ?j)" by (rule decode_first_text) (simp add: json_int_ok)
  moreover have "take 1024 (json_text ?j) = json_text ?j" using assms(3) by (rule take_all)
  moreover have "decode_int (json_int port) = Some port" "json_int port \<noteq> JNull"
    using assms(2) by (simp_all add: json_int_def Atoi_Itoa)
  ultimately show ?thesis
    using assms(1) by (simp add: decode_target_def target_field_def set_field_def json_int_ok target_names del: json_text.simps)
qed

lemma relay_post_target: "decode_target (rrBody relay_post) = Some \<lparr>rtIP = ''10.0.0.7'', rtPort = 4000\<rparr>"
proof -
  have i: "json_int 4000 = JNum ''4000''" by code_simp
  have "to_valid ''10.0.0.7'' = ''10.0.0.7''" by (rule to_valid_ascii) (simp add: byte_def)
  moreover have "length (json_text (JObj [(''ip'', JStr ''10.0.0.7''), (''port'', json_int 4000)])) \<le> 1024"
    by (simp add: i quote_def byte_def ascii_text_def Let_def)
  ultimately have "decode_target (json_text (JObj [(''ip'', JStr ''10.0.0.7''), (''port'', json_int 4000)]))
      = Some \<lparr>rtIP = ''10.0.0.7'', rtPort = 4000\<rparr>"
    by (intro decode_target_json) (simp_all add: in_i64_def)
  then show ?thesis by (simp add: relay_post_def i)
qed

lemma relay_post_sent: "length (snd (snd (snd (relay_run (recording (\<lambda>_ _ _ w. (None, w)))
    [(0, relay_post), (1, relay_post\<lparr>rrRemote := ''10.0.0.9:5000''\<rparr>)] (registered_relay, ((), [])))))) = 1"
proof -
  have ip: "ParseIP ''10.0.0.7'' = Some (of_v4 [10, 0, 0, 7])" "ParseIP ''10.0.0.1'' = Some (of_v4 [10, 0, 0, 1])"
      "ParseIP ''10.0.0.9'' = Some (of_v4 [10, 0, 0, 9])"
    by (simp_all add: ParseIP_def parse_v4_def parse_octet_def digits_def digit_of_def Let_def)
  have host: "SplitHostPort ''10.0.0.1:5000'' = Some (''10.0.0.1'', ''5000'')" "SplitHostPort ''10.0.0.9:5000'' = Some (''10.0.0.9'', ''5000'')"
    by (simp_all add: SplitHostPort_def cut_last_def bracket_free_def)
  have uni: "isUnicastTarget (of_v4 [10, 0, 0, 7])"
    by (simp add: isUnicastTarget_def IsUnspecified_def IsMulticast_def To4_def of_v4_def v4_prefix_def IPv4bcast_def)
  have allow: "relayCallerAllowed (Some (of_v4 [10, 0, 0, 1])) ''10.0.0.1:5000''"
    "\<not> relayCallerAllowed (Some (of_v4 [10, 0, 0, 1])) ''10.0.0.9:5000''"
    by (simp_all add: relayCallerAllowed_def host ip IsLoopback_def To4_def) (simp add: of_v4_def v4_prefix_def)
  show ?thesis
    using relay_post_target
    by (simp add: ask_apply handleDiscoveryReply_def on_fst_apply on_snd_apply field_def registered_relay_def allow rate_take_def
        relayBurst_def relay_target_def ip uni recording_def) (simp add: relay_post_def allow)
qed

theorem relay_bounded_witness:
  "\<exists>x s' w' ds. relay_run (recording (\<lambda>_ _ _ w. (None, w)))
      [(0, relay_post), (1, relay_post\<lparr>rrRemote := ''10.0.0.9:5000''\<rparr>)] (registered_relay, ((), [])) = (x, (s', (w', ds)))
    \<and> length ds = 1 \<and> list_all (reply_sent 11111) ds"
proof -
  let ?rs = "[(0, relay_post), (1, relay_post\<lparr>rrRemote := ''10.0.0.9:5000''\<rparr>)]"
  obtain x s' w' ds where r: "relay_run (recording (\<lambda>_ _ _ w. (None, w))) ?rs (registered_relay, ((), [])) = (x, (s', (w', ds)))"
    by (metis prod.exhaust)
  have "tbLast (rlGate registered_relay) = None" "rlPort registered_relay = 11111" by (simp_all add: registered_relay_def)
  then show ?thesis using relay_bounded [OF r] relay_post_sent r by simp
qed

end
