(* ===== verification/Discovery_Table.thy ===== *)
theory Discovery_Table
  imports Discovery_Spec "HOL-Library.AList"
begin

text \<open>
  The table of devices a discovery server keeps, \<open>server/discovery_registry.go\<close>.

  The table is a list of entries with distinct keys; Go's map has no order, and nothing here depends on it.
  The addresses of the host are the argument \<open>own\<close>.  \<open>Relay\<close> sends its requests in parallel; here they go out
  one after another through the parameter \<open>post\<close>, which hands back the error of the client or the status.
\<close>

section \<open>Entries\<close>

record registration =
  rnBeat :: heartbeat
  rnAddr :: ip
  rnLocal :: bool
  rnSeen :: time

type_synonym table = "(string \<times> registration) list"

datatype DatagramKind = DatagramOther | DatagramProbe | DatagramHeartbeat

definition heartbeat_field :: "string \<Rightarrow> json \<Rightarrow> heartbeat \<Rightarrow> heartbeat option" where
  "heartbeat_field k j r =
     (if k = ''alpacaport'' then set_field decode_int (\<lambda>x. hbPort_update (\<lambda>_. x)) j r
      else if k = ''uniqueid'' then set_field decode_string (\<lambda>x. hbUniqueID_update (\<lambda>_. x)) j r
      else if k = ''devicetype'' then set_field decode_string (\<lambda>x. hbType_update (\<lambda>_. x)) j r
      else if k = ''devicename'' then set_field decode_string (\<lambda>x. hbName_update (\<lambda>_. x)) j r
      else if k = ''instance'' then set_field decode_string (\<lambda>x. hbInstance_update (\<lambda>_. x)) j r
      else if k = ''address'' then set_field decode_string (\<lambda>x. hbAddress_update (\<lambda>_. x)) j r
      else Some r)"

definition decode_heartbeat :: "string \<Rightarrow> heartbeat option" where
  "decode_heartbeat pkt = Option.bind (unmarshal pkt) (decode_struct heartbeat_field
     \<lparr>hbPort = 0, hbUniqueID = [], hbType = [], hbName = [], hbInstance = [], hbAddress = []\<rparr>)"

definition isLocal :: "ip list \<Rightarrow> ip \<Rightarrow> bool" where
  "isLocal own a \<longleftrightarrow> IsLoopback a \<or> a \<in> set own"

definition beat_addr :: "heartbeat \<Rightarrow> ip \<Rightarrow> ip" where
  "beat_addr hb source = (case ParseIP (hbAddress hb) of Some a \<Rightarrow> a | None \<Rightarrow> source)"

definition beat_key :: "heartbeat \<Rightarrow> ip \<Rightarrow> string" where
  "beat_key hb addr =
     (if hbUniqueID hb \<noteq> [] then hbUniqueID hb else if hbInstance hb \<noteq> [] then hbInstance hb
      else JoinHostPort (ip_text addr) (Itoa (hbPort hb)))"

definition new_entry :: "ip list \<Rightarrow> time \<Rightarrow> heartbeat \<Rightarrow> ip \<Rightarrow> registration" where
  "new_entry own now hb source = (let addr = beat_addr hb source in
     \<lparr>rnBeat = hb, rnAddr = addr, rnLocal = isLocal own addr, rnSeen = now\<rparr>)"

definition Record :: "ip list \<Rightarrow> time \<Rightarrow> heartbeat \<Rightarrow> ip \<Rightarrow> table \<Rightarrow> registration \<times> table" where
  "Record own now hb source t =
     (let e = new_entry own now hb source in (e, AList.update (beat_key hb (rnAddr e)) e t))"

definition Datagram :: "ip list \<Rightarrow> time \<Rightarrow> string \<Rightarrow> ip \<Rightarrow> table \<Rightarrow> (DatagramKind \<times> registration option) \<times> table" where
  "Datagram own now pkt source t =
     (if HasPrefix (TrimSpace pkt) discoveryProbe then ((DatagramProbe, None), t)
      else (case decode_heartbeat pkt of
          None \<Rightarrow> ((DatagramOther, None), t)
        | Some hb \<Rightarrow> if hbPort hb = 0 then ((DatagramOther, None), t)
            else (case Record own now hb source t of (e, t') \<Rightarrow> ((DatagramHeartbeat, Some e), t'))))"

section \<open>Live entries\<close>

definition expired :: "int \<Rightarrow> time \<Rightarrow> registration \<Rightarrow> bool" where
  "expired ttl now e \<longleftrightarrow> time_sub now (rnSeen e) > ttl"

definition Live :: "int \<Rightarrow> time \<Rightarrow> table \<Rightarrow> registration list \<times> table" where
  "Live ttl now t = (let t' = filter (\<lambda>(_, e). \<not> expired ttl now e) t in (map snd t', t'))"

fun first_ports :: "int set \<Rightarrow> registration list \<Rightarrow> int list" where
  "first_ports seen [] = []"
| "first_ports seen (e # es) = (let p = hbPort (rnBeat e) in
     if rnLocal e \<and> p \<notin> seen then p # first_ports (insert p seen) es else first_ports seen es)"

definition LocalPorts :: "int \<Rightarrow> time \<Rightarrow> table \<Rightarrow> int list \<times> table" where
  "LocalPorts ttl now t = (case Live ttl now t of (es, t') \<Rightarrow> (first_ports {} es, t'))"

section \<open>Relaying a probe\<close>

type_synonym 'w post = "string \<Rightarrow> string \<Rightarrow> ('w, goerror + nat) act"

definition DiscoveryReplyPath :: string where "DiscoveryReplyPath = ''/discovery/reply''"

definition target_json :: "ip \<Rightarrow> int \<Rightarrow> string" where
  "target_json a port = json_text (JObj [(''ip'', JStr (ip_text a)), (''port'', json_int port)])"

definition relay_url :: "registration \<Rightarrow> string" where
  "relay_url e = ''http://'' @ JoinHostPort (ip_text (rnAddr e)) (Itoa (hbPort (rnBeat e))) @ DiscoveryReplyPath"

definition relayOne :: "'w post \<Rightarrow> string \<Rightarrow> registration \<Rightarrow> ('w, goerror option) act" where
  "relayOne post body e = ask (post (relay_url e) body) (\<lambda>r. ret (case r of
     Inl err \<Rightarrow> Some err
   | Inr status \<Rightarrow> if status \<noteq> 204 then Some (EOther (Text ''POST'')) else None))"

fun relay_each :: "'w post \<Rightarrow> string \<Rightarrow> registration list \<Rightarrow> ('w, (registration \<times> goerror) list) act" where
  "relay_each post body [] = ret []"
| "relay_each post body (e # es) = ask (relayOne post body e) (\<lambda>err. ask (relay_each post body es) (\<lambda>errs.
     ret (case err of Some x \<Rightarrow> (e, x) # errs | None \<Rightarrow> errs)))"

text \<open>The errors are what \<open>onErr\<close> is called with.\<close>

definition Relay :: "int \<Rightarrow> time \<Rightarrow> 'w post \<Rightarrow> ip \<Rightarrow> int \<Rightarrow> (table \<times> 'w, (registration \<times> goerror) list) act" where
  "Relay ttl now post client port = ask (on_fst (Live ttl now)) (\<lambda>es.
     on_snd (relay_each post (target_json client port) (filter (\<lambda>e. \<not> rnLocal e) es)))"

section \<open>A heartbeat arrives\<close>

definition beat_ok :: "heartbeat \<Rightarrow> bool" where
  "beat_ok h \<longleftrightarrow> in_i64 (hbPort h) \<and> hbPort h \<noteq> 0
     \<and> (\<forall>v \<in> {hbUniqueID h, hbType h, hbName h, hbInstance h, hbAddress h}. to_valid v = v)"

lemma beat_names:
  "to_valid ''AlpacaPort'' = ''AlpacaPort''" "to_valid ''UniqueID'' = ''UniqueID''" "to_valid ''DeviceType'' = ''DeviceType''"
  "to_valid ''DeviceName'' = ''DeviceName''" "to_valid ''Instance'' = ''Instance''" "to_valid ''Address'' = ''Address''"
  "fold_name ''AlpacaPort'' = ''alpacaport''" "fold_name ''UniqueID'' = ''uniqueid''" "fold_name ''DeviceType'' = ''devicetype''"
  "fold_name ''DeviceName'' = ''devicename''" "fold_name ''Instance'' = ''instance''" "fold_name ''Address'' = ''address''"
  by (rule to_valid_ascii, simp add: byte_def)+ (subst fold_name_ascii, simp add: byte_def, simp add: lower_literal)+

lemma beat_fields:
  "in_i64 n \<Longrightarrow> heartbeat_field ''alpacaport'' (json_int n) r = Some (r\<lparr>hbPort := n\<rparr>)"
  "heartbeat_field ''uniqueid'' (JStr v) r = Some (r\<lparr>hbUniqueID := v\<rparr>)"
  "heartbeat_field ''devicetype'' (JStr v) r = Some (r\<lparr>hbType := v\<rparr>)"
  "heartbeat_field ''devicename'' (JStr v) r = Some (r\<lparr>hbName := v\<rparr>)"
  "heartbeat_field ''instance'' (JStr v) r = Some (r\<lparr>hbInstance := v\<rparr>)"
  "heartbeat_field ''address'' (JStr v) r = Some (r\<lparr>hbAddress := v\<rparr>)"
  by (simp_all add: heartbeat_field_def set_field_def json_int_def Atoi_Itoa)

lemma decode_heartbeat_json:
  assumes "beat_ok h"
  shows "decode_heartbeat (json_text (heartbeat_json h)) = Some h"
proof -
  have ok: "json_ok (heartbeat_json h)" by (simp add: heartbeat_json_def omit_empty_def json_int_ok)
  have u: "unmarshal (json_text (heartbeat_json h)) = Some (json_valid (heartbeat_json h))"
    using unmarshal_text [OF ok, of "[]"] by (simp add: skip_ws_def)
  have v: "in_i64 (hbPort h)" "to_valid (hbUniqueID h) = hbUniqueID h" "to_valid (hbType h) = hbType h"
    "to_valid (hbName h) = hbName h" "to_valid (hbInstance h) = hbInstance h" "to_valid (hbAddress h) = hbAddress h"
    using assms by (auto simp: beat_ok_def)
  obtain p uid ty n i a where h: "h = \<lparr>hbPort = p, hbUniqueID = uid, hbType = ty, hbName = n, hbInstance = i, hbAddress = a\<rparr>"
    by (cases h)
  show ?thesis unfolding decode_heartbeat_def u using v
    by (cases "i = []"; cases "a = []") (simp_all add: h heartbeat_json_def omit_empty_def json_int_ok beat_names beat_fields)
qed

lemma object_no_probe: "\<not> HasPrefix (TrimSpace (json_text (JObj fs))) discoveryProbe"
proof -
  have "TrimSpace (json_text (JObj fs)) = json_text (JObj fs)"
    by (rule TrimSpace_visible) (simp_all add: visible_def)
  then show ?thesis by (simp add: HasPrefix_def discoveryProbe_def)
qed

lemma heartbeat_received:
  assumes "beat_ok h"
  shows "Datagram own now (json_text (heartbeat_json h)) source t =
    ((DatagramHeartbeat, Some (new_entry own now h source)),
     AList.update (beat_key h (beat_addr h source)) (new_entry own now h source) t)"
proof -
  obtain fs where "heartbeat_json h = JObj fs" by (simp add: heartbeat_json_def)
  then have "\<not> HasPrefix (TrimSpace (json_text (heartbeat_json h))) discoveryProbe" using object_no_probe by (simp del: json_text.simps)
  moreover have "hbPort h \<noteq> 0" using assms by (simp add: beat_ok_def)
  ultimately show ?thesis
    by (simp add: Datagram_def decode_heartbeat_json [OF assms] Record_def Let_def new_entry_def)
qed

text \<open>A heartbeat is understood.  The datagram a server sends for a device, with any text in its names, is
  recorded by the discovery server as a heartbeat with exactly the fields it was made of, reachable at the
  address it names, or else at the one it came from; and the entry replaces what was known under its key.\<close>

lemma heartbeat_recorded:
  assumes "beat_ok h"
  shows "Datagram own now (json_text (heartbeat_json h)) source t =
    ((DatagramHeartbeat, Some (new_entry own now h source)),
     AList.update (beat_key h (beat_addr h source)) (new_entry own now h source) t)"
  using assms by (rule heartbeat_received)

definition a_beat :: heartbeat where
  "a_beat = \<lparr>hbPort = 11111, hbUniqueID = ''u-1'', hbType = ''camera'', hbName = ''Main'', hbInstance = [], hbAddress = []\<rparr>"

lemma a_beat_ok: "beat_ok a_beat"
proof -
  have "to_valid ''u-1'' = ''u-1''" "to_valid ''camera'' = ''camera''" "to_valid ''Main'' = ''Main''"
    by (rule to_valid_ascii, simp add: byte_def)+
  then show ?thesis by (simp add: beat_ok_def a_beat_def in_i64_def to_valid.simps(1))
qed

lemma heartbeat_recorded_witness:
  "Datagram [] 5 (json_text (heartbeat_json a_beat)) (of_v4 [10, 0, 0, 1]) [] =
    ((DatagramHeartbeat, Some (new_entry [] 5 a_beat (of_v4 [10, 0, 0, 1]))),
     [(''u-1'', new_entry [] 5 a_beat (of_v4 [10, 0, 0, 1]))])"
  using heartbeat_recorded [OF a_beat_ok, of "[]" 5 "of_v4 [10, 0, 0, 1]" "[]"] by (simp add: beat_key_def a_beat_def)

section \<open>The table keeps the last heartbeat of every device\<close>

text \<open>What happens to a table: a datagram arrives, or someone asks for what is live.\<close>

datatype table_event = Packet string ip | Query

fun table_step :: "ip list \<Rightarrow> int \<Rightarrow> time \<times> table_event \<Rightarrow> table \<Rightarrow> table" where
  "table_step own ttl (now, Packet pkt source) t = snd (Datagram own now pkt source t)"
| "table_step own ttl (now, Query) t = snd (Live ttl now t)"

text \<open>Its history, the heartbeats in the order they came.\<close>

definition beat_of :: "ip list \<Rightarrow> time \<times> table_event \<Rightarrow> (string \<times> registration) list" where
  "beat_of own te = (case te of
     (now, Packet pkt source) \<Rightarrow>
       (case Datagram own now pkt source [] of ((_, Some e), _) \<Rightarrow> [(beat_key (rnBeat e) (rnAddr e), e)] | _ \<Rightarrow> [])
   | (now, Query) \<Rightarrow> [])"

definition last_beat :: "(string \<times> registration) list \<Rightarrow> string \<Rightarrow> registration option" where
  "last_beat hist k = map_of (rev hist) k"

lemma step_packet:
  "table_step own ttl (now, Packet pkt source) t = fold (\<lambda>(k, e). AList.update k e) (beat_of own (now, Packet pkt source)) t"
  by (auto simp: Datagram_def beat_of_def Record_def Let_def new_entry_def split: option.split)

lemma beat_of_short: "beat_of own te = [] \<or> (\<exists>k e. beat_of own te = [(k, e)])"
  by (auto simp: beat_of_def split: prod.split table_event.split option.split)

definition agrees_until :: "int \<Rightarrow> time \<Rightarrow> table \<Rightarrow> (string \<times> registration) list \<Rightarrow> bool" where
  "agrees_until ttl now t hist \<longleftrightarrow> distinct (map fst t) \<and> (\<forall>k e. map_of t k = Some e \<longrightarrow> last_beat hist k = Some e)
     \<and> (\<forall>k e. last_beat hist k = Some e \<and> \<not> expired ttl now e \<longrightarrow> map_of t k = Some e)"

lemma expired_mono: "expired ttl now e \<Longrightarrow> now \<le> now' \<Longrightarrow> expired ttl now' e"
  using time_sub_mono [of now now' "rnSeen e"] by (simp add: expired_def)

lemma agrees_later: "agrees_until ttl now t hist \<Longrightarrow> now \<le> now' \<Longrightarrow> agrees_until ttl now' t hist"
  using expired_mono [of ttl now _ now'] unfolding agrees_until_def by blast

lemma last_beat_snoc: "last_beat (hist @ [(k, e)]) = (last_beat hist)(k \<mapsto> e)"
  by (simp add: last_beat_def fun_eq_iff)

lemma map_of_filtered:
  assumes "distinct (map fst t)"
  shows "map_of (filter (\<lambda>(_, e). P e) t) k = (case map_of t k of Some e \<Rightarrow> if P e then Some e else None | None \<Rightarrow> None)"
  using assms by (induction t) (auto split: option.splits simp: map_of_eq_None_iff dest: map_of_SomeD)

lemma step_agrees:
  assumes "agrees_until ttl now t hist"
  shows "agrees_until ttl now (table_step own ttl (now, ev) t) (hist @ beat_of own (now, ev))"
proof (cases ev)
  case Query
  have d: "distinct (map fst t)" using assms by (simp add: agrees_until_def)
  note m = map_of_filtered [OF d, of "\<lambda>e. \<not> expired ttl now e"]
  have t: "table_step own ttl (now, ev) t = filter (\<lambda>(_, e). \<not> expired ttl now e) t" by (simp add: Query Live_def Let_def)
  have b: "beat_of own (now, ev) = []" by (simp add: Query beat_of_def)
  have m': "map_of (table_step own ttl (now, ev) t) k = Some e \<longleftrightarrow> map_of t k = Some e \<and> \<not> expired ttl now e" for k e
    unfolding t m by (auto split: option.split)
  have "distinct (map fst (table_step own ttl (now, ev) t))" unfolding t by (rule distinct_map_filter [OF d])
  then show ?thesis using assms unfolding agrees_until_def b append_Nil2 m' by blast
next
  case (Packet pkt source)
  have s: "table_step own ttl (now, ev) t = fold (\<lambda>(k, e). AList.update k e) (beat_of own (now, ev)) t"
    using step_packet by (simp only: Packet)
  consider "beat_of own (now, ev) = []" | k e where "beat_of own (now, ev) = [(k, e)]" using beat_of_short by blast
  then show ?thesis
  proof cases
    case 1
    show ?thesis unfolding s 1 using assms by simp
  next
    case (2 k e)
    have t: "table_step own ttl (now, ev) t = AList.update k e t" unfolding s 2 by simp
    have a: "distinct (map fst t)" "map_of t k' = Some e' \<Longrightarrow> last_beat hist k' = Some e'"
      "last_beat hist k' = Some e' \<Longrightarrow> \<not> expired ttl now e' \<Longrightarrow> map_of t k' = Some e'" for k' e'
      using assms unfolding agrees_until_def by blast+
    show ?thesis unfolding agrees_until_def t 2 last_beat_snoc update_conv
    proof (intro conjI allI impI)
      show "distinct (map fst (AList.update k e t))" using a(1) by (rule distinct_update)
    next
      fix k' e' assume "((map_of t)(k \<mapsto> e)) k' = Some e'"
      then show "((last_beat hist)(k \<mapsto> e)) k' = Some e'" using a(2) by (cases "k' = k") simp_all
    next
      fix k' e' assume "((last_beat hist)(k \<mapsto> e)) k' = Some e' \<and> \<not> expired ttl now e'"
      then show "((map_of t)(k \<mapsto> e)) k' = Some e'" using a(3) by (cases "k' = k") simp_all
    qed
  qed
qed

lemma run_agrees:
  "sorted (t0 # map fst evs) \<Longrightarrow> agrees_until ttl t0 t hist \<Longrightarrow> \<forall>te \<in> set evs. fst te \<le> now \<Longrightarrow> t0 \<le> now \<Longrightarrow>
   agrees_until ttl now (fold (table_step own ttl) evs t) (hist @ concat (map (beat_of own) evs))"
proof (induction evs arbitrary: t0 t hist)
  case Nil
  then show ?case by (simp add: agrees_later)
next
  case (Cons te evs)
  obtain u ev where te: "te = (u, ev)" by (rule prod.exhaust)
  have "agrees_until ttl u t hist" using Cons.prems(1,2) by (auto simp: te intro: agrees_later)
  from step_agrees [OF this, of own ev]
  have "agrees_until ttl u (table_step own ttl te t) (hist @ beat_of own te)" by (simp add: te)
  moreover have "sorted (u # map fst evs)" "\<forall>te \<in> set evs. fst te \<le> now" "u \<le> now"
    using Cons.prems(1,3) by (auto simp: te)
  ultimately have "agrees_until ttl now (fold (table_step own ttl) evs (table_step own ttl te t))
      ((hist @ beat_of own te) @ concat (map (beat_of own) evs))"
    using Cons.IH by blast
  then show ?case by simp
qed

text \<open>C15: The table of a discovery server shows what is there.  After any datagrams, at any times and interleaved
  with any queries, each of which prunes the table, the live entries are exactly the last heartbeat of
  every device, by its key, that is not older than the TTL: a device that stops is forgotten, one that
  restarts elsewhere replaces its entry, and pruning loses nothing.\<close>

theorem table_live:
  assumes "sorted (map fst evs)" "\<forall>te \<in> set evs. fst te \<le> now"
  shows "set (fst (Live ttl now (fold (table_step own ttl) evs []))) =
    {e. \<exists>k. last_beat (concat (map (beat_of own) evs)) k = Some e \<and> \<not> expired ttl now e}"
proof -
  let ?hist = "concat (map (beat_of own) evs)" and ?t = "fold (table_step own ttl) evs []"
  have "agrees_until ttl now ?t ?hist"
  proof (cases evs)
    case Nil
    then show ?thesis by (simp add: agrees_until_def last_beat_def)
  next
    case (Cons te evs')
    have "agrees_until ttl (fst te) [] []" by (simp add: agrees_until_def last_beat_def)
    then show ?thesis using run_agrees [of "fst te" evs ttl "[]" "[]" now own] assms Cons by simp
  qed
  then have d: "distinct (map fst ?t)" and m: "map_of ?t k = Some e \<and> \<not> expired ttl now e
      \<longleftrightarrow> last_beat ?hist k = Some e \<and> \<not> expired ttl now e" for k e
    unfolding agrees_until_def by blast+
  have "e \<in> set (fst (Live ttl now ?t)) \<longleftrightarrow> (\<exists>k. map_of ?t k = Some e \<and> \<not> expired ttl now e)" for e
    using d by (force simp: Live_def Let_def)
  then show ?thesis using m by blast
qed

theorem table_live_witness:
  "set (fst (Live (30 * 10 ^ 9) 8 (fold (table_step [] (30 * 10 ^ 9))
      [(5, Packet (json_text (heartbeat_json a_beat)) (of_v4 [10, 0, 0, 1])), (7, Query)] [])))
    = {new_entry [] 5 a_beat (of_v4 [10, 0, 0, 1])}"
proof -
  let ?evs = "[(5, Packet (json_text (heartbeat_json a_beat)) (of_v4 [10, 0, 0, 1])), (7, Query)] :: (time \<times> table_event) list"
  let ?e = "new_entry [] 5 a_beat (of_v4 [10, 0, 0, 1])"
  have "concat (map (beat_of []) ?evs) = [(beat_key a_beat (beat_addr a_beat (of_v4 [10, 0, 0, 1])), ?e)]"
    by (simp add: beat_of_def heartbeat_received [OF a_beat_ok]) (simp add: new_entry_def Let_def)
  then have h: "last_beat (concat (map (beat_of []) ?evs)) k = Some e
      \<longleftrightarrow> k = beat_key a_beat (beat_addr a_beat (of_v4 [10, 0, 0, 1])) \<and> e = ?e" for k e
    by (auto simp: last_beat_def)
  have x: "\<not> expired (30 * 10 ^ 9) 8 ?e" by (simp add: expired_def new_entry_def Let_def time_sub_def)
  have "sorted (map fst ?evs)" "\<forall>te \<in> set ?evs. fst te \<le> 8" by simp_all
  from table_live [OF this, of "30 * 10 ^ 9" "[]"] show ?thesis unfolding h using x by auto
qed

section \<open>A relayed probe is answered\<close>

lemma number_chars: "list_all (\<lambda>c. 48 \<le> byte c \<and> byte c \<le> 57) (show_nat n)"
proof -
  have "digit_string (show_nat n)" by simp
  then show ?thesis by (auto simp: digit_string_def list_all_iff digit_of_def byte_def Let_def split: if_splits)
qed

lemma v4_text_plain:
  assumes "length bs = 4"
  shows "list_all (\<lambda>c. 46 \<le> byte c \<and> byte c \<le> 57) (ip_text (of_v4 bs))" "length (ip_text (of_v4 bs)) \<le> 15"
proof -
  obtain a b c d where bs: "bs = [a, b, c, d]" using assms by (auto simp: numeral_eq_Suc length_Suc_conv)
  have "To4 (of_v4 bs) = Some bs" by (simp add: To4_def of_v4_def v4_prefix_def)
  then have t: "ip_text (of_v4 bs) = v4_text [a, b, c, d]" by (simp add: ip_text_def bs)
  have n: "list_all (\<lambda>c. 46 \<le> byte c \<and> byte c \<le> 57) (show_nat n)" for n
    using number_chars [of n] by (auto simp: list_all_iff)
  show "list_all (\<lambda>c. 46 \<le> byte c \<and> byte c \<le> 57) (ip_text (of_v4 bs))"
    unfolding t v4_text_parts using n by (simp add: byte_def)
  have l: "length (show_nat (unat b)) \<le> 3" for b :: "8 word"
  proof (rule ccontr)
    assume "\<not> length (show_nat (unat b)) \<le> 3"
    then have g: "3 \<le> length (show_nat (unat b)) - 1" by simp
    then have "0 < unat b" by (cases "unat b = 0") (simp_all add: show_nat.simps [of 0])
    from show_nat_length [OF this] have "10 ^ (length (show_nat (unat b)) - 1) \<le> unat b" .
    moreover have "(10 :: nat) ^ 3 \<le> 10 ^ (length (show_nat (unat b)) - 1)" using g by (intro power_increasing) simp_all
    moreover have "unat b < 256" using unsigned_less [of b] by simp
    ultimately show False by simp
  qed
  show "length (ip_text (of_v4 bs)) \<le> 15"
    unfolding t v4_text_parts using l [of a] l [of b] l [of c] l [of d] by simp
qed

lemma escape_plain: "list_all (\<lambda>c. 46 \<le> byte c \<and> byte c \<le> 57) s \<Longrightarrow> escape s = s"
  by (induction s) (auto simp: ascii_text_def Let_def)

lemma port_text: "1 \<le> port \<Longrightarrow> port \<le> 65535 \<Longrightarrow> length (Itoa port) \<le> 5"
proof (rule ccontr)
  assume p: "1 \<le> port" "port \<le> 65535" "\<not> length (Itoa port) \<le> 5"
  then have g: "5 \<le> length (show_nat (nat port)) - 1" by (simp add: Itoa_def)
  have "0 < nat port" using p(1) by simp
  from show_nat_length [OF this] have "10 ^ (length (show_nat (nat port)) - 1) \<le> nat port" .
  moreover have "(10 :: nat) ^ 5 \<le> 10 ^ (length (show_nat (nat port)) - 1)" using g by (intro power_increasing) simp_all
  ultimately have "(10 :: nat) ^ 5 \<le> nat port" by (rule order.trans [rotated])
  then show False using p(2) by simp
qed

lemma target_json_decodes:
  assumes "length bs = 4" "1 \<le> port" "port \<le> 65535"
  shows "decode_target (target_json (of_v4 bs) port) = Some \<lparr>rtIP = ip_text (of_v4 bs), rtPort = port\<rparr>"
  unfolding target_json_def
proof (rule decode_target_json)
  note v = v4_text_plain [OF assms(1)]
  show "to_valid (ip_text (of_v4 bs)) = ip_text (of_v4 bs)"
    using v(1) by (intro to_valid_ascii) (auto simp: list_all_iff)
  show "in_i64 port" using assms(2,3) by (simp add: in_i64_def)
  show "length (json_text (JObj [(''ip'', JStr (ip_text (of_v4 bs))), (''port'', json_int port)])) \<le> 1024"
    using v(2) escape_plain [OF v(1)] port_text [OF assms(2,3)]
    by (simp add: quote_def byte_def ascii_text_def Let_def json_int_def)
qed

text \<open>A relayed probe is answered.  The request that a discovery server posts for a probe from an IPv4 address
  makes a device that is registered with it, and whose rate allows it, send its own reply to exactly the
  address and port the probe came from, whatever they are; the request is confirmed when the socket took it.\<close>

lemma relay_answers:
  assumes "length bs = 4" "isUnicastTarget (of_v4 bs)" "1 \<le> port" "port \<le> 65535"
    and "dcMode (rlConfig s) = DiscoveryRegister" "relayCallerAllowed (rlPeer s) remote" "rate_take now (rlGate s) = (True, g)"
    and "udp (of_v4 bs) port (directResponse (rlPort s)) w = (e, w')"
  shows "handleDiscoveryReply udp now \<lparr>rrMethod = ''POST'', rrRemote = remote, rrBody = target_json (of_v4 bs) port\<rparr> (s, w) =
    (if e = None then NoContent else Refusal 502 ''send failed'', (s\<lparr>rlGate := g\<rparr>, w'))"
  using assms(2-8)
  by (auto simp: handleDiscoveryReply_def ask_apply on_fst_apply on_snd_apply field_def relay_target_def
      target_json_decodes [OF assms(1,3,4)] ParseIP_v4 [OF assms(1)] split: option.split)

lemma relay_answers_witness:
  "fst (handleDiscoveryReply (\<lambda>a p m w. (None, (a, p, m))) 0
      \<lparr>rrMethod = ''POST'', rrRemote = ''10.0.0.1:5000'', rrBody = target_json (of_v4 [10, 0, 0, 7]) 4000\<rparr> (registered_relay, x))
    = NoContent"
proof -
  have u: "isUnicastTarget (of_v4 [10, 0, 0, 7])"
    by (simp add: isUnicastTarget_def IsUnspecified_def IsMulticast_def To4_def of_v4_def v4_prefix_def IPv4bcast_def)
  have ip: "ParseIP ''10.0.0.1'' = Some (of_v4 [10, 0, 0, 1])"
    by (simp add: ParseIP_def parse_v4_def parse_octet_def digits_def digit_of_def Let_def)
  have host: "SplitHostPort ''10.0.0.1:5000'' = Some (''10.0.0.1'', ''5000'')"
    by (simp add: SplitHostPort_def cut_last_def bracket_free_def)
  have s: "dcMode (rlConfig registered_relay) = DiscoveryRegister" "relayCallerAllowed (rlPeer registered_relay) ''10.0.0.1:5000''"
    "rate_take 0 (rlGate registered_relay) = (True, \<lparr>tbTokens = 19, tbLast = Some 0\<rparr>)"
    by (simp_all add: registered_relay_def relayCallerAllowed_def host ip rate_take_def relayBurst_def)
  have l: "length [10, 0, 0, 7 :: 8 word] = 4" by simp
  show ?thesis
    using relay_answers [OF l u _ _ s, of 4000 "\<lambda>a p m w. (None, (a, p, m))" x None] by simp
qed

end
