(* ===== verification/Client_Discovery.thy ===== *)
theory Client_Discovery
  imports Discovery_Table Remote_Spec
begin

text \<open>
  Discovery on the side of a client, \<open>client/discovery.go\<close>.

  The datagrams that arrive within the time of a discovery are a list; an error of a socket, or the end of
  the time, ends it.  \<open>Discover\<close> runs its two legs at once: they are a list in the order they finish.
\<close>

declare to_valid.simps [simp del] fold_name.simps [simp del]

section \<open>Where to ask\<close>

record iface =
  ifName :: string
  ifUp :: bool
  ifBroadcast :: bool
  ifMulticast :: bool
  ifNets :: "(ip \<times> 8 word list) list"

definition client_probe :: string where "client_probe = ''alpacadiscovery1''"
definition discoveryPort :: int where "discoveryPort = 32227"

text \<open>\<open>ip | ^nm\<close>, with the mask of an IPv4 address in its 4 or its 16 byte form.\<close>

definition directed_broadcast :: "8 word list \<Rightarrow> 8 word list \<Rightarrow> 8 word list" where
  "directed_broadcast a nm = map2 (\<lambda>x m. or x (not m)) a (if length nm = 16 then drop 12 nm else nm)"

definition interfaceBroadcasts :: "iface list \<Rightarrow> ip list" where
  "interfaceBroadcasts ifs = concat (map (\<lambda>i. if ifUp i \<and> ifBroadcast i
     then List.map_filter (\<lambda>(a, nm). map_option (\<lambda>a4. of_v4 (directed_broadcast a4 nm)) (To4 a)) (ifNets i)
     else []) ifs)"

definition probe_targets :: "iface list \<Rightarrow> ip list" where
  "probe_targets ifs = IPv4bcast # of_v4 [127, 0, 0, 1] # interfaceBroadcasts ifs"

text \<open>The zones the IPv6 probe is sent to.\<close>

definition probe_zones :: "iface list \<Rightarrow> string list" where
  "probe_zones ifs = map ifName (filter (\<lambda>i. ifUp i \<and> ifMulticast i) ifs)"

section \<open>Answers\<close>

record DiscoveredServer =
  dsIP :: ip
  dsPort :: int
  dsAddress :: string

type_synonym udp_answer = "string \<times> ip \<times> string"

definition port_field :: "string \<Rightarrow> json \<Rightarrow> int \<Rightarrow> int option" where
  "port_field k j n = (if k = ''alpacaport'' then set_field decode_int (\<lambda>x _. x) j n else Some n)"

definition decode_port :: "string \<Rightarrow> int option" where
  "decode_port pkt = Option.bind (unmarshal pkt) (decode_struct port_field 0)"

definition server_address :: "ip \<Rightarrow> string \<Rightarrow> int \<Rightarrow> string" where
  "server_address a zone port = JoinHostPort (ip_text a @ (if zone \<noteq> [] then CHR ''%'' # zone else [])) (Itoa port)"

definition server_of :: "udp_answer \<Rightarrow> DiscoveredServer option" where
  "server_of d = (case d of (pkt, a, zone) \<Rightarrow> (case decode_port pkt of
     None \<Rightarrow> None
   | Some port \<Rightarrow> if port \<le> 0 then None
       else Some \<lparr>dsIP = a, dsPort = port, dsAddress = server_address a zone port\<rparr>))"

text \<open>The loops over \<open>seen\<close>.\<close>

fun unseen :: "string set \<Rightarrow> DiscoveredServer list \<Rightarrow> DiscoveredServer list" where
  "unseen seen [] = []"
| "unseen seen (s # ss) =
     (if dsAddress s \<in> seen then unseen seen ss else s # unseen (insert (dsAddress s) seen) ss)"

definition readResponses :: "udp_answer list \<Rightarrow> DiscoveredServer list" where
  "readResponses ds = unseen {} (List.map_filter server_of ds)"

type_synonym leg = "goerror + DiscoveredServer list"

fun leg_errors :: "leg list \<Rightarrow> goerror list" where
  "leg_errors [] = []"
| "leg_errors (Inl e # ls) = e # leg_errors ls"
| "leg_errors (Inr _ # ls) = leg_errors ls"

fun leg_servers :: "leg list \<Rightarrow> DiscoveredServer list" where
  "leg_servers [] = []"
| "leg_servers (Inl _ # ls) = leg_servers ls"
| "leg_servers (Inr ss # ls) = ss @ leg_servers ls"

definition DiscoverContext :: "goerror option \<Rightarrow> leg list \<Rightarrow> goerror + DiscoveredServer list" where
  "DiscoverContext cancelled legs = (case cancelled of
     Some e \<Rightarrow> Inl e
   | None \<Rightarrow> if length (leg_errors legs) = length legs then Inl (hd (leg_errors legs))
       else Inr (unseen {} (leg_servers legs)))"

section \<open>The devices of a server\<close>

record ConfiguredDevice =
  cdName :: string
  cdType :: string
  cdNumber :: int
  cdUniqueID :: string

definition device_field :: "string \<Rightarrow> json \<Rightarrow> ConfiguredDevice \<Rightarrow> ConfiguredDevice option" where
  "device_field k j r =
     (if k = ''devicename'' then set_field decode_string (\<lambda>x. cdName_update (\<lambda>_. x)) j r
      else if k = ''devicetype'' then set_field decode_string (\<lambda>x. cdType_update (\<lambda>_. x)) j r
      else if k = ''devicenumber'' then set_field decode_int (\<lambda>x. cdNumber_update (\<lambda>_. x)) j r
      else if k = ''uniqueid'' then set_field decode_string (\<lambda>x. cdUniqueID_update (\<lambda>_. x)) j r
      else Some r)"

definition decode_device :: "json \<Rightarrow> ConfiguredDevice option" where
  "decode_device = decode_struct device_field \<lparr>cdName = [], cdType = [], cdNumber = 0, cdUniqueID = []\<rparr>"

definition devices_field :: "string \<Rightarrow> json \<Rightarrow> ConfiguredDevice list \<Rightarrow> ConfiguredDevice list option" where
  "devices_field k j r = (if k = ''value'' then set_field (decode_list decode_device) (\<lambda>x _. x) j r else Some r)"

definition devices_request :: "DiscoveredServer \<Rightarrow> http_request" where
  "devices_request s = \<lparr>hqMethod = ''GET'',
     hqURL = ''http://'' @ urlAuthority (dsAddress s) @ ''/management/v1/configureddevices'',
     hqType = [], hqAccept = [], hqBody = []\<rparr>"

definition read_devices :: "reply \<Rightarrow> failure + ConfiguredDevice list" where
  "read_devices r = and_then (read_reply maxEnvelopeBytes r) (\<lambda>r.
     case Option.bind (unmarshal (rpBody r)) (decode_struct devices_field []) of
       None \<Rightarrow> Inl BadReply | Some ds \<Rightarrow> Inr ds)"

definition ConfiguredDevices :: "'w send \<Rightarrow> DiscoveredServer \<Rightarrow> ('w, failure + ConfiguredDevice list) act" where
  "ConfiguredDevices send s = ask (send (devices_request s)) (\<lambda>r. ret (and_then (map_sum Transport id r) read_devices))"

section \<open>What is found\<close>

lemma unseen_subset: "set (unseen seen ss) \<subseteq> set ss"
proof (induction ss arbitrary: seen)
  case (Cons s ss)
  then show ?case using Cons.IH [of seen] Cons.IH [of "insert (dsAddress s) seen"] by auto
qed simp

lemma unseen_addresses:
  "distinct (map dsAddress (unseen seen ss))" "dsAddress ` set (unseen seen ss) = dsAddress ` set ss - seen"
  by (induction ss arbitrary: seen) auto

lemma set_map_filter: "set (List.map_filter f xs) = {y. \<exists>x \<in> set xs. f x = Some y}"
  by (induction xs) (auto simp: List.map_filter_simps split: option.splits)

text \<open>C16: A discovery finds what answers.  Every server that is reported is one that a datagram named, with a
  positive port and the address the datagram came from; every datagram that names a positive port has its
  address reported, whatever else arrives; and no address is reported twice.  The two legs together
  report every address that either found, and fail only when both fail or the caller gave up.\<close>

theorem discovery_complete:
  "distinct (map dsAddress (readResponses ds))
   \<and> dsAddress ` set (readResponses ds)
       = {server_address a zone port | pkt a zone port. (pkt, a, zone) \<in> set ds \<and> decode_port pkt = Some port \<and> 0 < port}
   \<and> (\<forall>s \<in> set (readResponses ds). \<exists>pkt zone. (pkt, dsIP s, zone) \<in> set ds \<and> decode_port pkt = Some (dsPort s)
        \<and> 0 < dsPort s \<and> dsAddress s = server_address (dsIP s) zone (dsPort s))
   \<and> (case DiscoverContext cancelled [l1, l2] of
       Inl e \<Rightarrow> cancelled = Some e \<or> cancelled = None \<and> l1 = Inl e \<and> (\<exists>e'. l2 = Inl e')
     | Inr ss \<Rightarrow> cancelled = None \<and> distinct (map dsAddress ss) \<and> dsAddress ` set ss = dsAddress ` set (leg_servers [l1, l2]))"
proof -
  have s: "dsAddress ` set (List.map_filter server_of ds)
      = {server_address a zone port | pkt a zone port. (pkt, a, zone) \<in> set ds \<and> decode_port pkt = Some port \<and> 0 < port}"
    by (force simp: set_map_filter server_of_def split: option.splits if_splits)
  have r: "\<exists>pkt zone. (pkt, dsIP x, zone) \<in> set ds \<and> decode_port pkt = Some (dsPort x)
        \<and> 0 < dsPort x \<and> dsAddress x = server_address (dsIP x) zone (dsPort x)" if "x \<in> set (readResponses ds)" for x
  proof -
    have "x \<in> set (List.map_filter server_of ds)" using that unseen_subset by (auto simp: readResponses_def)
    then show ?thesis by (force simp: set_map_filter server_of_def split: option.splits if_splits)
  qed
  have d: "case DiscoverContext cancelled [l1, l2] of
       Inl e \<Rightarrow> cancelled = Some e \<or> cancelled = None \<and> l1 = Inl e \<and> (\<exists>e'. l2 = Inl e')
     | Inr ss \<Rightarrow> cancelled = None \<and> distinct (map dsAddress ss) \<and> dsAddress ` set ss = dsAddress ` set (leg_servers [l1, l2])"
    by (cases cancelled; cases l1; cases l2)
      (simp_all add: DiscoverContext_def unseen_addresses)
  show ?thesis using s r d unseen_addresses by (simp add: readResponses_def)
qed

section \<open>Probes and their answers\<close>

lemma decode_port_response:
  assumes "in_i64 port"
  shows "decode_port (directResponse port) = Some port"
proof -
  let ?j = "JObj [(''AlpacaPort'', json_int port)]"
  have "unmarshal (json_text ?j) = Some (json_valid ?j)"
    using unmarshal_text [of ?j "[]"] by (simp add: skip_ws_def json_int_ok)
  then show ?thesis using assms
    by (simp add: decode_port_def directResponse_def beat_names port_field_def set_field_def json_int_ok json_int_def Atoi_Itoa
        del: json_text.simps)
qed

lemma lower_text_ascii: "list_all (\<lambda>c. byte c < 128) s \<Longrightarrow> lower_text s = to_lower s"
proof (induction s)
  case (Cons c s)
  have "take 2 (c # s) \<noteq> dotted_I" "take 3 (c # s) \<noteq> kelvin"
    using Cons.prems by (auto simp: dotted_I_def kelvin_def numeral_2_eq_2 numeral_3_eq_3)
  then show ?case using Cons by (simp add: to_lower_def)
qed (simp add: to_lower_def)

lemma probe_understood: "serveDiscovery port client_probe = Some (directResponse port)"
proof -
  have "take 1024 client_probe = client_probe" by (rule take_all) (simp add: client_probe_def)
  moreover have "lower_text client_probe = client_probe"
    by (subst lower_text_ascii) (simp_all add: client_probe_def byte_def lower_literal)
  ultimately show ?thesis by (simp add: serveDiscovery_def HasPrefix_def) (simp add: client_probe_def discoveryProbe_def)
qed

lemma servers_found: "(pkt, a, zone) \<in> set ds \<Longrightarrow> decode_port pkt = Some port \<Longrightarrow> 0 < port \<Longrightarrow>
   server_address a zone port \<in> dsAddress ` set (readResponses ds)"
  by (force simp: readResponses_def unseen_addresses set_map_filter server_of_def)

text \<open>A probe is answered and understood.  The server answers the probe of this client with its port; and
  that reply, whatever other datagrams arrive before and after it, makes the client report the server's
  address, as the reply came from it, with the port it listens on.\<close>

lemma probe_answered:
  assumes "0 < advertisedPort s" "in_i64 (advertisedPort s)"
  shows "\<exists>reply. serveDiscovery (advertisedPort s) client_probe = Some reply
    \<and> (\<forall>before after a zone. \<exists>srv \<in> set (readResponses (before @ (reply, a, zone) # after)).
        dsAddress srv = server_address a zone (advertisedPort s))"
proof -
  have "server_address a zone (advertisedPort s)
      \<in> dsAddress ` set (readResponses (before @ (directResponse (advertisedPort s), a, zone) # after))" for before after a zone
    by (rule servers_found [OF _ decode_port_response [OF assms(2)] assms(1)]) simp
  then show ?thesis using probe_understood by (intro exI [of _ "directResponse (advertisedPort s)"]) force
qed

lemma probe_answered_witness:
  "\<forall>cfg. \<exists>reply. serveDiscovery 11111 client_probe = Some reply
    \<and> (\<exists>srv \<in> set (readResponses [(''noise'', of_v4 [10, 0, 0, 9], []), (reply, of_v4 [10, 0, 0, 7], [])]).
        dsAddress srv = server_address (of_v4 [10, 0, 0, 7]) [] 11111)"
proof
  fix cfg
  have p: "advertisedPort ((New cfg)\<lparr>svAlpacaPort := 11111\<rparr>) = 11111" by (simp add: advertisedPort_def New_def)
  have "0 < advertisedPort ((New cfg)\<lparr>svAlpacaPort := 11111\<rparr>)" "in_i64 (advertisedPort ((New cfg)\<lparr>svAlpacaPort := 11111\<rparr>))"
    by (simp_all add: p in_i64_def)
  from probe_answered [OF this] obtain reply where r: "serveDiscovery 11111 client_probe = Some reply"
    "\<exists>srv \<in> set (readResponses (before @ (reply, a, zone) # after)). dsAddress srv = server_address a zone 11111"
    for before after a zone unfolding p by blast
  show "\<exists>reply. serveDiscovery 11111 client_probe = Some reply
    \<and> (\<exists>srv \<in> set (readResponses [(''noise'', of_v4 [10, 0, 0, 9], []), (reply, of_v4 [10, 0, 0, 7], [])]).
        dsAddress srv = server_address (of_v4 [10, 0, 0, 7]) [] 11111)"
    using r(1) r(2) [of "[(''noise'', of_v4 [10, 0, 0, 9], [])]" "of_v4 [10, 0, 0, 7]" "[]" "[]"] by (intro exI [of _ reply]) simp
qed

theorem discovery_complete_witness:
  "let a = of_v4 [10, 0, 0, 7]; ds = [(directResponse 11111, a, []), (directResponse 11111, a, [])] in
   map dsAddress (readResponses ds) = [server_address a [] 11111]"
proof -
  let ?a = "of_v4 [10, 0, 0, 7]"
  let ?ds = "[(directResponse 11111, ?a, []), (directResponse 11111, ?a, [])]"
  have p: "decode_port (directResponse 11111) = Some 11111" by (rule decode_port_response) (simp add: in_i64_def)
  have "distinct (map dsAddress (readResponses ?ds))" "dsAddress ` set (readResponses ?ds) = {server_address ?a [] 11111}"
    using discovery_complete [of ?ds None "Inr []" "Inr []"] by (auto simp: p)
  then show ?thesis
    by (cases "readResponses ?ds" rule: remdups_adj.cases) (auto simp: Let_def)
qed

section \<open>Directed broadcasts\<close>

text \<open>A directed broadcast stays in the network of its interface and has all host bits set.\<close>

lemma directed_broadcast_bits:
  assumes "length a = 4" "length nm = 4"
  shows "map2 and (directed_broadcast a nm) nm = map2 and a nm" "map2 or (directed_broadcast a nm) nm = replicate 4 (- 1)"
proof -
  obtain a1 a2 a3 a4 m1 m2 m3 m4 where l: "a = [a1, a2, a3, a4]" "nm = [m1, m2, m3, m4]"
    using assms by (auto simp: numeral_eq_Suc length_Suc_conv)
  have b: "and (or x (not m)) m = and x m" "or (or x (not m)) m = - 1" for x m :: "8 word"
    by (rule bit_word_eqI, auto simp: bit_simps)+
  show "map2 and (directed_broadcast a nm) nm = map2 and a nm" "map2 or (directed_broadcast a nm) nm = replicate 4 (- 1)"
    by (simp_all add: l directed_broadcast_def b numeral_eq_Suc)
qed

section \<open>The list of devices over the network\<close>

text \<open>What the devices say of themselves when they are listed.\<close>

fun listing :: "'w registered list \<Rightarrow> ('w, ConfiguredDevice list) act" where
  "listing [] = ret []"
| "listing (r # rs) = ask (dvText (rgDev r) DevName) (\<lambda>name. ask (dvText (rgDev r) UniqueID) (\<lambda>uid.
     ask (listing rs) (\<lambda>ds. ret (\<lparr>cdName = name, cdType = segment (fst (rgKey r)), cdNumber = snd (rgKey r),
       cdUniqueID = uid\<rparr> # ds))))"

definition entry_of :: "ConfiguredDevice \<Rightarrow> any" where
  "entry_of d = VObject [(''DeviceName'', VStr (cdName d)), (''DeviceType'', VStr (cdType d)),
     (''DeviceNumber'', VInt (cdNumber d)), (''UniqueID'', VStr (cdUniqueID d))]"

lemma device_entries_listing: "device_entries rs w = (case listing rs w of (ds, w') \<Rightarrow> (map entry_of ds, w'))"
  by (induction rs arbitrary: w) (simp_all add: ask_apply case_prod_beta device_entry_def entry_of_def)

definition listed_ok :: "ConfiguredDevice \<Rightarrow> bool" where
  "listed_ok d \<longleftrightarrow> in_i64 (cdNumber d) \<and> to_valid (cdName d) = cdName d \<and> to_valid (cdType d) = cdType d
     \<and> to_valid (cdUniqueID d) = cdUniqueID d"

definition device_json :: "ConfiguredDevice \<Rightarrow> json" where
  "device_json d = JObj [(''DeviceName'', JStr (cdName d)), (''DeviceNumber'', json_int (cdNumber d)),
     (''DeviceType'', JStr (cdType d)), (''UniqueID'', JStr (cdUniqueID d))]"

lemma sorted_entry: "sort_key fst [(''DeviceName'', a), (''DeviceType'', b), (''DeviceNumber'', c), (''UniqueID'', d)] =
   [(''DeviceName'', a), (''DeviceNumber'', c), (''DeviceType'', b), (''UniqueID'', d)]"
  by (simp add: sort_key_def less_eq_char_def less_char_def)

lemma json_of_entry: "json_of (entry_of d) = Some (device_json d)"
  by (simp add: entry_of_def device_json_def sorted_entry)

lemma device_names:
  "to_valid ''DeviceNumber'' = ''DeviceNumber''" "fold_name ''DeviceNumber'' = ''devicenumber''"
  by (rule to_valid_ascii, simp add: byte_def) (subst fold_name_ascii, simp add: byte_def, simp add: lower_literal)

lemma decode_device_json:
  assumes "listed_ok d"
  shows "decode_device (json_valid (device_json d)) = Some d" "json_ok (device_json d)"
proof -
  obtain n t i u where d: "d = \<lparr>cdName = n, cdType = t, cdNumber = i, cdUniqueID = u\<rparr>" by (cases d)
  show "decode_device (json_valid (device_json d)) = Some d"
    using assms
    by (simp add: d listed_ok_def decode_device_def device_json_def json_int_ok beat_names device_names device_field_def set_field_def
        json_int_def Atoi_Itoa)
  show "json_ok (device_json d)" by (simp add: device_json_def json_int_ok)
qed

definition devices_envelope :: "ConfiguredDevice list \<Rightarrow> 32 word \<Rightarrow> 32 word \<Rightarrow> envelope" where
  "devices_envelope ds ctx stx = \<lparr>Value = Some (VArray (map entry_of ds)), ClientTransactionID = ctx, ServerTransactionID = stx,
     ErrorNumber = 0, ErrorMessage = Text []\<rparr>"

lemma those_some: "those (map (\<lambda>x. Some (f x)) xs) = Some (map f xs)"
  by (induction xs) simp_all

lemma read_devices_envelope:
  assumes "list_all listed_ok ds" "small_envelope render (devices_envelope ds ctx stx)"
  shows "read_devices \<lparr>rpStatus = 200, rpType = ty, rpBody = writeJSON render (devices_envelope ds ctx stx)\<rparr> = Inr ds"
proof -
  let ?e = "devices_envelope ds ctx stx"
  let ?j = "JObj [(''Value'', JArr (map device_json ds)), (''ClientTransactionID'', json_int (uint ctx)),
      (''ServerTransactionID'', json_int (uint stx)), (''ErrorNumber'', json_int 0), (''ErrorMessage'', JStr (render (Text [])))]"
  have "those (map json_of (map entry_of ds)) = Some (map device_json ds)" by (simp add: comp_def json_of_entry those_some)
  then have j: "envelope_json render ?e = Some ?j" by (simp add: envelope_json_def devices_envelope_def)
  have ok: "json_ok ?j" using assms(1) decode_device_json(2) by (auto simp: json_int_ok list_all_iff)
  have "those (map (decode_device \<circ> (json_valid \<circ> device_json)) ds) = Some (map (\<lambda>d. d) ds)"
    using assms(1) by (intro those_map_id) (simp add: list_all_iff decode_device_json(1))
  then have d: "decode_list decode_device (JArr (map json_valid (map device_json ds))) = Some ds" by (simp add: comp_def)
  have "unmarshal (writeJSON render ?e) = Some (json_valid ?j)"
    using unmarshal_text [OF ok num_end_newline] by (simp add: writeJSON_def j del: json_text.simps)
  moreover have "decode_struct devices_field [] (json_valid ?j) = Some ds"
    using d by (simp add: valid_names envelope_names devices_field_def set_field_def del: decode_list.simps)
  ultimately show ?thesis
    using assms(2) by (simp add: read_devices_def read_reply_def readCapped_def and_then_def small_envelope_def)
qed

text \<open>The request for the list arrives.\<close>

lemma management_target:
  assumes "plain host"
  shows "request_target (''http://'' @ host @ ''/management/v1/configureddevices'') = Some (''/management/v1/configureddevices'', [])"
proof -
  let ?p = "''/management/v1/configureddevices''"
  have h: "dropWhile (\<lambda>c. c \<noteq> CHR ''/'' \<and> c \<noteq> CHR ''?'') (host @ ?p) = ?p"
    using assms by (subst dropWhile_append2) (auto simp: plain_def)
  have u: "PathUnescape ?p = Some ?p" using PathUnescape_plain [of ?p "[]" "[]"] by simp
  show ?thesis using h u by (simp add: request_target_def cut_def)
qed

text \<open>C17: The devices a client lists are the devices the server has.  \<open>ConfiguredDevices\<close>, sent to a server that was
  discovered, asks every registered device once, in the order of registration, for its name and identifier,
  and returns for each of them its name, its type, its number and its identifier, exactly.\<close>

theorem remote_devices:
  assumes "plain (urlAuthority (dsAddress srv))" "listing (map (svRegs s) (svOrder s)) w = (ds, w')"
    and "list_all listed_ok ds" "small_envelope (envRender env) (devices_envelope ds 0 (svTx s + 1))"
  shows "ConfiguredDevices (serve env page pages relay) srv (s, w) = (Inr ds, (s\<lparr>svTx := svTx s + 1\<rparr>, w'))"
proof -
  let ?r = "\<lparr>rqMethod = ''GET'', rqPath = ''/management/v1/configureddevices'', rqAccept = [], rqForm = ParseForm ''GET'' [] []\<rparr>"
  have rec: "received_request (devices_request srv) = Some ?r"
    by (simp add: received_request_def devices_request_def management_target [OF assms(1), simplified] FormType_def)
  have f: "ParseForm ''GET'' [] [] = []" by (simp add: ParseForm_def ParseQuery_empty)
  have p: "clientTransactionID (parseParams [] False (svStrict s)) = 0"
    by (simp add: parseParams_def uint_param_def Let_def)
  have "handleManagement ?r (s, w) = (Json (devices_envelope ds 0 (svTx s + 1)), (s\<lparr>svTx := svTx s + 1\<rparr>, w'))"
    using assms(2) p
    by (simp add: handleManagement_def server_steps ask_apply [of next_server_tx] next_server_tx_apply
        ask_apply [of configuredDevices] configuredDevices_apply writeValue_def device_entries_listing f devices_envelope_def)
  then have "serve env page pages relay (devices_request srv) (s, w)
      = (Inr \<lparr>rpStatus = 200, rpType = JSONType, rpBody = writeJSON (envRender env) (devices_envelope ds 0 (svTx s + 1))\<rparr>,
         (s\<lparr>svTx := svTx s + 1\<rparr>, w'))"
    by (simp add: serve_def rec ask_apply route_def HasPrefix_def reply_of_def)
  then show ?thesis
    using read_devices_envelope [OF assms(3,4)] by (simp add: ConfiguredDevices_def ask_apply and_then_def)
qed

text \<open>One safety monitor, named \<open>Roof\<close>.\<close>

definition roof :: base_device where
  "roof = some_base\<lparr>ID := ''u-1'', bdName := ''Roof''\<rparr>"

definition roof_entry :: ConfiguredDevice where
  "roof_entry = \<lparr>cdName = ''Roof'', cdType = ''safetymonitor'', cdNumber = 0, cdUniqueID = ''u-1''\<rparr>"

lemma roof_listed:
  "listing (map (svRegs (one_server SafetyMonitorType safe_device cfg)) (svOrder (one_server SafetyMonitorType safe_device cfg))) (roof, n)
    = ([roof_entry], (roof, n))"
  by (simp add: one_server_def add_reg_def New_def safe_device_def BaseDevice_def ask_apply on_fst_apply roof_entry_def roof_def)

lemma roof_entry_ok: "listed_ok roof_entry"
proof -
  have "to_valid ''u-1'' = ''u-1''" "to_valid ''Roof'' = ''Roof''" "to_valid ''safetymonitor'' = ''safetymonitor''"
    by (rule to_valid_ascii, simp add: byte_def)+
  then show ?thesis by (simp add: listed_ok_def roof_entry_def in_i64_def)
qed

lemma roof_small: "small_envelope (\<lambda>_. []) (devices_envelope [roof_entry] 0 1)"
proof -
  have "length (writeJSON (\<lambda>_. []) (devices_envelope [roof_entry] 0 1)) < 400"
    by (simp add: writeJSON_def envelope_json_def devices_envelope_def json_of_entry device_json_def roof_entry_def json_int_def Itoa_def
        show_nat.simps [of 0] show_nat.simps [of "Suc 0"] show_nat.simps [of 1] quote_def newline_def byte_def ascii_text_def Let_def)
  then show ?thesis by (simp add: small_envelope_def maxEnvelopeBytes_def)
qed

theorem remote_devices_witness:
  "\<forall>cfg page pages relay n. fst (ConfiguredDevices (serve quiet_env page pages relay)
      \<lparr>dsIP = of_v4 [127, 0, 0, 1], dsPort = 11111, dsAddress = ''localhost:11111''\<rparr>
      (one_server SafetyMonitorType safe_device cfg, (roof, n))) = Inr [roof_entry]"
proof (intro allI)
  fix cfg page pages relay and n :: nat
  let ?srv = "\<lparr>dsIP = of_v4 [127, 0, 0, 1], dsPort = 11111, dsAddress = ''localhost:11111''\<rparr>"
  have p: "plain (urlAuthority (dsAddress ?srv))"
    by (simp add: urlAuthority_def SplitHostPort_def cut_last_def bracket_free_def JoinHostPort_def plain_def)
  have ok: "list_all listed_ok [roof_entry]" by (simp add: roof_entry_ok)
  have sm: "small_envelope (envRender (quiet_env :: (base_device \<times> nat) env))
      (devices_envelope [roof_entry] 0 (svTx (one_server SafetyMonitorType safe_device cfg) + 1))"
    using roof_small by (simp add: quiet_env_def)
  show "fst (ConfiguredDevices (serve quiet_env page pages relay) ?srv (one_server SafetyMonitorType safe_device cfg, (roof, n)))
      = Inr [roof_entry]"
    using remote_devices [OF p roof_listed ok sm, of page pages relay] by simp
qed

end
