(* ===== verification/Spec2Isabelle.thy ===== *)
theory Spec2Isabelle
  imports Op Sim_Telescope_Slew Serving Device_State Registry_Hardware Remote_Image Image_Fallback Client_Discovery
begin

text \<open>
  Goalpaca: an ASCOM Alpaca device server, its codec and its simulated devices, in Isabelle/HOL.

  A client sends an HTTP request \<open>/api/v1/<type>/<number>/<member>\<close>.  The server looks the device up in its
  registry, checks the gates (connected, not busy, parameters, capability, state), calls one method of the
  driver, and answers with a JSON envelope or, for images, with the binary ImageBytes message or a JSON
  array.  Drivers implement one interface per device type, usually by embedding a base implementation; the
  package \<open>sim\<close> has one simulated driver per type.

  \<^bold>\<open>Theories.\<close>
  \<^item> \<open>Prelude\<close>, \<open>Go_Num\<close>: acts on a world (a function from a world to a result and a world), their
    contracts \<open>quiet\<close> and \<open>blocked\<close>, \<open>float64\<close>, 64-bit wrap-around, durations and times.
  \<^item> \<open>Alpaca_Errors\<close> (\<open>alpaca/errors.go\<close> and the enumerations), \<open>Params\<close> (\<open>server/transaction.go\<close>),
    \<open>Gate\<close> (\<open>server/gate.go\<close>), \<open>Op\<close> (\<open>server/op.go\<close>).
  \<^item> \<open>Image_Bytes\<close> (\<open>alpaca/imagebytes.go\<close>), \<open>Image_JSON\<close> (\<open>server/imagearray.go\<close>).
  \<^item> \<open>Telescope\<close>, \<open>Camera\<close>, \<open>Movers\<close> (filter wheel, focuser, rotator), \<open>Dome_Cover\<close>, \<open>Sensors\<close>, \<open>Switch\<close>:
    for each device type the driver interface as a record of acts, the gates of \<open>server/gates.go\<close>, the
    tables of the HTTP members, the base implementation, and a locale with the contract of a driver.
  \<^item> \<open>Device\<close>, \<open>Device_State\<close>: the members all devices share (\<open>server/device.go\<close>, \<open>base.go\<close>,
    \<open>device_http.go\<close>, \<open>devicestate.go\<close>).
  \<^item> \<open>Registry\<close>, \<open>Registry_Spec\<close>, \<open>Registry_Hardware\<close>: registration, reload, persisted settings, hardware
    and the run of the server (\<open>server/server.go\<close>, \<open>reload.go\<close>).
  \<^item> \<open>Router\<close>, \<open>Router_Spec\<close>, \<open>Hosted\<close>, \<open>Serving\<close>: \<open>server/httpserver.go\<close>, the simulated devices as
    registered devices, and the properties of the whole path of a request.
  \<^item> \<open>Sim_World\<close> and the theories \<open>Sim_*\<close>: the simulated devices (\<open>sim/*.go\<close>) on a world of a clock and the
    state of the device.

  \<^bold>\<open>How code is rendered.\<close>  A method is an act: its world holds the state behind the receiver.  Each locked
  section is one step; a method of a simulated device reads the clock once, as it does under its lock.  An
  interface value is a record of acts, an optional interface an option.  A Go \<open>error\<close> is \<open>goerror option\<close>,
  with \<open>None\<close> for \<open>nil\<close>; wrapped errors keep their chain.  A panic is an error value or, while a reply is
  being sent, the response \<open>Dropped\<close>.  A \<open>*registeredDevice\<close> is an address in a store, since the registry
  map and the registration order share it.  \<open>int\<close> is an integer with \<open>wrap64\<close> wherever it can overflow,
  transaction numbers are 32-bit words, bytes 8-bit words.  A \<open>float64\<close> is an exact rational, an infinity
  or NaN: rounding and the sign of zero are not modelled.

  \<^bold>\<open>What is shown.\<close>  The ImageBytes codec round-trips for every element type, processor count and goroutine
  order, and its decoder is characterised down to its panics; the JSON image carries the same numbers.  A
  request that is not an accepted PUT changes nothing a client can observe, for any set of drivers that meet
  their contract, and every simulated driver meets it.  The registry refines an insertion-ordered map; a run
  opens and closes hardware as brackets.  The simulated devices keep their coordinates and settings in range
  under arbitrary requests, complete their motions in bounded time at the requested place, and stop where
  they are told to.  Where the code does something else than it says, a theorem states what it does.

  \<^bold>\<open>Bounds.\<close>  The wait loop of a synchronous slew is the code's own: at most 600 polls of 50 ms.  \<open>make\<close> panics
  above 2^48 bytes.  A finite \<open>float64\<close> has at most 1074 decimal digits after the point.  All other loops
  recurse over data.

  \<^bold>\<open>Parameters.\<close>  The order in which goroutines run (\<open>sched\<close>), the contents of a recycled buffer, the number of
  processors, the rendering of messages and of floating-point pixels, \<open>net.Listen\<close>, the settings store,
  \<open>StateDir\<close>, \<open>fmt.Sprint\<close>, and what happens while the server serves.

  \<^bold>\<open>Not modelled.\<close>  The components listed as not modelled in the manifest: operating-system glue (sockets,
  sleeping, files, signals, processes, HTML templates) and the programs built from it.  Concurrency between
  requests to one device is reduced to the order of locked sections; a slow method does not interleave with
  others.
\<close>

end
